(* ===== verification/Vm_Prelude.thy ===== *)
theory Vm_Prelude
  imports Main "HOL-Library.Word"
begin

text \<open>
  What every component of the model shares: the machine integers of the C code, bounded string
  buffers, decimal printing, the wait status macros, and the \<open>world\<close> a C function runs in.

  The operating system and the pthread library are not part of the repository. They are a
  parameter of the model: the record \<open>os\<close> holds, for each call and each point in time, the answer
  the system gives (whether \<open>malloc\<close> returns memory, what pid \<open>fork\<close> reports, which status
  \<open>waitpid\<close> delivers). A world carries that record, a counter of the calls made so far (the point
  in time), \<open>errno\<close> and the trace of the effects the daemon had outside its own memory. Each model
  function takes the world and returns the new one, so two calls of the same system function may
  get different answers, and a theorem that does not constrain \<open>os\<close> covers every behaviour of it.

  Only the effects on memory, on \<open>errno\<close> and on the outside are modelled: \<open>syslog\<close> calls are left
  out, and memory is released by forgetting it.
\<close>

named_theorems frame_simps \<open>what an operation leaves unchanged\<close>
named_theorems calm_simps \<open>results of operations in a world where locking and allocation work\<close>

section \<open>Machine integers and strings\<close>

type_synonym u8 = "8 word"
type_synonym u16 = "16 word"
type_synonym u32 = "32 word"
type_synonym u64 = "64 word"
type_synonym bytes = "u8 list"

text \<open>\<open>PATH_MAX\<close> of FreeBSD. Kept opaque for the simplifier.\<close>

definition PATH_MAX :: nat where
  "PATH_MAX = 1024"

text \<open>
  A C string is the list of the characters before its terminator. \<open>strncpy\<close> into a buffer of
  \<open>n\<close> bytes keeps at most \<open>n\<close> characters; \<open>snprintf\<close> keeps at most \<open>n - 1\<close> and terminates.
  (A source of \<open>n\<close> or more characters leaves a \<open>strncpy\<close> buffer without a terminator; reading it
  then runs past the buffer. The model reads the \<open>n\<close> characters.)
\<close>

definition strncpy_buf :: "nat \<Rightarrow> string \<Rightarrow> string" where
  "strncpy_buf n s = take n s"

definition snprintf_buf :: "nat \<Rightarrow> string \<Rightarrow> string" where
  "snprintf_buf n s = take (n - 1) s"

lemma strncpy_buf_short [simp]: "length s \<le> n \<Longrightarrow> strncpy_buf n s = s"
  by (simp add: strncpy_buf_def)

lemma snprintf_buf_short [simp]: "length s < n \<Longrightarrow> snprintf_buf n s = s"
  by (simp add: snprintf_buf_def)

lemma strncpy_buf_length: "length (strncpy_buf n s) \<le> n"
  by (simp add: strncpy_buf_def)

text \<open>The decimal digits \<open>printf\<close> writes for a non-negative number.\<close>

definition digit_char :: "nat \<Rightarrow> char" where
  "digit_char d = char_of (48 + d)"

fun show_nat :: "nat \<Rightarrow> string" where
  "show_nat n = (if n < 10 then [digit_char n] else show_nat (n div 10) @ [digit_char (n mod 10)])"

declare show_nat.simps [simp del]

lemma of_char_digit: "d < 10 \<Longrightarrow> (of_char (digit_char d) :: nat) = 48 + d"
  by (simp add: digit_char_def take_bit_eq_mod)

lemma digit_char_inj: "a < 10 \<Longrightarrow> b < 10 \<Longrightarrow> digit_char a = digit_char b \<longleftrightarrow> a = b"
  by (metis add_left_cancel of_char_digit)

lemma digit_char_range: "d < 10 \<Longrightarrow> 48 \<le> (of_char (digit_char d) :: nat) \<and> (of_char (digit_char d) :: nat) \<le> 57"
  by (simp add: of_char_digit)

lemma show_nat_digits:
  "c \<in> set (show_nat n) \<Longrightarrow> 48 \<le> (of_char c :: nat) \<and> (of_char c :: nat) \<le> 57"
proof (induction n rule: show_nat.induct)
  case (1 n)
  show ?case
  proof (cases "n < 10")
    case True
    with "1.prems" show ?thesis
      using digit_char_range [of n] by (simp add: show_nat.simps [of n])
  next
    case False
    with "1" show ?thesis
      using digit_char_range [of "n mod 10"] by (auto simp: show_nat.simps [of n])
  qed
qed

lemma show_nat_not_empty [simp]: "show_nat n \<noteq> []"
  by (subst show_nat.simps) simp

lemma show_nat_no_sep: "of_char c < (48 :: nat) \<or> (57 :: nat) < of_char c \<Longrightarrow> c \<notin> set (show_nat n)"
  using show_nat_digits by fastforce

lemma show_nat_inject [simp]: "show_nat m = show_nat n \<longleftrightarrow> m = n"
proof
  show "show_nat m = show_nat n \<Longrightarrow> m = n"
  proof (induction m arbitrary: n rule: show_nat.induct)
    case (1 m)
    consider (small) "m < 10" "n < 10" | (left) "m < 10" "\<not> n < 10"
      | (right) "\<not> m < 10" "n < 10" | (big) "\<not> m < 10" "\<not> n < 10" by blast
    then show ?case
    proof cases
      case small
      with "1.prems" show ?thesis
        by (simp add: show_nat.simps [of m] show_nat.simps [of n] digit_char_inj)
    next
      case left
      with "1.prems" show ?thesis
        by (simp add: show_nat.simps [of m] show_nat.simps [of n] Cons_eq_append_conv)
    next
      case right
      with "1.prems" show ?thesis
        by (simp add: show_nat.simps [of m] show_nat.simps [of n])
    next
      case big
      with "1.prems" have "show_nat (m div 10) = show_nat (n div 10)"
        and "digit_char (m mod 10) = digit_char (n mod 10)"
        by (simp_all add: show_nat.simps [of m] show_nat.simps [of n])
      then have "m div 10 = n div 10" and "m mod 10 = n mod 10"
        using "1.IH" big by (simp_all add: digit_char_inj)
      then show ?thesis by (metis div_mult_mod_eq)
    qed
  qed
qed simp

lemma show_nat_length_less: "n < 10 ^ Suc k \<Longrightarrow> length (show_nat n) \<le> Suc k"
proof (induction k arbitrary: n)
  case 0
  then show ?case by (simp add: show_nat.simps [of n])
next
  case (Suc k)
  show ?case
  proof (cases "n < 10")
    case True
    then show ?thesis by (simp add: show_nat.simps [of n])
  next
    case False
    from Suc.prems have "n div 10 < 10 ^ Suc k" by auto
    then have "length (show_nat (n div 10)) \<le> Suc k" by (rule Suc.IH)
    with False show ?thesis by (simp add: show_nat.simps [of n])
  qed
qed

text \<open>Splitting at the first separator is unambiguous when the left part has no separator.\<close>

lemma append_sep_inject:
  assumes "c \<notin> set xs" and "c \<notin> set ys"
  shows "xs @ c # us = ys @ c # vs \<longleftrightarrow> xs = ys \<and> us = vs"
proof
  assume eq: "xs @ c # us = ys @ c # vs"
  have "takeWhile (\<lambda>x. x \<noteq> c) (zs @ c # ws) = zs" if "c \<notin> set zs" for zs ws
    using that by (induction zs) auto
  with eq assms have "xs = ys" by metis
  with eq show "xs = ys \<and> us = vs" by simp
qed simp

section \<open>Wait status\<close>

text \<open>The macros of FreeBSD's \<open>sys/wait.h\<close> on the status word that \<open>waitpid\<close> delivers.\<close>

unbundle bit_operations_syntax

definition wstatus :: "u32 \<Rightarrow> u32" where
  "wstatus s = s AND 0x7F"

definition WIFEXITED :: "u32 \<Rightarrow> bool" where
  "WIFEXITED s \<longleftrightarrow> wstatus s = 0"

definition WEXITSTATUS :: "u32 \<Rightarrow> u32" where
  "WEXITSTATUS s = drop_bit 8 s"

definition WIFSIGNALED :: "u32 \<Rightarrow> bool" where
  "WIFSIGNALED s \<longleftrightarrow> wstatus s \<noteq> 0x7F \<and> wstatus s \<noteq> 0 \<and> s \<noteq> 0x13"

text \<open>The status word of a process that ended with an exit code, or by a signal.\<close>

definition exited_status :: "u8 \<Rightarrow> u32" where
  "exited_status c = push_bit 8 (ucast c)"

lemma wstatus_exited: "wstatus (exited_status c) = 0"
proof -
  have m: "(0x7F :: u32) = mask 7" by (simp add: mask_eq_exp_minus_1)
  show ?thesis
    unfolding wstatus_def exited_status_def m
    by (rule bit_word_eqI) (auto simp: bit_simps simp del: mask_numeral)
qed

lemma WIFEXITED_exited [simp]: "WIFEXITED (exited_status c)"
  by (simp add: WIFEXITED_def wstatus_exited)

lemma WEXITSTATUS_exited [simp]: "WEXITSTATUS (exited_status c) = ucast c"
  unfolding WEXITSTATUS_def exited_status_def
  by (rule bit_word_eqI) (auto simp: bit_simps dest: bit_imp_le_length)

end
