(* ===== verification/Os_World.thy ===== *)
theory Os_World
  imports Vm_Prelude
begin

text \<open>
  The world of a model function and the system calls it makes. The answers of the system are the
  parameter \<open>w_os\<close>; \<open>w_tick\<close> counts the calls made. An event of \<open>w_trace\<close> is an effect outside the
  daemon's memory, oldest first.

  Mutexes are the error-checking ones that FreeBSD's \<open>PTHREAD_MUTEX_DEFAULT\<close> gives: a second lock
  by the owner and an unlock of a free mutex fail. A mutex is the flag of its structure that says
  whether it is held by the thread that runs the function.
\<close>

datatype errno =
  E0 | EINVAL | EDEADLK | ENOENT | EALREADY | EDOM | ENOMEM | ECHILD | EMSGSIZE | EFTYPE
| EOPNOTSUPP | ENOSYS | EBADF | EPERM | ESYS

text \<open>\<open>ESYS\<close> stands for whatever value a failing system call leaves in \<open>errno\<close>.\<close>

datatype event =
  Forked string "string list" int        \<comment> \<open>executable, arguments, pid the parent sees\<close>
| Execed string "string list"            \<comment> \<open>the child replaced itself\<close>
| Killed int                             \<comment> \<open>\<open>SIGTERM\<close> sent\<close>
| Waited int
| Watched int nat                        \<comment> \<open>pid put on the kernel queue for a vm\<close>
| PipeWatched int nat                    \<comment> \<open>pipe end put on the log queue for a client\<close>
| Opened string int
| Logged int int                         \<comment> \<open>bytes written to a log file\<close>
| Symlinked string string
| Unlinked string
| Mkdir string
| Closed int
| Duped int int
| DaemonExit
| ShortReply string
| BlobReply bytes
| Generated string                       \<comment> \<open>bhyve configuration file written\<close>
| ThreadJoined string
| Sent int bytes                         \<comment> \<open>bytes written to a socket\<close>
| Wrote int string                       \<comment> \<open>text written to a file\<close>

record os =
  os_lock :: "nat \<Rightarrow> bool"                   \<comment> \<open>\<open>pthread_mutex_lock\<close> succeeds\<close>
  os_unlock :: "nat \<Rightarrow> bool"
  os_init :: "nat \<Rightarrow> bool"                   \<comment> \<open>mutex, condition and thread creation succeed\<close>
  os_cond :: "nat \<Rightarrow> bool"                   \<comment> \<open>\<open>pthread_cond_signal\<close> succeeds\<close>
  os_malloc :: "nat \<Rightarrow> bool"                 \<comment> \<open>\<open>malloc\<close> or \<open>strdup\<close> returns memory\<close>
  os_stat :: "nat \<Rightarrow> string \<Rightarrow> bool"        \<comment> \<open>the file can be examined\<close>
  os_fork :: "nat \<Rightarrow> int"                    \<comment> \<open>what the parent sees\<close>
  os_execve :: "nat \<Rightarrow> bool"
  os_waitpid :: "nat \<Rightarrow> int \<Rightarrow> int \<times> u32"
  os_waitnb :: "nat \<Rightarrow> int \<Rightarrow> int \<times> u32"      \<comment> \<open>\<open>waitpid\<close> with \<open>WNOHANG\<close>\<close>
  os_kill :: "nat \<Rightarrow> int \<Rightarrow> bool"
  os_time :: "nat \<Rightarrow> int"
  os_pipe :: "nat \<Rightarrow> (int \<times> int) option"
  os_kevent :: "nat \<Rightarrow> bool"
  os_symlink :: "nat \<Rightarrow> bool"
  os_unlink :: "nat \<Rightarrow> bool"
  os_close :: "nat \<Rightarrow> bool"
  os_dup2 :: "nat \<Rightarrow> bool"
  os_open :: "nat \<Rightarrow> string \<Rightarrow> int"
  os_fchmod :: "nat \<Rightarrow> bool"
  os_kqueue :: "nat \<Rightarrow> int"
  os_read :: "nat \<Rightarrow> int \<Rightarrow> int"             \<comment> \<open>bytes read of those asked for, negative on failure\<close>
  os_write :: "nat \<Rightarrow> int \<Rightarrow> int"
  os_recv :: "nat \<Rightarrow> int \<Rightarrow> bytes option"    \<comment> \<open>what a socket delivers; \<open>None\<close> on failure\<close>
  os_socket :: "nat \<Rightarrow> int"
  os_sockop :: "nat \<Rightarrow> bool"                 \<comment> \<open>\<open>bind\<close>, \<open>listen\<close>, \<open>connect\<close>, \<open>chmod\<close>, \<open>select\<close>\<close>
  os_accept :: "nat \<Rightarrow> int"
  os_peercred :: "nat \<Rightarrow> (u32 \<times> int) option"
  os_getpwnam :: "nat \<Rightarrow> string \<Rightarrow> u32 option"   \<comment> \<open>uid of a user, gid of a group\<close>
  os_getgrnam :: "nat \<Rightarrow> string \<Rightarrow> u32 option"
  os_readdir :: "nat \<Rightarrow> string \<Rightarrow> (string \<times> u8) list option"  \<comment> \<open>names and types in a directory\<close>
  os_mmap :: "nat \<Rightarrow> int \<Rightarrow> string option"     \<comment> \<open>what an open file contains; \<open>None\<close> if it cannot be mapped\<close>
  os_addr :: "nat \<Rightarrow> u16"                   \<comment> \<open>low bits of an address that \<open>malloc\<close> returns\<close>
  os_getuid :: u32
  os_getpid :: int
  os_dirmode :: "nat \<Rightarrow> string \<Rightarrow> errno + bool"  \<comment> \<open>\<open>stat\<close>: its error, or whether it is a directory\<close>
  os_mkdir :: "nat \<Rightarrow> bool"
  os_unlinkerr :: "nat \<Rightarrow> errno"            \<comment> \<open>why \<open>unlink\<close> fails\<close>

record world =
  w_os :: os
  w_tick :: nat
  w_errno :: errno
  w_trace :: "event list"

section \<open>Calling the system\<close>

definition tock :: "'m world_scheme \<Rightarrow> 'm world_scheme" where
  "tock w = w\<lparr>w_tick := Suc (w_tick w)\<rparr>"

definition emit :: "event \<Rightarrow> 'm world_scheme \<Rightarrow> 'm world_scheme" where
  "emit e w = w\<lparr>w_trace := w_trace w @ [e]\<rparr>"

definition set_errno :: "errno \<Rightarrow> 'm world_scheme \<Rightarrow> 'm world_scheme" where
  "set_errno e w = w\<lparr>w_errno := e\<rparr>"

definition ask :: "(os \<Rightarrow> nat \<Rightarrow> 'a) \<Rightarrow> 'm world_scheme \<Rightarrow> 'a \<times> 'm world_scheme" where
  "ask f w = (f (w_os w) (w_tick w), tock w)"

text \<open>A call that reports failure in its result only, and one that also sets \<open>errno\<close>.\<close>

definition sys_init :: "'m world_scheme \<Rightarrow> bool \<times> 'm world_scheme" where
  "sys_init w = ask os_init w"

definition sys_cond :: "'m world_scheme \<Rightarrow> bool \<times> 'm world_scheme" where
  "sys_cond w = ask os_cond w"

definition sys_try :: "errno \<Rightarrow> (os \<Rightarrow> nat \<Rightarrow> bool) \<Rightarrow> 'm world_scheme \<Rightarrow> bool \<times> 'm world_scheme" where
  "sys_try e f w = (let (ok, w') = ask f w in (ok, if ok then w' else set_errno e w'))"

definition sys_malloc :: "'m world_scheme \<Rightarrow> bool \<times> 'm world_scheme" where
  "sys_malloc w = sys_try ENOMEM os_malloc w"

text \<open>A successful call with an effect outside the process leaves its event in the trace.\<close>

definition sys_do :: "event \<Rightarrow> (os \<Rightarrow> nat \<Rightarrow> bool) \<Rightarrow> 'm world_scheme \<Rightarrow> bool \<times> 'm world_scheme" where
  "sys_do ev f w = (let (ok, w') = sys_try ESYS f w in (ok, if ok then emit ev w' else w'))"

definition sys_close :: "int \<Rightarrow> 'm world_scheme \<Rightarrow> bool \<times> 'm world_scheme" where
  "sys_close fd w = sys_do (Closed fd) os_close w"

definition sys_dup2 :: "int \<Rightarrow> int \<Rightarrow> 'm world_scheme \<Rightarrow> int \<times> 'm world_scheme" where
  "sys_dup2 fd fd' w = (let (ok, w') = sys_do (Duped fd fd') os_dup2 w in (if ok then fd' else -1, w'))"

definition sys_symlink :: "string \<Rightarrow> string \<Rightarrow> 'm world_scheme \<Rightarrow> bool \<times> 'm world_scheme" where
  "sys_symlink target path w = sys_do (Symlinked target path) os_symlink w"

definition sys_unlink :: "string \<Rightarrow> 'm world_scheme \<Rightarrow> bool \<times> 'm world_scheme" where
  "sys_unlink path w = sys_do (Unlinked path) os_unlink w"

definition sys_stat :: "string \<Rightarrow> 'm world_scheme \<Rightarrow> bool \<times> 'm world_scheme" where
  "sys_stat path w = sys_try ESYS (\<lambda>s n. os_stat s n path) w"

definition sys_kill :: "int \<Rightarrow> bool \<Rightarrow> 'm world_scheme \<Rightarrow> bool \<times> 'm world_scheme" where
  "sys_kill pid term w =
     (let (ok, w') = sys_try ESYS (\<lambda>s n. os_kill s n pid) w
      in (ok, if ok \<and> term then emit (Killed pid) w' else w'))"

definition sys_waitpid :: "int \<Rightarrow> 'm world_scheme \<Rightarrow> (int \<times> u32) \<times> 'm world_scheme" where
  "sys_waitpid pid w =
     (let (r, w') = ask (\<lambda>s n. os_waitpid s n pid) w
      in (r, if fst r < 0 then set_errno ESYS w' else emit (Waited pid) w'))"

definition sys_waitnb :: "int \<Rightarrow> 'm world_scheme \<Rightarrow> (int \<times> u32) \<times> 'm world_scheme" where
  "sys_waitnb pid w =
     (let (r, w') = ask (\<lambda>s n. os_waitnb s n pid) w
      in (r, if fst r < 0 then set_errno ESYS w' else w'))"

definition sys_time :: "'m world_scheme \<Rightarrow> int \<times> 'm world_scheme" where
  "sys_time w = ask os_time w"

text \<open>\<open>fork\<close> as the parent sees it: a negative result is the failure, any other one the child's pid.\<close>

definition sys_fork :: "string \<Rightarrow> string list \<Rightarrow> 'm world_scheme \<Rightarrow> int \<times> 'm world_scheme" where
  "sys_fork path argv w =
     (let (pid, w') = ask os_fork w
      in (pid, if pid < 0 then set_errno ESYS w' else emit (Forked path argv pid) w'))"

text \<open>Locking returns whether the call failed, as the condition of the C code's \<open>if\<close> reads it.\<close>

definition mutex_lock :: "bool \<Rightarrow> 'm world_scheme \<Rightarrow> bool \<times> bool \<times> 'm world_scheme" where
  "mutex_lock held w =
     (if held then (True, True, w)
      else (let (ok, w') = ask os_lock w in (\<not> ok, ok, w')))"

definition mutex_unlock :: "bool \<Rightarrow> 'm world_scheme \<Rightarrow> bool \<times> bool \<times> 'm world_scheme" where
  "mutex_unlock held w =
     (if \<not> held then (True, False, w)
      else (let (ok, w') = ask os_unlock w in (\<not> ok, \<not> ok, w')))"

text \<open>
  The guard many functions open with: with a null pointer they set \<open>errno\<close> and return the error
  value, otherwise the body runs on the object.
\<close>

definition null_guard ::
  "errno option \<Rightarrow> 'r \<Rightarrow> ('a \<Rightarrow> 'm world_scheme \<Rightarrow> 'r \<times> 'a \<times> 'm world_scheme)
   \<Rightarrow> 'a option \<Rightarrow> 'm world_scheme \<Rightarrow> 'r \<times> 'a option \<times> 'm world_scheme" where
  "null_guard e bad body p w =
     (case p of
        None \<Rightarrow> (bad, None, (case e of None \<Rightarrow> w | Some e' \<Rightarrow> set_errno e' w))
      | Some x \<Rightarrow> (let (r, x', w') = body x w in (r, Some x', w')))"

section \<open>Frame and calm worlds\<close>

lemma sys_close_simps [simp]:
  "\<forall>n. os_close (w_os w) n \<Longrightarrow> sys_close fd w = (True, emit (Closed fd) (tock w))"
  by (simp add: sys_close_def sys_do_def sys_try_def ask_def)

lemma frame_tock [simp]:
  "w_os (tock w) = w_os w" "w_errno (tock w) = w_errno w" "w_trace (tock w) = w_trace w"
  "world.more (tock w) = world.more w" "w_tick (tock w) = Suc (w_tick w)"
  by (simp_all add: tock_def)

lemma frame_emit [simp]:
  "w_os (emit e w) = w_os w" "w_errno (emit e w) = w_errno w" "w_trace (emit e w) = w_trace w @ [e]"
  "world.more (emit e w) = world.more w" "w_tick (emit e w) = w_tick w"
  by (simp_all add: emit_def)

lemma frame_set_errno [simp]:
  "w_os (set_errno e w) = w_os w" "w_errno (set_errno e w) = e" "w_trace (set_errno e w) = w_trace w"
  "world.more (set_errno e w) = world.more w" "w_tick (set_errno e w) = w_tick w"
  by (simp_all add: set_errno_def)

text \<open>Steps that change nothing but the clock, \<open>errno\<close> and the trace.\<close>

definition still :: "'m world_scheme \<Rightarrow> 'm world_scheme \<Rightarrow> bool" where
  "still w v \<longleftrightarrow> w_os v = w_os w \<and> world.more v = world.more w"

lemma still_basic [simp]:
  "still w w" "still w (tock v) = still w v" "still w (emit e v) = still w v" "still w (set_errno er v) = still w v"
  "still (tock w) v = still w v" "still (emit e w) v = still w v" "still (set_errno er w) v = still w v"
  by (simp_all add: still_def)

lemma still_trans: "still u v \<Longrightarrow> still v w \<Longrightarrow> still u w"
  by (simp add: still_def)

text \<open>No operation changes the system it runs on.\<close>

lemma frame_os [simp]:
  "w_os (snd (ask f w)) = w_os w" "w_os (snd (sys_init w)) = w_os w" "w_os (snd (sys_cond w)) = w_os w"
  "w_os (snd (sys_try e g w)) = w_os w" "w_os (snd (sys_malloc w)) = w_os w"
  "w_os (snd (sys_do ev g w)) = w_os w" "w_os (snd (sys_close fd w)) = w_os w"
  "w_os (snd (sys_dup2 fd fd' w)) = w_os w" "w_os (snd (sys_stat p w)) = w_os w"
  "w_os (snd (sys_kill pid b w)) = w_os w" "w_os (snd (sys_waitpid pid w)) = w_os w" "w_os (snd (sys_waitnb pid w)) = w_os w"
  "w_os (snd (sys_time w)) = w_os w" "w_os (snd (sys_fork p a w)) = w_os w"
  "w_os (snd (sys_symlink p q w)) = w_os w" "w_os (snd (sys_unlink p w)) = w_os w"
  "w_os (snd (snd (mutex_lock m w))) = w_os w" "w_os (snd (snd (mutex_unlock m w))) = w_os w"
  by (simp_all add: ask_def sys_init_def sys_cond_def sys_try_def sys_malloc_def sys_do_def
      sys_close_def sys_dup2_def sys_stat_def sys_kill_def sys_waitpid_def sys_waitnb_def sys_time_def sys_fork_def
      sys_symlink_def sys_unlink_def mutex_lock_def mutex_unlock_def Let_def)

text \<open>Effects are never taken back.\<close>

definition seen :: "event \<Rightarrow> 'm world_scheme \<Rightarrow> bool" where
  "seen e w \<longleftrightarrow> e \<in> set (w_trace w)"

lemma seen_basic [simp]:
  "seen e (tock w) = seen e w" "seen e (set_errno er w) = seen e w" "seen e (emit e' w) = (e = e' \<or> seen e w)"
  by (auto simp: seen_def)

lemma seen_sys [simp]:
  "seen e w \<Longrightarrow> seen e (snd (ask f w))" "seen e w \<Longrightarrow> seen e (snd (sys_init w))"
  "seen e w \<Longrightarrow> seen e (snd (sys_cond w))" "seen e w \<Longrightarrow> seen e (snd (sys_try er g w))"
  "seen e w \<Longrightarrow> seen e (snd (sys_malloc w))" "seen e w \<Longrightarrow> seen e (snd (sys_do ev g w))"
  "seen e w \<Longrightarrow> seen e (snd (sys_close fd w))" "seen e w \<Longrightarrow> seen e (snd (sys_stat p w))"
  "seen e w \<Longrightarrow> seen e (snd (sys_kill pid b w))" "seen e w \<Longrightarrow> seen e (snd (sys_waitpid pid w))"
  "seen e w \<Longrightarrow> seen e (snd (sys_fork p a w))"
  "seen e w \<Longrightarrow> seen e (snd (snd (mutex_lock m w)))" "seen e w \<Longrightarrow> seen e (snd (snd (mutex_unlock m w)))"
  by (simp_all add: ask_def sys_init_def sys_cond_def sys_try_def sys_malloc_def sys_do_def
      sys_close_def sys_stat_def sys_kill_def sys_waitpid_def sys_fork_def
      mutex_lock_def mutex_unlock_def Let_def)

text \<open>A world in which locks work and memory never runs out: the ordinary case.\<close>

definition calm :: "'m world_scheme \<Rightarrow> bool" where
  "calm w \<longleftrightarrow> (\<forall>n. os_lock (w_os w) n \<and> os_unlock (w_os w) n \<and> os_malloc (w_os w) n \<and>
     os_init (w_os w) n \<and> os_cond (w_os w) n)"

lemma calm_cong [simp]:
  "calm (tock w) = calm w" "calm (emit e w) = calm w" "calm (set_errno er w) = calm w"
  by (simp_all add: calm_def)

lemma calm_malloc [calm_simps]: "calm w \<Longrightarrow> sys_malloc w = (True, tock w)"
  by (simp add: sys_malloc_def sys_try_def ask_def calm_def)

lemma calm_init [calm_simps]: "calm w \<Longrightarrow> sys_init w = (True, tock w)"
  by (simp add: sys_init_def ask_def calm_def)

lemma calm_cond [calm_simps]: "calm w \<Longrightarrow> sys_cond w = (True, tock w)"
  by (simp add: sys_cond_def ask_def calm_def)

lemma calm_lock [calm_simps]: "calm w \<Longrightarrow> mutex_lock False w = (False, True, tock w)"
  by (simp add: mutex_lock_def ask_def calm_def)

lemma calm_unlock [calm_simps]: "calm w \<Longrightarrow> mutex_unlock True w = (False, False, tock w)"
  by (simp add: mutex_unlock_def ask_def calm_def)

lemma lock_ok: "os_lock (w_os w) (w_tick w) \<Longrightarrow> mutex_lock False w = (False, True, tock w)"
  by (simp add: mutex_lock_def ask_def)

lemma unlock_ok: "os_unlock (w_os w) (w_tick w) \<Longrightarrow> mutex_unlock True w = (False, False, tock w)"
  by (simp add: mutex_unlock_def ask_def)

lemma malloc_fails:
  "\<not> os_malloc (w_os w) (w_tick w) \<Longrightarrow> sys_malloc w = (False, set_errno ENOMEM (tock w))"
  by (simp add: sys_malloc_def sys_try_def ask_def)

lemma mutex_lock_held [simp]: "mutex_lock True w = (True, True, w)"
  by (simp add: mutex_lock_def)

lemma mutex_unlock_free [simp]: "mutex_unlock False w = (True, False, w)"
  by (simp add: mutex_unlock_def)

lemma mutex_lockE:
  assumes "mutex_lock held w = (err, held', w')"
  obtains "err" "held' = held" | "\<not> err" "\<not> held" "held'"
  using assms by (auto simp: mutex_lock_def ask_def split: if_splits)

lemma mutex_lock_os:
  "mutex_lock held w = (err, held', w') \<Longrightarrow> w_os w' = w_os w \<and> w_trace w' = w_trace w \<and> w_errno w' = w_errno w"
  by (auto simp: mutex_lock_def ask_def split: if_splits)

lemma mutex_unlock_os:
  "mutex_unlock held w = (err, held', w') \<Longrightarrow> w_os w' = w_os w \<and> w_trace w' = w_trace w \<and> w_errno w' = w_errno w"
  by (auto simp: mutex_unlock_def ask_def split: if_splits)

text \<open>A system in which every call succeeds, for the witnesses; children exit with 0.\<close>

definition calm_os :: os where
  "calm_os = \<lparr>os_lock = \<lambda>_. True, os_unlock = \<lambda>_. True, os_init = \<lambda>_. True, os_cond = \<lambda>_. True,
     os_malloc = \<lambda>_. True,
     os_stat = \<lambda>_ _. True, os_fork = \<lambda>n. int n + 100, os_execve = \<lambda>_. True,
     os_waitpid = \<lambda>_ pid. (pid, 0), os_waitnb = \<lambda>_ _. (0, 0), os_kill = \<lambda>_ _. True, os_time = \<lambda>n. int n,
     os_pipe = \<lambda>n. Some (int (2 * n) + 10, int (2 * n) + 11), os_kevent = \<lambda>_. True,
     os_symlink = \<lambda>_. True, os_unlink = \<lambda>_. True, os_close = \<lambda>_. True, os_dup2 = \<lambda>_. True,
     os_open = \<lambda>n _. int n + 1000, os_fchmod = \<lambda>_. True, os_kqueue = \<lambda>n. int n + 2000,
     os_read = \<lambda>_ n. n, os_write = \<lambda>_ n. n,
     os_recv = \<lambda>_ _. Some [], os_socket = \<lambda>n. int n + 3000, os_sockop = \<lambda>_. True,
     os_accept = \<lambda>n. int n + 4000, os_peercred = \<lambda>_. Some (0, 1),
     os_getpwnam = \<lambda>_ _. Some 1001, os_getgrnam = \<lambda>_ _. Some 1002, os_readdir = \<lambda>_ _. Some [],
     os_mmap = \<lambda>_ _. Some ''cpus=1'', os_addr = \<lambda>_. 0x9000,
     os_getuid = 0, os_getpid = 500, os_dirmode = \<lambda>_ _. Inr True, os_mkdir = \<lambda>_. True, os_unlinkerr = \<lambda>_. ENOENT\<rparr>"

definition world0 :: "os \<Rightarrow> world" where
  "world0 s = \<lparr>w_os = s, w_tick = 0, w_errno = E0, w_trace = []\<rparr>"

lemma calm_world0 [simp]: "calm (world0 calm_os)"
  by (simp add: calm_def world0_def calm_os_def)

end
