(* ===== verification/Ident_Keeper.thy ===== *)
theory Ident_Keeper
  imports Os_World
begin

text \<open>
  \<open>src/libconfig/ident_keeper.c\<close>: identifiers of a range (of tap or nmdm devices) handed out as
  reservations. The keeper holds the reservations in a list that is sorted by identifier, and
  \<open>ident_next\<close>, the next never used identifier; when that passes \<open>ident_max\<close>, the list is
  searched for a gap. \<open>check_ident\<close> with its context is an optional predicate.

  A reservation is a heap object of the C code. Its \<open>reservation_id\<close> comes from a counter and
  identifies it, so removing the object from the list is removing that record.
\<close>

section \<open>Data\<close>

record ident_keeper_reservation =
  ikr_id :: u64
  ikr_ident :: u64

record ident_keeper =
  ik_mtx :: bool
  ik_min :: u64
  ik_max :: u64
  ik_counter :: u64
  ik_next :: u64
  ik_check :: "(u64 \<Rightarrow> bool) option"
  ik_reservations :: "ident_keeper_reservation list"

section \<open>Operations\<close>

definition ik_next_resid ::
  "ident_keeper \<Rightarrow> bool \<Rightarrow> 'm world_scheme \<Rightarrow> u64 \<times> ident_keeper \<times> 'm world_scheme" where
  "ik_next_resid ik locked w =
     (let (err, m, w1) = (if locked then (False, ik_mtx ik, w) else mutex_lock (ik_mtx ik) w);
          ik1 = ik\<lparr>ik_mtx := m\<rparr>
      in if err then (-1, ik1, w1)
         else (let res_id = ik_counter ik1;
                   ik2 = ik1\<lparr>ik_counter := ik_counter ik1 + 1\<rparr>;
                   (err', m', w2) = (if locked then (False, m, w1) else mutex_unlock m w1);
                   ik3 = ik2\<lparr>ik_mtx := m'\<rparr>
               in if err' then (-1, ik3, w2) else (res_id, ik3, w2)))"

definition ikr_get_ident ::
  "ident_keeper_reservation option \<Rightarrow> 'm world_scheme \<Rightarrow> u64 \<times> 'm world_scheme" where
  "ikr_get_ident ikr w =
     (case ikr of None \<Rightarrow> (-1, set_errno EINVAL w) | Some r \<Rightarrow> (ikr_ident r, w))"

text \<open>The loop that looks for a gap: the first position where the sorted list skips a value.\<close>

fun gap_scan :: "u64 \<Rightarrow> ident_keeper_reservation list \<Rightarrow> u64 option" where
  "gap_scan ident_start [] = None"
| "gap_scan ident_start (r # rs) =
     (if ident_start \<noteq> ikr_ident r then Some ident_start else gap_scan (ident_start + 1) rs)"

definition ik_next_ident_locked ::
  "ident_keeper \<Rightarrow> 'm world_scheme \<Rightarrow> u64 \<times> ident_keeper \<times> 'm world_scheme" where
  "ik_next_ident_locked ik w =
     (if ik_next ik \<le> ik_max ik then (ik_next ik, ik\<lparr>ik_next := ik_next ik + 1\<rparr>, w)
      else (case gap_scan (ik_min ik) (ik_reservations ik) of
              Some i \<Rightarrow> (i, ik, w)
            | None \<Rightarrow> (-1, ik, set_errno ENOENT w)))"

definition ik_next_ident_locked_ptr ::
  "ident_keeper option \<Rightarrow> 'm world_scheme \<Rightarrow> u64 \<times> ident_keeper option \<times> 'm world_scheme" where
  "ik_next_ident_locked_ptr = null_guard (Some EINVAL) (-1) ik_next_ident_locked"

text \<open>Insertion before the first item with a larger identifier, at the end if there is none.\<close>

fun insert_reservation ::
  "ident_keeper_reservation \<Rightarrow> ident_keeper_reservation list \<Rightarrow> ident_keeper_reservation list" where
  "insert_reservation r [] = [r]"
| "insert_reservation r (x # xs) =
     (if ikr_ident r < ikr_ident x then r # x # xs else x # insert_reservation r xs)"

definition ik_insert_reservation_locked ::
  "ident_keeper option \<Rightarrow> ident_keeper_reservation option \<Rightarrow> 'm world_scheme
   \<Rightarrow> int \<times> ident_keeper option \<times> 'm world_scheme" where
  "ik_insert_reservation_locked ik ikr w =
     (case (ik, ikr) of
        (Some k, Some r) \<Rightarrow>
          (0, Some (k\<lparr>ik_reservations := insert_reservation r (ik_reservations k)\<rparr>), w)
      | _ \<Rightarrow> (-1, ik, set_errno EINVAL w))"

text \<open>
  \<open>ik_validate_reservation\<close> returns the result, the keeper and the reservation as the call leaves
  it: moved to another identifier, or \<open>None\<close> when it was freed.
\<close>

definition ik_validate_reservation ::
  "ident_keeper \<Rightarrow> ident_keeper_reservation \<Rightarrow> 'm world_scheme
   \<Rightarrow> int \<times> ident_keeper \<times> ident_keeper_reservation option \<times> 'm world_scheme" where
  "ik_validate_reservation ik ikr w =
     (if (case ik_check ik of Some chk \<Rightarrow> chk (ikr_ident ikr) | None \<Rightarrow> False)
      then (0, ik, Some ikr, w)
      else (let (err, m, w1) = mutex_lock (ik_mtx ik) w;
                ik1 = ik\<lparr>ik_mtx := m\<rparr>
            in if err then (-1, ik1, Some ikr, w1)
               else (let ik2 = ik1\<lparr>ik_reservations := remove1 ikr (ik_reservations ik1)\<rparr>;
                         (new_ident, ik3, w2) = ik_next_ident_locked ik2 (set_errno E0 w1);
                         ikr' = ikr\<lparr>ikr_ident := new_ident\<rparr>;
                         (result, ik4, ikr'', w3) =
                           (if new_ident \<noteq> -1 \<and> w_errno w2 = E0
                            then (let (r, k, w') = ik_insert_reservation_locked (Some ik3) (Some ikr') w2
                                  in (r, the k, Some ikr', w'))
                            else (-1, ik3, None, w2));
                         (err', m', w4) = mutex_unlock (ik_mtx ik4) w3;
                         ik5 = ik4\<lparr>ik_mtx := m'\<rparr>
                     in if err' then (-1, ik5, ikr'', w4) else (result, ik5, ikr'', w4))))"

definition ik_validate_reservation_ptr ::
  "ident_keeper option \<Rightarrow> ident_keeper_reservation option \<Rightarrow> 'm world_scheme
   \<Rightarrow> int \<times> ident_keeper option \<times> ident_keeper_reservation option \<times> 'm world_scheme" where
  "ik_validate_reservation_ptr ik ikr w =
     (case (ik, ikr) of
        (Some k, Some r) \<Rightarrow>
          (let (res, k', r', w') = ik_validate_reservation k r w in (res, Some k', r', w'))
      | _ \<Rightarrow> (-1, ik, ikr, set_errno EINVAL w))"

definition ik_dispose ::
  "ident_keeper \<Rightarrow> ident_keeper_reservation \<Rightarrow> 'm world_scheme
   \<Rightarrow> int \<times> ident_keeper \<times> 'm world_scheme" where
  "ik_dispose ik ikr w =
     (let (err, m, w1) = mutex_lock (ik_mtx ik) w;
          ik1 = ik\<lparr>ik_mtx := m\<rparr>
      in if err then (-1, ik1, w1)
         else (let ik2 = ik1\<lparr>ik_reservations := remove1 ikr (ik_reservations ik1)\<rparr>;
                   ik3 = (if ik_next ik2 - 1 = ikr_ident ikr
                          then ik2\<lparr>ik_next := ik_next ik2 - 1\<rparr> else ik2);
                   (err', m', w2) = mutex_unlock (ik_mtx ik3) w1;
                   ik4 = ik3\<lparr>ik_mtx := m'\<rparr>
               in if err' then (-1, ik4, w2) else (0, ik4, w2)))"

definition ik_dispose_ptr ::
  "ident_keeper option \<Rightarrow> ident_keeper_reservation option \<Rightarrow> 'm world_scheme
   \<Rightarrow> int \<times> ident_keeper option \<times> 'm world_scheme" where
  "ik_dispose_ptr ik ikr w =
     (case (ik, ikr) of
        (Some k, Some r) \<Rightarrow> (let (res, k', w') = ik_dispose k r w in (res, Some k', w'))
      | _ \<Rightarrow> (-1, ik, set_errno EINVAL w))"

text \<open>
  \<open>ik_reserve\<close>. The return after a failing \<open>malloc\<close> comes before the unlock, as in the code.
\<close>

definition ik_reserve ::
  "ident_keeper \<Rightarrow> 'm world_scheme
   \<Rightarrow> ident_keeper_reservation option \<times> ident_keeper \<times> 'm world_scheme" where
  "ik_reserve ik w =
     (let (err, m, w1) = mutex_lock (ik_mtx ik) w;
          ik1 = ik\<lparr>ik_mtx := m\<rparr>
      in if err then (None, ik1, w1)
         else (let (new_ident, ik2, w2) = ik_next_ident_locked ik1 (set_errno E0 w1)
               in if new_ident = -1 \<and> w_errno w2 = ENOENT
                  then (let (_, m', w3) = mutex_unlock (ik_mtx ik2) w2
                        in (None, ik2\<lparr>ik_mtx := m'\<rparr>, w3))
                  else (let (ok, w3) = sys_malloc w2
                        in if \<not> ok then (None, ik2, w3)
                           else (let (rid, ik3, w4) = ik_next_resid ik2 True w3;
                                     ikr = \<lparr>ikr_id = rid, ikr_ident = new_ident\<rparr>;
                                     (r, k, w5) = ik_insert_reservation_locked (Some ik3) (Some ikr) w4;
                                     res = (if r \<noteq> 0 then None else Some ikr);
                                     (_, m', w6) = mutex_unlock (ik_mtx (the k)) w5
                                 in (res, (the k)\<lparr>ik_mtx := m'\<rparr>, w6)))))"

definition ik_reserve_ptr ::
  "ident_keeper option \<Rightarrow> 'm world_scheme
   \<Rightarrow> ident_keeper_reservation option \<times> ident_keeper option \<times> 'm world_scheme" where
  "ik_reserve_ptr = null_guard (Some EINVAL) None ik_reserve"

definition ik_new ::
  "u64 \<Rightarrow> u64 \<Rightarrow> (u64 \<Rightarrow> bool) option \<Rightarrow> 'm world_scheme
   \<Rightarrow> ident_keeper option \<times> 'm world_scheme" where
  "ik_new ident_min ident_max check_ident w =
     (if ident_min > ident_max then (None, set_errno EDOM w)
      else (let (ok, w1) = sys_malloc w
            in if \<not> ok then (None, w1)
               else (let (inited, w2) = sys_init w1
                     in if \<not> inited then (None, w2)
                        else (Some \<lparr>ik_mtx = False, ik_min = ident_min, ik_max = ident_max,
                                 ik_counter = 0, ik_next = ident_min, ik_check = check_ident,
                                 ik_reservations = []\<rparr>, w2))))"

text \<open>\<open>ik_free\<close> returns what is left of the keeper: all of it when the lock fails, else nothing, and
  the reservations it released.\<close>

definition ik_free ::
  "ident_keeper \<Rightarrow> 'm world_scheme
   \<Rightarrow> (ident_keeper_reservation list \<times> ident_keeper option) \<times> 'm world_scheme" where
  "ik_free ik w =
     (let (err, m, w1) = mutex_lock (ik_mtx ik) w
      in if err then (([], Some (ik\<lparr>ik_mtx := m\<rparr>)), w1)
         else (let (_, m', w2) = mutex_unlock m w1 in ((ik_reservations ik, None), w2)))"

definition ik_always_valid :: "u64 \<Rightarrow> bool" where
  "ik_always_valid ident = True"

section \<open>Invariant\<close>

definition ik_held :: "ident_keeper \<Rightarrow> u64 set" where
  "ik_held ik = ikr_ident ` set (ik_reservations ik)"

text \<open>
  The list is strictly sorted, every identifier lies in the range and below \<open>ik_next\<close>, the mutex
  is free. The range must not end at the largest 64-bit value, where \<open>ident_next++\<close> wraps.
\<close>

definition ik_core :: "ident_keeper \<Rightarrow> bool" where
  "ik_core ik \<longleftrightarrow>
     sorted_wrt (<) (map ikr_ident (ik_reservations ik)) \<and>
     (\<forall>i \<in> ik_held ik. ik_min ik \<le> i \<and> i < ik_next ik) \<and>
     ik_min ik \<le> ik_next ik \<and> ik_next ik \<le> ik_max ik + 1 \<and> ik_min ik \<le> ik_max ik \<and>
     ik_max ik < -1"

definition ik_inv :: "ident_keeper \<Rightarrow> bool" where
  "ik_inv ik \<longleftrightarrow> ik_core ik \<and> \<not> ik_mtx ik"

text \<open>When the range is used up, its last identifier is taken: what makes the gap search complete.\<close>

definition ik_tail :: "ident_keeper \<Rightarrow> bool" where
  "ik_tail ik \<longleftrightarrow> (ik_max ik < ik_next ik \<longrightarrow> ik_max ik \<in> ik_held ik)"

lemma u64_succ_le: "(x :: u64) < y \<Longrightarrow> x + 1 \<le> y"
  by (rule inc_le)

lemma u64_less_succ: "(x :: u64) < y \<Longrightarrow> x < x + 1"
  by unat_arith

lemma gap_scan_Some:
  "gap_scan s rs = Some g \<Longrightarrow> sorted_wrt (<) (map ikr_ident rs) \<Longrightarrow> \<forall>r \<in> set rs. s \<le> ikr_ident r
   \<Longrightarrow> g \<notin> ikr_ident ` set rs \<and> s \<le> g \<and> (\<exists>r \<in> set rs. g < ikr_ident r)"
proof (induction rs arbitrary: s)
  case (Cons r rs)
  show ?case
  proof (cases "s = ikr_ident r")
    case False
    with Cons.prems show ?thesis by force
  next
    case True
    have above: "\<forall>x \<in> set rs. s + 1 \<le> ikr_ident x"
      using Cons.prems(2) True by (auto intro: u64_succ_le)
    from True Cons.prems have "gap_scan (s + 1) rs = Some g" by simp
    from Cons.IH [OF this _ above] Cons.prems(2)
    have g: "g \<notin> ikr_ident ` set rs" "s + 1 \<le> g" "\<exists>x \<in> set rs. g < ikr_ident x" by auto
    then obtain x where "x \<in> set rs" by blast
    with Cons.prems(2) True have "s < s + 1" by (auto intro: u64_less_succ)
    with g True show ?thesis by auto
  qed
qed simp

lemma gap_scan_None:
  "gap_scan s rs = None \<Longrightarrow> sorted_wrt (<) (map ikr_ident rs) \<Longrightarrow> s \<le> x \<Longrightarrow>
   x \<le> y \<Longrightarrow> y \<in> ikr_ident ` set rs \<Longrightarrow> x \<in> ikr_ident ` set rs"
proof (induction rs arbitrary: s)
  case (Cons r rs)
  from Cons.prems have s: "s = ikr_ident r" "gap_scan (s + 1) rs = None"
    by (auto split: if_splits)
  show ?case
  proof (cases "x = s")
    case False
    with Cons.prems(3) have "s < x" by simp
    then have "s + 1 \<le> x" by (rule u64_succ_le)
    moreover have "y \<in> ikr_ident ` set rs"
      using Cons.prems(4,5) s \<open>s < x\<close> by auto
    ultimately show ?thesis
      using Cons.IH [OF s(2)] Cons.prems(2,4) by auto
  qed (use s in simp)
qed simp

lemma insert_reservation_set [simp]: "set (insert_reservation r rs) = insert r (set rs)"
  by (induction rs) auto

lemma insert_reservation_sorted:
  "sorted_wrt (<) (map ikr_ident rs) \<Longrightarrow> ikr_ident r \<notin> ikr_ident ` set rs
   \<Longrightarrow> sorted_wrt (<) (map ikr_ident (insert_reservation r rs))"
  by (induction rs) (auto simp: not_less order.order_iff_strict)

lemma remove1_idents:
  "sorted_wrt (<) (map ikr_ident rs) \<Longrightarrow> r \<in> set rs
   \<Longrightarrow> ikr_ident ` set (remove1 r rs) = ikr_ident ` set rs - {ikr_ident r}"
  by (induction rs) auto

lemma remove1_sorted:
  "sorted_wrt (<) (map ikr_ident rs) \<Longrightarrow> sorted_wrt (<) (map ikr_ident (remove1 r rs))"
  by (induction rs) (auto dest: notin_set_remove1)

section \<open>What the operations do\<close>

lemma ik_next_ident_cases:
  assumes core: "ik_core ik" and run: "ik_next_ident_locked ik w = (i, ik', w')"
  obtains (fresh) "i \<notin> ik_held ik" "ik_min ik \<le> i" "i \<le> ik_max ik" "w' = w"
      "ik' = ik\<lparr>ik_next := ik_next ik'\<rparr>" "i < ik_next ik'" "ik_next ik \<le> ik_next ik'"
      "ik_next ik' \<le> ik_max ik + 1" "ik_max ik < ik_next ik' \<longrightarrow> i = ik_max ik \<or> ik_max ik < ik_next ik"
    | (full) "i = -1" "ik' = ik" "w' = set_errno ENOENT w" "ik_max ik < ik_next ik"
      "gap_scan (ik_min ik) (ik_reservations ik) = None"
proof (cases "ik_next ik \<le> ik_max ik")
  case True
  with run have r: "i = ik_next ik" "ik' = ik\<lparr>ik_next := ik_next ik + 1\<rparr>" "w' = w"
    by (auto simp: ik_next_ident_locked_def)
  from True core have "ik_next ik < -1" by (auto simp: ik_core_def)
  then have s: "ik_next ik < ik_next ik + 1" by (rule u64_less_succ)
  have m: "ik_next ik + 1 \<le> ik_max ik + 1"
    using True core by (auto simp: ik_core_def) unat_arith
  have t: "ik_max ik < ik_next ik + 1 \<Longrightarrow> ik_next ik = ik_max ik"
    using True by unat_arith
  from core have "ik_next ik \<notin> ik_held ik" and "ik_min ik \<le> ik_next ik"
    by (auto simp: ik_core_def)
  with r s m t True show thesis by (intro fresh) auto
next
  case False
  show thesis
  proof (cases "gap_scan (ik_min ik) (ik_reservations ik)")
    case None
    with False run show thesis by (intro full) (auto simp: ik_next_ident_locked_def)
  next
    case (Some g)
    with False run have r: "i = g" "ik' = ik" "w' = w"
      by (auto simp: ik_next_ident_locked_def)
    from core have "g \<notin> ik_held ik \<and> ik_min ik \<le> g \<and> (\<exists>x \<in> set (ik_reservations ik). g < ikr_ident x)"
      using gap_scan_Some [OF Some] by (auto simp: ik_core_def ik_held_def)
    then obtain x where x: "x \<in> ik_held ik" "g < x" and g: "g \<notin> ik_held ik" "ik_min ik \<le> g"
      by (auto simp: ik_held_def)
    from x core have b: "x < ik_next ik" "ik_next ik \<le> ik_max ik + 1" by (auto simp: ik_core_def)
    have "x \<le> ik_max ik" using b by unat_arith
    with x have "g \<le> ik_max ik" by simp
    with r g x b False show thesis by (intro fresh) auto
  qed
qed

text \<open>The whole range is reserved when the gap search fails and the last identifier is taken.\<close>

lemma ik_full_range:
  assumes "ik_core ik" and "ik_tail ik" and "ik_max ik < ik_next ik"
    and "gap_scan (ik_min ik) (ik_reservations ik) = None"
    and "ik_min ik \<le> x" and "x \<le> ik_max ik"
  shows "x \<in> ik_held ik"
proof -
  from assms(2,3) have "ik_max ik \<in> ikr_ident ` set (ik_reservations ik)"
    by (simp add: ik_tail_def ik_held_def)
  with gap_scan_None [OF assms(4) _ assms(5,6)] assms(1) show ?thesis
    by (simp add: ik_core_def ik_held_def)
qed

text \<open>\<open>ik_reserve\<close> in a calm world, on both of its outcomes.\<close>

lemma ik_reserve_calm:
  assumes inv: "ik_inv ik" and calm: "calm w" and run: "ik_reserve ik w = (res, ik', w')"
  obtains (got) r where "res = Some r" "ikr_ident r \<notin> ik_held ik" "ik_min ik \<le> ikr_ident r"
      "ikr_ident r \<le> ik_max ik" "set (ik_reservations ik') = insert r (set (ik_reservations ik))"
      "ik_held ik' = insert (ikr_ident r) (ik_held ik)" "ik_inv ik'"
      "ik_min ik' = ik_min ik" "ik_max ik' = ik_max ik" "calm w'" "ik_tail ik \<longrightarrow> ik_tail ik'"
    | (none) "res = None" "ik' = ik" "calm w'" "ik_max ik < ik_next ik"
      "gap_scan (ik_min ik) (ik_reservations ik) = None"
proof -
  let ?ik1 = "ik\<lparr>ik_mtx := True\<rparr>" and ?w1 = "set_errno E0 (tock w)"
  obtain i ik2 w2 where nx: "ik_next_ident_locked ?ik1 ?w1 = (i, ik2, w2)"
    by (metis prod_cases3)
  from inv have core: "ik_core ?ik1" and free: "ik_mtx ik = False"
    by (simp_all add: ik_inv_def ik_core_def ik_held_def)
  from core nx show thesis
  proof (cases rule: ik_next_ident_cases)
    case full
    with run nx calm inv show thesis
      by (intro none) (auto simp: ik_reserve_def Let_def calm_lock calm_unlock free split: prod.splits)
  next
    case fresh
    have w2: "w_errno w2 = E0" "calm w2" using fresh(4) calm by simp_all
    let ?r = "\<lparr>ikr_id = ik_counter ik, ikr_ident = i\<rparr>"
    obtain n where n: "ik2 = ik\<lparr>ik_mtx := True, ik_next := n\<rparr>" using fresh(5) by simp
    from run nx w2 calm have r: "res = Some ?r"
      and ik': "ik' = ik\<lparr>ik_next := ik_next ik2, ik_counter := ik_counter ik + 1,
                 ik_reservations := insert_reservation ?r (ik_reservations ik)\<rparr>"
      and w': "calm w'"
      by (auto simp: ik_reserve_def calm_lock calm_malloc ik_next_resid_def
          ik_insert_reservation_locked_def Let_def calm_unlock free n split: prod.splits)
    have held: "ik_held ik' = insert i (ik_held ik)"
      by (simp add: ik' ik_held_def)
    have "sorted_wrt (<) (map ikr_ident (ik_reservations ik'))"
      using inv fresh(1) insert_reservation_sorted [of "ik_reservations ik" ?r]
      by (simp add: ik' ik_inv_def ik_core_def ik_held_def)
    moreover have "\<forall>x \<in> ik_held ik'. ik_min ik' \<le> x \<and> x < ik_next ik'"
      using inv fresh(2,6,7) by (auto simp: held) (auto simp: ik' ik_inv_def ik_core_def)
    ultimately have "ik_inv ik'"
      using inv fresh(7,8) by (auto simp: ik' ik_inv_def ik_core_def)
    moreover have "ik_tail ik \<longrightarrow> ik_tail ik'"
      using fresh(9) by (auto simp: ik_tail_def held) (auto simp: ik')
    ultimately show thesis
      using r fresh(1-3) w' held by (intro got [of ?r]) (auto simp: ik' ik_held_def)
  qed
qed


lemma ik_dispose_calm:
  assumes inv: "ik_inv ik" and mem: "r \<in> set (ik_reservations ik)" and calm: "calm w"
    and run: "ik_dispose ik r w = (res, ik', w')"
  shows "res = 0" and "ik_held ik' = ik_held ik - {ikr_ident r}" and "ik_inv ik'"
    and "ik_tail ik \<longrightarrow> ik_tail ik'" and "ik_min ik' = ik_min ik" and "ik_max ik' = ik_max ik"
    and "calm w'" and "ik_reservations ik' = remove1 r (ik_reservations ik)"
proof -
  from inv have core: "ik_core ik" and free: "ik_mtx ik = False"
    by (simp_all add: ik_inv_def)
  from run calm have r0: "res = 0" and w': "calm w'" and
    ik': "ik' = ik\<lparr>ik_reservations := remove1 r (ik_reservations ik),
            ik_next := (if ik_next ik - 1 = ikr_ident r then ik_next ik - 1 else ik_next ik)\<rparr>"
    by (auto simp: ik_dispose_def calm_lock calm_unlock free Let_def split: prod.splits if_splits)
  then show "res = 0" and "ik_min ik' = ik_min ik" and "ik_max ik' = ik_max ik" and "calm w'"
    and "ik_reservations ik' = remove1 r (ik_reservations ik)" by simp_all
  from core mem have held: "ik_held ik' = ik_held ik - {ikr_ident r}"
    by (simp add: ik' ik_held_def ik_core_def remove1_idents)
  then show "ik_held ik' = ik_held ik - {ikr_ident r}" .
  have bounds: "ik_min ik \<le> ikr_ident r" "ikr_ident r < ik_next ik"
    using core mem by (auto simp: ik_core_def ik_held_def)
  have below: "x < ik_next ik'" if "x \<in> ik_held ik'" for x
  proof -
    from that held core have "x < ik_next ik" "x \<noteq> ikr_ident r" by (auto simp: ik_core_def)
    then show ?thesis by (simp add: ik') unat_arith
  qed
  have lo: "ik_min ik \<le> ik_next ik'" using bounds core by (simp add: ik' ik_core_def)
  have hi: "ik_next ik' \<le> ik_max ik + 1"
    using bounds core by (auto simp: ik' ik_core_def)
  from core below lo hi held show "ik_inv ik'"
    by (auto simp: ik_inv_def ik_core_def ik' remove1_sorted free)
  show "ik_tail ik \<longrightarrow> ik_tail ik'"
  proof (intro impI, unfold ik_tail_def, intro impI)
    assume t: "ik_max ik < ik_next ik \<longrightarrow> ik_max ik \<in> ik_held ik" and lt: "ik_max ik' < ik_next ik'"
    from core have nx: "ik_next ik \<le> ik_max ik + 1" "ik_max ik < -1" by (auto simp: ik_core_def)
    from bounds nx(1) have "ikr_ident r < ik_max ik + 1" by simp
    then have "ikr_ident r \<le> ik_max ik" by unat_arith
    with lt have keep: "ik_next ik - 1 \<noteq> ikr_ident r" "ik_max ik < ik_next ik"
      by (auto simp: ik' split: if_splits)
    from u64_succ_le [OF keep(2)] nx have "ik_next ik = ik_max ik + 1" by (simp add: order_antisym)
    then have "ik_next ik - 1 = ik_max ik" by simp
    with t keep held show "ik_max ik' \<in> ik_held ik'" by (auto simp: ik')
  qed
qed


text \<open>The search after a reservation left a gapless list: its own identifier, unless it was the last.\<close>

lemma gap_scan_remove:
  "gap_scan s rs = None \<Longrightarrow> sorted_wrt (<) (map ikr_ident rs) \<Longrightarrow> r \<in> set rs \<Longrightarrow>
   gap_scan s (remove1 r rs) =
     (if \<exists>x \<in> set rs. ikr_ident r < ikr_ident x then Some (ikr_ident r) else None)"
proof (induction rs arbitrary: s)
  case (Cons y ys)
  from Cons.prems have y: "s = ikr_ident y" "gap_scan (s + 1) ys = None"
    by (auto split: if_splits)
  show ?case
  proof (cases "r = y")
    case True
    with y Cons.prems(2) show ?thesis by (cases ys) auto
  next
    case False
    with Cons.prems have "r \<in> set ys" by simp
    with y Cons.prems(2) Cons.IH [OF y(2)] False show ?thesis by auto
  qed
qed simp

lemma ik_core_remove:
  "ik_core ik \<Longrightarrow> ik_core (ik\<lparr>ik_reservations := remove1 r (ik_reservations ik)\<rparr>)"
  using notin_set_remove1 by (fastforce simp: ik_core_def ik_held_def remove1_sorted)

text \<open>A check that does not accept the identifier: it says no, or there is none.\<close>

definition ik_rejects :: "ident_keeper \<Rightarrow> u64 \<Rightarrow> bool" where
  "ik_rejects ik i \<longleftrightarrow> (case ik_check ik of Some chk \<Rightarrow> \<not> chk i | None \<Rightarrow> True)"

lemma ik_rejects_check:
  "ik_rejects ik i \<Longrightarrow> \<not> (case ik_check ik of Some chk \<Rightarrow> chk i | None \<Rightarrow> False)"
  by (simp add: ik_rejects_def split: option.splits)

text \<open>What validation does to a rejected reservation, in terms of the search it makes.\<close>

lemma ik_validate_calm:
  assumes free: "\<not> ik_mtx ik" and calm: "calm w" and rej: "ik_rejects ik (ikr_ident r)"
    and core: "ik_core (ik\<lparr>ik_mtx := True\<rparr>)"
    and nx: "ik_next_ident_locked
         (ik\<lparr>ik_mtx := True, ik_reservations := remove1 r (ik_reservations ik)\<rparr>)
         (set_errno E0 (tock w)) = (i, ik2, w2)"
  shows "ik_validate_reservation ik r w =
    (if i \<noteq> -1 \<and> w_errno w2 = E0
     then (0, ik2\<lparr>ik_reservations := insert_reservation (r\<lparr>ikr_ident := i\<rparr>) (ik_reservations ik2),
             ik_mtx := False\<rparr>, Some (r\<lparr>ikr_ident := i\<rparr>), tock w2)
     else (-1, ik2\<lparr>ik_mtx := False\<rparr>, None, tock w2))"
proof -
  let ?k = "ik\<lparr>ik_mtx := True, ik_reservations := remove1 r (ik_reservations ik)\<rparr>"
  have c: "ik_core ?k" using ik_core_remove [OF core] by simp
  from c nx have "ik_mtx ik2 \<and> calm w2"
  proof (cases rule: ik_next_ident_cases)
    case fresh
    then obtain n where "ik2 = ?k\<lparr>ik_next := n\<rparr>" "w2 = set_errno E0 (tock w)" by metis
    then show ?thesis using calm by simp
  next
    case full
    then show ?thesis using calm by simp
  qed
  then show ?thesis
    using free calm rej nx
    by (auto simp: ik_validate_reservation_def calm_lock calm_unlock Let_def
        ik_insert_reservation_locked_def ik_rejects_check ik_rejects_def
        split: option.splits if_splits)
qed

section \<open>The contract of a pool of identifiers\<close>

text \<open>Asking for \<open>n\<close> reservations in a row, up to the first refusal; returning a list of them.\<close>

fun reserve_many :: "('s \<Rightarrow> 'r option \<times> 's) \<Rightarrow> nat \<Rightarrow> 's \<Rightarrow> 'r list \<times> 's" where
  "reserve_many f 0 s = ([], s)"
| "reserve_many f (Suc n) s =
     (case f s of
        (None, s') \<Rightarrow> ([], s')
      | (Some r, s') \<Rightarrow> (let (rs, s'') = reserve_many f n s' in (r # rs, s'')))"

text \<open>
  What a client of a pool may rely on: \<open>ok\<close> is the invariant, \<open>owned\<close> the live reservations,
  \<open>held\<close> the identifiers in use, \<open>univ\<close> the identifiers the pool may give out.
\<close>

locale ident_pool =
  fixes reserve :: "'s \<Rightarrow> 'r option \<times> 's"
    and release :: "'r \<Rightarrow> 's \<Rightarrow> 's"
    and ident :: "'r \<Rightarrow> 'i"
    and owned :: "'s \<Rightarrow> 'r set"
    and held :: "'s \<Rightarrow> 'i set"
    and ok :: "'s \<Rightarrow> bool"
    and univ :: "'i set"
  assumes finite_univ: "finite univ"
    and held_univ: "ok s \<Longrightarrow> held s \<subseteq> univ"
    and held_owned: "ok s \<Longrightarrow> held s = ident ` owned s"
    and owned_inj: "ok s \<Longrightarrow> inj_on ident (owned s)"
    and reserve_some: "ok s \<Longrightarrow> reserve s = (Some r, s') \<Longrightarrow>
           ok s' \<and> ident r \<notin> held s \<and> owned s' = insert r (owned s)"
    and reserve_none: "ok s \<Longrightarrow> reserve s = (None, s') \<Longrightarrow>
           ok s' \<and> owned s' = owned s \<and> univ \<subseteq> held s"
    and release_ok: "ok s \<Longrightarrow> r \<in> owned s \<Longrightarrow> ok (release r s) \<and> owned (release r s) = owned s - {r}"
begin

lemma many_distinct:
  "ok s \<Longrightarrow> reserve_many reserve n s = (rs, s') \<Longrightarrow>
     ok s' \<and> distinct (map ident rs) \<and> ident ` set rs \<inter> held s = {} \<and> ident ` set rs \<subseteq> univ \<and>
     owned s' = set rs \<union> owned s"
proof (induction n arbitrary: s rs)
  case (Suc n)
  obtain o1 s1 where r1: "reserve s = (o1, s1)" by (cases "reserve s")
  show ?case
  proof (cases o1)
    case None
    with Suc.prems r1 reserve_none [of s s1] show ?thesis by simp
  next
    case (Some r)
    then obtain qs where qs: "reserve_many reserve n s1 = (qs, s')" "rs = r # qs"
      using Suc.prems r1 by (auto split: prod.splits)
    from reserve_some [of s r s1] Suc.prems(1) r1 Some
    have s1: "ok s1" "ident r \<notin> held s" "owned s1 = insert r (owned s)" by auto
    with held_owned [of s1] held_owned [of s] Suc.prems(1)
    have h: "held s1 = insert (ident r) (held s)" by simp
    with held_univ [of s1] s1(1) have "ident r \<in> univ" by auto
    with Suc.IH [OF s1(1) qs(1)] qs(2) s1 h show ?thesis by auto
  qed
qed simp

lemma many_length:
  "ok s \<Longrightarrow> n + card (held s) \<le> card univ \<Longrightarrow> length (fst (reserve_many reserve n s)) = n"
proof (induction n arbitrary: s)
  case (Suc n)
  obtain o1 s1 where r1: "reserve s = (o1, s1)" by (cases "reserve s")
  show ?case
  proof (cases o1)
    case None
    with r1 Suc.prems(1) have "univ \<subseteq> held s" using reserve_none by blast
    then have "card univ \<le> card (held s)"
      using finite_univ held_univ [OF Suc.prems(1)] by (metis card_mono finite_subset)
    with Suc.prems(2) show ?thesis by simp
  next
    case (Some r)
    from reserve_some [of s r s1] Suc.prems(1) r1 Some
    have s1: "ok s1" "ident r \<notin> held s" "owned s1 = insert r (owned s)" by auto
    with held_owned [of s1] held_owned [of s] Suc.prems(1)
    have "held s1 = insert (ident r) (held s)" by simp
    moreover have "finite (held s)"
      using finite_univ held_univ [OF Suc.prems(1)] by (rule finite_subset [rotated])
    ultimately have "n + card (held s1) \<le> card univ" using Suc.prems(2) s1(2) by simp
    from Suc.IH [OF s1(1) this] r1 Some show ?thesis by (cases "reserve_many reserve n s1") simp
  qed
qed simp

lemma release_all:
  "ok s \<Longrightarrow> distinct rs \<Longrightarrow> set rs \<subseteq> owned s \<Longrightarrow>
     ok (fold release rs s) \<and> owned (fold release rs s) = owned s - set rs"
proof (induction rs arbitrary: s)
  case (Cons r rs)
  with release_ok [of s r] have "ok (release r s)" "owned (release r s) = owned s - {r}" by auto
  with Cons show ?case by auto
qed simp

text \<open>Reserving and returning everything, in any order, leaves the pool as it was.\<close>

lemma reserve_release:
  assumes "ok s" and "reserve_many reserve n s = (rs, s')" and "set qs = set rs" and "distinct qs"
  shows "ok (fold release qs s') \<and> held (fold release qs s') = held s"
proof -
  from many_distinct [OF assms(1,2)] have m: "ok s'" "owned s' = set rs \<union> owned s"
    "ident ` set rs \<inter> held s = {}" by auto
  with release_all [of s' qs] assms(3,4)
  have r: "ok (fold release qs s')" "owned (fold release qs s') = owned s' - set rs" by auto
  from m(3) held_owned [OF assms(1)] have "set rs \<inter> owned s = {}" by auto
  with m(2) r(2) have "owned (fold release qs s') = owned s" by auto
  with r(1) assms(1) held_owned show ?thesis by metis
qed

end

text \<open>The keeper as a pool, in a calm world.\<close>

definition pool_reserve ::
  "ident_keeper \<times> 'm world_scheme \<Rightarrow> ident_keeper_reservation option \<times> ident_keeper \<times> 'm world_scheme" where
  "pool_reserve s = ik_reserve (fst s) (snd s)"

definition pool_dispose ::
  "ident_keeper_reservation \<Rightarrow> ident_keeper \<times> 'm world_scheme \<Rightarrow> ident_keeper \<times> 'm world_scheme" where
  "pool_dispose r s = snd (ik_dispose (fst s) r (snd s))"

definition pool_ok :: "u64 \<Rightarrow> u64 \<Rightarrow> ident_keeper \<times> 'm world_scheme \<Rightarrow> bool" where
  "pool_ok lo hi s \<longleftrightarrow> ik_inv (fst s) \<and> ik_tail (fst s) \<and> calm (snd s) \<and>
     ik_min (fst s) = lo \<and> ik_max (fst s) = hi"

lemma ik_held_range:
  assumes "ik_core ik" and "i \<in> ik_held ik" shows "ik_min ik \<le> i \<and> i \<le> ik_max ik"
proof -
  from assms have "ik_min ik \<le> i" "i < ik_max ik + 1" by (auto simp: ik_core_def)
  then show ?thesis by unat_arith
qed

lemma sorted_map_inj: "sorted_wrt (<) (map f xs) \<Longrightarrow> inj_on (f :: 'a \<Rightarrow> 'b :: linorder) (set xs)"
  by (metis distinct_map strict_sorted_iff)

lemma ik_distinct: "ik_core ik \<Longrightarrow> distinct (ik_reservations ik)"
  by (metis distinct_map ik_core_def strict_sorted_iff)

lemma ik_reserve_pool:
  assumes "pool_ok lo hi (ik, w)" and "ik_reserve ik w = (res, ik', w')"
  shows "pool_ok lo hi (ik', w') \<and>
    (case res of
       Some r \<Rightarrow> ikr_ident r \<notin> ik_held ik \<and> set (ik_reservations ik') = insert r (set (ik_reservations ik))
     | None \<Rightarrow> ik_reservations ik' = ik_reservations ik \<and> {lo..hi} \<subseteq> ik_held ik)"
proof -
  from assms(1) have a: "ik_inv ik" "ik_tail ik" "calm w" "ik_min ik = lo" "ik_max ik = hi"
    by (simp_all add: pool_ok_def)
  then have core: "ik_core ik" by (simp add: ik_inv_def)
  from a(1,3) assms(2) show ?thesis
  proof (cases rule: ik_reserve_calm)
    case (got r)
    then show ?thesis using a by (simp add: pool_ok_def)
  next
    case none
    then show ?thesis using a ik_full_range [OF core a(2)] by (auto simp: pool_ok_def)
  qed
qed

interpretation kp: ident_pool pool_reserve pool_dispose ikr_ident
    "\<lambda>s. set (ik_reservations (fst s))" "\<lambda>s. ik_held (fst s)" "pool_ok lo hi" "{lo..hi}"
  for lo hi :: u64
proof unfold_locales
  fix s :: "ident_keeper \<times> 'm world_scheme" and r s'
  assume ok: "pool_ok lo hi s"
  then have core: "ik_core (fst s)" and inv: "ik_inv (fst s)" by (simp_all add: pool_ok_def ik_inv_def)
  show "ik_held (fst s) \<subseteq> {lo..hi}"
    using ok ik_held_range [OF core] by (auto simp: pool_ok_def)
  show "inj_on ikr_ident (set (ik_reservations (fst s)))"
    using core by (auto simp: ik_core_def intro: sorted_map_inj)
  show "pool_ok lo hi s' \<and> ikr_ident r \<notin> ik_held (fst s) \<and>
      set (ik_reservations (fst s')) = insert r (set (ik_reservations (fst s)))"
    if "pool_reserve s = (Some r, s')"
    using ik_reserve_pool [of lo hi "fst s" "snd s" "Some r" "fst s'" "snd s'"] ok that
    by (simp add: pool_reserve_def)
  show "pool_ok lo hi s' \<and> set (ik_reservations (fst s')) = set (ik_reservations (fst s)) \<and>
      {lo..hi} \<subseteq> ik_held (fst s)"
    if "pool_reserve s = (None, s')"
    using ik_reserve_pool [of lo hi "fst s" "snd s" None "fst s'" "snd s'"] ok that
    by (simp add: pool_reserve_def)
  show "pool_ok lo hi (pool_dispose r s) \<and>
      set (ik_reservations (fst (pool_dispose r s))) = set (ik_reservations (fst s)) - {r}"
    if "r \<in> set (ik_reservations (fst s))"
  proof -
    obtain res k w where d: "ik_dispose (fst s) r (snd s) = (res, k, w)" by (metis prod_cases3)
    from ok have "calm (snd s)" "ik_tail (fst s)" by (simp_all add: pool_ok_def)
    with ik_dispose_calm [OF inv that _ d] ok ik_distinct [OF core] d show ?thesis
      by (simp add: pool_dispose_def pool_ok_def)
  qed
qed (simp_all add: ik_held_def)

text \<open>The keeper \<open>ik_new\<close> makes.\<close>

definition ik_fresh :: "u64 \<Rightarrow> u64 \<Rightarrow> (u64 \<Rightarrow> bool) option \<Rightarrow> ident_keeper" where
  "ik_fresh lo hi chk = \<lparr>ik_mtx = False, ik_min = lo, ik_max = hi, ik_counter = 0, ik_next = lo,
     ik_check = chk, ik_reservations = []\<rparr>"

lemma ik_new_calm:
  "calm w \<Longrightarrow> lo \<le> hi \<Longrightarrow> ik_new lo hi chk w = (Some (ik_fresh lo hi chk), tock (tock w))"
  by (simp add: ik_new_def ik_fresh_def calm_simps)

lemma pool_ok_fresh:
  assumes "calm w" and "lo \<le> hi" and "hi < -1"
  shows "pool_ok lo hi (ik_fresh lo hi chk, w)"
proof -
  from assms(3) have "hi < hi + 1" by (rule u64_less_succ)
  with assms(2) have "lo \<le> hi + 1" by simp
  with assms show ?thesis
    by (simp add: pool_ok_def ik_inv_def ik_core_def ik_held_def ik_tail_def ik_fresh_def)
qed

lemma ik_held_fresh [simp]: "ik_held (ik_fresh lo hi chk) = {}"
  by (simp add: ik_held_def ik_fresh_def)

lemma ik_held_finite: "finite (ik_held ik)"
  by (simp add: ik_held_def)

section \<open>Properties\<close>

text \<open>C23: A keeper over \<open>lo..hi\<close> grants every one of \<open>n\<close> reservations in a row while identifiers are
  left, they are pairwise different, lie in the range and were not in use; returning all of them in
  any order restores the set of identifiers in use.\<close>

theorem ik_pool_contract:
  assumes "pool_ok lo hi (ik, w)" and "n + card (ik_held ik) \<le> card {lo..hi}"
    and "reserve_many pool_reserve n (ik, w) = (rs, s)"
    and "set qs = set rs" and "distinct qs"
  shows "length rs = n \<and> distinct (map ikr_ident rs) \<and> ikr_ident ` set rs \<subseteq> {lo..hi} - ik_held ik \<and>
    ik_held (fst (fold pool_dispose qs s)) = ik_held ik \<and> \<not> ik_mtx (fst (fold pool_dispose qs s))"
proof -
  have "length rs = n"
    using kp.many_length [of lo hi "(ik, w)" n] assms(1-3) by simp
  moreover have "distinct (map ikr_ident rs) \<and> ikr_ident ` set rs \<subseteq> {lo..hi} - ik_held ik"
    using kp.many_distinct [OF assms(1,3)] by auto
  moreover have "pool_ok lo hi (fold pool_dispose qs s) \<and> ik_held (fst (fold pool_dispose qs s)) = ik_held ik"
    using kp.reserve_release [OF assms(1,3-5)] by simp
  ultimately show ?thesis by (simp add: pool_ok_def ik_inv_def)
qed

theorem ik_pool_contract_witness:
  "length (fst (reserve_many pool_reserve 3 (ik_fresh 10 12 None, world0 calm_os))) = 3"
proof -
  have ok: "pool_ok 10 12 (ik_fresh 10 12 None, world0 calm_os)" by (rule pool_ok_fresh) simp_all
  have "card {10, 11, 12 :: u64} \<le> card {10..12 :: u64}" by (rule card_mono) auto
  then have c: "3 + card (ik_held (ik_fresh 10 12 None)) \<le> card {10..12 :: u64}" by simp
  obtain rs s where r: "reserve_many pool_reserve 3 (ik_fresh 10 12 None, world0 calm_os) = (rs, s)"
    by (cases "reserve_many pool_reserve 3 (ik_fresh 10 12 None, world0 calm_os)")
  have "distinct rs"
    using kp.many_distinct [OF ok r] by (simp add: distinct_map)
  from ik_pool_contract [OF ok c r refl this] r show ?thesis by simp
qed

text \<open>\<open>ik_reserve\<close> on a keeper that satisfies the invariant gives a reservation of an identifier of
  the range that no other reservation has, and keeps the invariant; it refuses, changing nothing,
  exactly when every identifier of the range is reserved.\<close>

theorem ik_reserve_spec:
  assumes "pool_ok lo hi (ik, w)" and "ik_reserve ik w = (res, ik', w')"
  shows "pool_ok lo hi (ik', w') \<and>
    (res = None \<longleftrightarrow> {lo..hi} \<subseteq> ik_held ik) \<and>
    (case res of
       None \<Rightarrow> ik' = ik
     | Some r \<Rightarrow> ikr_ident r \<in> {lo..hi} - ik_held ik \<and>
         set (ik_reservations ik') = insert r (set (ik_reservations ik)) \<and>
         ik_held ik' = insert (ikr_ident r) (ik_held ik))"
proof -
  from assms(1) have a: "ik_inv ik" "calm w" "ik_min ik = lo" "ik_max ik = hi" "ik_tail ik"
    by (simp_all add: pool_ok_def)
  then have core: "ik_core ik" by (simp add: ik_inv_def)
  have ok: "pool_ok lo hi (ik', w')" using ik_reserve_pool [OF assms] by simp
  from a(1,2) assms(2) show ?thesis
  proof (cases rule: ik_reserve_calm)
    case (got r)
    then show ?thesis using a(3,4) ok by auto
  next
    case none
    then show ?thesis using ik_full_range [OF core a(5)] a(3,4) ok by auto
  qed
qed

theorem ik_reserve_spec_witness:
  "\<exists>r ik' w'. ik_reserve (ik_fresh 10 12 None) (world0 calm_os) = (Some r, ik', w') \<and>
     ikr_ident r \<in> {10..12}"
proof -
  obtain res ik' w' where run: "ik_reserve (ik_fresh 10 12 None) (world0 calm_os) = (res, ik', w')"
    by (metis prod_cases3)
  have "pool_ok 10 12 (ik_fresh 10 12 None, world0 calm_os)" by (rule pool_ok_fresh) simp_all
  from ik_reserve_spec [OF this run] run show ?thesis by (cases res) auto
qed

text \<open>\<open>ik_dispose\<close> of a live reservation succeeds, frees its identifier and no other, removes
  exactly that reservation and keeps the invariant, the mutex free included.\<close>

theorem ik_dispose_spec:
  assumes "pool_ok lo hi (ik, w)" and "r \<in> set (ik_reservations ik)"
    and "ik_dispose ik r w = (res, ik', w')"
  shows "res = 0 \<and> pool_ok lo hi (ik', w') \<and> ik_held ik' = ik_held ik - {ikr_ident r} \<and>
    ik_reservations ik' = remove1 r (ik_reservations ik)"
proof -
  from assms(1) have a: "ik_inv ik" "calm w" by (simp_all add: pool_ok_def)
  show ?thesis
    using ik_dispose_calm [OF a(1) assms(2) a(2) assms(3)] assms(1) by (simp add: pool_ok_def)
qed

text \<open>A keeper whose first two of three identifiers are in use.\<close>

definition ik_demo :: ident_keeper where
  "ik_demo = (ik_fresh 10 12 (Some (\<lambda>_. False)))
     \<lparr>ik_counter := 2, ik_next := 12,
      ik_reservations := [\<lparr>ikr_id = 0, ikr_ident = 10\<rparr>, \<lparr>ikr_id = 1, ikr_ident = 11\<rparr>]\<rparr>"

lemma pool_ok_demo: "pool_ok 10 12 (ik_demo, world0 calm_os)"
  by (auto simp: pool_ok_def ik_demo_def ik_fresh_def ik_inv_def ik_core_def ik_held_def ik_tail_def)

theorem ik_dispose_spec_witness:
  "\<exists>ik' w'. ik_dispose ik_demo \<lparr>ikr_id = 0, ikr_ident = 10\<rparr> (world0 calm_os) = (0, ik', w') \<and>
     ik_held ik' = {11}"
proof -
  let ?r = "\<lparr>ikr_id = 0, ikr_ident = 10\<rparr>"
  obtain res ik' w' where run: "ik_dispose ik_demo ?r (world0 calm_os) = (res, ik', w')"
    by (metis prod_cases3)
  have "?r \<in> set (ik_reservations ik_demo)" by (simp add: ik_demo_def)
  from ik_dispose_spec [OF pool_ok_demo this run] run show ?thesis
    by (auto simp: ik_demo_def ik_held_def)
qed

text \<open>Validating a reservation whose identifier the check rejects, in a pool with no identifier
  left: the search finds the identifier it just gave up and hands it back as valid; only the last
  identifier of the range is not found again.\<close>

theorem ik_validate_full_pool:
  assumes "pool_ok lo hi (ik, w)" and "r \<in> set (ik_reservations ik)"
    and "ik_rejects ik (ikr_ident r)" and "{lo..hi} \<subseteq> ik_held ik" and "ikr_ident r < hi"
  shows "\<exists>ik' w'. ik_validate_reservation ik r w = (0, ik', Some r, w') \<and> ik_held ik' = ik_held ik"
proof -
  let ?rs = "ik_reservations ik"
  let ?k = "ik\<lparr>ik_mtx := True, ik_reservations := remove1 r ?rs\<rparr>"
  from assms(1) have a: "ik_core ik" "ik_tail ik" "calm w" "ik_min ik = lo" "ik_max ik = hi"
    "\<not> ik_mtx ik" by (simp_all add: pool_ok_def ik_inv_def)
  have hi: "hi \<in> ik_held ik"
    using assms(4) a(1,4,5) by (auto simp: ik_core_def)
  then have nomore: "\<not> ik_next ik \<le> hi"
    using a(1,5) by (auto simp: ik_core_def)
  have sorted: "sorted_wrt (<) (map ikr_ident ?rs)" using a(1) by (simp add: ik_core_def)
  have none: "gap_scan lo ?rs = None"
  proof (rule ccontr)
    assume "gap_scan lo ?rs \<noteq> None"
    then obtain g where g: "gap_scan lo ?rs = Some g" by blast
    have "\<forall>x \<in> set ?rs. lo \<le> ikr_ident x" using a(1,4) by (auto simp: ik_core_def ik_held_def)
    from gap_scan_Some [OF g sorted this] obtain x where
      x: "g \<notin> ik_held ik" "lo \<le> g" "x \<in> set ?rs" "g < ikr_ident x" by (auto simp: ik_held_def)
    then have "g \<le> hi" using ik_held_range [OF a(1), of "ikr_ident x"] a(5)
      by (auto simp: ik_held_def)
    with x(1,2) assms(4) show False by auto
  qed
  have "\<exists>x \<in> set ?rs. ikr_ident r < ikr_ident x" using hi assms(5) by (auto simp: ik_held_def)
  with gap_scan_remove [OF none sorted assms(2)]
  have nx: "ik_next_ident_locked ?k (set_errno E0 (tock w)) = (ikr_ident r, ?k, set_errno E0 (tock w))"
    using nomore a(4,5) by (simp add: ik_next_ident_locked_def)
  have core: "ik_core (ik\<lparr>ik_mtx := True\<rparr>)" using a(1) by (simp add: ik_core_def ik_held_def)
  have "ikr_ident r \<noteq> -1" using assms(5) word_order.extremum_strict by fastforce
  then show ?thesis
    using ik_validate_calm [OF a(6,3) assms(3) core nx] assms(2) remove1_idents [OF sorted assms(2)]
    by (auto simp: ik_held_def)
qed

theorem ik_validate_full_pool_witness:
  "\<exists>ik' w'. ik_validate_reservation
       (ik_demo\<lparr>ik_next := 13, ik_reservations := ik_reservations ik_demo @ [\<lparr>ikr_id = 2, ikr_ident = 12\<rparr>]\<rparr>)
       \<lparr>ikr_id = 0, ikr_ident = 10\<rparr> (world0 calm_os)
     = (0, ik', Some \<lparr>ikr_id = 0, ikr_ident = 10\<rparr>, w')"
proof -
  let ?k = "ik_demo\<lparr>ik_next := 13, ik_reservations := ik_reservations ik_demo @ [\<lparr>ikr_id = 2, ikr_ident = 12\<rparr>]\<rparr>"
  let ?r = "\<lparr>ikr_id = 0, ikr_ident = 10\<rparr>"
  have ok: "pool_ok 10 12 (?k, world0 calm_os)"
    by (auto simp: pool_ok_def ik_demo_def ik_fresh_def ik_inv_def ik_core_def ik_held_def ik_tail_def)
  have mem: "?r \<in> set (ik_reservations ?k)" and rej: "ik_rejects ?k (ikr_ident ?r)"
    by (simp_all add: ik_demo_def ik_rejects_def ik_fresh_def)
  have all: "{10..12} \<subseteq> ik_held ?k"
  proof
    fix x :: u64 assume "x \<in> {10..12}"
    then have "x = 10 \<or> x = 11 \<or> x = 12" by (simp add: word_le_nat_alt word_unat_eq_iff) arith
    then show "x \<in> ik_held ?k" by (auto simp: ik_held_def ik_demo_def)
  qed
  from ik_validate_full_pool [OF ok mem rej all] show ?thesis by auto
qed

text \<open>When \<open>malloc\<close> fails, \<open>ik_reserve\<close> returns with the mutex locked and the identifier used up,
  and from then on every call for this keeper by this thread fails.\<close>

theorem ik_reserve_leaks_lock:
  assumes "\<not> ik_mtx ik" and "ik_next ik \<le> ik_max ik"
    and "\<forall>n. os_lock (w_os w) n" and "\<forall>n. \<not> os_malloc (w_os w) n"
    and "ik_reserve ik w = (res, ik', w')"
  shows "res = None \<and> ik_mtx ik' \<and> ik_next ik' = ik_next ik + 1 \<and>
    ik_reservations ik' = ik_reservations ik \<and>
    fst (ik_reserve ik' w'') = None \<and> fst (ik_dispose ik' r w'') = -1"
proof -
  let ?k = "ik\<lparr>ik_mtx := True, ik_next := ik_next ik + 1\<rparr>"
  have "ik_reserve ik w = (None, ?k, set_errno ENOMEM (tock (set_errno E0 (tock w))))"
    using assms(1-4)
    by (simp add: ik_reserve_def lock_ok malloc_fails ik_next_ident_locked_def)
  with assms(5) have k: "res = None" "ik' = ?k" by auto
  then show ?thesis by (simp add: ik_reserve_def ik_dispose_def)
qed

theorem ik_reserve_leaks_lock_witness:
  "ik_mtx (fst (snd (ik_reserve ik_demo (world0 (calm_os\<lparr>os_malloc := \<lambda>_. False\<rparr>)))))"
proof -
  let ?w = "world0 (calm_os\<lparr>os_malloc := \<lambda>_. False\<rparr>)"
  obtain res ik' w' where run: "ik_reserve ik_demo ?w = (res, ik', w')" by (metis prod_cases3)
  have "\<not> ik_mtx ik_demo" "ik_next ik_demo \<le> ik_max ik_demo"
    by (simp_all add: ik_demo_def ik_fresh_def)
  moreover have "\<forall>n. os_lock (w_os ?w) n" "\<forall>n. \<not> os_malloc (w_os ?w) n"
    by (simp_all add: world0_def calm_os_def)
  ultimately have "ik_mtx ik'" using ik_reserve_leaks_lock [OF _ _ _ _ run] by blast
  with run show ?thesis by simp
qed

end
