(* ===== verification/Config_Core.thy ===== *)
theory Config_Core
  imports Os_World
begin

text \<open>
  \<open>src/libconfig/config_core.c\<close> with the devices of \<open>config_block.c\<close>, \<open>config_network.c\<close> and
  \<open>config_controller.c\<close>: the parameters of one virtual machine as \<open>bhyve\<close> understands them.

  A member of a union is a constructor, \<open>PciZero\<close> is the union that \<open>bzero\<close> leaves. The slots of a vm are
  a singly linked list; a pointer to an element is the list from that element on, so a null pointer
  is the empty list. A function that would dereference a null pointer has the result \<open>None\<close>.
\<close>

section \<open>Data\<close>

definition BPC_NAME_MAX :: nat where "BPC_NAME_MAX = 255"

datatype bhyve_parameters_hostbridge_t = HOSTBRIDGE | HOSTBRIDGE_AMD

datatype bhyve_parameters_block_t =
  TYPE_BLOCK_VIRTIO | TYPE_BLOCK_VIRTIO_SCSI | TYPE_BLOCK_VIRTIO_9P | TYPE_BLOCK_AHCI_HD | TYPE_BLOCK_NVME

text \<open>The three kinds of block devices that can be made have a path first; their other members stay zero.\<close>

datatype block_data = BlockZero | VirtioBlk string | Nvme string | AhciHd string

record bhyve_parameters_block =
  block_type :: bhyve_parameters_block_t
  block_data :: block_data

datatype bhyve_parameters_network_t = TYPE_NET_VIRTIO | TYPE_NET_E1000

datatype bhyve_parameters_network_backend_t =
  TYPE_NET_BACKEND_TAP | TYPE_NET_BACKEND_VMNET | TYPE_NET_BACKEND_NETGRAPH

datatype network_data = NetZero | Tap u16 | Vmnet u16

record bhyve_parameters_network =
  network_type :: bhyve_parameters_network_t
  backend_type :: bhyve_parameters_network_backend_t
  mac_address :: bytes
  mtu :: u8
  network_data :: network_data

datatype bhyve_parameters_controller_t = TYPE_XHCI

record bhyve_parameters_controller =
  controller_type :: bhyve_parameters_controller_t
  xhci_tablet :: bool

datatype bhyve_parameters_pcislot_t =
  TYPE_HOSTBRIDGE | TYPE_BLOCK | TYPE_NET | TYPE_CONTROL | TYPE_CDROM | TYPE_VNC | TYPE_ISABRIDGE | TYPE_INVALID

datatype pci_data =
  PciZero
| PciHostbridge bhyve_parameters_hostbridge_t
| PciBlock bhyve_parameters_block
| PciNetwork bhyve_parameters_network
| PciController bhyve_parameters_controller

record bhyve_parameters_pcislot =
  slot_type :: bhyve_parameters_pcislot_t
  bpp_bus :: u8
  bpp_pcislot :: u8
  bpp_function :: u8
  bpp_data :: pci_data

record bhyve_parameters_comport =
  com_portname :: string
  com_enabled :: bool
  com_backend :: string

record bhyve_parameters_bootrom =
  br_bootrom :: string
  br_with_vars :: bool
  br_varsfile :: string

record bhyve_parameters_core =
  bpc_generate_acpi_tables :: bool
  bpc_memory :: u32
  bpc_numcpus :: u16
  bpc_sockets :: u16
  bpc_cores :: u16
  bpc_yield_on_hlt :: bool
  bpc_wire_memory :: bool
  bpc_rtc_keeps_utc :: bool
  bpc_x2apic_mode :: bool
  bpc_vmname :: string
  bpc_comport :: "bhyve_parameters_comport list"
  bpc_bootrom :: bhyve_parameters_bootrom
  bpc_pcislots :: "bhyve_parameters_pcislot list"

record bhyve_parameters_pcislot_iter =
  bppi_current :: "bhyve_parameters_pcislot list"
  bppi_first :: "bhyve_parameters_pcislot list"

section \<open>Making and reading the parameters\<close>

definition com_zero :: bhyve_parameters_comport where
  "com_zero = \<lparr>com_portname = [], com_enabled = False, com_backend = []\<rparr>"

definition bpc_new ::
  "string option \<Rightarrow> 'm world_scheme \<Rightarrow> bhyve_parameters_core option \<times> 'm world_scheme" where
  "bpc_new vmname w =
     (case vmname of
        None \<Rightarrow> (None, set_errno EINVAL w)
      | Some n \<Rightarrow>
          (let (ok, w1) = sys_malloc w
           in (if ok
               then Some \<lparr>bpc_generate_acpi_tables = False, bpc_memory = 0, bpc_numcpus = 0, bpc_sockets = 0,
                      bpc_cores = 0, bpc_yield_on_hlt = False, bpc_wire_memory = False,
                      bpc_rtc_keeps_utc = False, bpc_x2apic_mode = False, bpc_vmname = strncpy_buf BPC_NAME_MAX n, bpc_comport = replicate 4 com_zero,
                      bpc_bootrom = \<lparr>br_bootrom = [], br_with_vars = False, br_varsfile = []\<rparr>,
                      bpc_pcislots = []\<rparr>
               else None, w1)))"

text \<open>A read that refuses a null pointer, and a write that does.\<close>

definition getter :: "'r \<Rightarrow> ('a \<Rightarrow> 'r) \<Rightarrow> 'a option \<Rightarrow> 'm world_scheme \<Rightarrow> 'r \<times> 'm world_scheme" where
  "getter bad get p w = (case p of None \<Rightarrow> (bad, set_errno EINVAL w) | Some x \<Rightarrow> (get x, w))"

definition setter :: "('a \<Rightarrow> 'a) \<Rightarrow> 'a option \<Rightarrow> 'm world_scheme \<Rightarrow> int \<times> 'a option \<times> 'm world_scheme" where
  "setter f p w = null_guard (Some EINVAL) (-1) (\<lambda>x w'. (0, f x, w')) p w"

lemma getter_simps [simp]: "getter bad get (Some x) w = (get x, w)" "getter bad get None w = (bad, set_errno EINVAL w)"
  by (simp_all add: getter_def)

lemma setter_simps [simp]: "setter f (Some x) w = (0, Some (f x), w)" "setter f None w = (-1, None, set_errno EINVAL w)"
  by (simp_all add: setter_def null_guard_def)

definition bpc_get_vmname :: "bhyve_parameters_core option \<Rightarrow> 'm world_scheme \<Rightarrow> string option \<times> 'm world_scheme" where
  "bpc_get_vmname bpc w = getter None (\<lambda>c. Some (bpc_vmname c)) bpc w"

definition bpc_get_bootrom ::
  "bhyve_parameters_core option \<Rightarrow> 'm world_scheme \<Rightarrow> bhyve_parameters_bootrom option \<times> 'm world_scheme" where
  "bpc_get_bootrom bpc w = getter None (\<lambda>c. Some (bpc_bootrom c)) bpc w"

definition bpc_set_bootrom ::
  "bhyve_parameters_core option \<Rightarrow> string option \<Rightarrow> bool \<Rightarrow> string option \<Rightarrow> 'm world_scheme
   \<Rightarrow> int \<times> bhyve_parameters_core option \<times> 'm world_scheme" where
  "bpc_set_bootrom bpc bootrom with_vars varsfile w =
     (case (bpc, bootrom) of
        (Some c, Some b) \<Rightarrow>
          (if with_vars \<and> varsfile = None then (-1, bpc, set_errno EINVAL w)
           else (0, Some (c\<lparr>bpc_bootrom := \<lparr>br_bootrom = strncpy_buf PATH_MAX b, br_with_vars = with_vars,
                   br_varsfile = (if with_vars then strncpy_buf PATH_MAX (the varsfile)
                                  else br_varsfile (bpc_bootrom c))\<rparr>\<rparr>), w))
      | _ \<Rightarrow> (-1, bpc, set_errno EINVAL w))"

definition bpc_get_comport ::
  "bhyve_parameters_core option \<Rightarrow> nat \<Rightarrow> 'm world_scheme \<Rightarrow> bhyve_parameters_comport option \<times> 'm world_scheme" where
  "bpc_get_comport bpc comport w =
     (case bpc of
        None \<Rightarrow> (None, set_errno EINVAL w)
      | Some c \<Rightarrow> (if 3 < comport then (None, set_errno EDOM w) else (Some (bpc_comport c ! comport), w)))"

definition bpc_enable_comport ::
  "bhyve_parameters_core option \<Rightarrow> string option \<Rightarrow> u8 \<Rightarrow> bool \<Rightarrow> 'm world_scheme
   \<Rightarrow> (int \<times> bhyve_parameters_core option \<times> 'm world_scheme) option" where
  "bpc_enable_comport bpc portname comport enabled w =
     (if 3 < comport then Some (-1, bpc, set_errno EDOM w)
      else (case (bpc, portname) of
              (Some c, Some n) \<Rightarrow>
                (let i = unat comport
                 in Some (0, Some (c\<lparr>bpc_comport := (bpc_comport c)[i := (bpc_comport c ! i)\<lparr>com_enabled := enabled,
                            com_portname := strncpy_buf BPC_NAME_MAX n\<rparr>]\<rparr>), w))
            | _ \<Rightarrow> None))"

definition bpc_set_comport_backend ::
  "bhyve_parameters_core option \<Rightarrow> u8 \<Rightarrow> string option \<Rightarrow> 'm world_scheme
   \<Rightarrow> (int \<times> bhyve_parameters_core option \<times> 'm world_scheme) option" where
  "bpc_set_comport_backend bpc comport backend w =
     (if 3 < comport then Some (-1, bpc, set_errno EDOM w)
      else (case (bpc, backend) of
              (Some c, Some b) \<Rightarrow>
                (let i = unat comport
                 in Some (0, Some (c\<lparr>bpc_comport := (bpc_comport c)[i := (bpc_comport c ! i)\<lparr>com_backend :=
                            strncpy_buf PATH_MAX b\<rparr>]\<rparr>), w))
            | _ \<Rightarrow> None))"

definition bpc_set_cpulayout ::
  "bhyve_parameters_core option \<Rightarrow> u16 \<Rightarrow> u16 \<Rightarrow> u16 \<Rightarrow> 'm world_scheme
   \<Rightarrow> int \<times> bhyve_parameters_core option \<times> 'm world_scheme" where
  "bpc_set_cpulayout bpc numcpus sockets cores w =
     setter (\<lambda>c. c\<lparr>bpc_numcpus := numcpus, bpc_sockets := sockets, bpc_cores := cores\<rparr>) bpc w"

definition bpc_set_numcpus ::
  "bhyve_parameters_core option \<Rightarrow> u16 \<Rightarrow> 'm world_scheme \<Rightarrow> int \<times> bhyve_parameters_core option \<times> 'm world_scheme" where
  "bpc_set_numcpus bpc numcpus w = setter (\<lambda>c. c\<lparr>bpc_numcpus := numcpus\<rparr>) bpc w"

definition bpc_set_sockets ::
  "bhyve_parameters_core option \<Rightarrow> u16 \<Rightarrow> 'm world_scheme \<Rightarrow> int \<times> bhyve_parameters_core option \<times> 'm world_scheme" where
  "bpc_set_sockets bpc sockets w = setter (\<lambda>c. c\<lparr>bpc_sockets := sockets\<rparr>) bpc w"

definition bpc_set_cores ::
  "bhyve_parameters_core option \<Rightarrow> u16 \<Rightarrow> 'm world_scheme \<Rightarrow> int \<times> bhyve_parameters_core option \<times> 'm world_scheme" where
  "bpc_set_cores bpc cores w = setter (\<lambda>c. c\<lparr>bpc_cores := cores\<rparr>) bpc w"

definition bpc_get_numcpus :: "bhyve_parameters_core option \<Rightarrow> 'm world_scheme \<Rightarrow> u16 \<times> 'm world_scheme" where
  "bpc_get_numcpus bpc w = getter 0 bpc_numcpus bpc w"

definition bpc_get_sockets :: "bhyve_parameters_core option \<Rightarrow> 'm world_scheme \<Rightarrow> u16 \<times> 'm world_scheme" where
  "bpc_get_sockets bpc w = getter 0 bpc_sockets bpc w"

definition bpc_get_cores :: "bhyve_parameters_core option \<Rightarrow> 'm world_scheme \<Rightarrow> u16 \<times> 'm world_scheme" where
  "bpc_get_cores bpc w = getter 0 bpc_cores bpc w"

definition bpc_set_memory ::
  "bhyve_parameters_core option \<Rightarrow> u32 \<Rightarrow> 'm world_scheme \<Rightarrow> int \<times> bhyve_parameters_core option \<times> 'm world_scheme" where
  "bpc_set_memory bpc memory w = setter (\<lambda>c. c\<lparr>bpc_memory := memory\<rparr>) bpc w"

definition bpc_get_memory :: "bhyve_parameters_core option \<Rightarrow> 'm world_scheme \<Rightarrow> u32 \<times> 'm world_scheme" where
  "bpc_get_memory bpc w = getter (-1) bpc_memory bpc w"

text \<open>Two of the getters of flags return \<open>-1\<close> for a null pointer, which is true as a \<open>bool\<close>.\<close>

definition bpc_set_yieldonhlt ::
  "bhyve_parameters_core option \<Rightarrow> bool \<Rightarrow> 'm world_scheme \<Rightarrow> int \<times> bhyve_parameters_core option \<times> 'm world_scheme" where
  "bpc_set_yieldonhlt bpc yield w = setter (\<lambda>c. c\<lparr>bpc_yield_on_hlt := yield\<rparr>) bpc w"

definition bpc_get_yieldonhlt :: "bhyve_parameters_core option \<Rightarrow> 'm world_scheme \<Rightarrow> bool \<times> 'm world_scheme" where
  "bpc_get_yieldonhlt bpc w = getter True bpc_yield_on_hlt bpc w"

definition bpc_set_generateacpi ::
  "bhyve_parameters_core option \<Rightarrow> bool \<Rightarrow> 'm world_scheme \<Rightarrow> int \<times> bhyve_parameters_core option \<times> 'm world_scheme" where
  "bpc_set_generateacpi bpc acpi_tables w = setter (\<lambda>c. c\<lparr>bpc_generate_acpi_tables := acpi_tables\<rparr>) bpc w"

definition bpc_get_generateacpi :: "bhyve_parameters_core option \<Rightarrow> 'm world_scheme \<Rightarrow> bool \<times> 'm world_scheme" where
  "bpc_get_generateacpi bpc w = getter True bpc_generate_acpi_tables bpc w"

definition bpc_set_wired ::
  "bhyve_parameters_core option \<Rightarrow> bool \<Rightarrow> 'm world_scheme \<Rightarrow> int \<times> bhyve_parameters_core option \<times> 'm world_scheme" where
  "bpc_set_wired bpc wired w = setter (\<lambda>c. c\<lparr>bpc_wire_memory := wired\<rparr>) bpc w"

definition bpc_get_wired :: "bhyve_parameters_core option \<Rightarrow> 'm world_scheme \<Rightarrow> bool \<times> 'm world_scheme" where
  "bpc_get_wired bpc w = getter False bpc_wire_memory bpc w"

section \<open>PCI slots\<close>

definition bpp_new_pcislot ::
  "bhyve_parameters_pcislot_t \<Rightarrow> 'm world_scheme \<Rightarrow> bhyve_parameters_pcislot option \<times> 'm world_scheme" where
  "bpp_new_pcislot ty w =
     (let (ok, w') = sys_malloc w
      in (if ok then Some \<lparr>slot_type = ty, bpp_bus = 0, bpp_pcislot = 0, bpp_function = 0, bpp_data = PciZero\<rparr>
          else None, w'))"

definition bpp_new_isabridge :: "'m world_scheme \<Rightarrow> bhyve_parameters_pcislot option \<times> 'm world_scheme" where
  "bpp_new_isabridge w = bpp_new_pcislot TYPE_ISABRIDGE w"

definition bpp_new_hostbridge ::
  "bhyve_parameters_hostbridge_t \<Rightarrow> 'm world_scheme \<Rightarrow> bhyve_parameters_pcislot option \<times> 'm world_scheme" where
  "bpp_new_hostbridge ty w =
     (let (bpp, w') = bpp_new_pcislot TYPE_HOSTBRIDGE w
      in (map_option (\<lambda>b. b\<lparr>bpp_data := PciHostbridge ty\<rparr>) bpp, w'))"

definition bpp_get_slottype ::
  "bhyve_parameters_pcislot option \<Rightarrow> 'm world_scheme \<Rightarrow> bhyve_parameters_pcislot_t \<times> 'm world_scheme" where
  "bpp_get_slottype bpp w = getter TYPE_INVALID slot_type bpp w"

text \<open>The type of the bridge, that is the one member of the structure the pointer would lead to.\<close>

definition bpp_get_hostbridge ::
  "bhyve_parameters_pcislot option \<Rightarrow> 'm world_scheme
   \<Rightarrow> bhyve_parameters_hostbridge_t option \<times> 'm world_scheme" where
  "bpp_get_hostbridge bpp w =
     (case bpp of
        None \<Rightarrow> (None, set_errno EINVAL w)
      | Some b \<Rightarrow>
          (let (ty, w1) = bpp_get_slottype bpp w
           in (if ty \<noteq> TYPE_HOSTBRIDGE then None
               else Some (case bpp_data b of PciHostbridge h \<Rightarrow> h | _ \<Rightarrow> HOSTBRIDGE), w1)))"

definition bpp_controller_new_xhci ::
  "bhyve_parameters_controller option \<Rightarrow> bool \<Rightarrow> 'm world_scheme
   \<Rightarrow> int \<times> bhyve_parameters_controller option \<times> 'm world_scheme" where
  "bpp_controller_new_xhci contr tablet w =
     setter (\<lambda>c. c\<lparr>controller_type := TYPE_XHCI, xhci_tablet := tablet\<rparr>) contr w"

definition bpp_new_xhci :: "bool \<Rightarrow> 'm world_scheme \<Rightarrow> bhyve_parameters_pcislot option \<times> 'm world_scheme" where
  "bpp_new_xhci tablet w =
     (let (bpp, w1) = bpp_new_pcislot TYPE_CONTROL w
      in case bpp of
           None \<Rightarrow> (None, w1)
         | Some b \<Rightarrow>
             (let (r, c, w2) = bpp_controller_new_xhci (Some \<lparr>controller_type = TYPE_XHCI, xhci_tablet = False\<rparr>) tablet w1
              in if r \<noteq> 0 then (None, w2) else (Some (b\<lparr>bpp_data := PciController (the c)\<rparr>), w2)))"

definition bpp_new_block :: "'m world_scheme \<Rightarrow> bhyve_parameters_pcislot option \<times> 'm world_scheme" where
  "bpp_new_block w = bpp_new_pcislot TYPE_BLOCK w"

text \<open>The block device of a slot, \<open>None\<close> for a slot of another type. All zero is a virtio device.\<close>

definition bpp_get_block :: "bhyve_parameters_pcislot \<Rightarrow> bhyve_parameters_block option" where
  "bpp_get_block bpp =
     (if slot_type bpp = TYPE_BLOCK
      then Some (case bpp_data bpp of PciBlock b \<Rightarrow> b | _ \<Rightarrow> \<lparr>block_type = TYPE_BLOCK_VIRTIO, block_data = BlockZero\<rparr>)
      else None)"

definition bpp_get_pciid ::
  "bhyve_parameters_pcislot option \<Rightarrow> 'm world_scheme \<Rightarrow> (u8 \<times> u8 \<times> u8) option \<times> 'm world_scheme" where
  "bpp_get_pciid bpp w = getter None (\<lambda>b. Some (bpp_bus b, bpp_pcislot b, bpp_function b)) bpp w"

definition bpc_addpcislot_at ::
  "bhyve_parameters_core option \<Rightarrow> u8 \<Rightarrow> u8 \<Rightarrow> u8 \<Rightarrow> bhyve_parameters_pcislot option \<Rightarrow> 'm world_scheme
   \<Rightarrow> int \<times> bhyve_parameters_core option \<times> 'm world_scheme" where
  "bpc_addpcislot_at bpc bus pcislot function bpp w =
     (case (bpc, bpp) of
        (Some c, Some b) \<Rightarrow>
          (0, Some (c\<lparr>bpc_pcislots := b\<lparr>bpp_bus := bus, bpp_pcislot := pcislot, bpp_function := function\<rparr>
                      # bpc_pcislots c\<rparr>), w)
      | _ \<Rightarrow> (-1, bpc, set_errno EINVAL w))"

section \<open>Iterating over the slots\<close>

definition bpc_iter_pcislots ::
  "bhyve_parameters_core option \<Rightarrow> 'm world_scheme \<Rightarrow> bhyve_parameters_pcislot_iter option \<times> 'm world_scheme" where
  "bpc_iter_pcislots bpc w =
     (case bpc of
        None \<Rightarrow> (None, set_errno EINVAL w)
      | Some c \<Rightarrow>
          (let (ok, w') = sys_malloc w
           in (if ok then Some \<lparr>bppi_current = [], bppi_first = bpc_pcislots c\<rparr> else None, w')))"

definition bppi_next :: "bhyve_parameters_pcislot_iter \<Rightarrow> bool \<times> bhyve_parameters_pcislot_iter" where
  "bppi_next bppi =
     (if bppi_first bppi \<noteq> [] then (True, bppi\<lparr>bppi_current := bppi_first bppi, bppi_first := []\<rparr>)
      else if bppi_first bppi = [] \<and> bppi_current bppi = [] then (False, bppi)
      else (let bppi' = bppi\<lparr>bppi_current := tl (bppi_current bppi)\<rparr> in (bppi_current bppi' \<noteq> [], bppi')))"

definition bppi_item ::
  "bhyve_parameters_pcislot_iter option \<Rightarrow> 'm world_scheme \<Rightarrow> bhyve_parameters_pcislot option \<times> 'm world_scheme" where
  "bppi_item bppi w =
     getter None (\<lambda>it. case bppi_current it of [] \<Rightarrow> None | b # _ \<Rightarrow> Some b) bppi w"

text \<open>
  Every loop over the slots has the head \<open>while (bppi_next(bppi))\<close> and begins with \<open>bpp = bppi_item(bppi)\<close>.
  Its body here says whether the loop goes on, and gives the variables it changes. Each step leaves
  fewer elements ahead, so the loop ends.
\<close>

definition bppi_left :: "bhyve_parameters_pcislot_iter \<Rightarrow> nat" where
  "bppi_left it = (if bppi_first it \<noteq> [] then length (bppi_first it) else length (bppi_current it) - 1)"

lemma bppi_left_next: "fst (bppi_next it) \<Longrightarrow> bppi_left (snd (bppi_next it)) < bppi_left it"
  by (cases "bppi_first it"; cases "bppi_current it") (auto simp: bppi_next_def bppi_left_def Let_def)

function while_slots ::
  "(bhyve_parameters_pcislot \<Rightarrow> 's \<Rightarrow> bool \<times> 's) \<Rightarrow> bhyve_parameters_pcislot_iter \<Rightarrow> 's \<Rightarrow> 's" where
  "while_slots body bppi s =
     (if fst (bppi_next bppi)
      then (let it = snd (bppi_next bppi); r = body (hd (bppi_current it)) s
            in if fst r then while_slots body it (snd r) else snd r)
      else s)"
  by pat_completeness auto
termination
  by (relation "measure (\<lambda>(_, it, _). bppi_left it)") (auto simp: bppi_left_next)

declare while_slots.simps [simp del]

text \<open>The loop runs through the list.\<close>

primrec run_slots :: "('a \<Rightarrow> 's \<Rightarrow> bool \<times> 's) \<Rightarrow> 'a list \<Rightarrow> 's \<Rightarrow> 's" where
  "run_slots body [] s = s"
| "run_slots body (b # bs) s = (let r = body b s in if fst r then run_slots body bs (snd r) else snd r)"

lemma while_slots_from:
  "while_slots body \<lparr>bppi_current = bs, bppi_first = []\<rparr> s = run_slots body (tl bs) s"
proof (induction bs arbitrary: s)
  case Nil
  show ?case by (subst while_slots.simps) (simp add: bppi_next_def)
next
  case (Cons b bs)
  then show ?case by (subst while_slots.simps) (cases bs; simp add: bppi_next_def Let_def)
qed

lemma while_slots_list [simp]:
  "while_slots body \<lparr>bppi_current = [], bppi_first = bs\<rparr> s = run_slots body bs s"
  by (subst while_slots.simps) (cases bs; simp add: bppi_next_def while_slots_from Let_def)

section \<open>Devices\<close>

definition bpp_new_block_generic ::
  "bhyve_parameters_block option \<Rightarrow> string option \<Rightarrow> bhyve_parameters_block_t \<Rightarrow> 'm world_scheme
   \<Rightarrow> int \<times> bhyve_parameters_block option \<times> 'm world_scheme" where
  "bpp_new_block_generic block storage_path ty w =
     (case (block, storage_path) of
        (Some b, Some p) \<Rightarrow>
          (let path = strncpy_buf PATH_MAX p
           in case ty of
                TYPE_BLOCK_VIRTIO \<Rightarrow> (0, Some \<lparr>block_type = ty, block_data = VirtioBlk path\<rparr>, w)
              | TYPE_BLOCK_NVME \<Rightarrow> (0, Some \<lparr>block_type = ty, block_data = Nvme path\<rparr>, w)
              | TYPE_BLOCK_AHCI_HD \<Rightarrow> (0, Some \<lparr>block_type = ty, block_data = AhciHd path\<rparr>, w)
              | _ \<Rightarrow> (-1, Some \<lparr>block_type = ty, block_data = BlockZero\<rparr>, set_errno EINVAL w))
      | _ \<Rightarrow> (-1, block, set_errno EINVAL w))"

definition bpp_new_block_virtioblk ::
  "bhyve_parameters_block option \<Rightarrow> string option \<Rightarrow> 'm world_scheme
   \<Rightarrow> int \<times> bhyve_parameters_block option \<times> 'm world_scheme" where
  "bpp_new_block_virtioblk block storage_path w = bpp_new_block_generic block storage_path TYPE_BLOCK_VIRTIO w"

definition bpp_new_block_nvme ::
  "bhyve_parameters_block option \<Rightarrow> string option \<Rightarrow> 'm world_scheme
   \<Rightarrow> int \<times> bhyve_parameters_block option \<times> 'm world_scheme" where
  "bpp_new_block_nvme block storage_path w = bpp_new_block_generic block storage_path TYPE_BLOCK_NVME w"

definition bpp_new_block_ahcihd ::
  "bhyve_parameters_block option \<Rightarrow> string option \<Rightarrow> 'm world_scheme
   \<Rightarrow> int \<times> bhyve_parameters_block option \<times> 'm world_scheme" where
  "bpp_new_block_ahcihd block storage_path w = bpp_new_block_generic block storage_path TYPE_BLOCK_AHCI_HD w"

definition bpp_new_network_generic ::
  "bhyve_parameters_network option \<Rightarrow> bhyve_parameters_network_t \<Rightarrow> bhyve_parameters_network_backend_t \<Rightarrow> u16
   \<Rightarrow> 'm world_scheme \<Rightarrow> int \<times> bhyve_parameters_network option \<times> 'm world_scheme" where
  "bpp_new_network_generic network interface_type backend ident w =
     (case network of
        None \<Rightarrow> (-1, None, set_errno EINVAL w)
      | Some n \<Rightarrow>
          (let n1 = n\<lparr>network_type := interface_type, backend_type := backend\<rparr>
           in case backend of
                TYPE_NET_BACKEND_TAP \<Rightarrow> (0, Some (n1\<lparr>network_data := Tap ident\<rparr>), w)
              | TYPE_NET_BACKEND_VMNET \<Rightarrow> (0, Some (n1\<lparr>network_data := Vmnet ident\<rparr>), w)
              | TYPE_NET_BACKEND_NETGRAPH \<Rightarrow> (-1, Some n1, set_errno EINVAL w)))"

definition bpp_new_network_tap ::
  "bhyve_parameters_network option \<Rightarrow> bhyve_parameters_network_t \<Rightarrow> u16 \<Rightarrow> 'm world_scheme
   \<Rightarrow> int \<times> bhyve_parameters_network option \<times> 'm world_scheme" where
  "bpp_new_network_tap network interface_type tap_id w =
     bpp_new_network_generic network interface_type TYPE_NET_BACKEND_TAP tap_id w"

definition bpp_new_network_vmnet ::
  "bhyve_parameters_network option \<Rightarrow> bhyve_parameters_network_t \<Rightarrow> u16 \<Rightarrow> 'm world_scheme
   \<Rightarrow> int \<times> bhyve_parameters_network option \<times> 'm world_scheme" where
  "bpp_new_network_vmnet network interface_type tap_id w =
     bpp_new_network_generic network interface_type TYPE_NET_BACKEND_VMNET tap_id w"

end
