(* ===== verification/Bhyve_Config.thy ===== *)
theory Bhyve_Config
  imports Os_World
begin

text \<open>
  \<open>src/libprocwatch/bhyve_config.c\<close>, \<open>bhyve_config_console.c\<close> and \<open>bhyve_config_object.c\<close>: what the
  daemon knows of a virtual machine, the consoles of one, the store of all configurations and the
  iterator over it. A store holds its list of configurations, newest first; reading the files and
  walking the directory are in \<open>Config_Parse\<close>.

  A \<open>char *\<close> member is an optional string, a \<open>char[PATH_MAX]\<close> member a string. A function that would
  dereference a null pointer has the result \<open>None\<close>.
\<close>

section \<open>Consoles\<close>

record bhyve_configuration_console =
  bcc_name :: "string option"
  bcc_enabled :: bool
  bcc_backend :: "string option"

type_synonym bhyve_configuration_console_list = "bhyve_configuration_console list"

definition bcc_get_name :: "bhyve_configuration_console \<Rightarrow> string option" where
  "bcc_get_name bcc = bcc_name bcc"

definition bcc_get_backend :: "bhyve_configuration_console \<Rightarrow> string option" where
  "bcc_get_backend bcc = bcc_backend bcc"

definition bcc_new_empty :: "'m world_scheme \<Rightarrow> bhyve_configuration_console option \<times> 'm world_scheme" where
  "bcc_new_empty w =
     (let (ok, w') = sys_malloc w
      in (if ok then Some \<lparr>bcc_name = None, bcc_enabled = False, bcc_backend = None\<rparr> else None, w'))"

definition bcc_new ::
  "string option \<Rightarrow> bool \<Rightarrow> 'm world_scheme
   \<Rightarrow> bhyve_configuration_console option \<times> 'm world_scheme" where
  "bcc_new name enabled w =
     (case name of
        None \<Rightarrow> (None, set_errno EINVAL w)
      | Some n \<Rightarrow>
          (let (ok, w1) = sys_malloc w
           in if \<not> ok then (None, w1)
              else (let (ok', w2) = sys_malloc w1
                    in if \<not> ok' then (None, w2)
                       else (Some \<lparr>bcc_name = Some n, bcc_enabled = enabled, bcc_backend = None\<rparr>, w2))))"

definition bccl_new :: "'m world_scheme \<Rightarrow> bhyve_configuration_console_list option \<times> 'm world_scheme" where
  "bccl_new w = (let (ok, w') = sys_malloc w in (if ok then Some [] else None, w'))"

definition bccl_add ::
  "bhyve_configuration_console_list option \<Rightarrow> bhyve_configuration_console option
   \<Rightarrow> int \<times> bhyve_configuration_console_list option" where
  "bccl_add bccl bcc =
     (case (bccl, bcc) of (Some l, Some c) \<Rightarrow> (0, Some (c # l)) | _ \<Rightarrow> (-1, bccl))"

fun bccl_nth_from :: "bhyve_configuration_console list \<Rightarrow> nat \<Rightarrow> nat \<Rightarrow> bhyve_configuration_console option" where
  "bccl_nth_from [] idx counter = None"
| "bccl_nth_from (c # cs) idx counter =
     (if counter = idx then Some c else bccl_nth_from cs idx (Suc counter))"

definition bccl_get_consolebyidx ::
  "bhyve_configuration_console_list \<Rightarrow> nat \<Rightarrow> 'm world_scheme
   \<Rightarrow> bhyve_configuration_console option \<times> 'm world_scheme" where
  "bccl_get_consolebyidx bccl idx w =
     (if 4 < idx then (None, set_errno EDOM w) else (bccl_nth_from bccl idx 0, w))"

definition bccl_count :: "bhyve_configuration_console_list option \<Rightarrow> nat" where
  "bccl_count bccl = (case bccl of None \<Rightarrow> 0 | Some l \<Rightarrow> foldl (\<lambda>n _. Suc n) 0 l)"

section \<open>Configurations\<close>

text \<open>
  The table \<open>bc_nvlist2config\<close> (\<open>Config_Parse\<close>) uses the place of \<open>cores\<close>, a 16-bit member followed by
  padding, as a pointer to a string; \<open>bc_cores_text\<close> is what those eight bytes point to.
\<close>

record bhyve_configuration =
  bc_name :: string
  bc_configfile :: string
  bc_scriptpath :: string
  bc_os :: "string option"
  bc_osversion :: "string option"
  bc_owner :: "string option"
  bc_group :: "string option"
  bc_description :: "string option"
  bc_maxrestart :: u32
  bc_maxrestarttime :: int
  bc_consoles :: "bhyve_configuration_console_list option"
  bc_autostart :: bool
  bc_bootrom :: "string option"
  bc_memory :: u32
  bc_numcpus :: u16
  bc_sockets :: u16
  bc_cores :: u16
  bc_cores_text :: "string option"
  bc_uid :: "u32 option"
  bc_gid :: "u32 option"
  bc_backing_filepath :: "string option"
  bc_generated_config :: "string option"
  bc_generate_acpi_tables :: bool
  bc_wire_memory :: bool
  bc_vmexit_on_halt :: bool
  bc_hostbridge :: "string option"

text \<open>The all-zero structure that \<open>bzero\<close> leaves.\<close>

definition bc_zero :: bhyve_configuration where
  "bc_zero = \<lparr>bc_name = [], bc_configfile = [], bc_scriptpath = [], bc_os = None, bc_osversion = None,
     bc_owner = None, bc_group = None, bc_description = None, bc_maxrestart = 0, bc_maxrestarttime = 0,
     bc_consoles = None, bc_autostart = False, bc_bootrom = None, bc_memory = 0, bc_numcpus = 0,
     bc_sockets = 0, bc_cores = 0,
     bc_cores_text = None, bc_uid = None, bc_gid = None, bc_backing_filepath = None, bc_generated_config = None,
     bc_generate_acpi_tables = False, bc_wire_memory = False, bc_vmexit_on_halt = False,
     bc_hostbridge = None\<rparr>"

text \<open>Copying an optional string into fresh memory; without memory \<open>strncpy\<close> gets a null pointer.\<close>

definition copy_opt :: "string option \<Rightarrow> 'm world_scheme \<Rightarrow> (string option \<times> 'm world_scheme) option" where
  "copy_opt s w =
     (case s of
        None \<Rightarrow> Some (None, w)
      | Some t \<Rightarrow> (let (ok, w') = sys_malloc w in if ok then Some (Some t, w') else None))"

definition bc_new ::
  "string option \<Rightarrow> string option \<Rightarrow> string option \<Rightarrow> string option \<Rightarrow> string option \<Rightarrow> string option
   \<Rightarrow> 'm world_scheme \<Rightarrow> (bhyve_configuration option \<times> 'm world_scheme) option" where
  "bc_new name configfile os osversion owner grp w =
     (case (name, configfile) of
        (Some n, Some f) \<Rightarrow>
          (let (ok, w1) = sys_malloc w
           in if \<not> ok then None
              else Option.bind (copy_opt os w1) (\<lambda>(os', w2).
                   Option.bind (copy_opt osversion w2) (\<lambda>(ver', w3).
                   Option.bind (copy_opt owner w3) (\<lambda>(owner', w4).
                   Option.bind (copy_opt grp w4) (\<lambda>(group', w5).
                     Some (Some (bc_zero\<lparr>bc_maxrestart := 3, bc_maxrestarttime := 30,
                             bc_name := strncpy_buf PATH_MAX n,
                             bc_configfile := strncpy_buf PATH_MAX f,
                             bc_os := os', bc_osversion := ver', bc_owner := owner',
                             bc_group := group'\<rparr>), w5))))))
      | _ \<Rightarrow> Some (None, set_errno EINVAL w))"

definition bc_get_name :: "bhyve_configuration \<Rightarrow> string" where
  "bc_get_name bc = bc_name bc"

definition bc_get_configfile :: "bhyve_configuration \<Rightarrow> string" where
  "bc_get_configfile bc = bc_configfile bc"

definition bc_get_scriptpath :: "bhyve_configuration \<Rightarrow> string" where
  "bc_get_scriptpath bc = bc_scriptpath bc"

definition bc_get_os :: "bhyve_configuration \<Rightarrow> string option" where
  "bc_get_os bc = bc_os bc"

definition bc_get_osversion :: "bhyve_configuration \<Rightarrow> string option" where
  "bc_get_osversion bc = bc_osversion bc"

definition bc_get_owner :: "bhyve_configuration \<Rightarrow> string option" where
  "bc_get_owner bc = bc_owner bc"

definition bc_get_group :: "bhyve_configuration \<Rightarrow> string option" where
  "bc_get_group bc = bc_group bc"

definition bc_get_description :: "bhyve_configuration \<Rightarrow> string option" where
  "bc_get_description bc = bc_description bc"

definition bc_get_generated_config :: "bhyve_configuration \<Rightarrow> string option" where
  "bc_get_generated_config bc = bc_generated_config bc"

definition bc_get_bootrom :: "bhyve_configuration \<Rightarrow> string option" where
  "bc_get_bootrom bc = bc_bootrom bc"

definition bc_get_hostbridge :: "bhyve_configuration \<Rightarrow> string option" where
  "bc_get_hostbridge bc = bc_hostbridge bc"

definition bc_get_numcpus :: "bhyve_configuration \<Rightarrow> u16" where
  "bc_get_numcpus bc = bc_numcpus bc"

definition bc_get_sockets :: "bhyve_configuration \<Rightarrow> u16" where
  "bc_get_sockets bc = bc_sockets bc"

definition bc_get_cores :: "bhyve_configuration \<Rightarrow> u16" where
  "bc_get_cores bc = bc_cores bc"

definition bc_get_memory :: "bhyve_configuration \<Rightarrow> u32" where
  "bc_get_memory bc = bc_memory bc"

definition bc_get_consolecount :: "bhyve_configuration \<Rightarrow> nat" where
  "bc_get_consolecount bc = bccl_count (bc_consoles bc)"

definition bc_get_consolelist :: "bhyve_configuration \<Rightarrow> bhyve_configuration_console_list option" where
  "bc_get_consolelist bc = bc_consoles bc"

definition bc_get_maxrestart :: "bhyve_configuration \<Rightarrow> u32" where
  "bc_get_maxrestart bc = bc_maxrestart bc"

definition bc_get_maxrestarttime :: "bhyve_configuration \<Rightarrow> int" where
  "bc_get_maxrestarttime bc = bc_maxrestarttime bc"

definition bc_get_backingfile :: "bhyve_configuration option \<Rightarrow> string option" where
  "bc_get_backingfile bc = (case bc of None \<Rightarrow> None | Some c \<Rightarrow> bc_backing_filepath c)"

definition bc_set_generated_config ::
  "bhyve_configuration option \<Rightarrow> string option \<Rightarrow> 'm world_scheme
   \<Rightarrow> int \<times> bhyve_configuration option \<times> 'm world_scheme" where
  "bc_set_generated_config bc generated_config w =
     (case bc of
        None \<Rightarrow> (-1, None, set_errno EINVAL w)
      | Some c \<Rightarrow>
          (case generated_config of
             None \<Rightarrow> (0, Some (c\<lparr>bc_generated_config := None\<rparr>), w)
           | Some g \<Rightarrow>
               (let (ok, w') = sys_malloc w
                in if ok then (0, Some (c\<lparr>bc_generated_config := Some g\<rparr>), w')
                   else (-1, Some (c\<lparr>bc_generated_config := None\<rparr>), w'))))"

definition bc_get_autostart ::
  "bhyve_configuration option \<Rightarrow> 'm world_scheme \<Rightarrow> bool \<times> 'm world_scheme" where
  "bc_get_autostart bc w =
     (case bc of None \<Rightarrow> (False, set_errno EINVAL w) | Some c \<Rightarrow> (bc_autostart c, w))"

definition bc_get_vmexithlt ::
  "bhyve_configuration option \<Rightarrow> 'm world_scheme \<Rightarrow> bool \<times> 'm world_scheme" where
  "bc_get_vmexithlt bc w =
     (case bc of None \<Rightarrow> (False, set_errno EINVAL w) | Some c \<Rightarrow> (bc_vmexit_on_halt c, w))"

definition bc_get_wired ::
  "bhyve_configuration option \<Rightarrow> 'm world_scheme \<Rightarrow> bool \<times> 'm world_scheme" where
  "bc_get_wired bc w =
     (case bc of None \<Rightarrow> (False, set_errno EINVAL w) | Some c \<Rightarrow> (bc_wire_memory c, w))"

definition bc_get_generateacpi ::
  "bhyve_configuration option \<Rightarrow> 'm world_scheme \<Rightarrow> bool \<times> 'm world_scheme" where
  "bc_get_generateacpi bc w =
     (case bc of None \<Rightarrow> (False, set_errno EINVAL w) | Some c \<Rightarrow> (bc_generate_acpi_tables c, w))"

text \<open>The user and group id behind the names, looked up once. (The result type is \<open>int\<close>.)\<close>

definition bc_getuid :: "bhyve_configuration \<Rightarrow> 'm world_scheme \<Rightarrow> int \<times> bhyve_configuration \<times> 'm world_scheme" where
  "bc_getuid bc w =
     (case (bc_uid bc, bc_owner bc) of
        (Some u, _) \<Rightarrow> (sint u, bc, w)
      | (None, None) \<Rightarrow> (-1, bc, w)
      | (None, Some owner) \<Rightarrow>
          (let (ok, w1) = sys_malloc w
           in if \<not> ok then (-1, bc, w1)
              else (let (pwd, w2) = ask (\<lambda>s n. os_getpwnam s n owner) w1
                    in case pwd of
                         None \<Rightarrow> (-1, bc, w2)
                       | Some u \<Rightarrow> (sint u, bc\<lparr>bc_uid := Some u\<rparr>, w2))))"

definition bc_getgid :: "bhyve_configuration \<Rightarrow> 'm world_scheme \<Rightarrow> int \<times> bhyve_configuration \<times> 'm world_scheme" where
  "bc_getgid bc w =
     (case (bc_gid bc, bc_group bc) of
        (Some g, _) \<Rightarrow> (sint g, bc, w)
      | (None, None) \<Rightarrow> (-1, bc, w)
      | (None, Some grp) \<Rightarrow>
          (let (ok, w1) = sys_malloc w
           in if \<not> ok then (-1, bc, w1)
              else (let (gr, w2) = ask (\<lambda>s n. os_getgrnam s n grp) w1
                    in case gr of
                         None \<Rightarrow> (-1, bc, w2)
                       | Some g \<Rightarrow> (sint g, bc\<lparr>bc_gid := Some g\<rparr>, w2))))"

section \<open>The store and its iterator\<close>

record bhyve_configuration_store =
  bcs_searchpath :: string
  bcs_configs :: "bhyve_configuration list"

text \<open>The iterator points into the list: \<open>None\<close> is before the first or behind the last element.\<close>

record bhyve_configuration_iterator =
  bci_current :: "nat option"
  bci_bcs :: bhyve_configuration_store

definition bci_getconfig :: "bhyve_configuration_iterator option \<Rightarrow> bhyve_configuration option" where
  "bci_getconfig bci =
     (case bci of
        None \<Rightarrow> None
      | Some it \<Rightarrow> map_option (\<lambda>i. bcs_configs (bci_bcs it) ! i) (bci_current it))"

definition bci_next :: "bhyve_configuration_iterator \<Rightarrow> bool \<times> bhyve_configuration_iterator" where
  "bci_next bci =
     (case bci_current bci of
        None \<Rightarrow>
          if bcs_configs (bci_bcs bci) = [] then (False, bci)
          else (True, bci\<lparr>bci_current := Some 0\<rparr>)
      | Some i \<Rightarrow>
          (let bci' = bci\<lparr>bci_current :=
                 (if Suc i < length (bcs_configs (bci_bcs bci)) then Some (Suc i) else None)\<rparr>
           in (bci_current bci' \<noteq> None, bci')))"

definition bci_next_ptr ::
  "bhyve_configuration_iterator option \<Rightarrow> bool \<times> bhyve_configuration_iterator option" where
  "bci_next_ptr bci =
     (case bci of
        None \<Rightarrow> (False, None)
      | Some it \<Rightarrow> (let (r, it') = bci_next it in (r, Some it')))"

definition bcs_iterate_configs ::
  "bhyve_configuration_store option \<Rightarrow> 'm world_scheme
   \<Rightarrow> bhyve_configuration_iterator option \<times> 'm world_scheme" where
  "bcs_iterate_configs bcs w =
     (case bcs of
        None \<Rightarrow> (None, w)
      | Some s \<Rightarrow>
          (let (ok, w') = sys_malloc w
           in (if ok then Some \<lparr>bci_current = None, bci_bcs = s\<rparr> else None, w')))"

definition bcs_getconfig_byname ::
  "bhyve_configuration_store \<Rightarrow> string option \<Rightarrow> bhyve_configuration option" where
  "bcs_getconfig_byname bcs name =
     (case name of
        None \<Rightarrow> None
      | Some n \<Rightarrow> List.find (\<lambda>bc. bc_name bc = n) (bcs_configs bcs))"

definition bcs_new ::
  "string option \<Rightarrow> 'm world_scheme \<Rightarrow> bhyve_configuration_store option \<times> 'm world_scheme" where
  "bcs_new searchpath w =
     (case searchpath of
        None \<Rightarrow> (None, w)
      | Some p \<Rightarrow>
          (let (ok, w') = sys_malloc w
           in (if ok then Some \<lparr>bcs_searchpath = strncpy_buf PATH_MAX p, bcs_configs = []\<rparr> else None, w')))"

section \<open>Lemmas\<close>

lemma bccl_nth_from_nth:
  "bccl_nth_from cs idx n = (if n \<le> idx \<and> idx - n < length cs then Some (cs ! (idx - n)) else None)"
proof (induction cs arbitrary: n)
  case (Cons c cs)
  show ?case
  proof (cases "n = idx")
    case False
    then have "n \<le> idx \<Longrightarrow> idx - n = Suc (idx - Suc n)" by arith
    with Cons.IH [of "Suc n"] False show ?thesis by auto
  qed simp
qed simp

lemma bccl_count_length [simp]: "bccl_count (Some l) = length l"
proof -
  have "foldl (\<lambda>n _. Suc n) k l = k + length l" for k
    by (induction l arbitrary: k) simp_all
  then show ?thesis by (simp add: bccl_count_def)
qed

text \<open>All configurations an iterator yields: the loop \<open>while (bci_next(bci)) ... bci_getconfig(bci)\<close>,
  with the length of the store as fuel.\<close>

fun bci_collect :: "nat \<Rightarrow> bhyve_configuration_iterator \<Rightarrow> bhyve_configuration list" where
  "bci_collect 0 it = []"
| "bci_collect (Suc n) it =
     (let (more, it') = bci_next it
      in if more then (case bci_getconfig (Some it') of None \<Rightarrow> [] | Some c \<Rightarrow> c # bci_collect n it')
         else [])"

lemma bci_collect_from:
  "i < length (bcs_configs s) \<Longrightarrow>
   bci_collect n \<lparr>bci_current = Some i, bci_bcs = s\<rparr> = take n (drop (Suc i) (bcs_configs s))"
proof (induction n arbitrary: i)
  case (Suc n)
  show ?case
  proof (cases "Suc i < length (bcs_configs s)")
    case True
    have "bci_collect (Suc n) \<lparr>bci_current = Some i, bci_bcs = s\<rparr>
        = bcs_configs s ! Suc i # bci_collect n \<lparr>bci_current = Some (Suc i), bci_bcs = s\<rparr>"
      using True by (simp add: bci_next_def bci_getconfig_def)
    then show ?thesis
      using Suc.IH [OF True] Cons_nth_drop_Suc [OF True] by (metis take_Suc_Cons)
  qed (use Suc.prems in \<open>simp add: bci_next_def\<close>)
qed simp

lemma bci_collect_all:
  "bci_collect (length (bcs_configs s)) \<lparr>bci_current = None, bci_bcs = s\<rparr> = bcs_configs s"
proof (cases "bcs_configs s")
  case (Cons c cs)
  then show ?thesis
    using bci_collect_from [of 0 s "length cs"] by (simp add: bci_next_def bci_getconfig_def)
qed simp

end
