(* ===== verification/Config_Translate.thy ===== *)
theory Config_Translate
  imports Config_Core Bhyve_Config
begin

text \<open>
  \<open>src/libtranslate/param_translate_core.c\<close>: from what the daemon knows of a vm to the parameters of
  \<open>bhyve\<close>. The result \<open>None\<close> is a null pointer that the code dereferences.
\<close>

record param_translate_core =
  ptc_bc :: bhyve_configuration
  ptc_bpc :: "bhyve_parameters_core option"

definition ptc_new :: "bhyve_configuration option \<Rightarrow> 'm world_scheme \<Rightarrow> param_translate_core option \<times> 'm world_scheme" where
  "ptc_new bc w =
     (case bc of
        None \<Rightarrow> (None, set_errno EINVAL w)
      | Some c \<Rightarrow> (let (ok, w') = sys_malloc w in (if ok then Some \<lparr>ptc_bc = c, ptc_bpc = None\<rparr> else None, w')))"

definition ptc_get_parameters ::
  "param_translate_core option \<Rightarrow> 'm world_scheme \<Rightarrow> bhyve_parameters_core option \<times> 'm world_scheme" where
  "ptc_get_parameters ptc w = getter None ptc_bpc ptc w"

text \<open>\<open>strcasecmp\<close> in the C locale.\<close>

definition tolower :: "char \<Rightarrow> char" where
  "tolower c = (let n = of_char c :: nat in if 65 \<le> n \<and> n \<le> 90 then char_of (n + 32) else c)"

definition same_nocase :: "string \<Rightarrow> string \<Rightarrow> bool" where
  "same_nocase s t \<longleftrightarrow> map tolower s = map tolower t"

text \<open>One console of the loop.\<close>

definition ptc_console ::
  "bhyve_configuration_console \<Rightarrow> nat \<Rightarrow> bhyve_parameters_core option \<Rightarrow> 'm world_scheme
   \<Rightarrow> (int \<times> bhyve_parameters_core option \<times> 'm world_scheme) option" where
  "ptc_console bcc i bpc w =
     (case bpc_enable_comport bpc (bcc_get_name bcc) (of_nat i) True w of
        None \<Rightarrow> None
      | Some (r, bpc1, w1) \<Rightarrow>
          if r \<noteq> 0 then Some (-1, bpc1, w1)
          else (case bcc_get_backend bcc of
                  None \<Rightarrow> Some (0, bpc1, w1)
                | Some backend \<Rightarrow>
                    if backend = [] then Some (0, bpc1, w1)
                    else map_option (\<lambda>(_, bpc2, w2). (0, bpc2, w2))
                           (bpc_set_comport_backend bpc1 (of_nat i) (Some backend) w1)))"

text \<open>The loop over the four comports; the first argument is the number of rounds to go.\<close>

fun ptc_consoles ::
  "nat \<Rightarrow> bhyve_configuration_console_list \<Rightarrow> bhyve_parameters_core option \<Rightarrow> 'm world_scheme
   \<Rightarrow> (int \<times> bhyve_parameters_core option \<times> 'm world_scheme) option" where
  "ptc_consoles 0 bccl bpc w = Some (0, bpc, w)"
| "ptc_consoles (Suc n) bccl bpc w =
     (let i = 3 - n; (bcc, w1) = bccl_get_consolebyidx bccl i w
      in case bcc of
           None \<Rightarrow> ptc_consoles n bccl bpc w1
         | Some c \<Rightarrow>
             (case ptc_console c i bpc w1 of
                None \<Rightarrow> None
              | Some (r, bpc2, w2) \<Rightarrow> if r \<noteq> 0 then Some (r, bpc2, w2) else ptc_consoles n bccl bpc2 w2))"

text \<open>\<open>bc_transfer_nn_variable\<close>: a value that is not zero is passed on.\<close>

definition transfer_nn ::
  "'v::zero \<Rightarrow> ('b option \<Rightarrow> 'v \<Rightarrow> 'w \<Rightarrow> int \<times> 'b option \<times> 'w) \<Rightarrow> 'b option \<Rightarrow> 'w \<Rightarrow> 'b option \<times> 'w" where
  "transfer_nn v set_func bpc w = (if v \<noteq> 0 then snd (set_func bpc v w) else (bpc, w))"

text \<open>The part of \<open>ptc_translate\<close> before the devices. The results of the setters are not looked at.\<close>

definition ptc_values ::
  "bhyve_configuration \<Rightarrow> bhyve_parameters_core option \<Rightarrow> 'm world_scheme
   \<Rightarrow> bhyve_parameters_core option \<times> 'm world_scheme" where
  "ptc_values bc bpc w =
     (let (bpc1, w1) = (case bc_get_bootrom bc of
                          None \<Rightarrow> (bpc, w)
                        | Some b \<Rightarrow> snd (bpc_set_bootrom bpc (Some b) False None w));
          (yield, w2) = bc_get_vmexithlt (Some bc) w1;
          (_, bpc2, w3) = bpc_set_yieldonhlt bpc1 yield w2;
          (acpi, w4) = bc_get_generateacpi (Some bc) w3;
          (_, bpc3, w5) = bpc_set_generateacpi bpc2 acpi w4;
          (wired, w6) = bc_get_wired (Some bc) w5;
          (_, bpc4, w7) = bpc_set_wired bpc3 wired w6;
          (bpc5, w8) = transfer_nn (bc_get_memory bc) bpc_set_memory bpc4 w7;
          (bpc6, w9) = transfer_nn (bc_get_numcpus bc) bpc_set_numcpus bpc5 w8;
          (bpc7, w10) = transfer_nn (bc_get_sockets bc) bpc_set_sockets bpc6 w9
      in transfer_nn (bc_get_cores bc) bpc_set_cores bpc7 w10)"

definition ptc_hostbridge ::
  "bhyve_configuration \<Rightarrow> bhyve_parameters_core option \<Rightarrow> 'm world_scheme
   \<Rightarrow> int \<times> bhyve_parameters_core option \<times> 'm world_scheme" where
  "ptc_hostbridge bc bpc w =
     (case bc_get_hostbridge bc of
        None \<Rightarrow> (0, bpc, w)
      | Some h \<Rightarrow>
          (let (bpp, w1) = bpp_new_hostbridge (if same_nocase h ''amd'' then HOSTBRIDGE_AMD else HOSTBRIDGE) w;
               (r, bpc1, w2) = bpc_addpcislot_at bpc 0 0 0 bpp w1
           in (if r \<noteq> 0 then -1 else 0, bpc1, w2)))"

definition ptc_console_part ::
  "bhyve_configuration \<Rightarrow> bhyve_parameters_core option \<Rightarrow> 'm world_scheme
   \<Rightarrow> (int \<times> bhyve_parameters_core option \<times> 'm world_scheme) option" where
  "ptc_console_part bc bpc w =
     (if bc_get_consolecount bc = 0 then Some (0, bpc, w)
      else (case bc_get_consolelist bc of
              None \<Rightarrow> None
            | Some bccl \<Rightarrow>
                (case ptc_consoles 4 bccl bpc w of
                   None \<Rightarrow> None
                 | Some (r, bpc1, w1) \<Rightarrow>
                     if r \<noteq> 0 then Some (-1, bpc1, w1)
                     else (let (bpp, w2) = bpp_new_isabridge w1;
                               (r', bpc2, w3) = bpc_addpcislot_at bpc1 0 1 0 bpp w2
                           in Some (if r' \<noteq> 0 then -1 else 0, bpc2, w3)))))"

definition ptc_translate ::
  "param_translate_core option \<Rightarrow> 'm world_scheme
   \<Rightarrow> (int \<times> param_translate_core option \<times> 'm world_scheme) option" where
  "ptc_translate ptc w =
     (case ptc of
        None \<Rightarrow> Some (-1, None, set_errno EINVAL w)
      | Some p \<Rightarrow>
          (let bc = ptc_bc p;
               (bpc, w1) = bpc_new (Some (bc_get_name bc)) w;
               (bpc1, w2) = ptc_values bc bpc w1;
               (r, bpc2, w3) = ptc_hostbridge bc bpc1 w2
           in if r \<noteq> 0 then Some (-1, Some (p\<lparr>ptc_bpc := bpc2\<rparr>), w3)
              else map_option (\<lambda>(r', bpc3, w4). (r', Some (p\<lparr>ptc_bpc := bpc3\<rparr>), w4))
                     (ptc_console_part bc bpc2 w3)))"

end
