(* ===== verification/Config_Output.thy ===== *)
theory Config_Output
  imports Config_Core
begin

text \<open>
  \<open>src/libconfig/file_memory.c\<close>, \<open>output_bhyve_core.c\<close> and the line parser of \<open>parser_reader.c\<close>: the
  parameters of a vm as lines \<open>key=value\<close>, written to a file behind the text of another one.

  A file is the text it contains, \<open>os_mmap\<close>. The mapped text is read up to its first zero byte; a file
  that ends on a page boundary and has no zero byte has nothing behind it that could stop the read.
  The result \<open>None\<close> is such a read, a null pointer that the code dereferences, or memory released twice.
\<close>

section \<open>Files in memory\<close>

record file_memory =
  fm_filename :: string
  fm_filefd :: int
  fm_memory :: string

text \<open>The failure branches release \<open>fm->filename\<close>, which is the first member and no memory of its own,
  and then \<open>fm\<close>.\<close>

definition fm_new :: "string option \<Rightarrow> 'm world_scheme \<Rightarrow> (file_memory option \<times> 'm world_scheme) option" where
  "fm_new filename w =
     (case filename of
        None \<Rightarrow> Some (None, set_errno EINVAL w)
      | Some f \<Rightarrow>
          (let (ok, w1) = sys_malloc w
           in if \<not> ok then Some (None, w1)
              else (let (fd, w2) = ask (\<lambda>s n. os_open s n f) w1
                    in if fd < 0 then None
                       else (let (text, w3) = ask (\<lambda>s n. os_mmap s n fd) (emit (Opened f fd) w2)
                             in case text of
                                  None \<Rightarrow> None
                                | Some t \<Rightarrow> Some (Some \<lparr>fm_filename = strncpy_buf PATH_MAX f, fm_filefd = fd, fm_memory = t\<rparr>, w3)))))"

definition fm_get_memory :: "file_memory \<Rightarrow> string" where
  "fm_get_memory fm = fm_memory fm"

definition fm_free :: "file_memory option \<Rightarrow> 'm world_scheme \<Rightarrow> 'm world_scheme" where
  "fm_free fm w = (case fm of None \<Rightarrow> w | Some f \<Rightarrow> snd (sys_close (fm_filefd f) w))"

definition PAGE_SIZE :: nat where "PAGE_SIZE = 4096"

text \<open>The mapped text as a C string.\<close>

definition mapped_string :: "string \<Rightarrow> string option" where
  "mapped_string t =
     (if CHR 0x00 \<in> set t \<or> length t mod PAGE_SIZE \<noteq> 0 then Some (takeWhile (\<lambda>c. c \<noteq> CHR 0x00) t) else None)"

section \<open>Lines\<close>

record output_bhyve_core =
  obc_configfile :: string
  obc_bpc :: bhyve_parameters_core
  obc_lines :: "string list"

definition show_int :: "int \<Rightarrow> string" where
  "show_int i = (if i < 0 then CHR ''-'' # show_nat (nat (- i)) else show_nat (nat i))"

definition obc_add ::
  "output_bhyve_core \<Rightarrow> string option \<Rightarrow> string option \<Rightarrow> 'm world_scheme
   \<Rightarrow> int \<times> output_bhyve_core \<times> 'm world_scheme" where
  "obc_add obc key val w =
     (case (key, val) of
        (Some k, Some v) \<Rightarrow>
          (let (ok, w1) = sys_malloc w
           in if \<not> ok then (-1, obc, w1)
              else (let len_new = length k + length v + 2; (ok', w2) = sys_malloc w1
                    in if \<not> ok' then (-1, obc, w2)
                       else (0, obc\<lparr>obc_lines := snprintf_buf len_new (k @ ''='' @ v) # obc_lines obc\<rparr>, w2)))
      | _ \<Rightarrow> (-1, obc, set_errno EINVAL w))"

definition obc_add_bool ::
  "output_bhyve_core \<Rightarrow> string \<Rightarrow> bool \<Rightarrow> 'm world_scheme \<Rightarrow> int \<times> output_bhyve_core \<times> 'm world_scheme" where
  "obc_add_bool obc key val w = obc_add obc (Some key) (Some (if val then ''true'' else ''false'')) w"

text \<open>The body of the loop over the slots.\<close>

definition pci_key :: "u8 \<Rightarrow> u8 \<Rightarrow> u8 \<Rightarrow> string" where
  "pci_key bus pcislot function = snprintf_buf 256
     (''pci.'' @ show_nat (unat bus) @ ''.'' @ show_nat (unat pcislot) @ ''.'' @ show_nat (unat function) @ ''.device'')"

definition pcislots_step ::
  "bhyve_parameters_pcislot \<Rightarrow> int \<times> output_bhyve_core \<times> 'm world_scheme
   \<Rightarrow> bool \<times> int \<times> output_bhyve_core \<times> 'm world_scheme" where
  "pcislots_step bpp = (\<lambda>(result, obc, w).
     let (ids, w1) = bpp_get_pciid (Some bpp) w
     in case ids of
          None \<Rightarrow> (False, -1, obc, w1)
        | Some (bus, pcislot, function) \<Rightarrow>
            (let pci_device = pci_key bus pcislot function;
                 (ty, w2) = bpp_get_slottype (Some bpp) w1
             in case ty of
                  TYPE_ISABRIDGE \<Rightarrow>
                    (let (r, obc', w3) = obc_add obc (Some pci_device) (Some ''lpc'') w2
                     in if r \<noteq> 0 then (False, -1, obc', w3) else (True, result, obc', w3))
                | TYPE_HOSTBRIDGE \<Rightarrow>
                    (let (h, w3) = bpp_get_hostbridge (Some bpp) w2;
                         (r, obc', w4) = obc_add obc (Some pci_device)
                            (Some (if h = Some HOSTBRIDGE_AMD then ''amd_hostbridge'' else ''hostbridge'')) w3
                     in if r \<noteq> 0 then (False, -1, obc', w4) else (True, result, obc', w4))
                | _ \<Rightarrow> (False, -1, obc, w2)))"

definition obc_set_pcislots ::
  "output_bhyve_core \<Rightarrow> 'm world_scheme \<Rightarrow> int \<times> output_bhyve_core \<times> 'm world_scheme" where
  "obc_set_pcislots obc w =
     (let (bppi, w1) = bpc_iter_pcislots (Some (obc_bpc obc)) w
      in case bppi of None \<Rightarrow> (-1, obc, w1) | Some it \<Rightarrow> while_slots pcislots_step it (0, obc, w1))"

text \<open>The loop over the comports; the first argument is the number of rounds to go.\<close>

fun consoles_loop ::
  "nat \<Rightarrow> output_bhyve_core \<Rightarrow> 'm world_scheme \<Rightarrow> int \<times> output_bhyve_core \<times> 'm world_scheme" where
  "consoles_loop 0 obc w = (0, obc, w)"
| "consoles_loop (Suc n) obc w =
     (let i = 3 - n; (com, w1) = bpc_get_comport (Some (obc_bpc obc)) i w
      in case com of
           None \<Rightarrow> (-1, obc, w1)
         | Some c \<Rightarrow>
             if \<not> com_enabled c then consoles_loop n obc w1
             else (let comdef = snprintf_buf 256 (''lpc.com'' @ show_nat (i + 1) @ ''.path'');
                       (r, obc', w2) = obc_add obc (Some comdef) (Some (com_backend c)) w1
                   in if r \<noteq> 0 then (r, obc', w2) else consoles_loop n obc' w2))"

definition obc_set_consoles ::
  "output_bhyve_core \<Rightarrow> 'm world_scheme \<Rightarrow> int \<times> output_bhyve_core \<times> 'm world_scheme" where
  "obc_set_consoles obc w = consoles_loop 4 obc w"

text \<open>A line for a number that is not zero, and the early return when it cannot be added.\<close>

definition add_number ::
  "string \<Rightarrow> string \<Rightarrow> bool \<Rightarrow> (output_bhyve_core \<Rightarrow> 'm world_scheme \<Rightarrow> int \<times> output_bhyve_core \<times> 'm world_scheme)
   \<Rightarrow> output_bhyve_core \<Rightarrow> 'm world_scheme \<Rightarrow> int \<times> output_bhyve_core \<times> 'm world_scheme" where
  "add_number key text wanted rest obc w =
     (if \<not> wanted then rest obc w
      else (let (r, obc', w') = obc_add obc (Some key) (Some (snprintf_buf 32 text)) w
            in if r \<noteq> 0 then (r, obc', w') else rest obc' w'))"

definition set_core_boot ::
  "output_bhyve_core \<Rightarrow> 'm world_scheme \<Rightarrow> int \<times> output_bhyve_core \<times> 'm world_scheme" where
  "set_core_boot obc w =
     (let (yield, w1) = bpc_get_yieldonhlt (Some (obc_bpc obc)) w;
          (r, obc1, w2) = obc_add_bool obc ''x86.vmexit_on_hlt'' yield w1
      in if r \<noteq> 0 then (r, obc1, w2)
         else (let (acpi, w3) = bpc_get_generateacpi (Some (obc_bpc obc1)) w2;
                   (r, obc2, w4) = obc_add_bool obc1 ''acpi_tables'' acpi w3
               in if r \<noteq> 0 then (r, obc2, w4)
                  else (let (br, w5) = bpc_get_bootrom (Some (obc_bpc obc2)) w4;
                            (r, obc3, w6) = (case br of
                               None \<Rightarrow> (0, obc2, w5)
                             | Some b \<Rightarrow> obc_add obc2 (Some ''lpc.bootrom'')
                                 (Some (snprintf_buf (PATH_MAX * 2 + 64)
                                    (br_bootrom b @ (if br_with_vars b then '','' else []) @ br_varsfile b))) w5)
                        in if r \<noteq> 0 then (-1, obc3, w6)
                           else (let (r, obc4, w7) = obc_set_consoles obc3 w6
                                 in if r \<noteq> 0 then (r, obc4, w7) else obc_set_pcislots obc4 w7))))"

definition obc_set_core ::
  "output_bhyve_core \<Rightarrow> 'm world_scheme \<Rightarrow> int \<times> output_bhyve_core \<times> 'm world_scheme" where
  "obc_set_core obc w =
     (let (name, w1) = bpc_get_vmname (Some (obc_bpc obc)) w;
          (_, obc1, w2) = obc_add obc (Some ''name'') name w1;
          bpc = Some (obc_bpc obc1);
          (memory, w3) = bpc_get_memory bpc w2;
          (numcpus, w4) = bpc_get_numcpus bpc w3;
          (sockets, w5) = bpc_get_sockets bpc w4;
          (cores, w6) = bpc_get_cores bpc w5
      in add_number ''memory.size'' (show_int (sint memory) @ ''M'') (memory \<noteq> 0)
        (add_number ''cpus'' (show_nat (unat numcpus)) (numcpus \<noteq> 0)
        (add_number ''sockets'' (show_nat (unat sockets)) (sockets \<noteq> 0)
        (add_number ''sockets'' (show_nat (unat cores)) (cores \<noteq> 0)
        set_core_boot))) obc1 w6)"

definition obc_new ::
  "string option \<Rightarrow> bhyve_parameters_core option \<Rightarrow> 'm world_scheme \<Rightarrow> output_bhyve_core option \<times> 'm world_scheme" where
  "obc_new configfile bpc w =
     (case (configfile, bpc) of
        (Some f, Some c) \<Rightarrow>
          (let (ok, w1) = sys_malloc w
           in if \<not> ok then (None, w1)
              else (let (ok', w2) = sys_malloc w1
                    in if \<not> ok' then (None, w2)
                       else (let (r, obc, w3) = obc_set_core \<lparr>obc_configfile = f, obc_bpc = c, obc_lines = []\<rparr> w2
                             in (if r \<noteq> 0 then None else Some obc, w3))))
      | _ \<Rightarrow> (None, set_errno EINVAL w))"

section \<open>Writing the file\<close>

text \<open>
  \<open>write\<close> says how much it wrote of a text. Its result is compared with the \<open>size_t\<close> length, so that a
  failure, -1, counts as a very large number.
\<close>

definition sys_write :: "int \<Rightarrow> string \<Rightarrow> 'm world_scheme \<Rightarrow> int \<times> 'm world_scheme" where
  "sys_write fd text w =
     (let (n, w1) = ask (\<lambda>s t. os_write s t (int (length text))) w
      in if n < 0 then (-1, set_errno ESYS w1)
         else (min n (int (length text)), emit (Wrote fd (take (nat n) text)) w1))"

definition write_short :: "int \<Rightarrow> string \<Rightarrow> bool" where
  "write_short n text \<longleftrightarrow> (word_of_int n :: u64) < of_nat (length text)"

fun write_lines :: "int \<Rightarrow> string list \<Rightarrow> 'm world_scheme \<Rightarrow> int \<times> 'm world_scheme" where
  "write_lines fd [] w = (0, w)"
| "write_lines fd (l # ls) w =
     (let (n, w1) = sys_write fd l w
      in if write_short n l then (-1, w1)
         else (let (m, w2) = sys_write fd [CHR 0x0A] w1 in if m < 0 then (-1, w2) else write_lines fd ls w2))"

definition obc_combine_with ::
  "output_bhyve_core option \<Rightarrow> string option \<Rightarrow> 'm world_scheme \<Rightarrow> (int \<times> 'm world_scheme) option" where
  "obc_combine_with obc file_in w =
     (case (obc, file_in) of
        (Some ob, Some f) \<Rightarrow>
          (case fm_new (Some f) w of
             None \<Rightarrow> None
           | Some (None, w1) \<Rightarrow> Some (-1, w1)
           | Some (Some fm, w1) \<Rightarrow>
               (case mapped_string (fm_get_memory fm) of
                  None \<Rightarrow> None
                | Some text \<Rightarrow>
                    (let (fd, w2) = ask (\<lambda>s n. os_open s n (obc_configfile ob)) w1
                     in if fd < 0 then Some (-1, fm_free (Some fm) w2)
                        else (let (ok, w3) = ask os_fchmod (emit (Opened (obc_configfile ob) fd) w2)
                              in if \<not> ok then Some (-1, fm_free (Some fm) w3)
                                 else (let (n, w4) = sys_write fd text w3;
                                           (result, w5) =
                                             (if write_short n text then (-1, w4)
                                              else (let (m, w5) = sys_write fd [CHR 0x0A] w4
                                                    in if m < 0 then (-1, w5) else write_lines fd (obc_lines ob) w5));
                                           w6 = snd (sys_close fd w5)
                                       in Some (result, fm_free (Some fm) w6))))))
      | _ \<Rightarrow> Some (-1, set_errno EINVAL w))"

section \<open>Reading a line\<close>

text \<open>
  \<open>pr_parseline\<close> of \<open>parser_reader.c\<close>: what it hands to \<open>pr_parsekeyval\<close>, which does nothing yet. The
  result is the return value with the key and the value.
\<close>

definition pr_parseline :: "string option \<Rightarrow> 'm world_scheme \<Rightarrow> int \<times> (string \<times> string) option \<times> 'm world_scheme" where
  "pr_parseline line w =
     (case line of
        None \<Rightarrow> (-1, None, set_errno EINVAL w)
      | Some l \<Rightarrow>
          (let k = takeWhile (\<lambda>c. c \<noteq> CHR ''='') l
           in if k = l then (-1, None, set_errno EFTYPE w)
              else (let (ok1, w1) = sys_malloc w; (ok2, w2) = sys_malloc w1
                    in if \<not> ok1 \<or> \<not> ok2 then (-1, None, w2)
                       else (0, Some (k, drop (length k + 1) l), w2))))"

end
