(* ===== verification/Config_Check.thy ===== *)
theory Config_Check
  imports Config_Core
begin

text \<open>
  \<open>src/libconfig/string_list.c\<close> and the checks of \<open>check.c\<close>, \<open>check_core.c\<close> and \<open>check_isabridge.c\<close>: rules
  that the parameters of a virtual machine have to keep.

  A check gets a pointer and returns 0 when the rule is kept; \<open>None\<close> is a null pointer that the code
  dereferences. (The checks do not release the iterators they make.)
\<close>

section \<open>Lists of strings\<close>

type_synonym string_list = "string list"

definition sl_new :: "'m world_scheme \<Rightarrow> string_list option \<times> 'm world_scheme" where
  "sl_new w = (let (ok, w') = sys_malloc w in (if ok then Some [] else None, w'))"

definition sl_has :: "string_list option \<Rightarrow> string option \<Rightarrow> 'm world_scheme \<Rightarrow> bool \<times> 'm world_scheme" where
  "sl_has sl str w =
     (case (sl, str) of (Some l, Some s) \<Rightarrow> (List.member l s, w) | _ \<Rightarrow> (False, set_errno EINVAL w))"

definition sl_add ::
  "string_list option \<Rightarrow> string option \<Rightarrow> 'm world_scheme \<Rightarrow> int \<times> string_list option \<times> 'm world_scheme" where
  "sl_add sl str w =
     (case (sl, str) of
        (Some l, Some s) \<Rightarrow>
          (let (ok, w1) = sys_malloc w
           in if \<not> ok then (-1, sl, w1)
              else (let (ok', w2) = sys_malloc w1 in if ok' then (0, Some (s # l), w2) else (-1, sl, w2)))
      | _ \<Rightarrow> (-1, sl, set_errno EINVAL w))"

section \<open>Checks of the core parameters\<close>

definition check_bpc_nonnull :: "bhyve_parameters_core option \<Rightarrow> 'm world_scheme \<Rightarrow> (int \<times> 'm world_scheme) option" where
  "check_bpc_nonnull bpc w = Some (if bpc = None then 1 else 0, w)"

definition check_bpc_name :: "bhyve_parameters_core option \<Rightarrow> 'm world_scheme \<Rightarrow> (int \<times> 'm world_scheme) option" where
  "check_bpc_name bpc w =
     (let (name, w1) = bpc_get_vmname bpc w
      in case name of None \<Rightarrow> None | Some n \<Rightarrow> Some (if n = [] then -1 else 0, w1))"

text \<open>The loop that counts the slots of a type, which two checks have.\<close>

definition count_slots ::
  "bhyve_parameters_pcislot_t \<Rightarrow> bhyve_parameters_pcislot_iter \<Rightarrow> 'm world_scheme \<Rightarrow> nat \<times> 'm world_scheme" where
  "count_slots ty bppi w =
     while_slots (\<lambda>bpp (counter, w). let (t, w') = bpp_get_slottype (Some bpp) w
                                     in (True, if t = ty then counter + 1 else counter, w')) bppi (0, w)"

definition check_bpc_counthostbridge :: "bhyve_parameters_core option \<Rightarrow> 'm world_scheme \<Rightarrow> int \<times> 'm world_scheme" where
  "check_bpc_counthostbridge bpc w =
     (let (bppi, w1) = bpc_iter_pcislots bpc w
      in case bppi of
           None \<Rightarrow> (-1, w1)
         | Some it \<Rightarrow> (let (counter, w2) = count_slots TYPE_HOSTBRIDGE it w1 in (int counter, w2)))"

definition hostbridgeslot_step ::
  "bhyve_parameters_pcislot \<Rightarrow> int \<times> 'm world_scheme \<Rightarrow> bool \<times> int \<times> 'm world_scheme" where
  "hostbridgeslot_step bpp = (\<lambda>(result, w).
     let (ty, w1) = bpp_get_slottype (Some bpp) w
     in if ty = TYPE_HOSTBRIDGE
        then (let (ids, w2) = bpp_get_pciid (Some bpp) w1
              in case ids of
                   None \<Rightarrow> (False, -1, w2)
                 | Some (bus, pcislot, function) \<Rightarrow>
                     if bus \<noteq> 0 \<or> pcislot \<noteq> 0 \<or> function \<noteq> 0 then (False, -1, w2) else (False, result, w2))
        else (True, result, w1))"

definition check_bpc_hostbridgeslot ::
  "bhyve_parameters_core option \<Rightarrow> 'm world_scheme \<Rightarrow> (int \<times> 'm world_scheme) option" where
  "check_bpc_hostbridgeslot bpc w =
     (let (bppi, w1) = bpc_iter_pcislots bpc w
      in case bppi of
           None \<Rightarrow> Some (-1, w1)
         | Some it \<Rightarrow>
             Some (while_slots hostbridgeslot_step it (0, w1)))"

definition check_bpc_singlehostbridge ::
  "bhyve_parameters_core option \<Rightarrow> 'm world_scheme \<Rightarrow> (int \<times> 'm world_scheme) option" where
  "check_bpc_singlehostbridge bpc w =
     (let (counter, w1) = check_bpc_counthostbridge bpc w in Some (if 1 < counter then -1 else 0, w1))"

definition check_bpc_hostbridge ::
  "bhyve_parameters_core option \<Rightarrow> 'm world_scheme \<Rightarrow> (int \<times> 'm world_scheme) option" where
  "check_bpc_hostbridge bpc w =
     (let (counter, w1) = check_bpc_counthostbridge bpc w in Some (if counter = 0 then -1 else 0, w1))"

definition pci_ident :: "u8 \<Rightarrow> u8 \<Rightarrow> u8 \<Rightarrow> string" where
  "pci_ident bus pcislot function = snprintf_buf 16 (show_nat (unat bus) @ '':'' @ show_nat (unat pcislot) @ '':'' @ show_nat (unat function))"

definition pciidconflict_step ::
  "bhyve_parameters_pcislot \<Rightarrow> int \<times> string_list option \<times> 'm world_scheme
   \<Rightarrow> bool \<times> int \<times> string_list option \<times> 'm world_scheme" where
  "pciidconflict_step bpp = (\<lambda>(result, sl, w).
     let (ids, w1) = bpp_get_pciid (Some bpp) w
     in case ids of
          None \<Rightarrow> (False, result, sl, w1)
        | Some (bus, pcislot, function) \<Rightarrow>
            (let ident = pci_ident bus pcislot function;
                 (found, w2) = sl_has sl (Some ident) w1
             in if found then (False, -1, sl, w2)
                else (let (r, sl', w3) = sl_add sl (Some ident) w2
                      in if r \<noteq> 0 then (False, -1, sl', w3) else (True, result, sl', w3))))"

definition check_bpc_pciidconflict ::
  "bhyve_parameters_core option \<Rightarrow> 'm world_scheme \<Rightarrow> (int \<times> 'm world_scheme) option" where
  "check_bpc_pciidconflict bpc w =
     (case bpc of
        None \<Rightarrow> Some (-1, set_errno EINVAL w)
      | Some _ \<Rightarrow>
          (let (iter, w1) = bpc_iter_pcislots bpc w
           in case iter of
                None \<Rightarrow> Some (-1, w1)
              | Some it \<Rightarrow>
                  (let (sl, w2) = sl_new w1;
                       (result, sl', w3) =
                         while_slots pciidconflict_step it (0, sl, w2)
                   in Some (result, w3))))"

section \<open>Checks of the LPC ISA bridge\<close>

definition check_bpc_countisabridge :: "bhyve_parameters_core option \<Rightarrow> 'm world_scheme \<Rightarrow> nat \<times> 'm world_scheme" where
  "check_bpc_countisabridge bpc w =
     (let (bppi, w1) = bpc_iter_pcislots bpc w
      in case bppi of None \<Rightarrow> (0, w1) | Some it \<Rightarrow> count_slots TYPE_ISABRIDGE it w1)"

definition check_bpc_singleisabridge ::
  "bhyve_parameters_core option \<Rightarrow> 'm world_scheme \<Rightarrow> (int \<times> 'm world_scheme) option" where
  "check_bpc_singleisabridge bpc w =
     (let (bppi, w1) = bpc_iter_pcislots bpc w
      in case bppi of
           None \<Rightarrow> Some (-1, w1)
         | Some _ \<Rightarrow> (let (n, w2) = check_bpc_countisabridge bpc w1 in Some (if 1 < n then -1 else 0, w2)))"

fun any_comport :: "nat \<Rightarrow> bhyve_parameters_core option \<Rightarrow> bool \<Rightarrow> 'm world_scheme \<Rightarrow> (bool \<times> 'm world_scheme) option" where
  "any_comport 0 bpc any_enabled w = Some (any_enabled, w)"
| "any_comport (Suc n) bpc any_enabled w =
     (let (com, w1) = bpc_get_comport bpc (3 - n) w
      in case com of None \<Rightarrow> None | Some c \<Rightarrow> any_comport n bpc (any_enabled \<or> com_enabled c) w1)"

definition check_bpc_comwithisa ::
  "bhyve_parameters_core option \<Rightarrow> 'm world_scheme \<Rightarrow> (int \<times> 'm world_scheme) option" where
  "check_bpc_comwithisa bpc w =
     (case any_comport 4 bpc False w of
        None \<Rightarrow> None
      | Some (any_enabled, w1) \<Rightarrow>
          if \<not> any_enabled then Some (0, w1)
          else (let (n, w2) = check_bpc_countisabridge bpc w1 in Some (if n = 0 then -1 else 0, w2)))"

definition check_bpc_bootrom :: "bhyve_parameters_core option \<Rightarrow> 'm world_scheme \<Rightarrow> (int \<times> 'm world_scheme) option" where
  "check_bpc_bootrom bpc w =
     (let (br, w1) = bpc_get_bootrom bpc w
      in case br of None \<Rightarrow> None | Some b \<Rightarrow> Some (if br_bootrom b = [] then -1 else 0, w1))"

definition check_bpc_bootromwithisa ::
  "bhyve_parameters_core option \<Rightarrow> 'm world_scheme \<Rightarrow> (int \<times> 'm world_scheme) option" where
  "check_bpc_bootromwithisa bpc w =
     (case check_bpc_bootrom bpc w of
        None \<Rightarrow> None
      | Some (r, w1) \<Rightarrow>
          if r \<noteq> 0 then Some (0, w1)
          else (let (n, w2) = check_bpc_countisabridge bpc w1 in Some (if n = 0 then -1 else 0, w2)))"

definition isabridgebus_step ::
  "bhyve_parameters_pcislot \<Rightarrow> int \<times> 'm world_scheme \<Rightarrow> bool \<times> int \<times> 'm world_scheme" where
  "isabridgebus_step bpp = (\<lambda>(result, w).
     let (ty, w1) = bpp_get_slottype (Some bpp) w
     in if ty = TYPE_ISABRIDGE
        then (let (ids, w2) = bpp_get_pciid (Some bpp) w1
              in case ids of
                   None \<Rightarrow> (False, -1, w2)
                 | Some (bus, pcislot, function) \<Rightarrow> if bus \<noteq> 0 then (False, -1, w2) else (True, result, w2))
        else (True, result, w1))"

definition check_bpc_isabridgebus ::
  "bhyve_parameters_core option \<Rightarrow> 'm world_scheme \<Rightarrow> (int \<times> 'm world_scheme) option" where
  "check_bpc_isabridgebus bpc w =
     (let (bppi, w1) = bpc_iter_pcislots bpc w
      in case bppi of
           None \<Rightarrow> Some (0, w1)
         | Some it \<Rightarrow>
             Some (while_slots isabridgebus_step it (0, w1)))"

section \<open>The set of rules\<close>

record 'w bhyve_parameters_check =
  rule_name :: string
  check :: "bhyve_parameters_core option \<Rightarrow> 'w \<Rightarrow> (int \<times> 'w) option"
  error_message :: string

definition bpchecks :: "('m world_scheme) bhyve_parameters_check list" where
  "bpchecks =
     [\<lparr>rule_name = ''valid parameter memory'', check = check_bpc_nonnull,
       error_message = ''NULL pointer as parameter is invalid''\<rparr>,
      \<lparr>rule_name = ''non-empty vm name'', check = check_bpc_name,
       error_message = ''No name set for virtual machine''\<rparr>,
      \<lparr>rule_name = ''hostbridge existence'', check = check_bpc_hostbridge,
       error_message = ''No hostbridge assigned''\<rparr>,
      \<lparr>rule_name = ''single hostbridge'', check = check_bpc_singlehostbridge,
       error_message = ''Only one hostbridge supported''\<rparr>,
      \<lparr>rule_name = ''hostbridge placement'', check = check_bpc_hostbridgeslot,
       error_message = ''Hostbridge must be at 0:0:0''\<rparr>,
      \<lparr>rule_name = ''single isabridge'', check = check_bpc_singleisabridge,
       error_message = ''Only one isa bridge supported''\<rparr>,
      \<lparr>rule_name = ''com port with isa bridge'', check = check_bpc_comwithisa,
       error_message = ''Having a COM port requires an LPC ISA bridge''\<rparr>,
      \<lparr>rule_name = ''bootrom requires isa bridge'', check = check_bpc_bootromwithisa,
       error_message = ''Having a boot rom set requires an LPC ISA bridge''\<rparr>,
      \<lparr>rule_name = ''bootrom specified'', check = check_bpc_bootrom,
       error_message = ''No bootrom specified''\<rparr>,
      \<lparr>rule_name = ''isabridge bus zero'', check = check_bpc_isabridgebus,
       error_message = ''LPC ISA bridge not on bus 0''\<rparr>,
      \<lparr>rule_name = ''pci id conflict'', check = check_bpc_pciidconflict,
       error_message = ''PCI ID conflict''\<rparr>]"

definition check_get_errormsg ::
  "'w bhyve_parameters_check option \<Rightarrow> 'm world_scheme \<Rightarrow> string option \<times> 'm world_scheme" where
  "check_get_errormsg c w = getter None (\<lambda>x. Some (error_message x)) c w"

fun first_broken ::
  "'w bhyve_parameters_check list \<Rightarrow> bhyve_parameters_core option \<Rightarrow> 'w
   \<Rightarrow> ('w bhyve_parameters_check option \<times> 'w) option" where
  "first_broken [] bpc w = Some (None, w)"
| "first_broken (c # cs) bpc w =
     (case check c bpc w of
        None \<Rightarrow> None
      | Some (r, w') \<Rightarrow> if r \<noteq> 0 then Some (Some c, w') else first_broken cs bpc w')"

definition check_parameters_ok ::
  "bhyve_parameters_core option \<Rightarrow> 'm world_scheme
   \<Rightarrow> (('m world_scheme) bhyve_parameters_check option \<times> 'm world_scheme) option" where
  "check_parameters_ok bpc w = first_broken bpchecks bpc w"

end
