(* ===== verification/Check_Contract.thy ===== *)
theory Check_Contract
  imports Config_Check
begin

text \<open>
  What the rules of \<open>Config_Check\<close> mean: each check decides a predicate on the parameters, and the rule
  that \<open>check_parameters_ok\<close> reports is the first one broken.
\<close>

section \<open>The rules as predicates\<close>

definition slots_of :: "bhyve_parameters_pcislot_t \<Rightarrow> bhyve_parameters_core \<Rightarrow> bhyve_parameters_pcislot list" where
  "slots_of ty c = filter (\<lambda>b. slot_type b = ty) (bpc_pcislots c)"

definition pci_id :: "bhyve_parameters_pcislot \<Rightarrow> u8 \<times> u8 \<times> u8" where
  "pci_id b = (bpp_bus b, bpp_pcislot b, bpp_function b)"

definition has_com :: "bhyve_parameters_core \<Rightarrow> bool" where
  "has_com c \<longleftrightarrow> (\<exists>com \<in> set (bpc_comport c). com_enabled com)"

definition has_bootrom :: "bhyve_parameters_core \<Rightarrow> bool" where
  "has_bootrom c \<longleftrightarrow> br_bootrom (bpc_bootrom c) \<noteq> []"

text \<open>The parameters that break no rule.\<close>

definition params_ok :: "bhyve_parameters_core \<Rightarrow> bool" where
  "params_ok c \<longleftrightarrow> bpc_vmname c \<noteq> [] \<and> has_bootrom c \<and>
     (\<exists>h. slots_of TYPE_HOSTBRIDGE c = [h] \<and> pci_id h = (0, 0, 0)) \<and>
     (\<exists>i. slots_of TYPE_ISABRIDGE c = [i] \<and> bpp_bus i = 0) \<and>
     distinct (map pci_id (bpc_pcislots c))"

definition rules :: "bhyve_parameters_core \<Rightarrow> (string \<times> bool) list" where
  "rules c =
     [(''valid parameter memory'', True),
      (''non-empty vm name'', bpc_vmname c \<noteq> []),
      (''hostbridge existence'', slots_of TYPE_HOSTBRIDGE c \<noteq> []),
      (''single hostbridge'', length (slots_of TYPE_HOSTBRIDGE c) \<le> 1),
      (''hostbridge placement'', slots_of TYPE_HOSTBRIDGE c \<noteq> [] \<longrightarrow> pci_id (hd (slots_of TYPE_HOSTBRIDGE c)) = (0, 0, 0)),
      (''single isabridge'', length (slots_of TYPE_ISABRIDGE c) \<le> 1),
      (''com port with isa bridge'', has_com c \<longrightarrow> slots_of TYPE_ISABRIDGE c \<noteq> []),
      (''bootrom requires isa bridge'', has_bootrom c \<longrightarrow> slots_of TYPE_ISABRIDGE c \<noteq> []),
      (''bootrom specified'', has_bootrom c),
      (''isabridge bus zero'', \<forall>b \<in> set (slots_of TYPE_ISABRIDGE c). bpp_bus b = 0),
      (''pci id conflict'', distinct (map pci_id (bpc_pcislots c)))]"

lemma rules_ok: "(\<forall>(n, ok) \<in> set (rules c). ok) \<longleftrightarrow> params_ok c"
  by (cases "slots_of TYPE_HOSTBRIDGE c" rule: list.exhaust [case_product list.exhaust [of "slots_of TYPE_ISABRIDGE c"]])
    (auto simp: rules_def params_ok_def)

section \<open>The loops\<close>

lemma count_slots_list:
  "count_slots ty \<lparr>bppi_current = [], bppi_first = bs\<rparr> w = (length (filter (\<lambda>b. slot_type b = ty) bs), w)"
proof -
  have "run_slots (\<lambda>bpp (counter, w). let (t, w') = bpp_get_slottype (Some bpp) w
                                     in (True, if t = ty then counter + 1 else counter, w')) bs (n, w)
        = (n + length (filter (\<lambda>b. slot_type b = ty) bs), w)" for n
    by (induction bs arbitrary: n) (auto simp: bpp_get_slottype_def)
  from this [of 0] show ?thesis by (simp add: count_slots_def)
qed

lemma pci_ident_inject [simp]:
  "pci_ident a b c = pci_ident a' b' c' \<longleftrightarrow> (a, b, c) = (a', b', c')"
proof -
  have l: "length (show_nat (unat x)) \<le> 3" for x :: u8
    proof -
    have "unat x < 2 ^ 8" using unsigned_less [of x] by simp
    then show ?thesis using show_nat_length_less [of "unat x" 2] by simp
  qed
  have id: "pci_ident x y z = show_nat (unat x) @ '':'' @ show_nat (unat y) @ '':'' @ show_nat (unat z)" for x y z
    unfolding pci_ident_def using l [of x] l [of y] l [of z] by (intro snprintf_buf_short) simp
  have sep: "CHR '':'' \<notin> set (show_nat n)" for n
    by (rule show_nat_no_sep) simp
  show ?thesis by (simp add: id append_sep_inject sep word_unat_eq_iff)
qed

section \<open>The checks\<close>

definition decides ::
  "(bhyve_parameters_core option \<Rightarrow> 'm world_scheme \<Rightarrow> (int \<times> 'm world_scheme) option)
   \<Rightarrow> bhyve_parameters_core \<Rightarrow> bool \<Rightarrow> bool" where
  "decides chk c ok \<longleftrightarrow>
     (\<forall>w. calm w \<longrightarrow> (\<exists>r w'. chk (Some c) w = Some (r, w') \<and> (r = 0 \<longleftrightarrow> ok) \<and> calm w'))"

lemma decidesI:
  "(\<And>w. calm w \<Longrightarrow> \<exists>r w'. chk (Some c) w = Some (r, w') \<and> (r = 0 \<longleftrightarrow> ok) \<and> calm w') \<Longrightarrow> decides chk c ok"
  by (simp add: decides_def)

lemma calm_iter:
  "calm w \<Longrightarrow> bpc_iter_pcislots (Some c) w = (Some \<lparr>bppi_current = [], bppi_first = bpc_pcislots c\<rparr>, tock w)"
  by (simp add: bpc_iter_pcislots_def calm_malloc)

lemma calm_countisa:
  "calm w \<Longrightarrow> check_bpc_countisabridge (Some c) w = (length (slots_of TYPE_ISABRIDGE c), tock w)"
  by (simp add: check_bpc_countisabridge_def calm_iter count_slots_list slots_of_def)

lemma calm_counthost:
  "calm w \<Longrightarrow> check_bpc_counthostbridge (Some c) w = (int (length (slots_of TYPE_HOSTBRIDGE c)), tock w)"
  by (simp add: check_bpc_counthostbridge_def calm_iter count_slots_list slots_of_def)

lemmas check_simps = calm_iter calm_countisa calm_counthost Let_def slots_of_def [symmetric]

lemma d_nonnull: "decides check_bpc_nonnull c True"
  and d_name: "decides check_bpc_name c (bpc_vmname c \<noteq> [])"
  and d_hostbridge: "decides check_bpc_hostbridge c (slots_of TYPE_HOSTBRIDGE c \<noteq> [])"
  and d_single: "decides check_bpc_singlehostbridge c (length (slots_of TYPE_HOSTBRIDGE c) \<le> 1)"
  and d_singleisa: "decides check_bpc_singleisabridge c (length (slots_of TYPE_ISABRIDGE c) \<le> 1)"
  and d_bootrom: "decides check_bpc_bootrom c (has_bootrom c)"
  and d_bootromisa: "decides check_bpc_bootromwithisa c (has_bootrom c \<longrightarrow> slots_of TYPE_ISABRIDGE c \<noteq> [])"
  by (rule decidesI; auto simp: check_bpc_nonnull_def check_bpc_name_def bpc_get_vmname_def check_bpc_hostbridge_def
      check_bpc_singlehostbridge_def check_bpc_singleisabridge_def check_bpc_bootrom_def bpc_get_bootrom_def
      check_bpc_bootromwithisa_def has_bootrom_def check_simps)+

lemma hostbridgeslot_run:
  "\<exists>r. run_slots hostbridgeslot_step bs (0, w) = (r, w) \<and>
     (r = 0 \<longleftrightarrow> (let hs = filter (\<lambda>b. slot_type b = TYPE_HOSTBRIDGE) bs in hs \<noteq> [] \<longrightarrow> pci_id (hd hs) = (0, 0, 0)))"
  by (induction bs) (auto simp: hostbridgeslot_step_def bpp_get_slottype_def bpp_get_pciid_def pci_id_def)

lemma isabridgebus_run:
  "\<exists>r. run_slots isabridgebus_step bs (0, w) = (r, w) \<and>
     (r = 0 \<longleftrightarrow> (\<forall>b \<in> set bs. slot_type b = TYPE_ISABRIDGE \<longrightarrow> bpp_bus b = 0))"
  by (induction bs) (auto simp: isabridgebus_step_def bpp_get_slottype_def bpp_get_pciid_def)

abbreviation slot_ident :: "bhyve_parameters_pcislot \<Rightarrow> string" where
  "slot_ident b \<equiv> pci_ident (bpp_bus b) (bpp_pcislot b) (bpp_function b)"

lemma pciidconflict_run:
  "calm w \<Longrightarrow> \<exists>r sl' w'. run_slots pciidconflict_step bs (0, Some l, w) = (r, sl', w') \<and> calm w' \<and>
     (r = 0 \<longleftrightarrow> distinct (map pci_id bs) \<and> (\<forall>b \<in> set bs. slot_ident b \<notin> set l))"
proof (induction bs arbitrary: l w)
  case (Cons b bs)
  have id: "(\<exists>b' \<in> set bs. slot_ident b' = slot_ident b) \<longleftrightarrow> pci_id b \<in> pci_id ` set bs"
    by (simp add: pci_id_def image_iff) metis
  show ?case
  proof (cases "slot_ident b \<in> set l")
    case True
    with Cons.prems show ?thesis
      by (auto simp: pciidconflict_step_def bpp_get_pciid_def sl_has_def)
  next
    case False
    with Cons.prems have "run_slots pciidconflict_step (b # bs) (0, Some l, w)
        = run_slots pciidconflict_step bs (0, Some (slot_ident b # l), tock (tock w))"
      by (simp add: pciidconflict_step_def bpp_get_pciid_def sl_has_def sl_add_def calm_malloc)
    moreover obtain r sl' w' where
      "run_slots pciidconflict_step bs (0, Some (slot_ident b # l), tock (tock w)) = (r, sl', w')" and "calm w'"
      and "r = 0 \<longleftrightarrow> distinct (map pci_id bs) \<and> (\<forall>x \<in> set bs. slot_ident x \<notin> set (slot_ident b # l))"
      using Cons.IH [of "tock (tock w)" "slot_ident b # l"] Cons.prems by auto
    ultimately show ?thesis using id False by auto
  qed
qed simp

lemma d_hostbridgeslot:
  "decides check_bpc_hostbridgeslot c
     (slots_of TYPE_HOSTBRIDGE c \<noteq> [] \<longrightarrow> pci_id (hd (slots_of TYPE_HOSTBRIDGE c)) = (0, 0, 0))"
proof (rule decidesI)
  fix w :: "'a world_scheme"
  assume "calm w"
  with hostbridgeslot_run [of "bpc_pcislots c" "tock w"] show "\<exists>r w'. check_bpc_hostbridgeslot (Some c) w = Some (r, w') \<and>
      (r = 0 \<longleftrightarrow> (slots_of TYPE_HOSTBRIDGE c \<noteq> [] \<longrightarrow> pci_id (hd (slots_of TYPE_HOSTBRIDGE c)) = (0, 0, 0))) \<and> calm w'"
    by (auto simp: check_bpc_hostbridgeslot_def check_simps)
qed

lemma d_isabus: "decides check_bpc_isabridgebus c (\<forall>b \<in> set (slots_of TYPE_ISABRIDGE c). bpp_bus b = 0)"
proof (rule decidesI)
  fix w :: "'a world_scheme"
  assume "calm w"
  with isabridgebus_run [of "bpc_pcislots c" "tock w"] show "\<exists>r w'. check_bpc_isabridgebus (Some c) w = Some (r, w') \<and>
      (r = 0 \<longleftrightarrow> (\<forall>b \<in> set (slots_of TYPE_ISABRIDGE c). bpp_bus b = 0)) \<and> calm w'"
    by (auto simp: check_bpc_isabridgebus_def calm_iter slots_of_def)
qed

lemma d_conflict: "decides check_bpc_pciidconflict c (distinct (map pci_id (bpc_pcislots c)))"
proof (rule decidesI)
  fix w :: "'a world_scheme"
  assume w: "calm w"
  then obtain r sl' w' where "run_slots pciidconflict_step (bpc_pcislots c) (0, Some [], tock (tock w)) = (r, sl', w')"
    and "calm w'" and "r = 0 \<longleftrightarrow> distinct (map pci_id (bpc_pcislots c))"
    using pciidconflict_run [of "tock (tock w)" "bpc_pcislots c" "[]"] by auto
  with w show "\<exists>r w'. check_bpc_pciidconflict (Some c) w = Some (r, w') \<and>
      (r = 0 \<longleftrightarrow> distinct (map pci_id (bpc_pcislots c))) \<and> calm w'"
    by (simp add: check_bpc_pciidconflict_def calm_iter sl_new_def calm_malloc)
qed

lemma d_com:
  assumes "length (bpc_comport c) = 4"
  shows "decides check_bpc_comwithisa c (has_com c \<longrightarrow> slots_of TYPE_ISABRIDGE c \<noteq> [])"
proof (rule decidesI)
  fix w :: "'a world_scheme"
  assume w: "calm w"
  from assms obtain c0 c1 c2 c3 where "bpc_comport c = [c0, c1, c2, c3]"
    by (auto simp: numeral_eq_Suc length_Suc_conv)
  then have "any_comport 4 (Some c) False w = Some (has_com c, w)"
    by (simp add: numeral_eq_Suc bpc_get_comport_def has_com_def Let_def) blast?
  with w show "\<exists>r w'. check_bpc_comwithisa (Some c) w = Some (r, w') \<and>
      (r = 0 \<longleftrightarrow> (has_com c \<longrightarrow> slots_of TYPE_ISABRIDGE c \<noteq> [])) \<and> calm w'"
    by (auto simp: check_bpc_comwithisa_def check_simps)
qed

section \<open>The set of rules\<close>

lemma first_broken_find:
  assumes "list_all2 (\<lambda>k (n, ok). rule_name k = n \<and> decides (check k) c ok) ks rs" and "calm w"
  shows "\<exists>k w'. first_broken ks (Some c) w = Some (k, w') \<and>
     map_option rule_name k = map_option fst (List.find (\<lambda>(n, ok). \<not> ok) rs)"
  using assms
proof (induction ks rs arbitrary: w rule: list_all2_induct)
  case (Cons k ks r rs)
  obtain n ok where r: "r = (n, ok)" by fastforce
  with Cons obtain x w' where "check k (Some c) w = Some (x, w')" and "x = 0 \<longleftrightarrow> ok" and "calm w'"
    by (auto simp: decides_def)
  with Cons r show ?case by (cases ok) auto
qed simp

lemma bpchecks_decide:
  "length (bpc_comport c) = 4 \<Longrightarrow>
   list_all2 (\<lambda>k (n, ok). rule_name k = n \<and> decides (check k) c ok) bpchecks (rules c)"
  by (simp add: bpchecks_def rules_def d_nonnull d_name d_hostbridge d_single [simplified] d_hostbridgeslot d_singleisa [simplified]
      d_com d_bootromisa d_bootrom d_isabus d_conflict)

lemma find_ok: "List.find (\<lambda>(n, ok). \<not> ok) rs = None \<longleftrightarrow> (\<forall>(n, ok) \<in> set rs. ok)"
  by (induction rs) auto

lemma parameters_checked:
  assumes "calm w" and "length (bpc_comport c) = 4"
  shows "\<exists>k w'. check_parameters_ok (Some c) w = Some (k, w') \<and>
     map_option rule_name k = map_option fst (List.find (\<lambda>(n, ok). \<not> ok) (rules c)) \<and>
     (k = None \<longleftrightarrow> params_ok c)"
proof -
  obtain k w' where k: "first_broken bpchecks (Some c) w = Some (k, w')"
    and n: "map_option rule_name k = map_option fst (List.find (\<lambda>(n, ok). \<not> ok) (rules c))"
    using first_broken_find [OF bpchecks_decide [OF assms(2)] assms(1)] by blast
  from n have "k = None \<longleftrightarrow> List.find (\<lambda>(n, ok). \<not> ok) (rules c) = None"
    by (metis map_option_is_None)
  with k n show ?thesis by (simp add: check_parameters_ok_def find_ok rules_ok)
qed

end
