(* ===== verification/Config_Generator.thy ===== *)
theory Config_Generator
  imports Config_Translate Config_Output Check_Contract
begin

text \<open>
  \<open>src/vmstated/config_generator.c\<close>, the configuration generator that the daemon hands to the director,
  and what the two steps it is made of do: the translation (\<open>Config_Translate\<close>) against the pure
  function \<open>translated\<close>, the lines (\<open>Config_Output\<close>) against the list \<open>core_settings\<close>.
\<close>

definition vmstated_generate_config_file ::
  "bhyve_configuration \<Rightarrow> string \<Rightarrow> 'm world_scheme \<Rightarrow> (int \<times> 'm world_scheme) option" where
  "vmstated_generate_config_file bc filename w =
     (let (ptc, w1) = ptc_new (Some bc) w
      in case ptc of
           None \<Rightarrow> Some (-1, w1)
         | Some _ \<Rightarrow>
             (case ptc_translate ptc w1 of
                None \<Rightarrow> None
              | Some (r, ptc1, w2) \<Rightarrow>
                  if r \<noteq> 0 then Some (-1, w2)
                  else (let (bpc, w3) = ptc_get_parameters ptc1 w2
                        in case bpc of
                             None \<Rightarrow> Some (-1, w3)
                           | Some _ \<Rightarrow>
                               (let (obc, w4) = obc_new (Some filename) bpc w3
                                in case obc of
                                     None \<Rightarrow> Some (-1, w4)
                                   | Some _ \<Rightarrow> obc_combine_with obc (Some (bc_get_configfile bc)) w4))))"

section \<open>The translation\<close>

definition com_of :: "bhyve_configuration_console list \<Rightarrow> nat \<Rightarrow> bhyve_parameters_comport" where
  "com_of l i =
     (if i < length l
      then \<lparr>com_portname = strncpy_buf BPC_NAME_MAX (the (bcc_name (l ! i))), com_enabled = True,
            com_backend = (case bcc_backend (l ! i) of None \<Rightarrow> [] | Some b \<Rightarrow> strncpy_buf PATH_MAX b)\<rparr>
      else com_zero)"

definition hostbridge_slot :: "string \<Rightarrow> bhyve_parameters_pcislot" where
  "hostbridge_slot h = \<lparr>slot_type = TYPE_HOSTBRIDGE, bpp_bus = 0, bpp_pcislot = 0, bpp_function = 0,
     bpp_data = PciHostbridge (if same_nocase h ''amd'' then HOSTBRIDGE_AMD else HOSTBRIDGE)\<rparr>"

definition isabridge_slot :: bhyve_parameters_pcislot where
  "isabridge_slot = \<lparr>slot_type = TYPE_ISABRIDGE, bpp_bus = 0, bpp_pcislot = 1, bpp_function = 0, bpp_data = PciZero\<rparr>"

definition consoles_of :: "bhyve_configuration \<Rightarrow> bhyve_configuration_console list" where
  "consoles_of bc = (case bc_consoles bc of None \<Rightarrow> [] | Some l \<Rightarrow> l)"

definition translated :: "bhyve_configuration \<Rightarrow> bhyve_parameters_core" where
  "translated bc =
     \<lparr>bpc_generate_acpi_tables = bc_generate_acpi_tables bc, bpc_memory = bc_memory bc,
      bpc_numcpus = bc_numcpus bc, bpc_sockets = bc_sockets bc, bpc_cores = bc_cores bc,
      bpc_yield_on_hlt = bc_vmexit_on_halt bc, bpc_wire_memory = bc_wire_memory bc,
      bpc_rtc_keeps_utc = False, bpc_x2apic_mode = False,
      bpc_vmname = strncpy_buf BPC_NAME_MAX (bc_name bc),
      bpc_comport = map (com_of (consoles_of bc)) [0, 1, 2, 3],
      bpc_bootrom = \<lparr>br_bootrom = (case bc_bootrom bc of None \<Rightarrow> [] | Some b \<Rightarrow> strncpy_buf PATH_MAX b),
        br_with_vars = False, br_varsfile = []\<rparr>,
      bpc_pcislots = (if consoles_of bc = [] then [] else [isabridge_slot]) @
        (case bc_hostbridge bc of None \<Rightarrow> [] | Some h \<Rightarrow> [hostbridge_slot h])\<rparr>"

lemma strncpy_nil [simp]: "strncpy_buf n [] = []"
  by (simp add: strncpy_buf_def)

lemma ptc_console_ok:
  assumes "bcc_name b \<noteq> None" and "i < 4" and "length (bpc_comport c) = 4" and "com_backend (bpc_comport c ! i) = []"
  shows "ptc_console b i (Some c) w =
    Some (0, Some (c\<lparr>bpc_comport := (bpc_comport c)[i := \<lparr>com_portname = strncpy_buf BPC_NAME_MAX (the (bcc_name b)),
      com_enabled = True, com_backend = (case bcc_backend b of None \<Rightarrow> [] | Some t \<Rightarrow> strncpy_buf PATH_MAX t)\<rparr>]\<rparr>), w)"
proof -
  have i: "unat (word_of_nat i :: u8) = i" "\<not> 3 < (word_of_nat i :: u8)"
  proof -
    from assms(2) consider "i = 0" | "i = 1" | "i = 2" | "i = 3" by linarith
    then show "unat (word_of_nat i :: u8) = i" by cases simp_all
    from assms(2) consider "i = 0" | "i = 1" | "i = 2" | "i = 3" by linarith
    then show "\<not> 3 < (word_of_nat i :: u8)" by cases simp_all
  qed
  obtain pn en where com: "bpc_comport c ! i = \<lparr>com_portname = pn, com_enabled = en, com_backend = []\<rparr>"
    using assms(4) by (cases "bpc_comport c ! i") simp
  show ?thesis
    using assms by (cases "bcc_backend b")
      (auto simp: ptc_console_def bpc_enable_comport_def bpc_set_comport_backend_def bcc_get_name_def
        bcc_get_backend_def i com Let_def)
qed

lemma ptc_consoles_ok:
  assumes "\<forall>b \<in> set l. bcc_name b \<noteq> None" and "n \<le> 4" and "bpc_comport c = map (\<lambda>i. if i < 4 - n then com_of l i else com_zero) [0, 1, 2, 3]"
  shows "ptc_consoles n l (Some c) w = Some (0, Some (c\<lparr>bpc_comport := map (com_of l) [0, 1, 2, 3]\<rparr>), w)"
  using assms
proof (induction n arbitrary: c)
  case 0
  then show ?case by simp
next
  case (Suc n)
  let ?i = "3 - n"
  define cs where "cs n = map (\<lambda>i. if i < 4 - n then com_of l i else com_zero) [0, 1, 2, 3 :: nat]" for n
  have c: "bpc_comport c = cs (Suc n)" using Suc.prems(3) by (simp add: cs_def)
  have len: "length (bpc_comport c) = 4" and i: "?i < 4" and zero: "bpc_comport c ! ?i = com_zero"
  proof -
    show "length (bpc_comport c) = 4" "?i < 4" by (simp_all add: c cs_def)
    from Suc.prems(2) consider "n = 0" | "n = 1" | "n = 2" | "n = 3" by linarith
    then show "bpc_comport c ! ?i = com_zero"
      unfolding c cs_def by cases simp_all
  qed
  then have z: "com_backend (bpc_comport c ! ?i) = []" by (simp add: com_zero_def)
  have step: "(bpc_comport c)[?i := com_of l ?i] = cs n"
  proof -
    from Suc.prems(2) consider "n = 0" | "n = 1" | "n = 2" | "n = 3" by linarith
    then show ?thesis unfolding c cs_def by cases simp_all
  qed
  have get: "bccl_get_consolebyidx l ?i w = (if ?i < length l then Some (l ! ?i) else None, w)"
    using i by (simp add: bccl_get_consolebyidx_def bccl_nth_from_nth)
  have IH: "ptc_consoles n l (Some c') w = Some (0, Some (c'\<lparr>bpc_comport := map (com_of l) [0, 1, 2, 3]\<rparr>), w)"
    if "bpc_comport c' = cs n" for c'
    by (rule Suc.IH) (use Suc.prems that in \<open>auto simp: cs_def\<close>)
  show ?case
  proof (cases "?i < length l")
    case True
    then have nm: "bcc_name (l ! ?i) \<noteq> None" using Suc.prems(1) by simp
    have "ptc_console (l ! ?i) ?i (Some c) w = Some (0, Some (c\<lparr>bpc_comport := (bpc_comport c)[?i := com_of l ?i]\<rparr>), w)"
      using ptc_console_ok [OF nm i len z, of w] True by (simp add: com_of_def)
    then have "ptc_console (l ! ?i) ?i (Some c) w = Some (0, Some (c\<lparr>bpc_comport := cs n\<rparr>), w)"
      by (simp only: step)
    then have "ptc_consoles (Suc n) l (Some c) w = ptc_consoles n l (Some (c\<lparr>bpc_comport := cs n\<rparr>)) w"
      using True by (simp add: get)
    also have "\<dots> = Some (0, Some (c\<lparr>bpc_comport := map (com_of l) [0, 1, 2, 3]\<rparr>), w)"
      using IH [of "c\<lparr>bpc_comport := cs n\<rparr>"] by simp
    finally show ?thesis .
  next
    case False
    then have "com_of l ?i = bpc_comport c ! ?i" by (simp add: com_of_def zero)
    with step have "bpc_comport c = cs n" by simp
    then show ?thesis using IH [of c] False by (simp add: get)
  qed
qed

lemma ptc_values_ok:
  fixes w :: "'m world_scheme"
  shows "ptc_values bc (Some \<lparr>bpc_generate_acpi_tables = False, bpc_memory = 0, bpc_numcpus = 0, bpc_sockets = 0,
     bpc_cores = 0, bpc_yield_on_hlt = False, bpc_wire_memory = False, bpc_rtc_keeps_utc = False, bpc_x2apic_mode = False, bpc_vmname = strncpy_buf BPC_NAME_MAX (bc_name bc),
     bpc_comport = replicate 4 com_zero, bpc_bootrom = \<lparr>br_bootrom = [], br_with_vars = False, br_varsfile = []\<rparr>,
     bpc_pcislots = []\<rparr>) w
   = (Some ((translated bc)\<lparr>bpc_comport := replicate 4 com_zero, bpc_pcislots := []\<rparr>), w)"
  by (cases "bc_bootrom bc")
    (auto simp: ptc_values_def translated_def transfer_nn_def Let_def bc_get_bootrom_def bpc_set_bootrom_def
      bc_get_vmexithlt_def bpc_set_yieldonhlt_def bc_get_generateacpi_def bpc_set_generateacpi_def bc_get_wired_def
      bpc_set_wired_def bc_get_memory_def bpc_set_memory_def bc_get_numcpus_def bpc_set_numcpus_def
      bc_get_sockets_def bpc_set_sockets_def bc_get_cores_def bpc_set_cores_def)

lemma ptc_hostbridge_ok:
  assumes "calm w"
  shows "\<exists>w'. calm w' \<and> w_os w' = w_os w \<and> w_trace w' = w_trace w \<and> ptc_hostbridge bc (Some c) w = (0, Some (c\<lparr>bpc_pcislots :=
    (case bc_hostbridge bc of None \<Rightarrow> [] | Some h \<Rightarrow> [hostbridge_slot h]) @ bpc_pcislots c\<rparr>), w')"
  using assms
  by (cases "bc_hostbridge bc") (auto simp: ptc_hostbridge_def bc_get_hostbridge_def bpp_new_hostbridge_def
      bpp_new_pcislot_def calm_malloc bpc_addpcislot_at_def hostbridge_slot_def Let_def)

lemma ptc_console_part_ok:
  assumes "calm w" and "\<forall>b \<in> set (consoles_of bc). bcc_name b \<noteq> None" and "bpc_comport c = replicate 4 com_zero"
  shows "\<exists>w'. calm w' \<and> w_os w' = w_os w \<and> w_trace w' = w_trace w \<and> ptc_console_part bc (Some c) w =
    Some (0, Some (c\<lparr>bpc_comport := map (com_of (consoles_of bc)) [0, 1, 2, 3],
      bpc_pcislots := (if consoles_of bc = [] then [] else [isabridge_slot]) @ bpc_pcislots c\<rparr>), w')"
proof (cases "bc_consoles bc")
  case None
  then show ?thesis
    using assms by (cases c) (auto simp: ptc_console_part_def bc_get_consolecount_def bccl_count_def consoles_of_def
        com_of_def numeral_eq_Suc)
next
  case (Some l)
  show ?thesis
  proof (cases "l = []")
    case True
    with Some assms show ?thesis
      by (cases c) (auto simp: ptc_console_part_def bc_get_consolecount_def bccl_count_def consoles_of_def
        com_of_def numeral_eq_Suc)
  next
    case False
    have "ptc_consoles 4 l (Some c) w = Some (0, Some (c\<lparr>bpc_comport := map (com_of l) [0, 1, 2, 3]\<rparr>), w)"
      by (rule ptc_consoles_ok) (use assms Some in \<open>auto simp: consoles_of_def numeral_eq_Suc\<close>)
    with Some False assms(1) show ?thesis
      by (auto simp: ptc_console_part_def bc_get_consolecount_def bc_get_consolelist_def consoles_of_def
          bpp_new_isabridge_def bpp_new_pcislot_def calm_malloc bpc_addpcislot_at_def isabridge_slot_def Let_def)
  qed
qed

lemma translate_ok:
  assumes w: "calm w" and names: "\<forall>b \<in> set (consoles_of bc). bcc_name b \<noteq> None"
  shows "\<exists>w'. calm w' \<and> w_os w' = w_os w \<and> w_trace w' = w_trace w \<and> ptc_translate (Some \<lparr>ptc_bc = bc, ptc_bpc = x\<rparr>) w =
    Some (0, Some \<lparr>ptc_bc = bc, ptc_bpc = Some (translated bc)\<rparr>, w')"
proof -
  let ?c0 = "(translated bc)\<lparr>bpc_comport := replicate 4 com_zero, bpc_pcislots := []\<rparr>"
  obtain w1 where h: "calm w1" "w_os w1 = w_os w" "w_trace w1 = w_trace w" "ptc_hostbridge bc (Some ?c0) (tock w) =
      (0, Some (?c0\<lparr>bpc_pcislots := (case bc_hostbridge bc of None \<Rightarrow> [] | Some h \<Rightarrow> [hostbridge_slot h])\<rparr>), w1)"
    using ptc_hostbridge_ok [of "tock w" bc ?c0] w by auto
  let ?c1 = "?c0\<lparr>bpc_pcislots := (case bc_hostbridge bc of None \<Rightarrow> [] | Some h \<Rightarrow> [hostbridge_slot h])\<rparr>"
  have com: "bpc_comport ?c1 = replicate 4 com_zero" by simp
  obtain w2 where c: "calm w2" "w_os w2 = w_os w" "w_trace w2 = w_trace w" "ptc_console_part bc (Some ?c1) w1 = Some (0, Some (translated bc), w2)"
    using ptc_console_part_ok [OF h(1) names com] h(2,3) by (auto simp: translated_def)
  have b: "bpc_new (Some (bc_get_name bc)) w = (Some \<lparr>bpc_generate_acpi_tables = False, bpc_memory = 0, bpc_numcpus = 0,
     bpc_sockets = 0, bpc_cores = 0, bpc_yield_on_hlt = False, bpc_wire_memory = False, bpc_rtc_keeps_utc = False, bpc_x2apic_mode = False,
     bpc_vmname = strncpy_buf BPC_NAME_MAX (bc_name bc), bpc_comport = replicate 4 com_zero,
     bpc_bootrom = \<lparr>br_bootrom = [], br_with_vars = False, br_varsfile = []\<rparr>, bpc_pcislots = []\<rparr>, tock w)"
    using w by (simp add: bpc_new_def bc_get_name_def calm_malloc)
  show ?thesis
    using c h by (auto simp: ptc_translate_def b ptc_values_ok Let_def)
qed

end
