(* ===== verification/Generator_Contract.thy ===== *)
theory Generator_Contract
  imports Config_Generator
begin

text \<open>
  Properties of the configuration generator: the lines it writes for a vm, how they read back, which
  vms pass the rules of \<open>Config_Check\<close>, and what happens without a file to start from.
\<close>

section \<open>The settings of a vm\<close>

definition slot_setting :: "bhyve_parameters_pcislot \<Rightarrow> (string \<times> string) option" where
  "slot_setting b =
     (case slot_type b of
        TYPE_ISABRIDGE \<Rightarrow> Some (pci_key (bpp_bus b) (bpp_pcislot b) (bpp_function b), ''lpc'')
      | TYPE_HOSTBRIDGE \<Rightarrow> Some (pci_key (bpp_bus b) (bpp_pcislot b) (bpp_function b),
          if bpp_data b = PciHostbridge HOSTBRIDGE_AMD then ''amd_hostbridge'' else ''hostbridge'')
      | _ \<Rightarrow> None)"

definition com_setting :: "bhyve_parameters_comport list \<Rightarrow> nat \<Rightarrow> (string \<times> string) list" where
  "com_setting coms i =
     (if com_enabled (coms ! i) then [(''lpc.com'' @ show_nat (i + 1) @ ''.path'', com_backend (coms ! i))] else [])"

definition com_settings :: "bhyve_parameters_comport list \<Rightarrow> (string \<times> string) list" where
  "com_settings coms = concat (map (com_setting coms) [0..<4])"

definition number_setting :: "string \<Rightarrow> string \<Rightarrow> bool \<Rightarrow> (string \<times> string) list" where
  "number_setting k text wanted = (if wanted then [(k, text)] else [])"

definition core_settings :: "bhyve_parameters_core \<Rightarrow> (string \<times> string) list" where
  "core_settings c =
     [(''name'', bpc_vmname c)]
     @ number_setting ''memory.size'' (show_int (sint (bpc_memory c)) @ ''M'') (bpc_memory c \<noteq> 0)
     @ number_setting ''cpus'' (show_nat (unat (bpc_numcpus c))) (bpc_numcpus c \<noteq> 0)
     @ number_setting ''sockets'' (show_nat (unat (bpc_sockets c))) (bpc_sockets c \<noteq> 0)
     @ number_setting ''sockets'' (show_nat (unat (bpc_cores c))) (bpc_cores c \<noteq> 0)
     @ [(''x86.vmexit_on_hlt'', if bpc_yield_on_hlt c then ''true'' else ''false''),
        (''acpi_tables'', if bpc_generate_acpi_tables c then ''true'' else ''false''),
        (''lpc.bootrom'', br_bootrom (bpc_bootrom c) @ (if br_with_vars (bpc_bootrom c) then '','' else [])
           @ br_varsfile (bpc_bootrom c))]
     @ com_settings (bpc_comport c)
     @ map (\<lambda>b. the (slot_setting b)) (bpc_pcislots c)"

definition setting_line :: "string \<times> string \<Rightarrow> string" where
  "setting_line = (\<lambda>(k, v). k @ ''='' @ v)"

text \<open>Lines are added at the front.\<close>

definition put_lines :: "(string \<times> string) list \<Rightarrow> output_bhyve_core \<Rightarrow> output_bhyve_core" where
  "put_lines kvs obc = obc\<lparr>obc_lines := rev (map setting_line kvs) @ obc_lines obc\<rparr>"

lemma put_lines_simps [simp]:
  "put_lines [] obc = obc" "obc_bpc (put_lines kvs obc) = obc_bpc obc"
  "put_lines kvs (put_lines kvs' obc) = put_lines (kvs' @ kvs) obc"
  by (simp_all add: put_lines_def)

section \<open>Adding lines\<close>

text \<open>The worlds an operation may end in when nothing fails: only the count of system calls has changed.\<close>

definition later :: "'m world_scheme \<Rightarrow> 'm world_scheme \<Rightarrow> bool" where
  "later w w' \<longleftrightarrow> (\<exists>n. w' = w\<lparr>w_tick := n\<rparr>)"

lemma later_refl [simp]: "later w w" "later w (tock w)"
  by (auto simp: later_def tock_def intro: exI [of _ "w_tick w"])

lemma later_trans [trans]: "later w w' \<Longrightarrow> later w' w'' \<Longrightarrow> later w w''"
  by (auto simp: later_def)

lemma later_calm: "later w w' \<Longrightarrow> calm w \<Longrightarrow> calm w'"
  and later_frame: "later w w' \<Longrightarrow> w_os w' = w_os w \<and> w_trace w' = w_trace w"
  by (auto simp: later_def calm_def)

lemma obc_add_ok [simp]:
  "calm w \<Longrightarrow> obc_add obc (Some k) (Some v) w = (0, put_lines [(k, v)] obc, tock (tock w))"
  by (simp add: obc_add_def calm_malloc Let_def put_lines_def setting_line_def)

lemma obc_add_bool_ok [simp]:
  "calm w \<Longrightarrow> obc_add_bool obc k b w = (0, put_lines [(k, if b then ''true'' else ''false'')] obc, tock (tock w))"
  by (simp add: obc_add_bool_def)

lemma pcislots_run:
  assumes "calm w" and "\<forall>b \<in> set bs. slot_setting b \<noteq> None"
  shows "\<exists>w'. later w w' \<and>
    run_slots pcislots_step bs (0, obc, w) = (0, put_lines (map (\<lambda>b. the (slot_setting b)) bs) obc, w')"
  using assms
proof (induction bs arbitrary: obc w)
  case (Cons b bs)
  let ?obc = "put_lines [the (slot_setting b)] obc"
  have "pcislots_step b (0, obc, w) = (True, 0, ?obc, tock (tock w))"
    using Cons.prems by (cases "slot_type b")
      (auto simp: pcislots_step_def slot_setting_def bpp_get_pciid_def bpp_get_slottype_def bpp_get_hostbridge_def Let_def
        split: pci_data.splits)
  moreover obtain w' where "later (tock (tock w)) w'"
    and "run_slots pcislots_step bs (0, ?obc, tock (tock w)) = (0, put_lines (map (\<lambda>b. the (slot_setting b)) bs) ?obc, w')"
    using Cons.IH [of "tock (tock w)" ?obc] Cons.prems by auto
  ultimately show ?case
    using later_trans [of w "tock (tock w)" w'] later_trans [of w "tock w" "tock (tock w)"] by (auto simp: put_lines_def)
qed simp

lemma com_key: "i < 4 \<Longrightarrow> snprintf_buf 256 (''lpc.com'' @ show_nat (i + 1) @ ''.path'') = ''lpc.com'' @ show_nat (i + 1) @ ''.path''"
  using show_nat_length_less [of "i + 1" 0] by (intro snprintf_buf_short) simp

lemma consoles_step:
  assumes "calm w" and "n < 4"
  shows "\<exists>w'. later w w' \<and>
    consoles_loop (Suc n) obc w = consoles_loop n (put_lines (com_setting (bpc_comport (obc_bpc obc)) (3 - n)) obc) w'"
proof (cases "com_enabled (bpc_comport (obc_bpc obc) ! (3 - n))")
  case True
  with assms com_key [of "3 - n"] show ?thesis
    by (intro exI [of _ "tock (tock w)"])
      (auto simp: bpc_get_comport_def com_setting_def Let_def later_trans [OF later_refl(2) later_refl(2)])
next
  case False
  then show ?thesis
    by (intro exI [of _ w]) (auto simp: bpc_get_comport_def com_setting_def Let_def)
qed

lemma consoles_loop_ok:
  assumes "calm w" and "n \<le> 4"
  shows "\<exists>w'. later w w' \<and>
    consoles_loop n obc w = (0, put_lines (concat (map (com_setting (bpc_comport (obc_bpc obc))) [4 - n..<4])) obc, w')"
  using assms
proof (induction n arbitrary: obc w)
  case (Suc n)
  let ?obc = "put_lines (com_setting (bpc_comport (obc_bpc obc)) (3 - n)) obc"
  obtain w1 where w1: "later w w1" "consoles_loop (Suc n) obc w = consoles_loop n ?obc w1"
    using consoles_step [of w n obc] Suc.prems by auto
  obtain w2 where w2: "later w1 w2" "consoles_loop n ?obc w1 =
      (0, put_lines (concat (map (com_setting (bpc_comport (obc_bpc obc))) [4 - n..<4])) ?obc, w2)"
    using Suc.IH [of w1 ?obc] Suc.prems later_calm [OF w1(1)] by auto
  have "[4 - Suc n..<4] = (3 - n) # [4 - n..<4]"
    using Suc.prems(2) upt_conv_Cons [of "3 - n" 4] by (simp add: Suc_diff_le eval_nat_numeral)
  with w1 w2 show ?case by (auto intro: later_trans)
qed simp

lemma consoles_ok:
  "calm w \<Longrightarrow> \<exists>w'. later w w' \<and> obc_set_consoles obc w = (0, put_lines (com_settings (bpc_comport (obc_bpc obc))) obc, w')"
  using consoles_loop_ok [of w 4 obc] by (simp add: obc_set_consoles_def com_settings_def)

lemma add_number_ok:
  assumes "calm w" and "length text < 32"
  shows "\<exists>w'. later w w' \<and> add_number k text wanted rest obc w = rest (put_lines (number_setting k text wanted) obc) w'"
proof (cases wanted)
  case True
  with assms show ?thesis
    by (intro exI [of _ "tock (tock w)"])
      (simp add: add_number_def number_setting_def later_trans [OF later_refl(2) later_refl(2)])
next
  case False
  then show ?thesis by (intro exI [of _ w]) (simp add: add_number_def number_setting_def)
qed

lemma show_word_short: "length (show_nat (unat (x :: u16))) \<le> 5"
proof -
  have "unat x < 2 ^ 16" using unsigned_less [of x] by simp
  then show ?thesis using show_nat_length_less [of "unat x" 4] by simp
qed

lemma show_sint_short: "length (show_int (sint (x :: u32))) \<le> 11"
proof -
  have "- (2 ^ 31) \<le> sint x" and "sint x < 2 ^ 31"
    using sint_greater_eq [of x] sint_less [of x] by simp_all
  then have "nat (- sint x) < 10 ^ Suc 9" and "nat (sint x) < 10 ^ Suc 9"
    by (simp_all add: nat_less_iff)
  from this [THEN show_nat_length_less] show ?thesis by (simp add: show_int_def)
qed

definition boot_short :: "bhyve_parameters_core \<Rightarrow> bool" where
  "boot_short c \<longleftrightarrow> length (br_bootrom (bpc_bootrom c)) + length (br_varsfile (bpc_bootrom c)) + 1 < PATH_MAX * 2 + 64"

lemma set_core_boot_ok:
  assumes "calm w" and "boot_short (obc_bpc obc)" and "\<forall>b \<in> set (bpc_pcislots (obc_bpc obc)). slot_setting b \<noteq> None"
  shows "\<exists>w'. later w w' \<and> set_core_boot obc w = (0, put_lines
     ([(''x86.vmexit_on_hlt'', if bpc_yield_on_hlt (obc_bpc obc) then ''true'' else ''false''),
       (''acpi_tables'', if bpc_generate_acpi_tables (obc_bpc obc) then ''true'' else ''false''),
       (''lpc.bootrom'', br_bootrom (bpc_bootrom (obc_bpc obc)) @ (if br_with_vars (bpc_bootrom (obc_bpc obc)) then '','' else [])
           @ br_varsfile (bpc_bootrom (obc_bpc obc)))]
     @ com_settings (bpc_comport (obc_bpc obc))
     @ map (\<lambda>b. the (slot_setting b)) (bpc_pcislots (obc_bpc obc))) obc, w')"
proof -
  let ?c = "obc_bpc obc"
  let ?boot = "br_bootrom (bpc_bootrom ?c) @ (if br_with_vars (bpc_bootrom ?c) then '','' else []) @ br_varsfile (bpc_bootrom ?c)"
  let ?kvs = "[(''x86.vmexit_on_hlt'', if bpc_yield_on_hlt ?c then ''true'' else ''false''),
       (''acpi_tables'', if bpc_generate_acpi_tables ?c then ''true'' else ''false''), (''lpc.bootrom'', ?boot)]"
  let ?w = "tock (tock (tock (tock (tock (tock w)))))"
  have boot: "snprintf_buf (PATH_MAX * 2 + 64) ?boot = ?boot"
    using assms(2) by (intro snprintf_buf_short) (auto simp: boot_short_def)
  have l: "later w ?w" by (meson later_refl later_trans)
  then have cw: "calm ?w" using assms(1) by simp
  obtain w1 where w1: "later ?w w1" "obc_set_consoles (put_lines ?kvs obc) ?w =
      (0, put_lines (com_settings (bpc_comport ?c)) (put_lines ?kvs obc), w1)"
    using consoles_ok [OF cw, of "put_lines ?kvs obc"] by auto
  then have cw1: "calm w1" using later_calm cw by blast
  then obtain w2 where w2: "later (tock w1) w2" "run_slots pcislots_step (bpc_pcislots ?c)
      (0, put_lines (com_settings (bpc_comport ?c)) (put_lines ?kvs obc), tock w1) =
      (0, put_lines (map (\<lambda>b. the (slot_setting b)) (bpc_pcislots ?c))
        (put_lines (com_settings (bpc_comport ?c)) (put_lines ?kvs obc)), w2)"
    using pcislots_run [OF _ assms(3), of "tock w1" "put_lines (com_settings (bpc_comport ?c)) (put_lines ?kvs obc)"]
    by (simp only: calm_cong) blast
  have "later w w2" by (meson l w1(1) w2(1) later_refl later_trans)
  with w1 w2 boot assms(1) cw1 show ?thesis
    by (auto simp: set_core_boot_def bpc_get_yieldonhlt_def bpc_get_generateacpi_def bpc_get_bootrom_def Let_def
        obc_set_pcislots_def calm_iter)
qed

lemma set_core_ok:
  fixes obc :: output_bhyve_core
  assumes w: "calm w" and b: "boot_short (obc_bpc obc)"
    and s: "\<forall>b \<in> set (bpc_pcislots (obc_bpc obc)). slot_setting b \<noteq> None"
  shows "\<exists>w'. later w w' \<and> obc_set_core obc w = (0, put_lines (core_settings (obc_bpc obc)) obc, w')"
proof -
  let ?c = "obc_bpc obc"
  let ?rest4 = "set_core_boot :: output_bhyve_core \<Rightarrow> 'a world_scheme \<Rightarrow> _"
  let ?rest3 = "add_number ''sockets'' (show_nat (unat (bpc_cores ?c))) (bpc_cores ?c \<noteq> 0) ?rest4"
  let ?rest2 = "add_number ''sockets'' (show_nat (unat (bpc_sockets ?c))) (bpc_sockets ?c \<noteq> 0) ?rest3"
  let ?rest1 = "add_number ''cpus'' (show_nat (unat (bpc_numcpus ?c))) (bpc_numcpus ?c \<noteq> 0) ?rest2"
  let ?rest0 = "add_number ''memory.size'' (show_int (sint (bpc_memory ?c)) @ ''M'') (bpc_memory ?c \<noteq> 0) ?rest1"
  let ?n0 = "number_setting ''memory.size'' (show_int (sint (bpc_memory ?c)) @ ''M'') (bpc_memory ?c \<noteq> 0)"
  let ?n1 = "number_setting ''cpus'' (show_nat (unat (bpc_numcpus ?c))) (bpc_numcpus ?c \<noteq> 0)"
  let ?n2 = "number_setting ''sockets'' (show_nat (unat (bpc_sockets ?c))) (bpc_sockets ?c \<noteq> 0)"
  let ?n3 = "number_setting ''sockets'' (show_nat (unat (bpc_cores ?c))) (bpc_cores ?c \<noteq> 0)"
  have n: "length (show_nat (unat x)) < 32" for x :: u16 using show_word_short [of x] by simp
  have m: "length (show_int (sint (bpc_memory ?c)) @ ''M'') < 32" using show_sint_short [of "bpc_memory ?c"] by simp
  let ?o1 = "put_lines [(''name'', bpc_vmname ?c)] obc"
  have w0: "calm (tock (tock w))" and l0: "later w (tock (tock w))"
    using w later_trans [OF later_refl(2) later_refl(2)] by simp_all
  obtain w1 where w1: "later (tock (tock w)) w1" "?rest0 ?o1 (tock (tock w)) = ?rest1 (put_lines ?n0 ?o1) w1"
    using add_number_ok [OF w0 m] by blast
  obtain w2 where w2: "later w1 w2" "?rest1 (put_lines ?n0 ?o1) w1 = ?rest2 (put_lines ?n1 (put_lines ?n0 ?o1)) w2"
    using add_number_ok [OF later_calm [OF w1(1) w0] n] by blast
  have c2: "calm w2" using later_calm [OF w2(1) later_calm [OF w1(1) w0]] .
  obtain w3 where w3: "later w2 w3" "?rest2 (put_lines ?n1 (put_lines ?n0 ?o1)) w2
      = ?rest3 (put_lines ?n2 (put_lines ?n1 (put_lines ?n0 ?o1))) w3"
    using add_number_ok [OF c2 n] by blast
  obtain w4 where w4: "later w3 w4" "?rest3 (put_lines ?n2 (put_lines ?n1 (put_lines ?n0 ?o1))) w3
      = ?rest4 (put_lines ?n3 (put_lines ?n2 (put_lines ?n1 (put_lines ?n0 ?o1)))) w4"
    using add_number_ok [OF later_calm [OF w3(1) c2] n] by blast
  let ?o = "put_lines ?n3 (put_lines ?n2 (put_lines ?n1 (put_lines ?n0 ?o1)))"
  have o: "obc_bpc ?o = ?c" by simp
  obtain w5 where w5: "later w4 w5" "?rest4 ?o w4 = (0, put_lines (core_settings ?c) obc, w5)"
    using set_core_boot_ok [OF later_calm [OF w4(1) later_calm [OF w3(1) c2]], of ?o, unfolded o, OF b s]
    by (auto simp: core_settings_def)
  have "obc_set_core obc w = ?rest0 ?o1 (tock (tock w))"
    using w by (simp add: obc_set_core_def bpc_get_vmname_def bpc_get_memory_def bpc_get_numcpus_def
        bpc_get_sockets_def bpc_get_cores_def Let_def)
  also have "\<dots> = (0, put_lines (core_settings ?c) obc, w5)"
    by (simp only: w1(2) w2(2) w3(2) w4(2) w5(2))
  finally have "obc_set_core obc w = (0, put_lines (core_settings ?c) obc, w5)" .
  moreover have "later w w5"
    using later_trans [OF l0 later_trans [OF w1(1) later_trans [OF w2(1) later_trans [OF w3(1) later_trans [OF w4(1) w5(1)]]]]] .
  ultimately show ?thesis by blast
qed

lemma obc_new_ok:
  assumes "calm w" and "boot_short c" and "\<forall>b \<in> set (bpc_pcislots c). slot_setting b \<noteq> None"
  shows "\<exists>w'. later w w' \<and> obc_new (Some f) (Some c) w =
    (Some \<lparr>obc_configfile = f, obc_bpc = c, obc_lines = rev (map setting_line (core_settings c))\<rparr>, w')"
proof -
  let ?o = "\<lparr>obc_configfile = f, obc_bpc = c, obc_lines = []\<rparr>"
  obtain w' where "later (tock (tock w)) w'" "obc_set_core ?o (tock (tock w)) = (0, put_lines (core_settings c) ?o, w')"
    using set_core_ok [of "tock (tock w)" ?o] assms by auto
  then show ?thesis using assms(1) later_trans [OF later_refl(2) later_trans [OF later_refl(2)]]
    by (auto simp: obc_new_def calm_malloc Let_def put_lines_def)
qed

text \<open>A slot of another kind: no output.\<close>

lemma pcislots_fails:
  assumes "calm w" and "\<exists>b \<in> set bs. slot_setting b = None"
  shows "\<exists>obc' w'. later w w' \<and> run_slots pcislots_step bs (0, obc, w) = (-1, obc', w')"
  using assms
proof (induction bs arbitrary: obc w)
  case (Cons b bs)
  show ?case
  proof (cases "slot_setting b")
    case None
    then show ?thesis
      by (cases "slot_type b") (auto simp: pcislots_step_def slot_setting_def bpp_get_pciid_def bpp_get_slottype_def Let_def
          intro: exI [of _ w])
  next
    case (Some kv)
    then have "pcislots_step b (0, obc, w) = (True, 0, put_lines [kv] obc, tock (tock w))"
      using Cons.prems by (cases "slot_type b")
        (auto simp: pcislots_step_def slot_setting_def bpp_get_pciid_def bpp_get_slottype_def bpp_get_hostbridge_def Let_def
          split: pci_data.splits)
    moreover obtain obc' w' where "later (tock (tock w)) w'"
      "run_slots pcislots_step bs (0, put_lines [kv] obc, tock (tock w)) = (-1, obc', w')"
      using Cons.IH [of "tock (tock w)" "put_lines [kv] obc"] Cons.prems Some by auto
    ultimately show ?thesis
      using later_trans [OF later_refl(2) later_trans [OF later_refl(2)]] by auto
  qed
qed simp

section \<open>Writing\<close>

definition written :: "int \<Rightarrow> event list \<Rightarrow> string" where
  "written fd tr = concat (map (\<lambda>e. case e of Wrote f t \<Rightarrow> if f = fd then t else [] | _ \<Rightarrow> []) tr)"

lemma written_simps [simp]:
  "written fd [] = []" "written fd (tr @ tr') = written fd tr @ written fd tr'"
  "written fd (Wrote f t # tr) = (if f = fd then t else []) @ written fd tr"
  "written fd (Opened p n # tr) = written fd tr" "written fd (Closed n # tr) = written fd tr"
  by (simp_all add: written_def)

text \<open>A system that writes all it is given.\<close>

definition writes_all :: "'m world_scheme \<Rightarrow> bool" where
  "writes_all w \<longleftrightarrow> (\<forall>t n. n \<le> os_write (w_os w) t n)"

lemma write_all:
  assumes "writes_all w"
  shows "sys_write fd text w = (int (length text), emit (Wrote fd text) (tock w))"
proof -
  have "int (length text) \<le> os_write (w_os w) (w_tick w) (int (length text))"
    using assms by (simp add: writes_all_def)
  then show ?thesis by (simp add: sys_write_def ask_def)
qed

lemma not_short [simp]: "\<not> write_short (int (length text)) text"
  by (simp add: write_short_def)

lemma writes_all_cong [simp]: "writes_all (emit e w) = writes_all w" "writes_all (tock w) = writes_all w"
  by (simp_all add: writes_all_def)

definition file_text :: "string list \<Rightarrow> string" where
  "file_text ls = concat (map (\<lambda>l. l @ [CHR 0x0A]) ls)"

lemma write_lines_ok:
  assumes "writes_all w"
  shows "\<exists>w'. write_lines fd ls w = (0, w') \<and> w_os w' = w_os w \<and> (\<forall>e. seen e w \<longrightarrow> seen e w') \<and>
    (\<forall>f. written f (w_trace w') = written f (w_trace w) @ (if f = fd then file_text ls else []))"
  using assms
proof (induction ls arbitrary: w)
  case (Cons l ls)
  let ?w = "emit (Wrote fd [CHR 0x0A]) (tock (emit (Wrote fd l) (tock w)))"
  obtain w' where "write_lines fd ls ?w = (0, w')" "w_os w' = w_os ?w" "\<forall>e. seen e ?w \<longrightarrow> seen e w'"
    "\<forall>f. written f (w_trace w') = written f (w_trace ?w) @ (if f = fd then file_text ls else [])"
    using Cons.IH [of ?w] Cons.prems by auto
  then show ?case
    using Cons.prems by (auto simp: write_all file_text_def)
qed (simp add: file_text_def)

lemma close_written [simp]: "written f (w_trace (snd (sys_close fd w))) = written f (w_trace w)"
  by (simp add: sys_close_def sys_do_def sys_try_def ask_def Let_def)

text \<open>A system on which the file with the text \<open>t\<close> can be read and the new one written.\<close>

definition files_work :: "string \<Rightarrow> 'm world_scheme \<Rightarrow> bool" where
  "files_work t w \<longleftrightarrow> writes_all w \<and> (\<forall>n. os_fchmod (w_os w) n) \<and> (\<forall>n g. 0 \<le> os_open (w_os w) n g) \<and>
     (\<forall>n fd. os_mmap (w_os w) n fd = Some t)"

lemma combine_ok:
  assumes w: "calm w" and f: "files_work t w" and t: "mapped_string t = Some text" and e: "\<forall>f. written f (w_trace w) = []"
  shows "\<exists>w' fd. obc_combine_with (Some ob) (Some f) w = Some (0, w') \<and>
    seen (Opened (obc_configfile ob) fd) w' \<and> written fd (w_trace w') = text @ [CHR 0x0A] @ file_text (obc_lines ob)"
proof -
  let ?fd1 = "os_open (w_os w) (Suc (w_tick w)) f"
  let ?w1 = "tock (emit (Opened f ?fd1) (tock (tock w)))"
  let ?fm = "\<lparr>fm_filename = strncpy_buf PATH_MAX f, fm_filefd = ?fd1, fm_memory = t\<rparr>"
  let ?fd = "os_open (w_os w) (w_tick ?w1) (obc_configfile ob)"
  let ?w2 = "tock (emit (Opened (obc_configfile ob) ?fd) (tock ?w1))"
  let ?w3 = "emit (Wrote ?fd [CHR 0x0A]) (tock (emit (Wrote ?fd text) (tock ?w2)))"
  have o: "0 \<le> os_open (w_os w) n g" and wa: "writes_all w" for n g using f by (simp_all add: files_work_def)
  have fm: "fm_new (Some f) w = Some (Some ?fm, ?w1)"
    using f w o by (simp add: fm_new_def calm_malloc ask_def files_work_def not_less Let_def)
  obtain w4 where w4: "write_lines ?fd (obc_lines ob) ?w3 = (0, w4)" "\<forall>e. seen e ?w3 \<longrightarrow> seen e w4"
    "written ?fd (w_trace w4) = written ?fd (w_trace ?w3) @ file_text (obc_lines ob)"
    using write_lines_ok [of ?w3 ?fd "obc_lines ob"] wa by auto
  let ?w5 = "fm_free (Some ?fm) (snd (sys_close ?fd w4))"
  have "obc_combine_with (Some ob) (Some f) w = Some (0, ?w5)"
    using f o wa t w4(1) by (simp add: obc_combine_with_def fm fm_get_memory_def ask_def files_work_def not_less
        write_all Let_def)
  moreover have "seen (Opened (obc_configfile ob) ?fd) ?w5"
    using w4(2) by (simp add: fm_free_def)
  moreover have "written ?fd (w_trace ?w5) = text @ [CHR 0x0A] @ file_text (obc_lines ob)"
    using w4(3) e by (simp add: fm_free_def)
  ultimately show ?thesis by blast
qed

section \<open>The generator\<close>

text \<open>What the generator makes of a vm, from the configuration.\<close>

definition generated_lines :: "bhyve_configuration \<Rightarrow> string list" where
  "generated_lines bc = rev (map setting_line (core_settings (translated bc)))"

lemma translated_slots: "\<forall>b \<in> set (bpc_pcislots (translated bc)). slot_setting b \<noteq> None"
  by (auto simp: translated_def slot_setting_def isabridge_slot_def hostbridge_slot_def split: option.splits)

lemma translated_boot: "boot_short (translated bc)"
proof (cases "bc_bootrom bc")
  case (Some b)
  then show ?thesis
    using strncpy_buf_length [of PATH_MAX b] by (simp add: boot_short_def translated_def)
qed (simp add: boot_short_def translated_def)

lemma generate_steps:
  assumes "calm w" and "\<forall>b \<in> set (consoles_of bc). bcc_name b \<noteq> None"
  shows "\<exists>w'. calm w' \<and> w_os w' = w_os w \<and> w_trace w' = w_trace w \<and> vmstated_generate_config_file bc filename w =
    obc_combine_with (Some \<lparr>obc_configfile = filename, obc_bpc = translated bc, obc_lines = generated_lines bc\<rparr>)
      (Some (bc_configfile bc)) w'"
proof -
  obtain w1 where w1: "calm w1" "w_os w1 = w_os w" "w_trace w1 = w_trace w"
    "ptc_translate (Some \<lparr>ptc_bc = bc, ptc_bpc = None\<rparr>) (tock w) = Some (0, Some \<lparr>ptc_bc = bc, ptc_bpc = Some (translated bc)\<rparr>, w1)"
    using translate_ok [of "tock w" bc None] assms by auto
  obtain w2 where w2: "later w1 w2" "obc_new (Some filename) (Some (translated bc)) w1 =
      (Some \<lparr>obc_configfile = filename, obc_bpc = translated bc, obc_lines = generated_lines bc\<rparr>, w2)"
    using obc_new_ok [OF w1(1) translated_boot translated_slots] by (auto simp: generated_lines_def)
  show ?thesis
    using assms(1) w1 w2 later_calm [OF w2(1) w1(1)] later_frame [OF w2(1)]
    by (auto simp: vmstated_generate_config_file_def ptc_new_def calm_malloc ptc_get_parameters_def bc_get_configfile_def)
qed

lemma generate_text:
  assumes "calm w" and "files_work t w" and "mapped_string t = Some text" and "\<forall>f. written f (w_trace w) = []"
    and "\<forall>b \<in> set (consoles_of bc). bcc_name b \<noteq> None"
  shows "\<exists>w' fd. vmstated_generate_config_file bc filename w = Some (0, w') \<and> seen (Opened filename fd) w' \<and>
    written fd (w_trace w') = text @ [CHR 0x0A] @ file_text (generated_lines bc)"
proof -
  obtain w1 where w1: "calm w1" "w_os w1 = w_os w" "w_trace w1 = w_trace w" "vmstated_generate_config_file bc filename w =
    obc_combine_with (Some \<lparr>obc_configfile = filename, obc_bpc = translated bc, obc_lines = generated_lines bc\<rparr>)
      (Some (bc_configfile bc)) w1"
    using generate_steps [OF assms(1,5)] by blast
  from assms(2) w1(2) have "files_work t w1" by (simp add: files_work_def writes_all_def)
  from combine_ok [OF w1(1) this assms(3), of "\<lparr>obc_configfile = filename, obc_bpc = translated bc,
      obc_lines = generated_lines bc\<rparr>" "bc_configfile bc"] w1(3,4) assms(4)
  show ?thesis by auto
qed

definition demo_bc :: bhyve_configuration where
  "demo_bc = bc_zero\<lparr>bc_name := ''vm'', bc_configfile := ''/vm/config'', bc_bootrom := Some ''/uefi'', bc_memory := 512,
     bc_numcpus := 2, bc_hostbridge := Some ''AMD'',
     bc_consoles := Some [\<lparr>bcc_name = Some ''com'', bcc_enabled = False, bcc_backend = Some ''/dev/nmdb0''\<rparr>]\<rparr>"

lemma demo_bc_names: "\<forall>b \<in> set (consoles_of demo_bc). bcc_name b \<noteq> None"
  by (simp add: demo_bc_def consoles_of_def)

lemma demo_files: "calm (world0 calm_os)" "files_work ''cpus=1'' (world0 calm_os)" "mapped_string ''cpus=1'' = Some ''cpus=1''"
  "\<forall>f. written f (w_trace (world0 calm_os)) = []"
  by simp (simp_all add: files_work_def writes_all_def world0_def calm_os_def mapped_string_def PAGE_SIZE_def)

text \<open>C18: In a system where nothing fails, the generator writes the text of the vm's own file, an empty
  line end, and one line \<open>key=value\<close> for every setting of the translated configuration, the last
  setting first. A value of zero gives no line, and the number of cores is written under the key
  \<open>sockets\<close>.\<close>

theorem generate_config_file_text:
  fixes w :: "'m world_scheme"
  assumes "calm w" and "files_work t w" and "mapped_string t = Some text" and "\<forall>f. written f (w_trace w) = []"
    and "\<forall>b \<in> set (consoles_of bc). bcc_name b \<noteq> None"
  shows "\<exists>w' fd. vmstated_generate_config_file bc filename w = Some (0, w') \<and> seen (Opened filename fd) w' \<and>
    written fd (w_trace w') = text @ [CHR 0x0A] @ file_text (rev (map setting_line (core_settings (translated bc))))"
  using generate_text [OF assms] by (simp only: generated_lines_def)

theorem generate_config_file_text_witness:
  "\<exists>w' fd. vmstated_generate_config_file demo_bc ''/vm/config.generated'' (world0 calm_os) = Some (0, w') \<and>
     seen (Opened ''/vm/config.generated'' fd) w' \<and>
     written fd (w_trace w') = ''cpus=1'' @ [CHR 0x0A] @ file_text
       [''pci.0.0.0.device=amd_hostbridge'', ''pci.0.1.0.device=lpc'', ''lpc.com1.path=/dev/nmdb0'', ''lpc.bootrom=/uefi'',
        ''acpi_tables=false'', ''x86.vmexit_on_hlt=false'', ''cpus=2'', ''memory.size=512M'', ''name=vm'']"
proof -
  have "rev (map setting_line (core_settings (translated demo_bc))) =
       [''pci.0.0.0.device=amd_hostbridge'', ''pci.0.1.0.device=lpc'', ''lpc.com1.path=/dev/nmdb0'', ''lpc.bootrom=/uefi'',
        ''acpi_tables=false'', ''x86.vmexit_on_hlt=false'', ''cpus=2'', ''memory.size=512M'', ''name=vm'']"
    by code_simp
  then show ?thesis
    using generate_config_file_text [OF demo_files demo_bc_names, of "''/vm/config.generated''"] by (simp only:)
qed

section \<open>Reading the lines back\<close>

lemma takeWhile_sep: "c \<notin> set k \<Longrightarrow> takeWhile (\<lambda>x. x \<noteq> c) (k @ c # v) = k"
  by (induction k) auto

lemma parse_setting_line:
  assumes "calm w" and "CHR ''='' \<notin> set k"
  shows "pr_parseline (Some (setting_line (k, v))) w = (0, Some (k, v), tock (tock w))"
  using assms by (simp add: pr_parseline_def setting_line_def takeWhile_sep calm_malloc)

lemma no_eq_digits: "CHR ''='' \<notin> set (show_nat n)"
  by (rule show_nat_no_sep) simp

lemma pci_key_no_eq: "CHR ''='' \<notin> set (pci_key a b c)"
  by (auto simp: pci_key_def snprintf_buf_def no_eq_digits dest!: in_set_takeD)

lemma core_keys: "\<forall>(k, v) \<in> set (core_settings c). CHR ''='' \<notin> set k"
  if "\<forall>b \<in> set (bpc_pcislots c). slot_setting b \<noteq> None"
proof -
  have "CHR ''='' \<notin> set (fst (the (slot_setting b)))" if "slot_setting b \<noteq> None" for b
    using that by (auto simp: slot_setting_def pci_key_no_eq split: bhyve_parameters_pcislot_t.splits)
  with that show ?thesis
    by (auto simp: core_settings_def number_setting_def com_settings_def com_setting_def no_eq_digits
        dest!: in_set_takeD split: if_splits prod.splits)
       (metis fst_conv option.distinct(1))+
qed

lemma parse_lines:
  assumes "calm w" and "\<forall>(k, v) \<in> set kvs. CHR ''='' \<notin> set k"
  shows "map (\<lambda>l. fst (snd (pr_parseline (Some l) w))) (map setting_line kvs) = map Some kvs"
  using assms by (induction kvs) (auto simp: parse_setting_line)

text \<open>C22: What the output helper makes of the parameters of a vm reads back: each of its lines, split by
  the line parser, gives the key and the value it was made from, the settings in reverse order.\<close>

theorem output_lines_parse:
  fixes w :: "'m world_scheme"
  assumes "calm w" and "boot_short c" and "\<forall>b \<in> set (bpc_pcislots c). slot_setting b \<noteq> None"
  shows "\<exists>obc w'. obc_new (Some f) (Some c) w = (Some obc, w') \<and>
    map (\<lambda>l. fst (snd (pr_parseline (Some l) w'))) (obc_lines obc) = rev (map Some (core_settings c))"
proof -
  obtain w' where w': "later w w'" "obc_new (Some f) (Some c) w =
    (Some \<lparr>obc_configfile = f, obc_bpc = c, obc_lines = rev (map setting_line (core_settings c))\<rparr>, w')"
    using obc_new_ok [OF assms] by blast
  moreover have "calm w'" using later_calm w'(1) assms(1) .
  ultimately show ?thesis
    using parse_lines [OF _ core_keys [OF assms(3)], of w'] by (auto simp: rev_map)
qed

theorem output_lines_parse_witness:
  "\<exists>obc w'. obc_new (Some ''f'') (Some (translated demo_bc)) (world0 calm_os) = (Some obc, w') \<and>
    map (\<lambda>l. fst (snd (pr_parseline (Some l) w'))) (obc_lines obc) = rev (map Some (core_settings (translated demo_bc)))"
  by (rule output_lines_parse) (simp_all add: translated_boot translated_slots)

section \<open>Translation and rules\<close>

text \<open>C20: The rule that \<open>check_parameters_ok\<close> reports is the first one of its table whose predicate fails,
  and it reports none exactly for well-formed parameters: a name, a boot ROM, one host bridge at
  0:0:0, one LPC bridge on bus 0, no two slots with the same PCI id.\<close>

theorem check_parameters_ok_first:
  fixes w :: "'m world_scheme"
  assumes "calm w" and "length (bpc_comport c) = 4"
  shows "\<exists>k w'. check_parameters_ok (Some c) w = Some (k, w') \<and>
     map_option rule_name k = map_option fst (List.find (\<lambda>(n, ok). \<not> ok) (rules c)) \<and>
     (k = None \<longleftrightarrow> params_ok c)"
  using parameters_checked [OF assms] .

theorem check_parameters_ok_first_witness:
  "\<exists>k w'. check_parameters_ok (Some (translated bc_zero)) (world0 calm_os) = Some (k, w') \<and>
     map_option rule_name k = Some ''non-empty vm name''"
proof -
  have "List.find (\<lambda>(n, ok). \<not> ok) (rules (translated bc_zero)) = Some (''non-empty vm name'', False)"
    by (simp add: rules_def translated_def bc_zero_def)
  moreover have "length (bpc_comport (translated bc_zero)) = 4" by (simp add: translated_def)
  ultimately show ?thesis
    using check_parameters_ok_first [OF demo_files(1), of "translated bc_zero"] by auto
qed

lemma translated_params_ok:
  "params_ok (translated bc) \<longleftrightarrow>
     bc_name bc \<noteq> [] \<and> (\<exists>b. bc_bootrom bc = Some b \<and> b \<noteq> []) \<and> bc_hostbridge bc \<noteq> None \<and> consoles_of bc \<noteq> []"
  by (auto simp: params_ok_def translated_def has_bootrom_def slots_of_def hostbridge_slot_def isabridge_slot_def
      pci_id_def strncpy_buf_def PATH_MAX_def BPC_NAME_MAX_def split: option.splits)

text \<open>C21: Which vms the translation gives parameters that pass all rules: those with a name, a boot ROM, a
  host bridge and at least one console. A vm without consoles gets no LPC bridge, which its boot ROM
  needs.\<close>

theorem translate_passes_checks:
  fixes w :: "'m world_scheme"
  assumes "calm w" and "\<forall>b \<in> set (consoles_of bc). bcc_name b \<noteq> None"
  shows "\<exists>p w' k w''. ptc_translate (Some \<lparr>ptc_bc = bc, ptc_bpc = None\<rparr>) w = Some (0, Some p, w') \<and>
    check_parameters_ok (ptc_bpc p) w' = Some (k, w'') \<and>
    (k = None \<longleftrightarrow> bc_name bc \<noteq> [] \<and> (\<exists>b. bc_bootrom bc = Some b \<and> b \<noteq> []) \<and> bc_hostbridge bc \<noteq> None \<and>
       consoles_of bc \<noteq> [])"
proof -
  obtain w' where w': "calm w'" "ptc_translate (Some \<lparr>ptc_bc = bc, ptc_bpc = None\<rparr>) w =
      Some (0, Some \<lparr>ptc_bc = bc, ptc_bpc = Some (translated bc)\<rparr>, w')"
    using translate_ok [OF assms] by blast
  obtain k w'' where "check_parameters_ok (Some (translated bc)) w' = Some (k, w'')" "k = None \<longleftrightarrow> params_ok (translated bc)"
    using parameters_checked [OF w'(1), of "translated bc"] by (auto simp: translated_def)
  with w'(2) show ?thesis by (auto simp: translated_params_ok)
qed

theorem translate_passes_checks_witness:
  "\<exists>p w' w''. ptc_translate (Some \<lparr>ptc_bc = demo_bc, ptc_bpc = None\<rparr>) (world0 calm_os) = Some (0, Some p, w') \<and>
    check_parameters_ok (ptc_bpc p) w' = Some (None, w'')"
proof -
  have "bc_name demo_bc \<noteq> [] \<and> (\<exists>b. bc_bootrom demo_bc = Some b \<and> b \<noteq> []) \<and> bc_hostbridge demo_bc \<noteq> None \<and>
       consoles_of demo_bc \<noteq> []"
    by (simp add: demo_bc_def consoles_of_def)
  then show ?thesis
    using translate_passes_checks [OF demo_files(1) demo_bc_names] by auto
qed

text \<open>A vm whose configuration file cannot be opened: the error path of reading the file releases the
  same memory twice. (\<open>None\<close> is undefined behaviour.)\<close>

theorem generate_without_file:
  fixes w :: "'m world_scheme"
  assumes "calm w" and "\<forall>n. os_open (w_os w) n (bc_configfile bc) < 0"
    and "\<forall>b \<in> set (consoles_of bc). bcc_name b \<noteq> None"
  shows "vmstated_generate_config_file bc filename w = None"
proof -
  obtain w' where w': "calm w'" "w_os w' = w_os w" "vmstated_generate_config_file bc filename w =
    obc_combine_with (Some \<lparr>obc_configfile = filename, obc_bpc = translated bc, obc_lines = generated_lines bc\<rparr>)
      (Some (bc_configfile bc)) w'"
    using generate_steps [OF assms(1,3)] by blast
  then show ?thesis using assms(2) by (simp add: obc_combine_with_def fm_new_def calm_malloc ask_def Let_def)
qed

theorem generate_without_file_witness:
  "vmstated_generate_config_file demo_bc ''/vm/config.generated'' (world0 (calm_os\<lparr>os_open := \<lambda>_ _. -1\<rparr>)) = None"
proof (rule generate_without_file)
  show "calm (world0 (calm_os\<lparr>os_open := \<lambda>_ _. -1\<rparr>))" by (simp add: calm_def world0_def calm_os_def)
qed (simp_all add: demo_bc_names world0_def)

end
