(* ===== verification/State_Handler.thy ===== *)
theory State_Handler
  imports Os_World
begin

text \<open>
  \<open>src/libstate\<close>: the generic state machine. Nodes carry an id, a name and two optional hooks;
  a transition names its source (or any state, if null) and its target; the handler keeps the
  current node and the transition table.

  A hook gets the nodes' ids and names and the context, and returns its C result and the context
  it leaves. (In C it gets pointers to the nodes; the hooks of the repository read only the name.)
  The handler's \<open>ctx\<close> pointer is the context argument of the operations.
\<close>

section \<open>Data\<close>

record node_ident =
  sn_id :: u64
  sn_name :: string

type_synonym 'c hook = "node_ident \<Rightarrow> 'c \<Rightarrow> node_ident \<Rightarrow> u64 \<Rightarrow> int \<times> 'c"

record 'c state_node = node_ident +
  on_enter :: "'c hook option"
  on_exit :: "'c hook option"

record 'c state_transition =
  st_from :: "'c state_node option"
  st_to :: "'c state_node option"

record 'c state_handler =
  sth_current :: "'c state_node"
  sth_vec :: "'c state_transition list"

definition ident_of :: "'c state_node \<Rightarrow> node_ident" where
  "ident_of n = \<lparr>sn_id = sn_id n, sn_name = sn_name n\<rparr>"

section \<open>Operations\<close>

text \<open>The loop of \<open>sth_findtransition\<close>: the first entry whose source admits the current state and
  whose target is the wanted one.\<close>

fun sth_scan :: "u64 \<Rightarrow> u64 \<Rightarrow> 'c state_transition list \<Rightarrow> 'c state_transition option" where
  "sth_scan cur target [] = None"
| "sth_scan cur target (t # ts) =
     (if (case st_from t of Some f \<Rightarrow> sn_id f \<noteq> cur | None \<Rightarrow> False)
      then sth_scan cur target ts
      else (case st_to t of
              Some n \<Rightarrow> if sn_id n = target then Some t else sth_scan cur target ts
            | None \<Rightarrow> sth_scan cur target ts))"

definition sth_findtransition :: "'c state_handler option \<Rightarrow> u64 \<Rightarrow> 'c state_transition option" where
  "sth_findtransition sth target_state =
     (case sth of
        None \<Rightarrow> None
      | Some h \<Rightarrow> sth_scan (sn_id (sth_current h)) target_state (sth_vec h))"

text \<open>Calling an optional hook; a missing hook counts as success.\<close>

definition run_hook ::
  "'c hook option \<Rightarrow> node_ident \<Rightarrow> 'c \<Rightarrow> node_ident \<Rightarrow> u64 \<Rightarrow> int \<times> 'c" where
  "run_hook h self ctx other other_id =
     (case h of None \<Rightarrow> (0, ctx) | Some f \<Rightarrow> f self ctx other other_id)"

definition sth_transitionto ::
  "'c state_handler \<Rightarrow> u64 \<Rightarrow> 'c \<Rightarrow> int \<times> 'c state_handler \<times> 'c" where
  "sth_transitionto sth target_state ctx =
     (case sth_findtransition (Some sth) target_state of
        None \<Rightarrow> (-1, sth, ctx)
      | Some st \<Rightarrow>
          (case st_to st of
             None \<Rightarrow> (-1, sth, ctx)
           | Some to \<Rightarrow>
               (let cur = sth_current sth;
                    (r, ctx1) = run_hook (on_exit cur) (ident_of cur) ctx (ident_of to) (sn_id to)
                in if r \<noteq> 0 then (-1, sth, ctx1)
                   else (let (r', ctx2) =
                               run_hook (on_enter to) (ident_of to) ctx1 (ident_of cur) (sn_id cur)
                         in if r' \<noteq> 0 then (-1, sth, ctx2)
                            else (0, sth\<lparr>sth_current := to\<rparr>, ctx2)))))"

text \<open>(\<open>sth_findtransition\<close> only returns entries with a target, so the inner null case is dead.)\<close>

definition sth_transitionto_ptr ::
  "'c state_handler option \<Rightarrow> u64 \<Rightarrow> 'c \<Rightarrow> int \<times> 'c state_handler option \<times> 'c" where
  "sth_transitionto_ptr sth target_state ctx =
     (case sth of
        None \<Rightarrow> (-1, None, ctx)
      | Some h \<Rightarrow> (let (r, h', ctx') = sth_transitionto h target_state ctx in (r, Some h', ctx')))"

definition sth_getcurrentid :: "'c state_handler option \<Rightarrow> 'm world_scheme \<Rightarrow> u64 \<times> 'm world_scheme" where
  "sth_getcurrentid sth w =
     (case sth of None \<Rightarrow> (0, set_errno EINVAL w) | Some h \<Rightarrow> (sn_id (sth_current h), w))"

fun sth_lookup_from :: "'c state_node list \<Rightarrow> u64 \<Rightarrow> int \<Rightarrow> int" where
  "sth_lookup_from [] sid i = -1"
| "sth_lookup_from (n # ns) sid i = (if sn_id n = sid then i else sth_lookup_from ns sid (i + 1))"

definition sth_lookupstate :: "'c state_node list option \<Rightarrow> u64 \<Rightarrow> int" where
  "sth_lookupstate vec sid =
     (case vec of None \<Rightarrow> -1 | Some ns \<Rightarrow> sth_lookup_from ns sid 0)"

definition sth_new ::
  "'c state_transition list option \<Rightarrow> 'c state_node \<Rightarrow> 'm world_scheme
   \<Rightarrow> 'c state_handler option \<times> 'm world_scheme" where
  "sth_new vec current w =
     (case vec of
        None \<Rightarrow> (None, w)
      | Some ts \<Rightarrow>
          (let (ok, w') = sys_malloc w
           in if \<not> ok then (None, w')
              else (Some \<lparr>sth_current = current, sth_vec = ts\<rparr>, w')))"

section \<open>Lemmas\<close>

text \<open>Which entries of a table apply: source null or the current id, target the wanted id.\<close>

definition applies :: "u64 \<Rightarrow> u64 \<Rightarrow> 'c state_transition \<Rightarrow> bool" where
  "applies cur target t \<longleftrightarrow>
     (case st_from t of None \<Rightarrow> True | Some f \<Rightarrow> sn_id f = cur) \<and>
     (case st_to t of None \<Rightarrow> False | Some n \<Rightarrow> sn_id n = target)"

lemma sth_scan_find: "sth_scan cur target ts = List.find (applies cur target) ts"
  by (induction ts) (auto simp: applies_def split: option.splits)

lemma sth_scan_Some:
  "sth_scan cur target ts = Some t \<Longrightarrow>
     t \<in> set ts \<and> (\<exists>n. st_to t = Some n \<and> sn_id n = target) \<and>
     (\<forall>f. st_from t = Some f \<longrightarrow> sn_id f = cur)"
  by (auto simp: sth_scan_find find_Some_iff applies_def split: option.splits)

lemma sth_scan_None: "sth_scan cur target ts = None \<longleftrightarrow> (\<forall>t \<in> set ts. \<not> applies cur target t)"
  by (auto simp: sth_scan_find find_None_iff)

lemma sth_lookup_from_range:
  "sth_lookup_from ns sid i = -1 \<or> i \<le> sth_lookup_from ns sid i \<and> sth_lookup_from ns sid i < i + int (length ns)"
proof (induction ns arbitrary: i)
  case (Cons n ns)
  from Cons.IH [of "i + 1"] show ?case by auto
qed simp

lemma sth_lookup_from_hit:
  "0 \<le> i \<Longrightarrow> sth_lookup_from ns sid i \<noteq> -1 \<Longrightarrow>
     sn_id (ns ! nat (sth_lookup_from ns sid i - i)) = sid"
proof (induction ns arbitrary: i)
  case (Cons n ns)
  show ?case
  proof (cases "sn_id n = sid")
    case False
    with Cons.prems have ne: "sth_lookup_from ns sid (i + 1) \<noteq> -1" by simp
    with sth_lookup_from_range [of ns sid "i + 1"] have "i + 1 \<le> sth_lookup_from ns sid (i + 1)"
      by auto
    then have "nat (sth_lookup_from ns sid (i + 1) - i) = Suc (nat (sth_lookup_from ns sid (i + 1) - (i + 1)))"
      by arith
    with Cons.IH [of "i + 1"] ne False Cons.prems show ?thesis by simp
  qed simp
qed simp

lemma sth_transitionto_vec:
  "sth_transitionto sth t ctx = (r, sth', ctx') \<Longrightarrow> sth_vec sth' = sth_vec sth"
  by (auto simp: sth_transitionto_def Let_def split: option.splits prod.splits if_splits)

lemma sth_scan_applies:
  "sth_scan cur target ts = Some t \<Longrightarrow> t \<in> set ts \<and> applies cur target t"
  by (auto simp: sth_scan_find find_Some_iff)

lemma sth_transitionto_stuck:
  "sth_findtransition (Some sth) t = None \<Longrightarrow> sth_transitionto sth t ctx = (-1, sth, ctx)"
  by (simp add: sth_transitionto_def)

lemma sth_transitionto_result:
  assumes run: "sth_transitionto sth t ctx = (r, sth', ctx')"
  shows "(r = 0 \<and> sn_id (sth_current sth') = t \<and>
        (\<exists>tr \<in> set (sth_vec sth). applies (sn_id (sth_current sth)) t tr \<and> st_to tr = Some (sth_current sth')))
     \<or> (r = -1 \<and> sth' = sth)"
proof (cases "sth_findtransition (Some sth) t")
  case None
  with run show ?thesis by (simp add: sth_transitionto_def)
next
  case (Some st)
  then have st: "st \<in> set (sth_vec sth)" "applies (sn_id (sth_current sth)) t st"
    by (auto simp: sth_findtransition_def dest: sth_scan_applies)
  then obtain n where n: "st_to st = Some n" "sn_id n = t"
    by (auto simp: applies_def split: option.splits)
  from run Some n have "r = 0 \<and> sth' = sth\<lparr>sth_current := n\<rparr> \<or> r = -1 \<and> sth' = sth"
    by (simp add: sth_transitionto_def Let_def split: prod.splits if_splits)
  with st n show ?thesis by auto
qed

end
