(* ===== verification/Log_Director.thy ===== *)
theory Log_Director
  imports Os_World
begin

text \<open>
  \<open>src/liblogging/log_director.c\<close>: pipes that carry the output of child processes to log files. A
  redirector owns a log file and a list of clients; a client is one pipe. Both live in a heap (the
  process state of a vm and the director share pointers to them), which extends the world: a
  pointer is a key of \<open>w_ldrs\<close> or \<open>w_clients\<close>, and freeing clears the key.

  The contents of the log data are not modelled, only how many bytes move. The buffer of the lists
  (\<open>LIST_REMOVE\<close>) is the list of keys; removing an entry that is not in the list is a no-op here and
  undefined in C (\<open>ldr_newclient\<close> does it when locking fails).
\<close>

section \<open>Data\<close>

record log_director_redirector_client =
  ldrd_readfd :: int                     \<comment> \<open>\<open>pipefd[0]\<close>\<close>
  ldrd_writefd :: int                    \<comment> \<open>\<open>pipefd[1]\<close>\<close>
  ldrd_other_end_closed :: bool
  ldrd_this_accepted :: bool
  ldrd_closed :: bool
  ldrd_ldr :: "nat option"

record log_director_redirector =
  ldr_logname :: string
  ldr_logfilefd :: int
  ldr_mtx :: bool
  ldr_clients :: "nat list"

record log_director =
  ld_log_level :: int
  ld_log_directory :: string
  ld_kqueuefd :: int
  ld_mtx :: bool
  ld_thread_started :: bool
  ld_redirects :: "nat list"

record logworld = world +
  w_ldrs :: "nat \<Rightarrow> log_director_redirector option"
  w_clients :: "nat \<Rightarrow> log_director_redirector_client option"
  w_fresh :: nat

definition ldr_at :: "nat \<Rightarrow> 'm logworld_scheme \<Rightarrow> log_director_redirector" where
  "ldr_at l w = the (w_ldrs w l)"

definition ldrd_at :: "nat \<Rightarrow> 'm logworld_scheme \<Rightarrow> log_director_redirector_client" where
  "ldrd_at c w = the (w_clients w c)"

definition put_ldr :: "nat \<Rightarrow> log_director_redirector \<Rightarrow> 'm logworld_scheme \<Rightarrow> 'm logworld_scheme" where
  "put_ldr l x w = w\<lparr>w_ldrs := (w_ldrs w)(l := Some x)\<rparr>"

definition put_ldrd ::
  "nat \<Rightarrow> log_director_redirector_client \<Rightarrow> 'm logworld_scheme \<Rightarrow> 'm logworld_scheme" where
  "put_ldrd c x w = w\<lparr>w_clients := (w_clients w)(c := Some x)\<rparr>"

definition drop_ldrd :: "nat \<Rightarrow> 'm logworld_scheme \<Rightarrow> 'm logworld_scheme" where
  "drop_ldrd c w = w\<lparr>w_clients := (w_clients w)(c := None)\<rparr>"

definition drop_ldr :: "nat \<Rightarrow> 'm logworld_scheme \<Rightarrow> 'm logworld_scheme" where
  "drop_ldr l w = w\<lparr>w_ldrs := (w_ldrs w)(l := None)\<rparr>"

definition ldr_lock :: "nat \<Rightarrow> 'm logworld_scheme \<Rightarrow> bool \<times> 'm logworld_scheme" where
  "ldr_lock l w =
     (let (err, m, w') = mutex_lock (ldr_mtx (ldr_at l w)) w
      in (err, put_ldr l ((ldr_at l w')\<lparr>ldr_mtx := m\<rparr>) w'))"

definition ldr_unlock :: "nat \<Rightarrow> 'm logworld_scheme \<Rightarrow> bool \<times> 'm logworld_scheme" where
  "ldr_unlock l w =
     (let (err, m, w') = mutex_unlock (ldr_mtx (ldr_at l w)) w
      in (err, put_ldr l ((ldr_at l w')\<lparr>ldr_mtx := m\<rparr>) w'))"

section \<open>Clients\<close>

text \<open>The test of the pointer is the wrong way round: a valid pointer is refused, and a null pointer
  is dereferenced (the result \<open>None\<close>).\<close>

definition ldrd_get_senderpipe ::
  "nat option \<Rightarrow> 'm logworld_scheme \<Rightarrow> (int \<times> 'm logworld_scheme) option" where
  "ldrd_get_senderpipe ldrd w =
     (case ldrd of Some c \<Rightarrow> Some (-1, set_errno EINVAL w) | None \<Rightarrow> None)"

text \<open>\<open>ldrd_redirect_stdout\<close> and \<open>ldrd_redirect_stderr\<close> run the same steps on descriptors 1 and 2, in
  the child's copy of the memory.\<close>

definition ldrd_redirect_fd ::
  "int \<Rightarrow> nat option \<Rightarrow> 'm logworld_scheme \<Rightarrow> int \<times> 'm logworld_scheme" where
  "ldrd_redirect_fd fd ldr w =
     (case ldr of
        None \<Rightarrow> (-1, set_errno EINVAL w)
      | Some c \<Rightarrow>
          (let (ok, w1) = sys_close fd w
           in if \<not> ok then (-1, w1)
              else (let (err, w2) =
                      (if ldrd_other_end_closed (ldrd_at c w1) then (False, w1)
                       else (let (ok', w') = sys_close (ldrd_readfd (ldrd_at c w1)) w1
                             in if \<not> ok' then (True, w')
                                else (False, put_ldrd c ((ldrd_at c w')\<lparr>ldrd_other_end_closed := True\<rparr>) w')))
                    in if err then (-1, w2) else sys_dup2 (ldrd_writefd (ldrd_at c w2)) fd w2)))"

definition ldrd_redirect_stdout :: "nat option \<Rightarrow> 'm logworld_scheme \<Rightarrow> int \<times> 'm logworld_scheme" where
  "ldrd_redirect_stdout = ldrd_redirect_fd 1"

definition ldrd_redirect_stderr :: "nat option \<Rightarrow> 'm logworld_scheme \<Rightarrow> int \<times> 'm logworld_scheme" where
  "ldrd_redirect_stderr = ldrd_redirect_fd 2"

definition ldrd_accept_redirect :: "nat option \<Rightarrow> 'm logworld_scheme \<Rightarrow> int \<times> 'm logworld_scheme" where
  "ldrd_accept_redirect ldrd w =
     (case ldrd of
        None \<Rightarrow> (-1, set_errno EINVAL w)
      | Some c \<Rightarrow>
          if \<not> ldrd_this_accepted (ldrd_at c w)
          then (let w1 = put_ldrd c ((ldrd_at c w)\<lparr>ldrd_this_accepted := True\<rparr>) w;
                    (ok, w2) = sys_close (ldrd_writefd (ldrd_at c w1)) w1
                in (if ok then 0 else -1, w2))
          else (0, w))"

definition ldrd_unlist :: "nat \<Rightarrow> 'm logworld_scheme \<Rightarrow> 'm logworld_scheme" where
  "ldrd_unlist c w =
     (case ldrd_ldr (ldrd_at c w) of
        None \<Rightarrow> w
      | Some l \<Rightarrow>
          (case w_ldrs w l of
             None \<Rightarrow> w
           | Some x \<Rightarrow> put_ldr l (x\<lparr>ldr_clients := remove1 c (ldr_clients x)\<rparr>) w))"

definition ldrd_freeclient :: "nat option \<Rightarrow> 'm logworld_scheme \<Rightarrow> 'm logworld_scheme" where
  "ldrd_freeclient ldrd w =
     (case ldrd of
        None \<Rightarrow> set_errno EINVAL w
      | Some c \<Rightarrow>
          (let x = ldrd_at c w;
               w1 = (if \<not> ldrd_this_accepted x then snd (sys_close (ldrd_writefd x) w) else w);
               w2 = (if \<not> ldrd_closed x then snd (sys_close (ldrd_readfd x) w1) else w1)
           in drop_ldrd c (ldrd_unlist c w2)))"

definition ld_register_pipe :: "nat \<Rightarrow> 'm logworld_scheme \<Rightarrow> int \<times> 'm logworld_scheme" where
  "ld_register_pipe c w =
     (let (ok, w1) = sys_do (PipeWatched (ldrd_readfd (ldrd_at c w)) c) os_kevent w
      in (if ok then 0 else -1, w1))"

definition ldr_newclient :: "nat \<Rightarrow> 'm logworld_scheme \<Rightarrow> nat option \<times> 'm logworld_scheme" where
  "ldr_newclient l w =
     (let (ok, w1) = sys_malloc w
      in if \<not> ok then (None, w1)
         else (let c = w_fresh w1; (p, w2) = ask os_pipe (w1\<lparr>w_fresh := Suc c\<rparr>)
               in case p of
                    None \<Rightarrow> (None, set_errno ESYS w2)
                  | Some (rd, wr) \<Rightarrow>
                      (let w3 = put_ldrd c \<lparr>ldrd_readfd = rd, ldrd_writefd = wr,
                                  ldrd_other_end_closed = False, ldrd_this_accepted = False,
                                  ldrd_closed = False, ldrd_ldr = None\<rparr> w2;
                           (res, w4) = ld_register_pipe c w3
                       in if res \<noteq> 0
                          then (None, drop_ldrd c (snd (sys_close rd (snd (sys_close wr w4)))))
                          else (let w5 = put_ldrd c ((ldrd_at c w4)\<lparr>ldrd_ldr := Some l\<rparr>) w4;
                                    (err, w6) = ldr_lock l w5
                                in if err then (None, ldrd_freeclient (Some c) w6)
                                   else (let w7 = put_ldr l ((ldr_at l w6)
                                                    \<lparr>ldr_clients := c # ldr_clients (ldr_at l w6)\<rparr>) w6
                                         in (Some c, snd (ldr_unlock l w7)))))))"

section \<open>Moving the data\<close>

text \<open>
  The two loops of \<open>ldr_recv_ondata\<close>: read or write until \<open>todo\<close> bytes are done or a call fails.
  They may not end (a \<open>read\<close> at the end of the file returns 0), hence \<open>partial_function\<close>.
\<close>

partial_function (option) move_bytes ::
  "(os \<Rightarrow> nat \<Rightarrow> int \<Rightarrow> int) \<Rightarrow> int \<Rightarrow> 'm world_scheme \<Rightarrow> (int \<times> 'm world_scheme) option" where
  "move_bytes f todo w =
     (if todo = 0 then Some (0, w)
      else (let r = ask (\<lambda>s n. f s n todo) w
            in if fst r < 0 then Some (todo, set_errno ESYS (snd r))
               else move_bytes f (todo - fst r) (snd r)))"

definition ldr_recv_ondata ::
  "nat \<Rightarrow> int \<Rightarrow> 'm logworld_scheme \<Rightarrow> (int \<times> 'm logworld_scheme) option" where
  "ldr_recv_ondata c bytes_ready w =
     (case ldrd_ldr (ldrd_at c w) of
        None \<Rightarrow> None
      | Some l \<Rightarrow>
          (let (err, w1) = ldr_lock l w
           in if err then Some (-1, w1)
              else (let (ok, w2) = sys_malloc w1
                    in if \<not> ok then Some (-1, snd (ldr_unlock l w2))
                       else (case move_bytes os_read bytes_ready w2 of
                               None \<Rightarrow> None
                             | Some (_, w3) \<Rightarrow>
                                 (case move_bytes os_write bytes_ready w3 of
                                    None \<Rightarrow> None
                                  | Some (left, w4) \<Rightarrow>
                                      (let w5 = emit (Logged (ldr_logfilefd (ldr_at l w4))
                                                      (bytes_ready - left)) w4
                                       in Some (0, snd (ldr_unlock l w5))))))))"

datatype kevent = EVFILT_READ u16 int nat | EVFILT_USER | EVFILT_OTHER

definition EV_EOF :: u16 where
  "EV_EOF = 0x8000"

text \<open>One round of the loop of \<open>ld_kqueue_thread\<close>; the flag says that it is the last one.\<close>

definition ld_kqueue_event ::
  "kevent \<Rightarrow> 'm logworld_scheme \<Rightarrow> (bool \<times> 'm logworld_scheme) option" where
  "ld_kqueue_event ev w =
     (case ev of
        EVFILT_READ flags data c \<Rightarrow>
          if EV_EOF = flags then Some (False, ldrd_freeclient (Some c) w)
          else map_option (\<lambda>(_, w'). (False, w')) (ldr_recv_ondata c data w)
      | EVFILT_USER \<Rightarrow> Some (True, w)
      | EVFILT_OTHER \<Rightarrow> Some (False, w))"

section \<open>Redirectors and the director\<close>

definition ldr_new ::
  "string \<Rightarrow> string option \<Rightarrow> 'm logworld_scheme \<Rightarrow> nat option \<times> 'm logworld_scheme" where
  "ldr_new log_directory logname w =
     (case logname of
        None \<Rightarrow> (None, set_errno EINVAL w)
      | Some name \<Rightarrow>
          (let (ok, w1) = sys_malloc w
           in if \<not> ok then (None, w1)
              else (let (inited, w2) = sys_init w1
                    in if \<not> inited then (None, w2)
                       else (let (ok', w3) = sys_malloc w2
                             in if \<not> ok' then (None, w3)
                                else (let logfile_name = snprintf_buf PATH_MAX
                                            (log_directory @ ''/'' @ name @ ''.log'');
                                          (fd, w4) = ask (\<lambda>s n. os_open s n logfile_name) w3
                                      in if fd < 0 then (None, set_errno ESYS w4)
                                         else (let w5 = emit (Opened logfile_name fd) w4;
                                                   (ok'', w6) = sys_try ESYS os_fchmod w5
                                               in if \<not> ok'' then (None, snd (sys_close fd w6))
                                                  else (let l = w_fresh w6
                                                        in (Some l, put_ldr l
                                                              \<lparr>ldr_logname = name, ldr_logfilefd = fd,
                                                               ldr_mtx = False, ldr_clients = []\<rparr>
                                                              (w6\<lparr>w_fresh := Suc l\<rparr>)))))))))"

fun ldr_free_clients :: "nat list \<Rightarrow> 'm logworld_scheme \<Rightarrow> 'm logworld_scheme" where
  "ldr_free_clients [] w = w"
| "ldr_free_clients (c # cs) w = ldr_free_clients cs (ldrd_freeclient (Some c) (ldrd_unlist c w))"

text \<open>(\<open>ldrd_freeclient\<close> removes the entry a second time; here that is a no-op.)\<close>

definition ldr_free :: "nat option \<Rightarrow> 'm logworld_scheme \<Rightarrow> 'm logworld_scheme" where
  "ldr_free ldr w =
     (case ldr of
        None \<Rightarrow> w
      | Some l \<Rightarrow>
          (let (_, w1) = ldr_lock l w;
               w2 = ldr_free_clients (ldr_clients (ldr_at l w1)) w1;
               (_, w3) = ldr_unlock l w2
           in drop_ldr l w3))"

definition ld_register_redirect ::
  "log_director option \<Rightarrow> string option \<Rightarrow> 'm logworld_scheme
   \<Rightarrow> nat option \<times> log_director option \<times> 'm logworld_scheme" where
  "ld_register_redirect ld logname w =
     (case (ld, logname) of
        (Some d, Some name) \<Rightarrow>
          (let (l, w1) = ldr_new (ld_log_directory d) (Some name) w
           in case l of
                None \<Rightarrow> (None, Some d, w1)
              | Some k \<Rightarrow>
                  (let (err, m, w2) = mutex_lock (ld_mtx d) w1
                   in if err then (None, Some (d\<lparr>ld_mtx := m\<rparr>), ldr_free (Some k) w2)
                      else (let (_, m', w3) = mutex_unlock m w2
                            in (Some k, Some (d\<lparr>ld_redirects := k # ld_redirects d, ld_mtx := m'\<rparr>), w3))))
      | _ \<Rightarrow> (None, ld, set_errno EINVAL w))"

definition ld_thread_start :: "log_director option \<Rightarrow> 'm logworld_scheme \<Rightarrow> int \<times> 'm logworld_scheme" where
  "ld_thread_start ld w =
     (case ld of
        None \<Rightarrow> (-1, set_errno EINVAL w)
      | Some d \<Rightarrow> (let (ok, w1) = sys_init w in (if ok then 0 else 1, w1)))"

definition ld_thread_stop :: "log_director \<Rightarrow> 'm logworld_scheme \<Rightarrow> int \<times> 'm logworld_scheme" where
  "ld_thread_stop ld w =
     (let (ok, w1) = sys_try ESYS os_kevent w
      in if \<not> ok then (-1, w1) else (0, emit (ThreadJoined ''ld thread'') w1))"

fun ld_free_redirects :: "nat list \<Rightarrow> 'm logworld_scheme \<Rightarrow> 'm logworld_scheme" where
  "ld_free_redirects [] w = w"
| "ld_free_redirects (l # ls) w = ld_free_redirects ls (ldr_free (Some l) w)"

definition ld_free :: "log_director option \<Rightarrow> 'm logworld_scheme \<Rightarrow> 'm logworld_scheme" where
  "ld_free ld w =
     (case ld of
        None \<Rightarrow> w
      | Some d \<Rightarrow>
          (let (_, w1) = ld_thread_stop d w;
               (_, m, w2) = mutex_lock (ld_mtx d) w1;
               w3 = ld_free_redirects (ld_redirects d) w2;
               (_, _, w4) = mutex_unlock m w3
           in snd (sys_close (ld_kqueuefd d) w4)))"

definition ld_level :: "int \<Rightarrow> int" where
  "ld_level verbosity =
     (let l0 = 3;
          l1 = (if verbosity \<ge> 1 then 4 else l0);
          l2 = (if verbosity \<ge> 2 then 5 else l1);
          l3 = (if verbosity \<ge> 3 then 6 else l2)
      in if verbosity \<ge> 4 then 7 else l3)"

definition ld_new ::
  "int \<Rightarrow> string option \<Rightarrow> 'm logworld_scheme \<Rightarrow> log_director option \<times> 'm logworld_scheme" where
  "ld_new verbosity log_directory w =
     (case log_directory of
        None \<Rightarrow> (None, set_errno EINVAL w)
      | Some dir \<Rightarrow>
          (let (ok, w1) = sys_malloc w
           in if \<not> ok then (None, w1)
              else (let (ok', w2) = sys_malloc w1
                    in if \<not> ok' then (None, w2)
                       else (let (fd, w3) = ask os_kqueue w2
                             in if fd < 0 then (None, set_errno ESYS w3)
                                else (let (i1, w4) = sys_init w3
                                      in if \<not> i1 then (None, snd (sys_close fd w4))
                                         else (let (i2, w5) = sys_init w4
                                               in if \<not> i2 then (None, snd (sys_close fd w5))
                                                  else (let d = \<lparr>ld_log_level = ld_level verbosity,
                                                                ld_log_directory = dir, ld_kqueuefd = fd,
                                                                ld_mtx = False, ld_thread_started = False,
                                                                ld_redirects = []\<rparr>;
                                                            (r, w6) = ld_thread_start (Some d) w5
                                                        in if r \<noteq> 0 then (None, ld_free (Some d) w6)
                                                           else (Some d, w6))))))))"

section \<open>Frame\<close>

lemma logworld_os [simp]:
  "w_os (put_ldr l x w) = w_os w" "w_os (put_ldrd c y w) = w_os w" "w_os (drop_ldrd c w) = w_os w"
  "w_os (drop_ldr l w) = w_os w"
  by (simp_all add: put_ldr_def put_ldrd_def drop_ldrd_def drop_ldr_def)

lemma ldr_lock_os [simp]:
  "w_os (snd (ldr_lock l w)) = w_os w" "w_os (snd (ldr_unlock l w)) = w_os w"
  by (simp_all add: ldr_lock_def ldr_unlock_def Let_def split_def)

lemma ldrd_unlist_os [simp]: "w_os (ldrd_unlist c w) = w_os w"
  by (simp add: ldrd_unlist_def split: option.split)

lemma ldrd_freeclient_os [simp]: "w_os (ldrd_freeclient p w) = w_os w"
  by (cases p) (simp_all add: ldrd_freeclient_def Let_def)

lemma ldrd_register_os [simp]:
  "w_os (snd (ld_register_pipe c w)) = w_os w" "w_os (snd (ldrd_accept_redirect p w)) = w_os w"
  by (simp_all add: ld_register_pipe_def ldrd_accept_redirect_def Let_def split_def split: option.split)

lemma ldr_newclient_os [simp]: "w_os (snd (ldr_newclient l w)) = w_os w"
  by (simp add: ldr_newclient_def Let_def split_def split: option.split)

lemma logworld_seen [simp]:
  "seen e (put_ldr l x w) = seen e w" "seen e (put_ldrd c y w) = seen e w"
  "seen e (drop_ldrd c w) = seen e w" "seen e (drop_ldr l w) = seen e w"
  by (simp_all add: put_ldr_def put_ldrd_def drop_ldrd_def drop_ldr_def seen_def)

lemma ldr_lock_seen [simp]:
  "seen e w \<Longrightarrow> seen e (snd (ldr_lock l w))" "seen e w \<Longrightarrow> seen e (snd (ldr_unlock l w))"
  by (simp_all add: ldr_lock_def ldr_unlock_def Let_def split_def)

lemma ldrd_unlist_seen [simp]: "seen e (ldrd_unlist c w) = seen e w"
  by (simp add: ldrd_unlist_def split: option.split)

lemma ldrd_freeclient_seen [simp]: "seen e w \<Longrightarrow> seen e (ldrd_freeclient p w)"
  by (cases p) (simp_all add: ldrd_freeclient_def Let_def)

lemma ldrd_register_seen [simp]:
  "seen e w \<Longrightarrow> seen e (snd (ld_register_pipe c w))"
  "seen e w \<Longrightarrow> seen e (snd (ldrd_accept_redirect p w))"
  by (simp_all add: ld_register_pipe_def ldrd_accept_redirect_def Let_def split_def split: option.split)

lemma fresh_seen [simp]: "seen e (w\<lparr>w_fresh := n\<rparr>) = seen e w"
  by (simp add: seen_def)

lemma ldr_newclient_seen [simp]: "seen e w \<Longrightarrow> seen e (snd (ldr_newclient l w))"
  by (simp add: ldr_newclient_def Let_def split_def split: option.split)

end
