(* ===== verification/Process_Def.thy ===== *)
theory Process_Def
  imports Bhyve_Config Log_Director
begin

text \<open>
  \<open>src/libprocwatch/process_def.c\<close> and \<open>process_def_object.c\<close>: what to execute, and the launch. An
  argument vector is the array before its terminating null pointer; an element is \<open>None\<close> where an
  unchecked \<open>strdup\<close> put a null pointer into it.

  \<open>fork\<close> is seen from the parent. What the child does is the definition \<open>pd_launch_child\<close>: it
  either becomes the new program or ends with an exit code.
\<close>

section \<open>Data\<close>

record process_def =
  pd_name :: string
  pd_description :: "string option"
  pd_procpath :: string
  pd_procargs :: "string option list option"

text \<open>The vector \<open>execve\<close> reads: up to the first null pointer.\<close>

definition pd_argv :: "process_def \<Rightarrow> string list" where
  "pd_argv pd =
     (case pd_procargs pd of None \<Rightarrow> [] | Some as \<Rightarrow> map the (takeWhile (\<lambda>a. a \<noteq> None) as))"

section \<open>Construction\<close>

text \<open>
  The second loop of \<open>pd_new\<close>. Each argument is copied with \<open>strncpy\<close> of exactly its length into
  memory that \<open>malloc\<close> does not clear, so the copy has no terminator of its own; the model takes the
  byte behind it to be zero.
\<close>

fun copy_args :: "string list \<Rightarrow> 'm world_scheme \<Rightarrow> string list option \<times> 'm world_scheme" where
  "copy_args [] w = (Some [], w)"
| "copy_args (a # as) w =
     (let (ok, w1) = sys_malloc w
      in if \<not> ok then (None, w1)
         else (let (rest, w2) = copy_args as w1
               in (map_option (Cons a) rest, w2)))"

text \<open>The name is copied before \<open>bzero\<close> clears the structure, so it is lost.\<close>

definition pd_new ::
  "string option \<Rightarrow> string option \<Rightarrow> string option \<Rightarrow> string list option \<Rightarrow> 'm world_scheme
   \<Rightarrow> process_def option \<times> 'm world_scheme" where
  "pd_new name description procpath procargs w =
     (case (name, procpath) of
        (Some n, Some path) \<Rightarrow>
          (let (ok, w1) = sys_malloc w
           in if \<not> ok then (None, w1)
              else (let pd = \<lparr>pd_name = [], pd_description = None, pd_procpath = [], pd_procargs = None\<rparr>;
                        (ok', w2) = (if description \<noteq> None then sys_malloc w1 else (True, w1))
                    in if \<not> ok' then (None, w2)
                       else (let pd2 = pd\<lparr>pd_description := description,
                                          pd_procpath := strncpy_buf PATH_MAX path\<rparr>
                             in case procargs of
                                  None \<Rightarrow> (Some pd2, w2)
                                | Some as \<Rightarrow>
                                    (let (ok'', w3) = sys_malloc w2
                                     in if \<not> ok'' then (None, w3)
                                        else (let (copied, w4) = copy_args as w3
                                              in (map_option
                                                   (\<lambda>cs. pd2\<lparr>pd_procargs := Some (map Some cs)\<rparr>) copied,
                                                  w4))))))
      | _ \<Rightarrow> (None, set_errno EINVAL w))"

definition BHYVEBIN :: string where
  "BHYVEBIN = ''/usr/sbin/bhyve''"

definition pd_fromconfig ::
  "bhyve_configuration option \<Rightarrow> 'm world_scheme \<Rightarrow> process_def option \<times> 'm world_scheme" where
  "pd_fromconfig bc w =
     (case bc of
        None \<Rightarrow> (None, w)
      | Some c \<Rightarrow>
          (let (ok, w1) = sys_malloc w
           in if \<not> ok then (None, w1)
              else (let (ok1, w2) = (if bc_get_description c \<noteq> None then sys_malloc w1 else (True, w1))
                    in if \<not> ok1 then (None, w2)
                       else (let (ok2, w3) = sys_malloc w2
                             in if \<not> ok2 then (None, w3)
                                else (let path = strncpy_buf PATH_MAX BHYVEBIN;
                                          (dup, w4) = sys_malloc w3;
                                          (ok3, w5) = sys_malloc w4
                                      in if \<not> ok3 then (None, w5)
                                         else (let (ok4, w6) = sys_malloc w5
                                               in if \<not> ok4 then (None, w6)
                                                  else (let conf = (case bc_get_generated_config c of
                                                                      Some g \<Rightarrow> strncpy_buf PATH_MAX g
                                                                    | None \<Rightarrow> strncpy_buf PATH_MAX (bc_get_configfile c))
                                                        in (Some \<lparr>pd_name = strncpy_buf PATH_MAX (bc_get_name c),
                                                                  pd_description = bc_get_description c,
                                                                  pd_procpath = path,
                                                                  pd_procargs = Some [if dup then Some path else None,
                                                                                      Some ''-k'', Some conf]\<rparr>,
                                                            w6))))))))"

definition pd_set_configfile ::
  "process_def option \<Rightarrow> string option \<Rightarrow> 'm world_scheme \<Rightarrow> int \<times> process_def option \<times> 'm world_scheme" where
  "pd_set_configfile pd configfile w =
     (case (pd, configfile) of
        (Some p, Some f) \<Rightarrow>
          (0, Some (p\<lparr>pd_procargs := map_option (\<lambda>as. as[2 := Some (strncpy_buf PATH_MAX f)])
                       (pd_procargs p)\<rparr>), w)
      | _ \<Rightarrow> (-1, pd, set_errno EINVAL w))"

section \<open>Launch\<close>

text \<open>What the child does between \<open>fork\<close> and its end: the exit code, or \<open>None\<close> when \<open>execve\<close>
  replaced the program.\<close>

definition pd_launch_child ::
  "process_def \<Rightarrow> nat option \<Rightarrow> 'm logworld_scheme \<Rightarrow> int option \<times> 'm logworld_scheme" where
  "pd_launch_child pd ldrd w =
     (let w1 = (case ldrd of
                  None \<Rightarrow> w
                | Some c \<Rightarrow> snd (ldrd_redirect_stderr (Some c) (snd (ldrd_redirect_stdout (Some c) w))));
          (ok, w2) = sys_do (Execed (pd_procpath pd) (pd_argv pd)) os_execve w1
      in if \<not> ok then (Some 1, w2) else (None, w2))"

text \<open>The result, the pid stored through \<open>pid\<close> (if any), and the world.\<close>

definition pd_launch_redirected ::
  "process_def \<Rightarrow> nat option \<Rightarrow> 'm logworld_scheme \<Rightarrow> int \<times> int option \<times> 'm logworld_scheme" where
  "pd_launch_redirected pd ldr w =
     (let (ldrd, w1) = (case ldr of None \<Rightarrow> (None, w) | Some l \<Rightarrow> ldr_newclient l w)
      in if ldr \<noteq> None \<and> ldrd = None then (-1, None, w1)
         else (let (procpid, w2) = sys_fork (pd_procpath pd) (pd_argv pd) w1;
                   w3 = (case ldrd of None \<Rightarrow> w2 | Some c \<Rightarrow> snd (ldrd_accept_redirect (Some c) w2))
               in if procpid < 0 then (procpid, None, w3) else (0, Some procpid, w3)))"

text \<open>With the tests of the two pointers; \<open>want\<close> says that \<open>pid\<close> is not null.\<close>

definition pd_launch_redirected_ptr ::
  "process_def option \<Rightarrow> bool \<Rightarrow> nat option \<Rightarrow> 'm logworld_scheme
   \<Rightarrow> int \<times> int option \<times> 'm logworld_scheme" where
  "pd_launch_redirected_ptr pd want ldr w =
     (case pd of
        Some p \<Rightarrow> if want then pd_launch_redirected p ldr w else (-1, None, w)
      | None \<Rightarrow> (-1, None, w))"

definition pd_launch :: "process_def \<Rightarrow> 'm logworld_scheme \<Rightarrow> int \<times> int option \<times> 'm logworld_scheme" where
  "pd_launch pd w = pd_launch_redirected pd None w"

section \<open>The object with its function table\<close>

text \<open>
  The table \<open>pd_funcs\<close> as a record of functions over the context: the process state only calls
  through such a table, whatever made it. A call may change the context.
\<close>

record ('d, 'w) process_def_funcs =
  pdf_launch_redirected :: "'d \<Rightarrow> nat option \<Rightarrow> 'w \<Rightarrow> int \<times> int option \<times> 'd \<times> 'w"
  pdf_set_configfile :: "('d \<Rightarrow> string option \<Rightarrow> 'w \<Rightarrow> int \<times> 'd \<times> 'w) option"

record ('d, 'w) process_def_obj =
  pdo_ctx :: 'd
  pdo_funcs :: "('d, 'w) process_def_funcs"

definition pd_funcs :: "(process_def, 'm logworld_scheme) process_def_funcs" where
  "pd_funcs =
     \<lparr>pdf_launch_redirected =
        (\<lambda>pd ldr w. let (r, pid, w') = pd_launch_redirected pd ldr w in (r, pid, pd, w')),
      pdf_set_configfile =
        Some (\<lambda>pd f w. let (r, pd', w') = pd_set_configfile (Some pd) f w
                       in (r, the pd', w'))\<rparr>"

definition pdobj_frompd ::
  "process_def \<Rightarrow> 'm logworld_scheme
   \<Rightarrow> (process_def, 'm logworld_scheme) process_def_obj option \<times> 'm logworld_scheme" where
  "pdobj_frompd pd w =
     (let (ok, w') = sys_malloc w
      in (if ok then Some \<lparr>pdo_ctx = pd, pdo_funcs = pd_funcs\<rparr> else None, w'))"

definition pdobj_fromconfig ::
  "bhyve_configuration option \<Rightarrow> 'm logworld_scheme
   \<Rightarrow> (process_def, 'm logworld_scheme) process_def_obj option \<times> 'm logworld_scheme" where
  "pdobj_fromconfig bc w =
     (let (pd, w1) = pd_fromconfig bc w
      in case pd of None \<Rightarrow> (None, w1) | Some p \<Rightarrow> pdobj_frompd p w1)"

definition pdobj_set_configfile ::
  "(process_def, 'm logworld_scheme) process_def_obj \<Rightarrow> string option \<Rightarrow> 'm logworld_scheme
   \<Rightarrow> int \<times> (process_def, 'm logworld_scheme) process_def_obj \<times> 'm logworld_scheme" where
  "pdobj_set_configfile pdo configfile w =
     (let (r, pd', w') = pd_set_configfile (Some (pdo_ctx pdo)) configfile w
      in (r, pdo\<lparr>pdo_ctx := the pd'\<rparr>, w'))"

section \<open>Frame\<close>

lemma copy_args_os [simp]: "w_os (snd (copy_args as w)) = w_os w"
  by (induction as arbitrary: w) (simp_all add: Let_def split_def)

lemma pd_new_os [simp]: "w_os (snd (pd_new n d p a w)) = w_os w"
  by (simp add: pd_new_def Let_def split_def split: option.split)

lemma pd_launch_redirected_os [simp]: "w_os (snd (snd (pd_launch_redirected pd ldr w))) = w_os w"
  by (simp add: pd_launch_redirected_def Let_def split_def split: option.split)

lemma copy_args_seen [simp]: "seen e w \<Longrightarrow> seen e (snd (copy_args as w))"
  by (induction as arbitrary: w) (simp_all add: Let_def split_def)

lemma pd_new_seen [simp]: "seen e w \<Longrightarrow> seen e (snd (pd_new n d p a w))"
  by (simp add: pd_new_def Let_def split_def split: option.split)

lemma pd_launch_redirected_seen [simp]:
  "seen e w \<Longrightarrow> seen e (snd (snd (pd_launch_redirected pd ldr w)))"
  by (simp add: pd_launch_redirected_def Let_def split_def split: option.split)

lemma launch_plain:
  assumes "\<forall>n. 0 < os_fork (w_os w) n"
  shows "pd_launch_redirected pd None w =
    (let pid = os_fork (w_os w) (w_tick w)
     in (0, Some pid, emit (Forked (pd_procpath pd) (pd_argv pd) pid) (tock w)))"
proof -
  have "\<not> os_fork (w_os w) (w_tick w) < 0" using assms by (simp add: not_less less_imp_le)
  then show ?thesis by (simp add: pd_launch_redirected_def sys_fork_def ask_def Let_def)
qed

section \<open>The contract of a launcher\<close>

text \<open>
  What the process state relies on when it calls \<open>launch_redirected\<close> through the function table: the
  result is 0 exactly when a pid was stored, that pid is one that \<open>fork\<close> gave, and the call
  happens on the same system.
\<close>

locale process_launcher =
  fixes launch :: "'d \<Rightarrow> nat option \<Rightarrow> 'm logworld_scheme
           \<Rightarrow> int \<times> int option \<times> 'd \<times> 'm logworld_scheme"
    and command :: "'d \<Rightarrow> string \<times> string list"
  assumes launch_pid: "launch d ldr w = (r, q, d', w') \<Longrightarrow> r = 0 \<longleftrightarrow> q \<noteq> None"
    and launch_forked: "launch d ldr w = (r, Some pid, d', w') \<Longrightarrow>
           0 \<le> pid \<and> pid \<in> range (os_fork (w_os w)) \<and>
           seen (Forked (fst (command d)) (snd (command d)) pid) w'"
    and launch_os: "launch d ldr w = (r, q, d', w') \<Longrightarrow> w_os w' = w_os w"
    and launch_ctx: "launch d ldr w = (r, q, d', w') \<Longrightarrow> d' = d"
begin

lemma launch_cases:
  obtains (ok) pid w' where "launch d ldr w = (0, Some pid, d, w')" "0 \<le> pid" "w_os w' = w_os w"
      "pid \<in> range (os_fork (w_os w))"
      "seen (Forked (fst (command d)) (snd (command d)) pid) w'"
    | (failed) r w' where "launch d ldr w = (r, None, d, w')" "r \<noteq> 0" "w_os w' = w_os w"
proof -
  obtain r q d' w' where l: "launch d ldr w = (r, q, d', w')" by (metis prod_cases4)
  note f = launch_pid [OF l] launch_os [OF l] launch_ctx [OF l]
  show thesis
  proof (cases q)
    case None
    with f l show thesis by (intro failed [of r w']) auto
  next
    case (Some pid)
    with f l launch_forked [of d ldr w r pid d' w'] show thesis by (intro ok [of pid w']) auto
  qed
qed

end

definition pd_command :: "process_def \<Rightarrow> string \<times> string list" where
  "pd_command pd = (pd_procpath pd, pd_argv pd)"

interpretation pdl: process_launcher "pdf_launch_redirected pd_funcs" pd_command
proof unfold_locales
  fix d :: process_def and ldr and w w' :: "'a logworld_scheme" and r q d' pid
  show "r = 0 \<longleftrightarrow> q \<noteq> None" if "pdf_launch_redirected pd_funcs d ldr w = (r, q, d', w')"
    using that by (auto simp: pd_funcs_def pd_launch_redirected_def Let_def split_def split: if_splits)
  show "0 \<le> pid \<and> pid \<in> range (os_fork (w_os w)) \<and>
      seen (Forked (fst (pd_command d)) (snd (pd_command d)) pid) w'"
    if "pdf_launch_redirected pd_funcs d ldr w = (r, Some pid, d', w')"
    using that
    by (auto simp: pd_funcs_def pd_command_def pd_launch_redirected_def sys_fork_def ask_def Let_def split_def
        split: if_splits option.splits)
  show "w_os w' = w_os w" if "pdf_launch_redirected pd_funcs d ldr w = (r, q, d', w')"
    using that pd_launch_redirected_os [of d ldr w] by (auto simp: pd_funcs_def Let_def split_def)
  show "d' = d" if "pdf_launch_redirected pd_funcs d ldr w = (r, q, d', w')"
    using that by (auto simp: pd_funcs_def Let_def split_def)
qed

end
