(* ===== verification/Process_State.thy ===== *)
theory Process_State
  imports State_Handler Process_Def
begin

text \<open>
  \<open>src/libprocwatch/state_change.c\<close> and \<open>process_state.c\<close>: the life cycle of one virtual machine. The
  state machine of \<open>State_Handler\<close> runs over the table \<open>process_transition_list\<close>; entering a state
  runs the user script of that name, and the functions \<open>psv_*\<close> drive the machine.

  The context of the hooks is the \<open>process_state_vm\<close> itself; they read two members of it, the script
  path and the log redirector, so the context here is that pair together with the world. The
  process state lives at an address, which is all the reboot manager looks at. Its \<open>pdo\<close> is never
  null here: \<open>psv_new\<close>, which makes all of them, gives up without one.
\<close>

section \<open>Running the script of a state\<close>

type_synonym 'm psv_ctx = "(string option \<times> nat option) \<times> 'm logworld_scheme"

definition sch_runscript ::
  "string \<Rightarrow> bool \<Rightarrow> nat option \<Rightarrow> 'm logworld_scheme \<Rightarrow> int \<times> 'm logworld_scheme" where
  "sch_runscript exepath waitfinish ldr w =
     (let (pd, w1) = pd_new (Some ''user script'') (Some ''run when state changes'')
                       (Some exepath) (Some [exepath]) w
      in case pd of
           None \<Rightarrow> (-1, w1)
         | Some p \<Rightarrow>
             (let (result, pid, w2) = pd_launch_redirected p ldr w1
              in if result = 0 \<and> waitfinish
                 then (let ((wpid, st), w3) = sys_waitpid (case pid of None \<Rightarrow> 0 | Some q \<Rightarrow> q) w2;
                           status = (if wpid < 0 then 0 else st)
                       in if WIFEXITED status then (int (unat (WEXITSTATUS status)), w3) else (-1, w3))
                 else (result, w2)))"

definition sch_onenter :: "'m psv_ctx hook" where
  "sch_onenter new_state ctx from from_state =
     (let ((scriptpath, ldr), w) = ctx;
          dir = (case scriptpath of None \<Rightarrow> ''(null)'' | Some p \<Rightarrow> p);
          exepath = snprintf_buf PATH_MAX (dir @ ''/'' @ sn_name new_state);
          (found, w1) = sys_stat exepath w
      in if \<not> found then (0, (fst ctx, w1))
         else (let (r, w2) = sch_runscript exepath True ldr w1 in (r, (fst ctx, w2))))"

section \<open>States and transitions\<close>

datatype bhyve_vmstate_t =
  INIT | START_NETWORK | PRESTART_AFTER_RESTART | START_STORAGE | START_AFTER_RESTART
| RUNNING | RESTARTED | STOPPING | STOP_STORAGE | PRESTOP_BEFORE_RESTART | STOP_NETWORK
| RESTARTING | STOPPED | RESTART_STOPPED | FAILED

fun vmstate_code :: "bhyve_vmstate_t \<Rightarrow> u64" where
  "vmstate_code INIT = 0"
| "vmstate_code START_NETWORK = 10"
| "vmstate_code PRESTART_AFTER_RESTART = 11"
| "vmstate_code START_STORAGE = 20"
| "vmstate_code START_AFTER_RESTART = 21"
| "vmstate_code RUNNING = 100"
| "vmstate_code RESTARTED = 101"
| "vmstate_code STOPPING = 102"
| "vmstate_code STOP_STORAGE = 150"
| "vmstate_code PRESTOP_BEFORE_RESTART = 160"
| "vmstate_code STOP_NETWORK = 200"
| "vmstate_code RESTARTING = 210"
| "vmstate_code STOPPED = 300"
| "vmstate_code RESTART_STOPPED = 310"
| "vmstate_code FAILED = 400"

definition ps_node ::
  "bhyve_vmstate_t \<Rightarrow> string \<Rightarrow> 'm psv_ctx hook option \<Rightarrow> 'm psv_ctx state_node" where
  "ps_node s name enter = \<lparr>sn_id = vmstate_code s, sn_name = name, on_enter = enter, on_exit = None\<rparr>"

definition process_state_list :: "'m psv_ctx state_node list" where
  "process_state_list =
     [ps_node INIT ''init'' None,
      ps_node START_NETWORK ''start_network'' (Some sch_onenter),
      ps_node PRESTART_AFTER_RESTART ''prestart_after_restart'' (Some sch_onenter),
      ps_node START_STORAGE ''start_storage'' (Some sch_onenter),
      ps_node START_AFTER_RESTART ''start_after_restart'' (Some sch_onenter),
      ps_node RUNNING ''running'' (Some sch_onenter),
      ps_node RESTARTED ''restarted'' (Some sch_onenter),
      ps_node STOP_STORAGE ''stop_storage'' (Some sch_onenter),
      ps_node PRESTOP_BEFORE_RESTART ''prestop_before_restart'' (Some sch_onenter),
      ps_node STOP_NETWORK ''stop_network'' (Some sch_onenter),
      ps_node RESTARTING ''restarting'' (Some sch_onenter),
      ps_node STOPPED ''stopped'' (Some sch_onenter),
      ps_node RESTART_STOPPED ''restart_stopped'' (Some sch_onenter),
      ps_node FAILED ''failed'' (Some sch_onenter),
      ps_node STOPPING ''stopping'' (Some sch_onenter)]"

definition ps_trans :: "nat option \<Rightarrow> nat \<Rightarrow> 'm psv_ctx state_transition" where
  "ps_trans from to =
     \<lparr>st_from = map_option (\<lambda>i. process_state_list ! i) from, st_to = Some (process_state_list ! to)\<rparr>"

definition process_transition_list :: "'m psv_ctx state_transition list" where
  "process_transition_list =
     [ps_trans (Some 0) 1, ps_trans (Some 1) 3, ps_trans (Some 1) 9, ps_trans (Some 3) 5,
      ps_trans (Some 5) 14, ps_trans (Some 14) 7, ps_trans (Some 5) 8, ps_trans (Some 7) 9,
      ps_trans (Some 9) 11, ps_trans (Some 8) 10, ps_trans (Some 10) 12, ps_trans (Some 12) 2,
      ps_trans (Some 2) 4, ps_trans (Some 4) 6, ps_trans (Some 6) 5, ps_trans (Some 11) 13,
      ps_trans None 7, ps_trans (Some 1) 9, ps_trans (Some 11) 1, ps_trans (Some 13) 0]"

section \<open>The process state of a vm\<close>

record ('d, 'm) process_state_vm =
  psv_addr :: nat                        \<comment> \<open>the address of this structure\<close>
  psv_pdo :: "('d, 'm logworld_scheme) process_def_obj"
  psv_sth :: "'m psv_ctx state_handler"
  psv_mtx :: bool
  psv_rmo :: "(nat \<Rightarrow> 'm logworld_scheme \<Rightarrow> int \<times> 'm logworld_scheme) option"
  psv_ldr :: "nat option"
  psv_scriptpath :: "string option"
  psv_processid :: int

definition psv_getstate :: "('d, 'm) process_state_vm \<Rightarrow> u64" where
  "psv_getstate psv = sn_id (sth_current (psv_sth psv))"

definition psv_getpid ::
  "('d, 'm) process_state_vm \<Rightarrow> 'm logworld_scheme \<Rightarrow> int \<times> ('d, 'm) process_state_vm \<times> 'm logworld_scheme" where
  "psv_getpid psv w =
     (let (err, m, w1) = mutex_lock (psv_mtx psv) w
      in if err then (0, psv\<lparr>psv_mtx := m\<rparr>, set_errno EDEADLK w1)
         else (let (_, m', w2) = mutex_unlock m w1 in (psv_processid psv, psv\<lparr>psv_mtx := m'\<rparr>, w2)))"

text \<open>\<open>sth_transitionto(psv->sth, state)\<close>, and the chains \<open>if (sth_transitionto(..)) return -1\<close>: the
  walk stops at the first transition that fails.\<close>

definition psv_transition ::
  "('d, 'm) process_state_vm \<Rightarrow> bhyve_vmstate_t \<Rightarrow> 'm logworld_scheme
   \<Rightarrow> int \<times> ('d, 'm) process_state_vm \<times> 'm logworld_scheme" where
  "psv_transition psv s w =
     (let (r, sth, ctx) = sth_transitionto (psv_sth psv) (vmstate_code s)
                            ((psv_scriptpath psv, psv_ldr psv), w)
      in (r, psv\<lparr>psv_sth := sth\<rparr>, snd ctx))"

fun psv_walk ::
  "bhyve_vmstate_t list \<Rightarrow> ('d, 'm) process_state_vm \<Rightarrow> 'm logworld_scheme
   \<Rightarrow> int \<times> ('d, 'm) process_state_vm \<times> 'm logworld_scheme" where
  "psv_walk [] psv w = (0, psv, w)"
| "psv_walk (s # ss) psv w =
     (let (r, psv', w') = psv_transition psv s w
      in if r \<noteq> 0 then (-1, psv', w') else psv_walk ss psv' w')"

declare psv_walk.simps [simp del]

definition psv_failurestate ::
  "('d, 'm) process_state_vm \<Rightarrow> 'm logworld_scheme
   \<Rightarrow> int \<times> ('d, 'm) process_state_vm \<times> 'm logworld_scheme" where
  "psv_failurestate psv w = psv_walk [STOP_STORAGE, STOP_NETWORK, STOPPED, FAILED] psv w"

definition psv_is_failurestate :: "('d, 'm) process_state_vm option \<Rightarrow> bool" where
  "psv_is_failurestate psv =
     (case psv of None \<Rightarrow> True | Some p \<Rightarrow> vmstate_code FAILED = psv_getstate p)"

definition psv_resetfailure ::
  "('d, 'm) process_state_vm \<Rightarrow> 'm logworld_scheme
   \<Rightarrow> int \<times> ('d, 'm) process_state_vm \<times> 'm logworld_scheme" where
  "psv_resetfailure psv w =
     (if \<not> psv_is_failurestate (Some psv) then (-1, psv, w) else psv_transition psv INIT w)"

section \<open>Exit of the process\<close>

definition PSV_ERR_MUTEXUNLOCKFAIL :: int where "PSV_ERR_MUTEXUNLOCKFAIL = 1"
definition PSV_ERR_TRANSITIONSFAIL :: int where "PSV_ERR_TRANSITIONSFAIL = 2"
definition PSV_ERR_MUTEXLOCKFAILED :: int where "PSV_ERR_MUTEXLOCKFAILED = 4"

text \<open>Walk to \<open>RESTART_STOPPED\<close> and hand the vm to the reboot manager, if there is one.\<close>

definition psv_exit_reboot ::
  "bhyve_vmstate_t list \<Rightarrow> ('d, 'm) process_state_vm \<Rightarrow> 'm logworld_scheme
   \<Rightarrow> int \<times> ('d, 'm) process_state_vm \<times> 'm logworld_scheme" where
  "psv_exit_reboot ss psv w =
     (let (r, p1, w1) = psv_walk ss psv w
      in if r \<noteq> 0 then (-1, p1, w1)
         else (case psv_rmo p1 of
                 None \<Rightarrow> (0, p1, w1)
               | Some request_reboot \<Rightarrow>
                   (let (q, w2) = request_reboot (psv_addr p1) w1
                    in if q \<noteq> 0 then (let (_, p3, w3) = psv_failurestate p1 w2 in (-1, p3, w3))
                       else (0, p1, w2))))"

text \<open>The \<open>switch\<close> of \<open>psv_onexit\<close>; a nonzero result is an early return.\<close>

definition psv_exit_switch ::
  "u16 \<Rightarrow> ('d, 'm) process_state_vm \<Rightarrow> 'm logworld_scheme
   \<Rightarrow> int \<times> ('d, 'm) process_state_vm \<times> 'm logworld_scheme" where
  "psv_exit_switch exitcode psv w =
     (let state = psv_getstate psv
      in if state = vmstate_code STOPPED then (0, psv, w)
         else if state = vmstate_code PRESTOP_BEFORE_RESTART
         then (if exitcode = 0 then psv_exit_reboot [RESTARTING, RESTART_STOPPED] psv w
               else (0, psv, w))
         else if state = vmstate_code RUNNING
         then (if exitcode = 0
               then psv_exit_reboot [PRESTOP_BEFORE_RESTART, RESTARTING, RESTART_STOPPED] psv w
               else if exitcode = 1 \<or> exitcode = 2
               then psv_walk [STOP_STORAGE, STOP_NETWORK, STOPPED] psv w
               else (0, psv, w))
         else if state = vmstate_code STOPPING
         then psv_walk [STOP_STORAGE, STOP_NETWORK, STOPPED] psv w
         else (0, psv, w))"

definition psv_onexit ::
  "('d, 'm) process_state_vm \<Rightarrow> u16 \<Rightarrow> 'm logworld_scheme
   \<Rightarrow> int \<times> ('d, 'm) process_state_vm \<times> 'm logworld_scheme" where
  "psv_onexit psv exitcode w =
     (let (r, p1, w1) = psv_exit_switch exitcode psv w
      in if r \<noteq> 0 then (-1, p1, w1)
         else if 3 \<le> exitcode
         then (let (_, p2, w2) = psv_failurestate p1 w1;
                   (err, m, w3) = mutex_lock (psv_mtx p2) w2
               in if err then (PSV_ERR_MUTEXLOCKFAILED, p2\<lparr>psv_mtx := m\<rparr>, w3)
                  else (let (err', m', w4) = mutex_unlock m w3;
                            p3 = p2\<lparr>psv_processid := 0, psv_mtx := m'\<rparr>
                        in if err' then (PSV_ERR_MUTEXUNLOCKFAIL, p3, w4) else (0, p3, w4)))
         else (0, p1, w1))"

section \<open>Start\<close>

text \<open>The end of \<open>psv_startvm\<close>: the \<open>do ... while (0)\<close> block after the launch.\<close>

definition psv_start_finish ::
  "bool \<Rightarrow> bool \<Rightarrow> int \<Rightarrow> ('d, 'm) process_state_vm \<Rightarrow> 'm logworld_scheme
   \<Rightarrow> int \<times> ('d, 'm) process_state_vm \<times> 'm logworld_scheme" where
  "psv_start_finish restarting failure result psv w =
     (let (err, m, w1) = mutex_unlock (psv_mtx psv) w;
          p1 = psv\<lparr>psv_mtx := m\<rparr>
      in if err \<or> failure
         then (let (r, p2, w2) = psv_failurestate p1 w1;
                   res = result OR PSV_ERR_MUTEXUNLOCKFAIL
               in (if r \<noteq> 0 then res OR PSV_ERR_TRANSITIONSFAIL else res, p2, w2))
         else (let (r, p2, w2) = psv_transition p1 (if restarting then RESTARTED else RUNNING) w1
               in if r \<noteq> 0
                  then (let (_, p3, w3) = psv_failurestate p2 w2
                        in (result OR PSV_ERR_TRANSITIONSFAIL, p3, w3))
                  else if restarting
                  then (let (r', p3, w3) = psv_transition p2 RUNNING w2
                        in if r' \<noteq> 0
                           then (let (_, p4, w4) = psv_failurestate p3 w3
                                 in (result OR PSV_ERR_TRANSITIONSFAIL, p4, w4))
                           else (result, p3, w3))
                  else (result, p2, w2)))"

text \<open>From the lock on. The second component is what is stored through \<open>pid\<close>.\<close>

definition psv_start_launch ::
  "bool \<Rightarrow> ('d, 'm) process_state_vm \<Rightarrow> nat option \<Rightarrow> 'm logworld_scheme
   \<Rightarrow> int \<times> int option \<times> ('d, 'm) process_state_vm \<times> 'm logworld_scheme" where
  "psv_start_launch restarting psv ldr w =
     (let (err, m, w1) = mutex_lock (psv_mtx psv) w;
          p1 = psv\<lparr>psv_mtx := m\<rparr>
      in if err
         then (let (r, p2, w2) = psv_failurestate p1 w1
               in if r \<noteq> 0 then (-1, None, p2, w2) else (-1, None, p2, set_errno EDEADLK w2))
         else (let pdo = psv_pdo p1;
                   (result, stored, ctx, w2) =
                     pdf_launch_redirected (pdo_funcs pdo) (pdo_ctx pdo)
                       (if ldr \<noteq> None then ldr else psv_ldr p1) w1;
                   p2 = p1\<lparr>psv_pdo := pdo\<lparr>pdo_ctx := ctx\<rparr>,
                           psv_processid := (case stored of None \<Rightarrow> psv_processid p1 | Some q \<Rightarrow> q)\<rparr>;
                   failure = (result \<noteq> 0);
                   (res, p3, w3) = psv_start_finish restarting failure result p2 w2
               in (res, if failure then None else Some (psv_processid p2), p3, w3)))"

definition psv_startvm ::
  "('d, 'm) process_state_vm \<Rightarrow> nat option \<Rightarrow> 'm logworld_scheme
   \<Rightarrow> int \<times> int option \<times> ('d, 'm) process_state_vm \<times> 'm logworld_scheme" where
  "psv_startvm psv ldr w =
     (let current_state = psv_getstate psv;
          restarting = (vmstate_code RESTART_STOPPED = current_state)
      in if vmstate_code INIT \<noteq> current_state \<and> vmstate_code STOPPED \<noteq> current_state \<and>
            vmstate_code RESTART_STOPPED \<noteq> current_state
         then (-1, None, psv, set_errno EALREADY w)
         else (let (r1, p1, w1) =
                     psv_transition psv (if restarting then PRESTART_AFTER_RESTART else START_NETWORK) w
               in if r1 \<noteq> 0 \<and> vmstate_code INIT = current_state then (-1, None, p1, w1)
                  else (let (r2, p2, w2) =
                              (if r1 \<noteq> 0
                               then psv_walk ((if restarting then [STOP_STORAGE] else []) @
                                              [STOP_NETWORK, STOPPED, FAILED]) p1 w1
                               else (0, p1, w1))
                        in if r2 \<noteq> 0 then (-1, None, p2, w2)
                           else (let (r3, p3, w3) =
                                       psv_transition p2
                                         (if restarting then START_AFTER_RESTART else START_STORAGE) w2;
                                     (r4, p4, w4) =
                                       (if r3 \<noteq> 0 then psv_failurestate p3 w3 else (0, p3, w3))
                                 in if r4 \<noteq> 0 then (-1, None, p4, w4)
                                    else psv_start_launch restarting p4 ldr w4))))"

section \<open>Stop and reboot\<close>

text \<open>Signalling the process and, when the caller passed a place for it (\<open>want\<close>), waiting for its
  exit status, which is the third component.\<close>

definition psv_stop_signal ::
  "('d, 'm) process_state_vm \<Rightarrow> bool \<Rightarrow> 'm logworld_scheme
   \<Rightarrow> int \<times> ('d, 'm) process_state_vm \<times> u32 option \<times> 'm logworld_scheme" where
  "psv_stop_signal psv want w =
     (let (pid, p1, w1) = psv_getpid psv w
      in if pid = 0 then (0, p1, None, w1)
         else (let (sent, w2) = sys_kill pid True w1;
                   (r, p3, w3) = (if \<not> sent then psv_failurestate p1 w2 else (0, p1, w2))
               in if r \<noteq> 0 then (-1, p3, None, w3)
                  else if \<not> want then (0, p3, None, w3)
                  else (let ((wpid, st), w4) = sys_waitpid pid w3
                        in if wpid < 0
                           then (let (_, p5, w5) = psv_failurestate p3 w4 in (-1, p5, None, w5))
                           else if WIFEXITED st \<and> 3 \<le> (ucast (WEXITSTATUS st) :: u16)
                           then (let (_, p5, w5) = psv_failurestate p3 w4 in (0, p5, Some st, w5))
                           else (0, p3, Some st, w4))))"

definition psv_stop_or_reboot ::
  "('d, 'm) process_state_vm \<Rightarrow> bool \<Rightarrow> bool \<Rightarrow> 'm logworld_scheme
   \<Rightarrow> int \<times> ('d, 'm) process_state_vm \<times> u32 option \<times> 'm logworld_scheme" where
  "psv_stop_or_reboot psv reboot want w =
     (if vmstate_code RUNNING \<noteq> psv_getstate psv then (-1, psv, None, set_errno EALREADY w)
      else (let (r, p1, w1) = psv_transition psv (if reboot then PRESTOP_BEFORE_RESTART else STOPPING) w;
                (r1, p2, w2) = (if r \<noteq> 0 then psv_failurestate p1 w1 else (0, p1, w1))
            in if r1 \<noteq> 0 then (-1, p2, None, w2) else psv_stop_signal p2 want w2))"

definition psv_stopvm ::
  "('d, 'm) process_state_vm \<Rightarrow> bool \<Rightarrow> 'm logworld_scheme
   \<Rightarrow> int \<times> ('d, 'm) process_state_vm \<times> u32 option \<times> 'm logworld_scheme" where
  "psv_stopvm psv want w = psv_stop_or_reboot psv False want w"

definition psv_rebootvm ::
  "('d, 'm) process_state_vm \<Rightarrow> bool \<Rightarrow> 'm logworld_scheme
   \<Rightarrow> int \<times> ('d, 'm) process_state_vm \<times> u32 option \<times> 'm logworld_scheme" where
  "psv_rebootvm psv want w = psv_stop_or_reboot psv True want w"

section \<open>Construction\<close>

definition psv_withrebootmgr ::
  "('d, 'm) process_state_vm option \<Rightarrow> (nat \<Rightarrow> 'm logworld_scheme \<Rightarrow> int \<times> 'm logworld_scheme) option
   \<Rightarrow> ('d, 'm) process_state_vm option" where
  "psv_withrebootmgr psv rmo = map_option (\<lambda>p. p\<lparr>psv_rmo := rmo\<rparr>) psv"

definition psv_with_logredirector ::
  "('d, 'm) process_state_vm option \<Rightarrow> nat option \<Rightarrow> 'm logworld_scheme
   \<Rightarrow> ('d, 'm) process_state_vm option \<times> 'm logworld_scheme" where
  "psv_with_logredirector psv ldr w =
     (case psv of None \<Rightarrow> (None, set_errno EINVAL w) | Some p \<Rightarrow> (Some (p\<lparr>psv_ldr := ldr\<rparr>), w))"

definition psv_withconfig ::
  "('d, 'm logworld_scheme) process_def_obj \<Rightarrow> string option \<Rightarrow> 'm logworld_scheme
   \<Rightarrow> ('d, 'm) process_state_vm option \<times> 'm logworld_scheme" where
  "psv_withconfig pdo scriptpath w =
     (let (ok, w1) = sys_malloc w
      in if \<not> ok then (None, w1)
         else (let (inited, w2) = sys_init w1
               in if \<not> inited then (None, w2)
                  else (let nodes = process_state_list;
                            init = nodes ! nat (sth_lookupstate (Some nodes) (vmstate_code INIT));
                            (sth, w3) = sth_new (Some process_transition_list) init w2
                        in case sth of
                             None \<Rightarrow> (None, w3)
                           | Some h \<Rightarrow>
                               (let (dup, w4) = (if scriptpath \<noteq> None then sys_malloc w3 else (False, w3));
                                    a = w_fresh w4
                                in (Some \<lparr>psv_addr = a, psv_pdo = pdo, psv_sth = h, psv_mtx = False,
                                          psv_rmo = None, psv_ldr = None,
                                          psv_scriptpath = (if dup then scriptpath else None),
                                          psv_processid = 0\<rparr>,
                                    w4\<lparr>w_fresh := Suc a\<rparr>)))))"

definition psv_set_configfile ::
  "('d, 'm) process_state_vm option \<Rightarrow> string option \<Rightarrow> 'm logworld_scheme
   \<Rightarrow> int \<times> ('d, 'm) process_state_vm option \<times> 'm logworld_scheme" where
  "psv_set_configfile psv configfile w =
     (case psv of
        None \<Rightarrow> (-1, None, set_errno EINVAL w)
      | Some p \<Rightarrow>
          (case pdf_set_configfile (pdo_funcs (psv_pdo p)) of
             None \<Rightarrow> (-1, Some p, w)
           | Some setconf \<Rightarrow>
               (let (r, ctx, w') = setconf (pdo_ctx (psv_pdo p)) configfile w
                in (r, Some (p\<lparr>psv_pdo := (psv_pdo p)\<lparr>pdo_ctx := ctx\<rparr>\<rparr>), w'))))"

text \<open>A path up to its last slash; without one it stays as it is.\<close>

definition cut_last_slash :: "string \<Rightarrow> string" where
  "cut_last_slash s =
     (if CHR ''/'' \<in> set s then rev (tl (dropWhile (\<lambda>c. c \<noteq> CHR ''/'') (rev s))) else s)"

text \<open>The copy of the file name goes to unchecked memory, hence the outer \<open>None\<close>.\<close>

definition psv_new ::
  "bhyve_configuration \<Rightarrow> 'm logworld_scheme
   \<Rightarrow> ((process_def, 'm) process_state_vm option \<times> 'm logworld_scheme) option" where
  "psv_new bc w =
     (let (pdo, w1) = pdobj_fromconfig (Some bc) w
      in case pdo of
           None \<Rightarrow> Some (None, w1)
         | Some obj \<Rightarrow>
             (if bc_get_scriptpath bc = []
              then (case bc_get_backingfile (Some bc) of
                      None \<Rightarrow> Some (psv_withconfig obj (Some []) w1)
                    | Some f \<Rightarrow>
                        (let (ok, w2) = sys_malloc w1
                         in if \<not> ok then None
                            else Some (psv_withconfig obj (Some (cut_last_slash f)) w2)))
              else Some (psv_withconfig obj (Some (bc_get_scriptpath bc)) w1)))"

text \<open>What is left of the process state: all of it when the lock fails.\<close>

definition psv_free ::
  "('d, 'm) process_state_vm option \<Rightarrow> 'm logworld_scheme
   \<Rightarrow> ('d, 'm) process_state_vm option \<times> 'm logworld_scheme" where
  "psv_free psv w =
     (case psv of
        None \<Rightarrow> (None, w)
      | Some p \<Rightarrow>
          (let (err, m, w1) = mutex_lock (psv_mtx p) w
           in if err then (Some (p\<lparr>psv_mtx := m\<rparr>), set_errno EDEADLK w1)
              else (let (_, _, w2) = mutex_unlock m w1 in (None, w2))))"

definition psv_get_logredirector ::
  "('d, 'm) process_state_vm option \<Rightarrow> 'm logworld_scheme \<Rightarrow> nat option \<times> 'm logworld_scheme" where
  "psv_get_logredirector psv w =
     (case psv of None \<Rightarrow> (None, set_errno EINVAL w) | Some p \<Rightarrow> (psv_ldr p, w))"

definition psv_get_scriptpath :: "('d, 'm) process_state_vm \<Rightarrow> string option" where
  "psv_get_scriptpath psv = psv_scriptpath psv"

definition psv_state2string :: "u64 \<Rightarrow> string" where
  "psv_state2string state =
     (if state = vmstate_code INIT then ''INIT''
      else if state = vmstate_code START_NETWORK then ''START_NETWORK''
      else if state = vmstate_code PRESTART_AFTER_RESTART then ''PRESTART_AFTER_RESTART''
      else if state = vmstate_code START_STORAGE then ''START_STORAGE''
      else if state = vmstate_code START_AFTER_RESTART then ''START_AFTER_RESTART''
      else if state = vmstate_code RUNNING then ''RUNNING''
      else if state = vmstate_code RESTARTED then ''RESTARTED''
      else if state = vmstate_code STOPPING then ''STOPPING''
      else if state = vmstate_code STOP_STORAGE then ''STOP_STORAGE''
      else if state = vmstate_code PRESTOP_BEFORE_RESTART then ''PRESTOP_BEFORE_RESTART''
      else if state = vmstate_code STOP_NETWORK then ''STOP_NETWORK''
      else if state = vmstate_code RESTARTING then ''RESTARTING''
      else if state = vmstate_code STOPPED then ''STOPPED''
      else if state = vmstate_code RESTART_STOPPED then ''RESTART_STOPPED''
      else if state = vmstate_code FAILED then ''FAILED''
      else ''UNKNOWN'')"

end
