(* ===== verification/Vm_Lifecycle.thy ===== *)
theory Vm_Lifecycle
  imports Process_State
begin

text \<open>
  What the process state promises. The contract is the step relation \<open>vm_step\<close>, written from the
  state diagram of \<open>process_state.h\<close> and of the transition table; every operation of the process
  state moves the vm along it.
\<close>

section \<open>The state machine as a relation\<close>

inductive vm_step :: "bhyve_vmstate_t \<Rightarrow> bhyve_vmstate_t \<Rightarrow> bool" where
  start: "vm_step INIT START_NETWORK"
| network_up: "vm_step START_NETWORK START_STORAGE"
| network_back: "vm_step START_NETWORK STOP_NETWORK"
| storage_up: "vm_step START_STORAGE RUNNING"
| stop: "vm_step RUNNING STOPPING"
| reboot: "vm_step RUNNING PRESTOP_BEFORE_RESTART"
| storage_down: "vm_step STOP_STORAGE STOP_NETWORK"
| network_down: "vm_step STOP_NETWORK STOPPED"
| restarting: "vm_step PRESTOP_BEFORE_RESTART RESTARTING"
| restart_stopped: "vm_step RESTARTING RESTART_STOPPED"
| prestart: "vm_step RESTART_STOPPED PRESTART_AFTER_RESTART"
| start_again: "vm_step PRESTART_AFTER_RESTART START_AFTER_RESTART"
| restarted: "vm_step START_AFTER_RESTART RESTARTED"
| running_again: "vm_step RESTARTED RUNNING"
| fail: "vm_step STOPPED FAILED"
| anywhere: "vm_step s STOP_STORAGE"
| start_stopped: "vm_step STOPPED START_NETWORK"
| reset: "vm_step FAILED INIT"

inductive_simps vm_step_to:
  "vm_step s INIT" "vm_step s START_NETWORK" "vm_step s PRESTART_AFTER_RESTART"
  "vm_step s START_STORAGE" "vm_step s START_AFTER_RESTART" "vm_step s RUNNING" "vm_step s RESTARTED"
  "vm_step s STOPPING" "vm_step s STOP_STORAGE" "vm_step s PRESTOP_BEFORE_RESTART"
  "vm_step s STOP_NETWORK" "vm_step s RESTARTING" "vm_step s STOPPED" "vm_step s RESTART_STOPPED"
  "vm_step s FAILED"

inductive_cases vm_step_failedE: "vm_step FAILED s"

fun state_index :: "bhyve_vmstate_t \<Rightarrow> nat" where
  "state_index INIT = 0"
| "state_index START_NETWORK = 1"
| "state_index PRESTART_AFTER_RESTART = 2"
| "state_index START_STORAGE = 3"
| "state_index START_AFTER_RESTART = 4"
| "state_index RUNNING = 5"
| "state_index RESTARTED = 6"
| "state_index STOP_STORAGE = 7"
| "state_index PRESTOP_BEFORE_RESTART = 8"
| "state_index STOP_NETWORK = 9"
| "state_index RESTARTING = 10"
| "state_index STOPPED = 11"
| "state_index RESTART_STOPPED = 12"
| "state_index FAILED = 13"
| "state_index STOPPING = 14"

definition node_of :: "bhyve_vmstate_t \<Rightarrow> 'm psv_ctx state_node" where
  "node_of s = process_state_list ! state_index s"

instantiation bhyve_vmstate_t :: linorder
begin

definition less_eq_bhyve_vmstate_t :: "bhyve_vmstate_t \<Rightarrow> bhyve_vmstate_t \<Rightarrow> bool" where
  "less_eq_bhyve_vmstate_t a b \<longleftrightarrow> vmstate_code a \<le> vmstate_code b"

definition less_bhyve_vmstate_t :: "bhyve_vmstate_t \<Rightarrow> bhyve_vmstate_t \<Rightarrow> bool" where
  "less_bhyve_vmstate_t a b \<longleftrightarrow> vmstate_code a < vmstate_code b"

lemma vmstate_code_inject [simp]: "vmstate_code a = vmstate_code b \<longleftrightarrow> a = b"
  by (cases a; cases b) simp_all

instance
  by standard (auto simp: less_eq_bhyve_vmstate_t_def less_bhyve_vmstate_t_def order.strict_iff_order)

end

lemma node_of_id [simp]: "sn_id (node_of s) = vmstate_code s"
  by (cases s) (simp_all add: node_of_def process_state_list_def ps_node_def)

lemma node_of_exit [simp]: "on_exit (node_of s) = None"
  by (cases s) (simp_all add: node_of_def process_state_list_def ps_node_def)

lemma node_of_enter: "on_enter (node_of s) = (if s = INIT then None else Some sch_onenter)"
  by (cases s) (simp_all add: node_of_def process_state_list_def ps_node_def)

lemma node_of_inject [simp]: "node_of s = node_of t \<longleftrightarrow> s = t"
  by (metis node_of_id vmstate_code_inject)

text \<open>The table with states in place of positions.\<close>

definition vm_table :: "(bhyve_vmstate_t option \<times> bhyve_vmstate_t) list" where
  "vm_table =
     [(Some INIT, START_NETWORK), (Some START_NETWORK, START_STORAGE),
      (Some START_NETWORK, STOP_NETWORK), (Some START_STORAGE, RUNNING), (Some RUNNING, STOPPING),
      (Some STOPPING, STOP_STORAGE), (Some RUNNING, PRESTOP_BEFORE_RESTART),
      (Some STOP_STORAGE, STOP_NETWORK), (Some STOP_NETWORK, STOPPED),
      (Some PRESTOP_BEFORE_RESTART, RESTARTING), (Some RESTARTING, RESTART_STOPPED),
      (Some RESTART_STOPPED, PRESTART_AFTER_RESTART),
      (Some PRESTART_AFTER_RESTART, START_AFTER_RESTART), (Some START_AFTER_RESTART, RESTARTED),
      (Some RESTARTED, RUNNING), (Some STOPPED, FAILED), (None, STOP_STORAGE),
      (Some START_NETWORK, STOP_NETWORK), (Some STOPPED, START_NETWORK), (Some FAILED, INIT)]"

definition tr_of :: "bhyve_vmstate_t option \<times> bhyve_vmstate_t \<Rightarrow> 'm psv_ctx state_transition" where
  "tr_of e = \<lparr>st_from = map_option node_of (fst e), st_to = Some (node_of (snd e))\<rparr>"

lemma table_states: "process_transition_list = map tr_of vm_table"
  by (simp add: process_transition_list_def vm_table_def tr_of_def ps_trans_def node_of_def)

lemma tr_of_applies:
  "applies (vmstate_code s) (vmstate_code t) (tr_of e) \<longleftrightarrow> fst e \<in> {None, Some s} \<and> snd e = t"
  by (cases e; cases "fst e") (auto simp: applies_def tr_of_def)

lemma vm_table_step: "(\<exists>e \<in> set vm_table. fst e \<in> {None, Some s} \<and> snd e = t) \<longleftrightarrow> vm_step s t"
  by (cases t) (auto simp: vm_table_def vm_step_to)

text \<open>What \<open>sth_findtransition\<close> finds in the table: an entry to the wanted state exactly when the step
  relation has one.\<close>

lemma table_hit:
  assumes "vm_step s t"
  shows "\<exists>tr. sth_scan (vmstate_code s) (vmstate_code t)
           (process_transition_list :: 'm psv_ctx state_transition list) = Some tr \<and>
         st_to tr = Some (node_of t)"
proof -
  let ?l = "process_transition_list :: 'm psv_ctx state_transition list"
  from assms obtain e where e: "e \<in> set vm_table" "fst e \<in> {None, Some s} \<and> snd e = t"
    using vm_table_step by blast
  then have "sth_scan (vmstate_code s) (vmstate_code t) ?l \<noteq> None"
    by (auto simp: table_states sth_scan_None tr_of_applies)
  then obtain tr where tr: "sth_scan (vmstate_code s) (vmstate_code t) ?l = Some tr"
    by blast
  with sth_scan_applies [OF tr] have "st_to tr = Some (node_of t)"
    by (auto simp: table_states tr_of_applies) (auto simp: tr_of_def)
  with tr show ?thesis by blast
qed

lemma table_miss:
  "\<not> vm_step s t \<Longrightarrow> sth_scan (vmstate_code s) (vmstate_code t) process_transition_list = None"
  using vm_table_step [of s t] by (auto simp: table_states sth_scan_None tr_of_applies)

section \<open>One transition\<close>

text \<open>The vm is in state \<open>s\<close> of the table.\<close>

definition psv_at :: "('d, 'm) process_state_vm \<Rightarrow> bhyve_vmstate_t \<Rightarrow> bool" where
  "psv_at psv s \<longleftrightarrow> psv_sth psv = \<lparr>sth_current = node_of s, sth_vec = process_transition_list\<rparr>"

definition psv_goto :: "('d, 'm) process_state_vm \<Rightarrow> bhyve_vmstate_t \<Rightarrow> ('d, 'm) process_state_vm" where
  "psv_goto psv s = psv\<lparr>psv_sth := \<lparr>sth_current = node_of s, sth_vec = process_transition_list\<rparr>\<rparr>"

text \<open>The script of a state, as the hook runs it. The hook does not look at the state it comes from.\<close>

definition psv_enter ::
  "('d, 'm) process_state_vm \<Rightarrow> bhyve_vmstate_t \<Rightarrow> 'm logworld_scheme \<Rightarrow> int \<times> 'm logworld_scheme" where
  "psv_enter psv t w =
     (if t = INIT then (0, w)
      else (let (r, ctx) = sch_onenter (ident_of (node_of t :: 'm psv_ctx state_node))
                  ((psv_scriptpath psv, psv_ldr psv), w) \<lparr>sn_id = 0, sn_name = []\<rparr> 0
            in (r, snd ctx)))"

lemma sch_onenter_from: "sch_onenter n ctx from i = sch_onenter n ctx from' i'"
  by (simp add: sch_onenter_def)

lemma sch_onenter_keeps: "fst (snd (sch_onenter n ctx from i)) = fst ctx"
  by (simp add: sch_onenter_def Let_def split: prod.splits)

lemma run_hook_enter:
  fixes psv :: "('d, 'm) process_state_vm"
  shows "run_hook (on_enter (node_of t)) (ident_of (node_of t :: 'm psv_ctx state_node)) ((psv_scriptpath psv, psv_ldr psv), w) from i
   = (let (r, w') = psv_enter psv t w in (r, ((psv_scriptpath psv, psv_ldr psv), w')))"
proof (cases "t = INIT")
  case False
  let ?n = "ident_of (node_of t :: 'm psv_ctx state_node)"
  obtain r c w' where r: "sch_onenter ?n ((psv_scriptpath psv, psv_ldr psv), w) from i = (r, c, w')"
    by (metis prod_cases3)
  with sch_onenter_keeps [of ?n "((psv_scriptpath psv, psv_ldr psv), w)" "from" i]
  have c: "c = (psv_scriptpath psv, psv_ldr psv)" by simp
  have "psv_enter psv t w = (r, w')"
    using False r by (simp add: psv_enter_def sch_onenter_from [of _ _ _ 0 "from" i])
  then show ?thesis using False r c by (simp add: run_hook_def node_of_enter)
qed (simp add: run_hook_def node_of_enter psv_enter_def)

lemma psv_at_goto [simp]: "psv_at (psv_goto psv s) t \<longleftrightarrow> s = t"
  by (auto simp: psv_at_def psv_goto_def)

lemma psv_goto_goto [simp]: "psv_goto (psv_goto psv s) t = psv_goto psv t"
  by (simp add: psv_goto_def)

lemma psv_goto_at: "psv_at psv s \<Longrightarrow> psv_goto psv s = psv"
  by (simp add: psv_at_def psv_goto_def)

lemma psv_goto_fields [simp]:
  "psv_addr (psv_goto psv s) = psv_addr psv" "psv_pdo (psv_goto psv s) = psv_pdo psv"
  "psv_mtx (psv_goto psv s) = psv_mtx psv" "psv_rmo (psv_goto psv s) = psv_rmo psv"
  "psv_ldr (psv_goto psv s) = psv_ldr psv" "psv_scriptpath (psv_goto psv s) = psv_scriptpath psv"
  "psv_processid (psv_goto psv s) = psv_processid psv"
  by (simp_all add: psv_goto_def)

lemma psv_enter_goto [simp]: "psv_enter (psv_goto psv u) t w = psv_enter psv t w"
  by (simp add: psv_enter_def)

lemma psv_getstate_at: "psv_at psv s \<Longrightarrow> psv_getstate psv = vmstate_code s"
  by (simp add: psv_at_def psv_getstate_def)

lemma psv_getstate_goto [simp]: "psv_getstate (psv_goto psv s) = vmstate_code s"
  by (simp add: psv_getstate_def psv_goto_def)

lemma psv_transition_at:
  assumes "psv_at psv s"
  shows "psv_transition psv t w =
    (if vm_step s t
     then (let (r, w') = psv_enter psv t w
           in if r = 0 then (0, psv_goto psv t, w') else (-1, psv, w'))
     else (-1, psv, w))"
proof -
  have sth: "psv_sth psv = \<lparr>sth_current = node_of s, sth_vec = process_transition_list\<rparr>"
    using assms by (simp add: psv_at_def)
  show ?thesis
  proof (cases "vm_step s t")
    case True
    with table_hit obtain tr where
      "sth_scan (vmstate_code s) (vmstate_code t) process_transition_list = Some (tr :: 'b psv_ctx state_transition)"
      "st_to tr = Some (node_of t)" by blast
    then show ?thesis using True
      by (simp add: psv_transition_def sth_transitionto_def sth_findtransition_def sth run_hook_enter
          psv_goto_def Let_def run_hook_def [of None] split: prod.splits)
  next
    case False
    show ?thesis
      using False
      by (simp add: psv_transition_def sth_transitionto_def sth_findtransition_def sth table_miss [OF False])
  qed
qed

lemma sch_runscript_os [simp]: "w_os (snd (sch_runscript e b l w)) = w_os w"
  by (simp add: sch_runscript_def Let_def split_def split: option.split)

lemma psv_enter_os [simp]: "w_os (snd (psv_enter psv t w)) = w_os w"
  by (simp add: psv_enter_def sch_onenter_def Let_def split_def)

lemma sch_runscript_seen [simp]: "seen e w \<Longrightarrow> seen e (snd (sch_runscript x b l w))"
  by (simp add: sch_runscript_def Let_def split_def split: option.split)

lemma psv_enter_seen [simp]: "seen e w \<Longrightarrow> seen e (snd (psv_enter p t w))"
  by (simp add: psv_enter_def sch_onenter_def Let_def split_def)

section \<open>Moving along the relation\<close>

definition psv_moves :: "('d, 'm) process_state_vm \<Rightarrow> ('d, 'm) process_state_vm \<Rightarrow> bool" where
  "psv_moves p q \<longleftrightarrow> (\<forall>s. psv_at p s \<longrightarrow> (\<exists>t. psv_at q t \<and> vm_step\<^sup>*\<^sup>* s t))"

lemma psv_at_update [simp]:
  "psv_at (p\<lparr>psv_mtx := m\<rparr>) s = psv_at p s" "psv_at (p\<lparr>psv_processid := i\<rparr>) s = psv_at p s"
  "psv_at (p\<lparr>psv_pdo := pdo\<rparr>) s = psv_at p s" "psv_at (p\<lparr>psv_rmo := rmo\<rparr>) s = psv_at p s"
  "psv_at (p\<lparr>psv_ldr := ldr\<rparr>) s = psv_at p s"
  by (simp_all add: psv_at_def)

lemma psv_moves_update [simp]:
  "psv_moves (p\<lparr>psv_mtx := m\<rparr>) q = psv_moves p q" "psv_moves q (p\<lparr>psv_mtx := m\<rparr>) = psv_moves q p"
  "psv_moves (p\<lparr>psv_processid := i\<rparr>) q = psv_moves p q" "psv_moves q (p\<lparr>psv_processid := i\<rparr>) = psv_moves q p"
  "psv_moves (p\<lparr>psv_pdo := pdo\<rparr>) q = psv_moves p q" "psv_moves q (p\<lparr>psv_pdo := pdo\<rparr>) = psv_moves q p"
  by (simp_all add: psv_moves_def)

lemma psv_moves_refl [simp]: "psv_moves p p"
  by (auto simp: psv_moves_def)

lemma psv_moves_trans [trans]: "psv_moves p q \<Longrightarrow> psv_moves q r \<Longrightarrow> psv_moves p r"
  unfolding psv_moves_def by (meson rtranclp_trans)

lemma moves_transition: "psv_moves p (fst (snd (psv_transition p t w)))"
  by (auto simp: psv_moves_def psv_transition_at Let_def split_def)

lemma moves_walk: "psv_moves p (fst (snd (psv_walk ss p w)))"
proof (induction ss arbitrary: p w)
  case (Cons s ss)
  show ?case
    using moves_transition [of p s w]
    by (auto simp: psv_walk.simps Let_def split_def intro: psv_moves_trans Cons.IH)
qed (simp add: psv_walk.simps)

text \<open>A move after a move that is known: what the composed operations need.\<close>

lemma moves_after:
  "psv_moves q p \<Longrightarrow> psv_moves q (fst (snd (psv_transition p t w)))"
  "psv_moves q p \<Longrightarrow> psv_moves q (fst (snd (psv_walk ss p w)))"
  "psv_moves q p \<Longrightarrow> psv_moves q (fst (snd (psv_failurestate p w)))"
  "psv_moves q p \<Longrightarrow> psv_moves q (fst (snd (psv_getpid p w)))"
  using psv_moves_trans [OF _ moves_transition] psv_moves_trans [OF _ moves_walk]
  by (simp_all add: psv_failurestate_def psv_getpid_def Let_def split_def)

lemma moves_exit_reboot: "psv_moves q p \<Longrightarrow> psv_moves q (fst (snd (psv_exit_reboot ss p w)))"
  by (simp add: psv_exit_reboot_def Let_def split_def moves_after split: option.split)

lemma moves_onexit: "psv_moves p (fst (snd (psv_onexit p c w)))"
  by (simp add: psv_onexit_def psv_exit_switch_def Let_def split_def moves_after moves_exit_reboot)

lemma moves_resetfailure: "psv_moves p (fst (snd (psv_resetfailure p w)))"
  by (simp add: psv_resetfailure_def moves_transition)

lemma moves_start_finish: "psv_moves q p \<Longrightarrow> psv_moves q (fst (snd (psv_start_finish r f res p w)))"
  by (simp add: psv_start_finish_def Let_def split_def moves_after)

lemma moves_start_launch: "psv_moves q p \<Longrightarrow> psv_moves q (fst (snd (snd (psv_start_launch r p ldr w))))"
  by (simp add: psv_start_launch_def Let_def split_def moves_after moves_start_finish)

lemma moves_startvm: "psv_moves p (fst (snd (snd (psv_startvm p ldr w))))"
  by (simp add: psv_startvm_def Let_def split_def moves_after moves_start_launch)

lemma moves_stop_signal: "psv_moves q p \<Longrightarrow> psv_moves q (fst (snd (psv_stop_signal p want w)))"
proof -
  assume m: "psv_moves q p"
  obtain pid p1 w1 where g: "psv_getpid p w = (pid, p1, w1)" by (metis prod_cases3)
  from moves_after(4) [OF m, of w] g have m1: "psv_moves q p1" by simp
  obtain sent w2 where k: "sys_kill pid True w1 = (sent, w2)" by (metis surj_pair)
  obtain r p3 w3 where f: "psv_failurestate p1 w2 = (r, p3, w3)" by (metis prod_cases3)
  from moves_after(3) [OF m1, of w2] f have m3: "psv_moves q p3" by simp
  show ?thesis
    by (cases sent) (simp_all add: psv_stop_signal_def g k f m1 m3 Let_def split_def moves_after)
qed

lemma moves_stop_or_reboot: "psv_moves p (fst (snd (psv_stop_or_reboot p b want w)))"
  by (simp add: psv_stop_or_reboot_def Let_def split_def moves_after moves_stop_signal)

section \<open>Results of the operations\<close>

lemma transition_cases:
  assumes "psv_at p s" and "psv_transition p t w = (r, p', w')"
  shows "r = 0 \<and> vm_step s t \<and> p' = psv_goto p t \<or> r = -1 \<and> p' = psv_goto p s"
  using assms by (auto simp: psv_transition_at psv_goto_at Let_def split: if_splits prod.splits)

lemma walk_cases:
  "psv_at p s \<Longrightarrow> psv_walk ss p w = (r, p', w') \<Longrightarrow>
     \<exists>t. p' = psv_goto p t \<and> (r = 0 \<and> t = last (s # ss) \<or> r = -1 \<and> t \<in> set (butlast (s # ss)))"
proof (induction ss arbitrary: s p w)
  case Nil
  then show ?case by (auto simp: psv_walk.simps psv_goto_at intro: exI [of _ s])
next
  case (Cons u ss)
  obtain r1 p1 w1 where t: "psv_transition p u w = (r1, p1, w1)" by (metis prod_cases3)
  from transition_cases [OF Cons.prems(1) t] show ?case
  proof
    assume ok: "r1 = 0 \<and> vm_step s u \<and> p1 = psv_goto p u"
    with Cons.prems(2) t have "psv_walk ss (psv_goto p u) w1 = (r, p', w')"
      by (simp add: psv_walk.simps)
    from Cons.IH [OF _ this, of u] show ?thesis by auto
  next
    assume "r1 = -1 \<and> p1 = psv_goto p s"
    with Cons.prems(2) t show ?thesis by (auto simp: psv_walk.simps)
  qed
qed

lemma failurestate_cases:
  assumes "psv_at p s" and "psv_failurestate p w = (r, p', w')"
  shows "\<exists>t. p' = psv_goto p t \<and>
    (r = 0 \<and> t = FAILED \<or> r = -1 \<and> t \<in> {s, STOP_STORAGE, STOP_NETWORK, STOPPED})"
  using walk_cases [OF assms(1), of "[STOP_STORAGE, STOP_NETWORK, STOPPED, FAILED]" w r p' w'] assms(2)
  by (auto simp: psv_failurestate_def)

text \<open>A failed operation: the result is not 0, the vm is not running and the pid is as it was.\<close>

definition psv_failed :: "('d, 'm) process_state_vm \<Rightarrow> int \<Rightarrow> ('d, 'm) process_state_vm \<Rightarrow> bool" where
  "psv_failed p r p' \<longleftrightarrow> r \<noteq> 0 \<and> psv_processid p' = psv_processid p \<and>
     (\<exists>t. psv_at p' t \<and> t \<noteq> RUNNING)"

lemma psv_failed_update [simp]: "psv_failed (p\<lparr>psv_mtx := m\<rparr>) r q = psv_failed p r q"
  by (simp add: psv_failed_def)

lemma failed_after_failurestate:
  assumes "psv_at p s" and "s \<noteq> RUNNING" and "psv_failurestate p w = (x, q, v)" and "r \<noteq> 0"
  shows "psv_failed p r q"
  using failurestate_cases [OF assms(1,3)] assms(2,4) by (auto simp: psv_failed_def)

lemma int_or_eq_0 [simp]: "(a :: int) OR b = 0 \<longleftrightarrow> a = 0 \<and> b = 0"
  by (rule or_eq_0_iff)

lemma start_finish_cases:
  assumes at: "psv_at p s" and run: "psv_start_finish restarting (result \<noteq> 0) result p w = (r, p', w')"
    and nr: "s \<noteq> RUNNING"
  shows "psv_failed p r p' \<or>
    r = 0 \<and> result = 0 \<and> psv_at p' RUNNING \<and> psv_processid p' = psv_processid p \<and>
    vm_step s (if restarting then RESTARTED else RUNNING)"
proof -
  obtain err m w1 where u: "mutex_unlock (psv_mtx p) w = (err, m, w1)" by (metis prod_cases3)
  let ?p1 = "p\<lparr>psv_mtx := m\<rparr>" and ?t = "if restarting then RESTARTED else RUNNING"
  have at1: "psv_at ?p1 s" using at by simp
  show ?thesis
  proof (cases "err \<or> result \<noteq> 0")
    case True
    obtain x q v where f: "psv_failurestate ?p1 w1 = (x, q, v)" by (metis prod_cases3)
    from run u True f have "p' = q" "r \<noteq> 0"
      by (auto simp: psv_start_finish_def PSV_ERR_MUTEXUNLOCKFAIL_def Let_def split: if_splits)
    with failed_after_failurestate [OF at1 nr f, of r] show ?thesis by simp
  next
    case ok: False
    obtain x q v where t: "psv_transition ?p1 ?t w1 = (x, q, v)" by (metis prod_cases3)
    obtain y q2 v2 where f: "psv_failurestate q v = (y, q2, v2)" by (metis prod_cases3)
    from transition_cases [OF at1 t] show ?thesis
    proof
      assume stuck: "x = -1 \<and> q = psv_goto ?p1 s"
      with run u t f ok have "p' = q2" "r \<noteq> 0"
        by (auto simp: psv_start_finish_def PSV_ERR_TRANSITIONSFAIL_def)
      with failed_after_failurestate [of q s v y q2 v2 r] f nr stuck show ?thesis
        by (auto simp: psv_failed_def)
    next
      assume moved: "x = 0 \<and> vm_step s ?t \<and> q = psv_goto ?p1 ?t"
      show ?thesis
      proof (cases restarting)
        case False
        with run u t ok moved have "r = 0 \<and> p' = psv_goto ?p1 RUNNING"
          by (auto simp: psv_start_finish_def)
        with ok moved show ?thesis by auto
      next
        case True
        then have atq: "psv_at q RESTARTED" using moved by simp
        obtain z q3 v3 where t3: "psv_transition q RUNNING v = (z, q3, v3)" by (metis prod_cases3)
        obtain y4 q4 v4 where f4: "psv_failurestate q3 v3 = (y4, q4, v4)" by (metis prod_cases3)
        from transition_cases [OF atq t3] show ?thesis
        proof
          assume "z = 0 \<and> vm_step RESTARTED RUNNING \<and> q3 = psv_goto q RUNNING"
          with run u t ok moved t3 True have "r = 0 \<and> p' = psv_goto q RUNNING"
            by (auto simp: psv_start_finish_def)
          with ok moved show ?thesis by auto
        next
          assume stuck: "z = -1 \<and> q3 = psv_goto q RESTARTED"
          with run u t ok moved t3 f4 True have "p' = q4" "r \<noteq> 0"
            by (auto simp: psv_start_finish_def PSV_ERR_TRANSITIONSFAIL_def)
          with failed_after_failurestate [of q3 RESTARTED v3 y4 q4 v4 r] f4 stuck moved show ?thesis
            by (auto simp: psv_failed_def)
        qed
      qed
    qed
  qed
qed

lemma start_launch_cases:
  assumes at: "psv_at p s" and run: "psv_start_launch restarting p ldr w = (r, pid, p', w')"
    and nr: "s \<noteq> RUNNING"
  shows "(r \<noteq> 0 \<and> (\<exists>t. psv_at p' t \<and> t \<noteq> RUNNING)) \<or>
    (r = 0 \<and> pid = Some (psv_processid p') \<and> psv_at p' RUNNING \<and>
     vm_step s (if restarting then RESTARTED else RUNNING))"
proof -
  obtain err m w1 where l: "mutex_lock (psv_mtx p) w = (err, m, w1)" by (metis prod_cases3)
  let ?p1 = "p\<lparr>psv_mtx := m\<rparr>"
  have at1: "psv_at ?p1 s" using at by simp
  show ?thesis
  proof (cases err)
    case True
    obtain x q v where f: "psv_failurestate ?p1 w1 = (x, q, v)" by (metis prod_cases3)
    from run l True f have "p' = q" "r \<noteq> 0"
      by (auto simp: psv_start_launch_def split: if_splits)
    with failed_after_failurestate [OF at1 nr f, of r] show ?thesis by (auto simp: psv_failed_def)
  next
    case False
    obtain result stored ctx w2 where la:
      "pdf_launch_redirected (pdo_funcs (psv_pdo ?p1)) (pdo_ctx (psv_pdo ?p1))
         (if ldr \<noteq> None then ldr else psv_ldr ?p1) w1 = (result, stored, ctx, w2)"
      by (metis prod_cases4)
    let ?p2 = "?p1\<lparr>psv_pdo := (psv_pdo ?p1)\<lparr>pdo_ctx := ctx\<rparr>,
                   psv_processid := (case stored of None \<Rightarrow> psv_processid ?p1 | Some q \<Rightarrow> q)\<rparr>"
    obtain res p3 w3 where f: "psv_start_finish restarting (result \<noteq> 0) result ?p2 w2 = (res, p3, w3)"
      by (metis prod_cases3)
    from run l False la f have r: "r = res" "p' = p3"
        "pid = (if result \<noteq> 0 then None else Some (psv_processid ?p2))"
      by (auto simp: psv_start_launch_def Let_def)
    have "psv_at ?p2 s" using at by simp
    from start_finish_cases [OF this f nr] r show ?thesis by (auto simp: psv_failed_def)
  qed
qed

definition psv_idle :: "('d, 'm) process_state_vm \<Rightarrow> bool" where
  "psv_idle p \<longleftrightarrow> (\<exists>t. psv_at p t \<and> t \<noteq> RUNNING)"

lemma idle_transition: "psv_idle p \<Longrightarrow> t \<noteq> RUNNING \<Longrightarrow> psv_idle (fst (snd (psv_transition p t w)))"
  by (auto simp: psv_idle_def psv_transition_at Let_def split_def)

lemma idle_walk: "psv_idle p \<Longrightarrow> RUNNING \<notin> set ss \<Longrightarrow> psv_idle (fst (snd (psv_walk ss p w)))"
  by (induction ss arbitrary: p w) (auto simp: psv_walk.simps Let_def split_def idle_transition)

lemma idle_failurestate: "psv_idle p \<Longrightarrow> psv_idle (fst (snd (psv_failurestate p w)))"
  by (simp add: psv_failurestate_def idle_walk)

lemma start_launch_idle:
  "psv_idle p \<Longrightarrow> psv_start_launch restarting p ldr w = (r, pid, p', w') \<Longrightarrow>
     r \<noteq> 0 \<and> psv_idle p' \<or> r = 0 \<and> pid = Some (psv_processid p') \<and> psv_at p' RUNNING"
  using start_launch_cases by (fastforce simp: psv_idle_def)

lemma startvm_cases:
  assumes at: "psv_at p s" and run: "psv_startvm p ldr w = (r, pid, p', w')"
  shows "r = 0 \<and> s \<in> {INIT, STOPPED, RESTART_STOPPED} \<and> pid = Some (psv_processid p') \<and> psv_at p' RUNNING
    \<or> r \<noteq> 0 \<and> (s = RUNNING \<and> p' = p \<or> psv_idle p')"
proof (cases "s \<in> {INIT, STOPPED, RESTART_STOPPED}")
  case False
  with run psv_getstate_at [OF at] have "r = -1 \<and> p' = p"
    by (auto simp: psv_startvm_def simp flip: vmstate_code.simps)
  with at False show ?thesis by (auto simp: psv_idle_def)
next
  case True
  then have idle: "psv_idle p" using at by (auto simp: psv_idle_def)
  let ?restarting = "s = RESTART_STOPPED"
  obtain r1 p1 w1 where t1: "psv_transition p (if ?restarting then PRESTART_AFTER_RESTART else START_NETWORK) w
      = (r1, p1, w1)" by (metis prod_cases3)
  have i1: "psv_idle p1"
    using idle_transition [OF idle, of "if ?restarting then PRESTART_AFTER_RESTART else START_NETWORK" w] t1
    by (auto split: if_splits)
  let ?undo = "(if ?restarting then [STOP_STORAGE] else []) @ [STOP_NETWORK, STOPPED, FAILED]"
  obtain r2 p2 w2 where t2: "(if r1 \<noteq> 0 then psv_walk ?undo p1 w1 else (0, p1, w1)) = (r2, p2, w2)"
    by (metis prod_cases3)
  have i2: "psv_idle p2"
    using idle_walk [OF i1, of ?undo w1] t2 i1 by (auto split: if_splits)
  obtain r3 p3 w3 where t3: "psv_transition p2 (if ?restarting then START_AFTER_RESTART else START_STORAGE) w2
      = (r3, p3, w3)" by (metis prod_cases3)
  have i3: "psv_idle p3"
    using idle_transition [OF i2, of "if ?restarting then START_AFTER_RESTART else START_STORAGE" w2] t3
    by (auto split: if_splits)
  obtain r4 p4 w4 where t4: "(if r3 \<noteq> 0 then psv_failurestate p3 w3 else (0, p3, w3)) = (r4, p4, w4)"
    by (metis prod_cases3)
  have i4: "psv_idle p4" using idle_failurestate [OF i3, of w3] t4 i3 by (auto split: if_splits)
  have "psv_startvm p ldr w =
    (if r1 \<noteq> 0 \<and> s = INIT then (-1, None, p1, w1)
     else if r2 \<noteq> 0 then (-1, None, p2, w2)
     else if r4 \<noteq> 0 then (-1, None, p4, w4)
     else psv_start_launch ?restarting p4 ldr w4)"
    using True t1 t2 t3 t4
    by (auto simp: psv_startvm_def psv_getstate_at [OF at] Let_def simp del: vmstate_code.simps)
  with run i1 i2 i4 start_launch_idle [OF i4, of ?restarting ldr w4 r pid p' w'] True show ?thesis
    by (auto split: if_splits)
qed

section \<open>When the scripts succeed\<close>

text \<open>Entering a state of \<open>T\<close> succeeds in every world of the system, whatever happened before.\<close>

definition scripts_ok_for :: "bhyve_vmstate_t set \<Rightarrow> os \<Rightarrow> ('d, 'm) process_state_vm \<Rightarrow> bool" where
  "scripts_ok_for T s p \<longleftrightarrow> (\<forall>t \<in> T. \<forall>w. w_os w = s \<longrightarrow> fst (psv_enter p t w) = 0)"

abbreviation scripts_ok :: "os \<Rightarrow> ('d, 'm) process_state_vm \<Rightarrow> bool" where
  "scripts_ok \<equiv> scripts_ok_for UNIV"

text \<open>The system lets mutexes be locked and unlocked.\<close>

definition locks_ok :: "os \<Rightarrow> bool" where
  "locks_ok s \<longleftrightarrow> (\<forall>n. os_lock s n \<and> os_unlock s n)"

lemma psv_enter_update [simp]:
  "psv_enter (p\<lparr>psv_mtx := m\<rparr>) = psv_enter p" "psv_enter (p\<lparr>psv_processid := i\<rparr>) = psv_enter p"
  "psv_enter (p\<lparr>psv_pdo := pdo\<rparr>) = psv_enter p" "psv_enter (p\<lparr>psv_rmo := rmo\<rparr>) = psv_enter p"
  "psv_enter (psv_goto p s) = psv_enter p"
  by (auto simp: psv_enter_def fun_eq_iff)

lemma scripts_ok_update [simp]:
  "scripts_ok_for T s (p\<lparr>psv_mtx := m\<rparr>) = scripts_ok_for T s p"
  "scripts_ok_for T s (p\<lparr>psv_processid := i\<rparr>) = scripts_ok_for T s p"
  "scripts_ok_for T s (p\<lparr>psv_pdo := pdo\<rparr>) = scripts_ok_for T s p"
  "scripts_ok_for T s (p\<lparr>psv_rmo := rmo\<rparr>) = scripts_ok_for T s p"
  "scripts_ok_for T s (psv_goto p t) = scripts_ok_for T s p"
  by (simp_all add: scripts_ok_for_def)

lemma scripts_ok_no_files:
  assumes "\<forall>n path. \<not> os_stat s n path" shows "scripts_ok s p"
proof -
  have "fst (psv_enter p t w) = 0" if "w_os w = s" for t w
    using assms that by (simp add: psv_enter_def sch_onenter_def sys_stat_def sys_try_def ask_def Let_def)
  then show ?thesis by (simp add: scripts_ok_for_def)
qed

text \<open>Scripts without a log redirector, when memory and processes are available and the scripts
  exit with code 0 (or, as the second case allows, \<open>waitpid\<close> fails).\<close>

lemma copy_args_calm: "\<forall>n. os_malloc (w_os w) n \<Longrightarrow> fst (copy_args as w) = Some as"
proof (induction as arbitrary: w)
  case (Cons a as)
  have "\<forall>n. os_malloc (w_os (tock w)) n" using Cons.prems by simp
  then show ?case
    using Cons.prems Cons.IH [of "tock w"]
    by (simp add: sys_malloc_def sys_try_def ask_def Let_def split_def)
qed simp

lemma pd_new_calm:
  assumes "\<forall>n. os_malloc (w_os w) n"
  shows "\<exists>pd. fst (pd_new (Some n) d (Some path) as w) = Some pd"
proof -
  have ok: "fst (sys_malloc v) = True" if "w_os v = w_os w" for v :: "'m world_scheme"
    using assms that by (simp add: sys_malloc_def sys_try_def ask_def Let_def)
  have cp: "fst (copy_args as' v) = Some as'" if "w_os v = w_os w" for v :: "'m world_scheme" and as'
    using copy_args_calm assms that by metis
  show ?thesis
    by (cases d; cases as) (simp_all add: pd_new_def Let_def split_def ok cp)
qed

lemma scripts_ok_exit0:
  fixes p :: "('d, 'm) process_state_vm"
  assumes "psv_ldr p = None" and "\<forall>n. os_malloc s n" and "\<forall>n. 0 < os_fork s n"
    and "\<forall>n pid. fst (os_waitpid s n pid) < 0 \<or> snd (os_waitpid s n pid) = 0"
  shows "scripts_ok s p"
proof -
  have run: "fst (sch_runscript e True None w) = 0" if w: "w_os w = s" for e and w :: "'m logworld_scheme"
  proof -
    have "\<forall>n. os_malloc (w_os w) n" using assms(2) w by simp
    from pd_new_calm [OF this] obtain pd where
      pd: "fst (pd_new (Some ''user script'') (Some ''run when state changes'') (Some e) (Some [e]) w) = Some pd"
      by blast
    let ?w1 = "snd (pd_new (Some ''user script'') (Some ''run when state changes'') (Some e) (Some [e]) w)"
    have la: "fst (pd_launch_redirected pd None ?w1) = 0"
      using assms(3) w
      by (simp add: pd_launch_redirected_def sys_fork_def ask_def Let_def not_less less_imp_le)
    have "fst (fst (sys_waitpid q v)) < 0 \<or> snd (fst (sys_waitpid q v)) = 0"
      if "w_os v = s" for q and v :: "'m logworld_scheme"
      using assms(4) that by (simp add: sys_waitpid_def ask_def Let_def)
    then have "WIFEXITED (if fst (fst (sys_waitpid q v)) < 0 then 0 else snd (fst (sys_waitpid q v))) \<and>
        WEXITSTATUS (if fst (fst (sys_waitpid q v)) < 0 then 0 else snd (fst (sys_waitpid q v))) = 0"
      if "w_os v = s" for q and v :: "'m logworld_scheme"
      using that by (force simp: WIFEXITED_def wstatus_def WEXITSTATUS_def)
    then show ?thesis
      using pd la w by (simp add: sch_runscript_def Let_def split_def)
  qed
  have "fst (psv_enter p t w) = 0" if "w_os w = s" for t w
    using run assms(1) that by (simp add: psv_enter_def sch_onenter_def Let_def split_def)
  then show ?thesis by (simp add: scripts_ok_for_def)
qed

text \<open>Then a walk along the relation reaches its end.\<close>

fun vm_path :: "bhyve_vmstate_t \<Rightarrow> bhyve_vmstate_t list \<Rightarrow> bool" where
  "vm_path s [] = True"
| "vm_path s (t # ts) = (vm_step s t \<and> vm_path t ts)"

text \<open>What stays the same, and what is not lost, between two worlds of one run.\<close>

definition carries :: "'m world_scheme \<Rightarrow> 'm world_scheme \<Rightarrow> bool" where
  "carries w w' \<longleftrightarrow> w_os w' = w_os w \<and> (\<forall>e. seen e w \<longrightarrow> seen e w')"

lemma carries_refl [simp]: "carries w w"
  by (simp add: carries_def)

lemma carries_tock [simp]: "carries w (tock w') = carries w w'" "carries (tock w) w' = carries w w'"
  by (simp_all add: carries_def)

lemma carries_trans [trans]: "carries w w' \<Longrightarrow> carries w' w'' \<Longrightarrow> carries w w''"
  by (simp add: carries_def)

lemma carries_os: "carries w w' \<Longrightarrow> w_os w' = w_os w"
  by (simp add: carries_def)

lemma transition_ok:
  assumes "psv_at p s" and "vm_step s t" and "scripts_ok_for T (w_os w) p" and "t \<in> T"
  shows "\<exists>w'. psv_transition p t w = (0, psv_goto p t, w') \<and> carries w w'"
proof -
  have "fst (psv_enter p t w) = 0"
    using assms(3,4) by (simp add: scripts_ok_for_def)
  then show ?thesis
    using assms(1,2) by (simp add: psv_transition_at carries_def Let_def split_def)
qed

lemma walk_ok:
  "psv_at p s \<Longrightarrow> vm_path s ss \<Longrightarrow> scripts_ok_for T (w_os w) p \<Longrightarrow> set ss \<subseteq> T \<Longrightarrow>
     \<exists>w'. psv_walk ss p w = (0, psv_goto p (last (s # ss)), w') \<and> carries w w'"
proof (induction ss arbitrary: s p w)
  case Nil
  then show ?case by (simp add: psv_walk.simps psv_goto_at)
next
  case (Cons t ss)
  from Cons.prems(2) have "vm_step s t" by simp
  from transition_ok [OF Cons.prems(1) this Cons.prems(3)] Cons.prems(4) obtain w1 where
    w1: "psv_transition p t w = (0, psv_goto p t, w1)" "carries w w1" by auto
  from Cons.IH [of "psv_goto p t" t w1] Cons.prems w1 obtain w' where
    "psv_walk ss (psv_goto p t) w1 = (0, psv_goto p (last (t # ss)), w')" "carries w1 w'"
    by (auto simp: carries_os)
  with w1 show ?case by (auto simp: psv_walk.simps intro: carries_trans)
qed

lemma failurestate_ok:
  assumes "psv_at p s" and "scripts_ok_for T (w_os w) p"
    and "{STOP_STORAGE, STOP_NETWORK, STOPPED, FAILED} \<subseteq> T"
  shows "\<exists>w'. psv_failurestate p w = (0, psv_goto p FAILED, w') \<and> carries w w'"
  using assms(3) walk_ok [OF assms(1) _ assms(2), of "[STOP_STORAGE, STOP_NETWORK, STOPPED, FAILED]"]
  by (simp add: psv_failurestate_def vm_step.intros)

lemma lock_os_ok: "locks_ok (w_os w) \<Longrightarrow> mutex_lock False w = (False, True, tock w)"
  by (simp add: locks_ok_def lock_ok)

lemma unlock_os_ok: "locks_ok (w_os w) \<Longrightarrow> mutex_unlock True w = (False, False, tock w)"
  by (simp add: locks_ok_def unlock_ok)

section \<open>Starting\<close>

definition start_target :: "bool \<Rightarrow> bhyve_vmstate_t" where
  "start_target restarting = (if restarting then START_AFTER_RESTART else START_STORAGE)"

lemma start_finish_ok:
  assumes at: "psv_at p (start_target restarting)" and "psv_mtx p" and locks: "locks_ok (w_os w)"
    and scripts: "scripts_ok (w_os w) p"
  shows "\<exists>w'. psv_start_finish restarting False 0 p w =
     (0, (psv_goto p RUNNING)\<lparr>psv_mtx := False\<rparr>, w') \<and> carries w w'"
proof -
  let ?ss = "if restarting then [RESTARTED, RUNNING] else [RUNNING]" and ?p1 = "p\<lparr>psv_mtx := False\<rparr>"
  have "vm_path (start_target restarting) ?ss" by (simp add: start_target_def vm_step.intros)
  moreover have "psv_at ?p1 (start_target restarting)" using at by simp
  ultimately obtain w' where w: "psv_walk ?ss ?p1 (tock w) =
      (0, psv_goto ?p1 (last (start_target restarting # ?ss)), w')" "carries (tock w) w'"
    using walk_ok [of ?p1 "start_target restarting" ?ss UNIV "tock w"] scripts by auto
  have g: "psv_goto ?p1 RUNNING = (psv_goto p RUNNING)\<lparr>psv_mtx := False\<rparr>" by (simp add: psv_goto_def)
  show ?thesis
    using w assms(2) unlock_os_ok [OF locks]
    by (cases restarting) (auto simp: psv_start_finish_def psv_walk.simps g Let_def split: prod.splits if_splits)
qed

lemma start_finish_failed:
  assumes at: "psv_at p s" and "psv_mtx p" and locks: "locks_ok (w_os w)"
    and scripts: "scripts_ok (w_os w) p"
  shows "\<exists>w'. psv_start_finish restarting True r p w =
     (r OR PSV_ERR_MUTEXUNLOCKFAIL, (psv_goto p FAILED)\<lparr>psv_mtx := False\<rparr>, w') \<and> carries w w'"
proof -
  have "psv_at (p\<lparr>psv_mtx := False\<rparr>) s" using at by simp
  from failurestate_ok [OF this, of UNIV "tock w"] scripts obtain w' where
    "psv_failurestate (p\<lparr>psv_mtx := False\<rparr>) (tock w) = (0, psv_goto (p\<lparr>psv_mtx := False\<rparr>) FAILED, w')"
    "carries w w'" by auto
  moreover have "psv_goto (p\<lparr>psv_mtx := False\<rparr>) FAILED = (psv_goto p FAILED)\<lparr>psv_mtx := False\<rparr>"
    by (simp add: psv_goto_def)
  ultimately show ?thesis
    using assms(2) unlock_os_ok [OF locks] by (simp add: psv_start_finish_def)
qed

text \<open>The launch of a vm that is already in state \<open>FAILED\<close>.\<close>

lemma start_finish_stuck:
  assumes at: "psv_at p FAILED" and "psv_mtx p" and locks: "locks_ok (w_os w)"
    and scripts: "scripts_ok_for T (w_os w) p" and T: "{STOP_STORAGE, STOP_NETWORK, STOPPED, FAILED} \<subseteq> T"
  shows "\<exists>w'. psv_start_finish restarting False 0 p w =
     (PSV_ERR_TRANSITIONSFAIL, p\<lparr>psv_mtx := False\<rparr>, w') \<and> carries w w'"
proof -
  let ?p1 = "p\<lparr>psv_mtx := False\<rparr>"
  have at1: "psv_at ?p1 FAILED" using at by simp
  from failurestate_ok [OF this _ T, of "tock w"] scripts obtain w' where
    "psv_failurestate ?p1 (tock w) = (0, psv_goto ?p1 FAILED, w')" "carries w w'" by auto
  moreover have "psv_transition ?p1 (if restarting then RESTARTED else RUNNING) (tock w) = (-1, ?p1, tock w)"
    by (simp add: psv_transition_at [OF at1] vm_step_to)
  ultimately show ?thesis
    using assms(2) unlock_os_ok [OF locks] psv_goto_at [OF at1] by (simp add: psv_start_finish_def)
qed

text \<open>The launch in the ordinary case, over any launcher that keeps the contract.\<close>

context process_launcher
begin

lemma start_launch_ok:
  fixes p :: "('d, 'm) process_state_vm"
  assumes at: "psv_at p (start_target restarting)"
    and free: "psv_mtx p = False" and locks: "locks_ok (w_os w)" and scripts: "scripts_ok (w_os w) p"
    and fn: "pdf_launch_redirected (pdo_funcs (psv_pdo p)) = launch"
  shows "\<exists>r pid p' w'. psv_start_launch restarting p ldr w = (r, pid, p', w') \<and> w_os w' = w_os w \<and>
    ((\<forall>v. w_os v = w_os w \<longrightarrow>
        fst (launch (pdo_ctx (psv_pdo p)) (if ldr \<noteq> None then ldr else psv_ldr p) v) = 0) \<longrightarrow> r = 0) \<and>
    (if r = 0
     then (\<exists>q. pid = Some q \<and> p' = (psv_goto p RUNNING)\<lparr>psv_processid := q\<rparr> \<and> 0 \<le> q \<and>
            q \<in> range (os_fork (w_os w)) \<and> seen (Forked (fst (command (pdo_ctx (psv_pdo p)))) (snd (command (pdo_ctx (psv_pdo p)))) q) w')
     else pid = None \<and> p' = psv_goto p FAILED)"
proof -
  let ?d = "pdo_ctx (psv_pdo p)" and ?l = "if ldr \<noteq> None then ldr else psv_ldr p"
  have lock: "mutex_lock (psv_mtx p) w = (False, True, tock w)"
    using free lock_os_ok [OF locks] by simp
  have same: "p\<lparr>psv_mtx := True, psv_pdo := (psv_pdo p)\<lparr>pdo_ctx := ?d\<rparr>\<rparr> = p\<lparr>psv_mtx := True\<rparr>"
    by simp
  show ?thesis
  proof (cases rule: launch_cases [of ?d ?l "tock w"])
    case (ok q w1)
    let ?p2 = "p\<lparr>psv_mtx := True, psv_processid := q\<rparr>"
    obtain w' where f: "psv_start_finish restarting False 0 ?p2 w1 =
        (0, (psv_goto ?p2 RUNNING)\<lparr>psv_mtx := False\<rparr>, w')" "carries w1 w'"
      using start_finish_ok [of ?p2 restarting w1] at locks scripts ok(3) by auto
    have "(psv_goto ?p2 RUNNING)\<lparr>psv_mtx := False\<rparr> = (psv_goto p RUNNING)\<lparr>psv_processid := q\<rparr>"
      using free by (simp add: psv_goto_def)
    then have "psv_start_launch restarting p ldr w =
        (0, Some q, (psv_goto p RUNNING)\<lparr>psv_processid := q\<rparr>, w')"
      using f(1) ok(1) lock fn by (cases ldr) (simp_all add: psv_start_launch_def Let_def)
    with f(2) ok(2-5) show ?thesis by (simp add: carries_def)
  next
    case (failed r w1)
    let ?p2 = "p\<lparr>psv_mtx := True\<rparr>"
    obtain w' where f: "psv_start_finish restarting True r ?p2 w1 =
        (r OR PSV_ERR_MUTEXUNLOCKFAIL, (psv_goto ?p2 FAILED)\<lparr>psv_mtx := False\<rparr>, w')" "carries w1 w'"
      using start_finish_failed [of ?p2 _ w1] at locks scripts failed(3) by fastforce
    have "(psv_goto ?p2 FAILED)\<lparr>psv_mtx := False\<rparr> = psv_goto p FAILED"
      using free by (simp add: psv_goto_def)
    then have "psv_start_launch restarting p ldr w =
        (r OR PSV_ERR_MUTEXUNLOCKFAIL, None, psv_goto p FAILED, w')"
      using f(1) failed(1,2) lock fn by (cases ldr) (simp_all add: psv_start_launch_def Let_def)
    moreover have "\<exists>v. w_os v = w_os w \<and> fst (launch ?d ?l v) \<noteq> 0"
      using failed(1,2) by (intro exI [of _ "tock w"]) simp
    ultimately show ?thesis using f(2) failed(2,3) by (auto simp: carries_def)
  qed
qed

lemma startvm_ok:
  fixes p :: "('d, 'm) process_state_vm"
  assumes at: "psv_at p s" and s: "s \<in> {INIT, STOPPED, RESTART_STOPPED}"
    and free: "psv_mtx p = False" and locks: "locks_ok (w_os w)" and scripts: "scripts_ok (w_os w) p"
    and fn: "pdf_launch_redirected (pdo_funcs (psv_pdo p)) = launch"
  shows "\<exists>r pid p' w'. psv_startvm p ldr w = (r, pid, p', w') \<and> w_os w' = w_os w \<and>
    ((\<forall>v. w_os v = w_os w \<longrightarrow>
        fst (launch (pdo_ctx (psv_pdo p)) (if ldr \<noteq> None then ldr else psv_ldr p) v) = 0) \<longrightarrow> r = 0) \<and>
    (if r = 0
     then (\<exists>q. pid = Some q \<and> p' = (psv_goto p RUNNING)\<lparr>psv_processid := q\<rparr> \<and> 0 \<le> q \<and>
            q \<in> range (os_fork (w_os w)) \<and> seen (Forked (fst (command (pdo_ctx (psv_pdo p)))) (snd (command (pdo_ctx (psv_pdo p)))) q) w')
     else pid = None \<and> p' = psv_goto p FAILED)"
proof -
  let ?r = "s = RESTART_STOPPED"
  let ?t = "if ?r then PRESTART_AFTER_RESTART else START_NETWORK"
  have "vm_step s ?t" using s by (auto intro: vm_step.intros)
  from transition_ok [OF at this scripts] obtain w1 where
    t1: "psv_transition p ?t w = (0, psv_goto p ?t, w1)" "carries w w1" by auto
  have "vm_step ?t (start_target ?r)" by (auto simp: start_target_def intro: vm_step.intros)
  from transition_ok [of "psv_goto p ?t" ?t "start_target ?r" UNIV w1] this scripts t1(2) obtain w2 where
    t2: "psv_transition (psv_goto p ?t) (start_target ?r) w1 = (0, psv_goto p (start_target ?r), w2)"
      "carries w1 w2" by (auto simp: carries_os)
  have run: "psv_startvm p ldr w = psv_start_launch ?r (psv_goto p (start_target ?r)) ldr w2"
    using s t1(1) t2(1)
    by (auto simp: psv_startvm_def psv_getstate_at [OF at] start_target_def Let_def
        simp del: vmstate_code.simps)
  have os2: "w_os w2 = w_os w" using t1(2) t2(2) by (simp add: carries_os)
  show ?thesis
    unfolding run
    using start_launch_ok [of "psv_goto p (start_target ?r)" ?r w2 ldr] free locks scripts fn os2
    by (simp only: os2 psv_goto_fields psv_goto_goto psv_at_goto scripts_ok_update simp_thms)
qed

end

end
