(* ===== verification/Vm_Contract.thy ===== *)
theory Vm_Contract
  imports Vm_Lifecycle
begin

text \<open>
  Properties of the life cycle of a virtual machine (\<open>process_state.c\<close>, \<open>state_change.c\<close>), each with a
  witness on a concrete vm.
\<close>

section \<open>A concrete vm\<close>

definition logworld0 :: "os \<Rightarrow> logworld" where
  "logworld0 s = \<lparr>w_os = s, w_tick = 0, w_errno = E0, w_trace = [],
     w_ldrs = \<lambda>_. None, w_clients = \<lambda>_. None, w_fresh = 0\<rparr>"

definition pd_demo :: process_def where
  "pd_demo = \<lparr>pd_name = ''vm'', pd_description = None, pd_procpath = BHYVEBIN,
     pd_procargs = Some [Some BHYVEBIN, Some ''-k'', Some ''/vm/config'']\<rparr>"

definition psv_demo :: "bhyve_vmstate_t \<Rightarrow> (process_def, unit) process_state_vm" where
  "psv_demo s = \<lparr>psv_addr = 0, psv_pdo = \<lparr>pdo_ctx = pd_demo, pdo_funcs = pd_funcs\<rparr>,
     psv_sth = \<lparr>sth_current = node_of s, sth_vec = process_transition_list\<rparr>, psv_mtx = False,
     psv_rmo = Some (\<lambda>_ w. (0, w)), psv_ldr = None, psv_scriptpath = Some ''/vm'', psv_processid = 77\<rparr>"

lemma psv_demo_at [simp]: "psv_at (psv_demo s) s"
  by (simp add: psv_demo_def psv_at_def)

lemma psv_demo_fields [simp]:
  "\<not> psv_mtx (psv_demo s)" "psv_ldr (psv_demo s) = None" "psv_processid (psv_demo s) = 77"
  "psv_rmo (psv_demo s) = Some (\<lambda>_ w. (0, w))" "pdo_funcs (psv_pdo (psv_demo s)) = pd_funcs"
  by (simp_all add: psv_demo_def)

lemma logworld0_os [simp]: "w_os (logworld0 s) = s"
  by (simp add: logworld0_def)

lemma calm_os_locks [simp]: "locks_ok calm_os"
  by (simp add: locks_ok_def calm_os_def)

lemma scripts_ok_demo [simp]: "scripts_ok_for T calm_os (psv_demo s)"
  using scripts_ok_exit0 [of "psv_demo s" calm_os] by (auto simp: calm_os_def scripts_ok_for_def)

section \<open>Refinement of the state diagram\<close>

text \<open>The calls of the director and of the kernel event thread.\<close>

datatype psv_call =
  CallStart "nat option" | CallStop bool | CallReboot bool | CallExit u16 | CallFail | CallReset

fun psv_do ::
  "psv_call \<Rightarrow> ('d, 'm) process_state_vm \<times> 'm logworld_scheme
   \<Rightarrow> ('d, 'm) process_state_vm \<times> 'm logworld_scheme" where
  "psv_do (CallStart ldr) (p, w) = snd (snd (psv_startvm p ldr w))"
| "psv_do (CallStop want) (p, w) =
     (let r = snd (psv_stopvm p want w) in (fst r, snd (snd r)))"
| "psv_do (CallReboot want) (p, w) =
     (let r = snd (psv_rebootvm p want w) in (fst r, snd (snd r)))"
| "psv_do (CallExit c) (p, w) = snd (psv_onexit p c w)"
| "psv_do CallFail (p, w) = snd (psv_failurestate p w)"
| "psv_do CallReset (p, w) = snd (psv_resetfailure p w)"

lemma psv_do_moves: "psv_moves p (fst (psv_do c (p, w)))"
  by (cases c) (simp_all add: moves_startvm moves_stop_or_reboot psv_stopvm_def psv_rebootvm_def
      moves_onexit moves_resetfailure moves_after(3) Let_def)



section \<open>Start\<close>

text \<open>C26: \<open>psv_startvm\<close> returns 0 exactly when it brought the vm into state \<open>RUNNING\<close>; then the vm was in
  one of the three states it may start from and the caller gets the pid of the vm. On any other
  result the vm is not running, unless it was running before the call, which leaves it alone.\<close>

theorem psv_startvm_result:
  assumes "psv_at p s" and "psv_startvm p ldr w = (r, pid, p', w')"
  shows "if r = 0
         then s \<in> {INIT, STOPPED, RESTART_STOPPED} \<and> psv_at p' RUNNING \<and> pid = Some (psv_processid p')
         else (s = RUNNING \<and> p' = p) \<or> (\<exists>t. psv_at p' t \<and> t \<noteq> RUNNING \<and> vm_step\<^sup>*\<^sup>* s t)"
proof -
  have "psv_moves p p'" using moves_startvm [of p ldr w] assms(2) by simp
  then obtain t where "psv_at p' t" "vm_step\<^sup>*\<^sup>* s t" using assms(1) by (auto simp: psv_moves_def)
  moreover have "t' = t" if "psv_at p' t'" for t'
    using that \<open>psv_at p' t\<close> by (simp add: psv_at_def)
  ultimately have idle: "\<exists>t. psv_at p' t \<and> t \<noteq> RUNNING \<and> vm_step\<^sup>*\<^sup>* s t" if "psv_idle p'"
    using that unfolding psv_idle_def by blast
  show ?thesis
  proof (cases "r = 0")
    case True
    with startvm_cases [OF assms] show ?thesis by simp
  next
    case False
    with startvm_cases [OF assms] idle show ?thesis by simp blast
  qed
qed

theorem psv_startvm_result_witness:
  "\<exists>r pid p' w'. psv_startvm (psv_demo RUNNING) None (logworld0 calm_os) = (r, pid, p', w') \<and> r \<noteq> 0"
proof -
  obtain r pid p' w' where
    run: "psv_startvm (psv_demo RUNNING) None (logworld0 calm_os) = (r, pid, p', w')" by (metis prod_cases4)
  have "r \<noteq> 0" using psv_startvm_result [OF psv_demo_at run] by (cases "r = 0") simp_all
  with run show ?thesis by blast
qed

text \<open>From \<open>INIT\<close>, \<open>STOPPED\<close> and \<open>RESTART_STOPPED\<close>, when no script fails and \<open>fork\<close> gives a process,
  \<open>psv_startvm\<close> returns 0, the vm is \<open>RUNNING\<close>, and the pid it stores and returns is that of a process
  started with the command of the process definition.\<close>

theorem psv_startvm_running:
  assumes "psv_at p s" and "s \<in> {INIT, STOPPED, RESTART_STOPPED}" and "\<not> psv_mtx p"
    and "pdo_funcs (psv_pdo p) = pd_funcs" and "psv_ldr p = None"
    and "locks_ok (w_os w)" and "scripts_ok (w_os w) p" and "\<forall>n. 0 < os_fork (w_os w) n"
  shows "\<exists>pid w'. psv_startvm p None w = (0, Some pid, (psv_goto p RUNNING)\<lparr>psv_processid := pid\<rparr>, w') \<and>
    0 \<le> pid \<and> seen (Forked (pd_procpath (pdo_ctx (psv_pdo p))) (pd_argv (pdo_ctx (psv_pdo p))) pid) w'"
proof -
  have la: "fst (pdf_launch_redirected pd_funcs (pdo_ctx (psv_pdo p)) None v) = 0"
    if "w_os v = w_os w" for v
  proof -
    have "0 < os_fork (w_os v) (w_tick v)" using assms(8) that by simp
    then show ?thesis
      by (simp add: pd_funcs_def pd_launch_redirected_def sys_fork_def ask_def Let_def split_def)
  qed
  have "pdf_launch_redirected (pdo_funcs (psv_pdo p)) = pdf_launch_redirected pd_funcs"
    using assms(4) by simp
  from pdl.startvm_ok [OF assms(1,2) _ assms(6,7) this, of None] assms(3,5) la
  show ?thesis by (auto simp: pd_command_def)
qed

theorem psv_startvm_running_witness:
  "\<exists>pid p' w'. psv_startvm (psv_demo STOPPED) None (logworld0 calm_os) = (0, Some pid, p', w') \<and>
     psv_at p' RUNNING"
proof -
  have "\<forall>n. 0 < os_fork (w_os (logworld0 calm_os)) n" by (simp add: calm_os_def)
  from psv_startvm_running [OF psv_demo_at, of STOPPED "logworld0 calm_os"] this
  show ?thesis by fastforce
qed

section \<open>Failure\<close>

text \<open>C32: \<open>psv_failurestate\<close> reaches \<open>FAILED\<close> from every state when the four scripts on the way succeed;
  otherwise it returns -1 and the vm stops at the state whose successor's script failed. Nothing
  else of the vm changes, the pid included.\<close>

theorem psv_failurestate_result:
  assumes "psv_at p s" and "psv_failurestate p w = (r, p', w')"
  shows "(\<exists>t. p' = psv_goto p t \<and> (r = 0 \<and> t = FAILED \<or>
            r = -1 \<and> t \<in> {s, STOP_STORAGE, STOP_NETWORK, STOPPED})) \<and>
    (scripts_ok_for {STOP_STORAGE, STOP_NETWORK, STOPPED, FAILED} (w_os w) p \<longrightarrow> r = 0)"
proof (intro conjI impI)
  show "\<exists>t. p' = psv_goto p t \<and> (r = 0 \<and> t = FAILED \<or>
            r = -1 \<and> t \<in> {s, STOP_STORAGE, STOP_NETWORK, STOPPED})"
    by (rule failurestate_cases [OF assms])
  show "r = 0" if "scripts_ok_for {STOP_STORAGE, STOP_NETWORK, STOPPED, FAILED} (w_os w) p"
    using failurestate_ok [OF assms(1) that] assms(2) by auto
qed

theorem psv_failurestate_result_witness:
  "\<exists>p' w'. psv_failurestate (psv_demo START_STORAGE) (logworld0 calm_os) = (0, p', w') \<and> psv_at p' FAILED"
proof -
  obtain r p' w' where run: "psv_failurestate (psv_demo START_STORAGE) (logworld0 calm_os) = (r, p', w')"
    by (metis prod_cases3)
  from psv_failurestate_result [OF psv_demo_at run] have "r = 0" "psv_at p' FAILED" by auto
  with run show ?thesis by blast
qed

text \<open>C31: When the process of a running vm exits (no script failing, the reboot manager accepting):
  code 0 takes the vm to \<open>RESTART_STOPPED\<close> and hands its address to the reboot manager once; codes 1
  and 2 take it to \<open>STOPPED\<close>; codes from 3 on to \<open>FAILED\<close>. Only the last case clears the pid: after a
  normal shutdown the vm still carries the pid of the process that is gone.\<close>

theorem psv_onexit_running:
  assumes "psv_at p RUNNING" and "\<not> psv_mtx p" and "locks_ok (w_os w)" and "scripts_ok (w_os w) p"
    and "psv_rmo p = Some reboot" and "\<forall>a v. fst (reboot a v) = 0"
  shows "\<exists>w'. carries w w' \<and> psv_onexit p c w =
    (if c = 0 then (0, psv_goto p RESTART_STOPPED, snd (reboot (psv_addr p) w'))
     else if c = 1 \<or> c = 2 then (0, psv_goto p STOPPED, w')
     else (0, (psv_goto p FAILED)\<lparr>psv_processid := 0\<rparr>, w'))"
proof -
  have st: "psv_getstate p = vmstate_code RUNNING" by (rule psv_getstate_at [OF assms(1)])
  have w0: "\<exists>w'. psv_walk [PRESTOP_BEFORE_RESTART, RESTARTING, RESTART_STOPPED] p w =
      (0, psv_goto p RESTART_STOPPED, w') \<and> carries w w'"
    using walk_ok [OF assms(1) _ assms(4), of "[PRESTOP_BEFORE_RESTART, RESTARTING, RESTART_STOPPED]"]
    by (simp add: vm_step.intros)
  have w1: "\<exists>w'. psv_walk [STOP_STORAGE, STOP_NETWORK, STOPPED] p w = (0, psv_goto p STOPPED, w') \<and>
      carries w w'"
    using walk_ok [OF assms(1) _ assms(4), of "[STOP_STORAGE, STOP_NETWORK, STOPPED]"]
    by (simp add: vm_step.intros)
  obtain w3 where w3: "psv_failurestate p w = (0, psv_goto p FAILED, w3)" "carries w w3"
    using failurestate_ok [OF assms(1,4)] by auto
  have "locks_ok (w_os w3)" using w3(2) assms(3) by (simp add: carries_os)
  note lk = lock_os_ok [OF this] unlock_os_ok [of "tock w3"]
  consider "c = 0" | "c = 1 \<or> c = 2" "c \<noteq> 0" | "c \<noteq> 0" "c \<noteq> 1" "c \<noteq> 2" by blast
  then show ?thesis
  proof cases
    case 1
    with w0 st assms(5,6) show ?thesis
      by (auto simp: psv_onexit_def psv_exit_switch_def psv_exit_reboot_def Let_def split_def
          simp del: vmstate_code.simps)
  next
    case 2
    then have "\<not> 3 \<le> c" by (auto simp: word_le_nat_alt)
    with 2 w1 st show ?thesis
      by (auto simp: psv_onexit_def psv_exit_switch_def Let_def simp del: vmstate_code.simps)
  next
    case 3
    then have "3 \<le> c" by unat_arith
    moreover have "(psv_goto p FAILED)\<lparr>psv_processid := 0, psv_mtx := False\<rparr>
        = (psv_goto p FAILED)\<lparr>psv_processid := 0\<rparr>"
      using assms(2) by (simp add: psv_goto_def)
    ultimately show ?thesis
      using 3 w3 st assms(2) lk \<open>locks_ok (w_os w3)\<close>
      by (auto simp: psv_onexit_def psv_exit_switch_def Let_def simp del: vmstate_code.simps)
  qed
qed

theorem psv_onexit_running_witness:
  "\<exists>p' w'. psv_onexit (psv_demo RUNNING) 1 (logworld0 calm_os) = (0, p', w') \<and>
     psv_at p' STOPPED \<and> psv_processid p' = 77"
  using psv_onexit_running [OF psv_demo_at, of "logworld0 calm_os" "\<lambda>_ w. (0, w)" 1]
  by fastforce

text \<open>\<open>psv_stopvm\<close> on a running vm with a pid, no script failing and the signal delivered, sends
  \<open>SIGTERM\<close> to that pid, leaves the vm in \<open>STOPPING\<close> and returns 0. In any other state it returns -1
  with \<open>EALREADY\<close> and does nothing.\<close>

theorem psv_stopvm_spec:
  assumes "psv_at p s" and "\<not> psv_mtx p" and "locks_ok (w_os w)" and "scripts_ok (w_os w) p"
    and "psv_processid p \<noteq> 0" and "\<forall>n. os_kill (w_os w) n (psv_processid p)"
  shows "\<exists>w'. if s = RUNNING
    then psv_stopvm p False w = (0, psv_goto p STOPPING, None, w') \<and> seen (Killed (psv_processid p)) w'
    else psv_stopvm p False w = (-1, p, None, set_errno EALREADY w)"
proof (cases "s = RUNNING")
  case False
  with psv_getstate_at [OF assms(1)] show ?thesis
    by (auto simp: psv_stopvm_def psv_stop_or_reboot_def simp flip: vmstate_code.simps)
next
  case True
  with assms(1) have at: "psv_at p RUNNING" by simp
  obtain w1 where t: "psv_transition p STOPPING w = (0, psv_goto p STOPPING, w1)" "carries w w1"
    using transition_ok [OF at _ assms(4), of STOPPING] by (auto simp: vm_step.intros)
  have os1: "w_os w1 = w_os w" using t(2) by (simp add: carries_os)
  have lk: "mutex_lock False w1 = (False, True, tock w1)"
    "mutex_unlock True (tock w1) = (False, False, tock (tock w1))"
    using assms(3) os1 by (simp_all add: lock_os_ok unlock_os_ok)
  have "psv_getpid (psv_goto p STOPPING) w1 = (psv_processid p, psv_goto p STOPPING, tock (tock w1))"
    using assms(2) lk by (simp add: psv_getpid_def psv_goto_def)
  moreover have "sys_kill (psv_processid p) True (tock (tock w1)) =
      (True, emit (Killed (psv_processid p)) (tock (tock (tock w1))))"
    using assms(6) os1 by (simp add: sys_kill_def sys_try_def ask_def)
  ultimately show ?thesis
    using True t(1) psv_getstate_at [OF at] assms(5)
    by (simp add: psv_stopvm_def psv_stop_or_reboot_def psv_stop_signal_def del: vmstate_code.simps)
qed

theorem psv_stopvm_spec_witness:
  "\<exists>p' w'. psv_stopvm (psv_demo RUNNING) False (logworld0 calm_os) = (0, p', None, w') \<and>
     psv_at p' STOPPING \<and> seen (Killed 77) w'"
proof -
  have "\<forall>n. os_kill (w_os (logworld0 calm_os)) n 77" by (simp add: calm_os_def)
  with psv_stopvm_spec [OF psv_demo_at, of RUNNING "logworld0 calm_os"] show ?thesis by fastforce
qed

section \<open>Scripts\<close>

lemma sch_runscript_value:
  fixes w :: "'m logworld_scheme"
  assumes "\<forall>n. os_malloc (w_os w) n" and "\<forall>n. 0 < os_fork (w_os w) n"
  shows "\<exists>m n. fst (sch_runscript e True None w) =
    (let (q, st) = os_waitpid (w_os w) n (os_fork (w_os w) m)
     in if q < 0 then 0 else if WIFEXITED st then int (unat (WEXITSTATUS st)) else -1)"
proof -
  let ?new = "pd_new (Some ''user script'') (Some ''run when state changes'') (Some e) (Some [e]) w"
  from pd_new_calm [OF assms(1)] obtain pd where pd: "fst ?new = Some pd" by blast
  let ?w1 = "snd ?new"
  let ?pid = "os_fork (w_os w) (w_tick ?w1)"
  let ?w2 = "emit (Forked (pd_procpath pd) (pd_argv pd) ?pid) (tock ?w1)"
  have la: "pd_launch_redirected pd None ?w1 = (0, Some ?pid, ?w2)"
    using assms(2) by (simp add: launch_plain Let_def)
  show ?thesis
    using pd la
    by (intro exI [of _ "w_tick ?w1"] exI [of _ "w_tick ?w2"])
       (simp add: sch_runscript_def sys_waitpid_def ask_def Let_def split_def WIFEXITED_def wstatus_def
         WEXITSTATUS_def)
qed

text \<open>Without a log redirector and with memory and processes available, running a script gives its
  exit code when it exits, and -1 when a signal ends it. When \<open>waitpid\<close> fails the script counts as
  successful: the status word it would have filled in is still 0.\<close>

theorem sch_runscript_result:
  assumes "\<forall>n. os_malloc (w_os w) n" and "\<forall>n. 0 < os_fork (w_os w) n"
    and "\<forall>n pid. os_waitpid (w_os w) n pid = (q, st)"
  shows "fst (sch_runscript e True None w) =
    (if q < 0 then 0 else if WIFEXITED st then int (unat (WEXITSTATUS st)) else -1)"
proof -
  from sch_runscript_value [OF assms(1,2), of e] obtain m n where
    "fst (sch_runscript e True None w) =
     (let (q, st) = os_waitpid (w_os w) n (os_fork (w_os w) m)
      in if q < 0 then 0 else if WIFEXITED st then int (unat (WEXITSTATUS st)) else -1)" by blast
  with assms(3) show ?thesis by simp
qed

theorem sch_runscript_result_witness:
  "fst (sch_runscript ''/vm/stopped'' True None
      (logworld0 (calm_os\<lparr>os_waitpid := \<lambda>_ _. (-1, 0x100)\<rparr>))) = 0"
proof -
  let ?w = "logworld0 (calm_os\<lparr>os_waitpid := \<lambda>_ _. (-1, 0x100)\<rparr>)"
  have "\<forall>n. os_malloc (w_os ?w) n" "\<forall>n. 0 < os_fork (w_os ?w) n"
    "\<forall>n pid. os_waitpid (w_os ?w) n pid = (-1, 0x100)" by (simp_all add: calm_os_def)
  from sch_runscript_result [OF this] show ?thesis by simp
qed

section \<open>Failing starts\<close>

lemma psv_goto_same_pdo:
  "(psv_goto p s)\<lparr>psv_mtx := m, psv_pdo := psv_pdo p, psv_processid := i\<rparr>
   = (psv_goto p s)\<lparr>psv_mtx := m, psv_processid := i\<rparr>"
  by (simp add: psv_goto_def)

text \<open>When the \<open>start_storage\<close> script fails, \<open>psv_startvm\<close> takes the vm to \<open>FAILED\<close> and then launches
  the process all the same: the caller gets \<open>PSV_ERR_TRANSITIONSFAIL\<close>, the vm is \<open>FAILED\<close>, and the
  process runs.\<close>

theorem psv_startvm_launches_failed:
  fixes p :: "(process_def, 'm) process_state_vm"
  assumes "psv_at p s" and "s \<in> {INIT, STOPPED}" and "\<not> psv_mtx p"
    and "pdo_funcs (psv_pdo p) = pd_funcs" and "psv_ldr p = None"
    and "locks_ok (w_os w)" and "\<forall>n. 0 < os_fork (w_os w) n"
    and "scripts_ok_for (- {START_STORAGE}) (w_os w) p"
    and "\<forall>v. w_os v = w_os w \<longrightarrow> fst (psv_enter p START_STORAGE v) \<noteq> 0"
  shows "\<exists>pid w'. psv_startvm p None w =
      (PSV_ERR_TRANSITIONSFAIL, Some pid, (psv_goto p FAILED)\<lparr>psv_processid := pid\<rparr>, w') \<and>
    0 \<le> pid \<and> seen (Forked (pd_procpath (pdo_ctx (psv_pdo p))) (pd_argv (pdo_ctx (psv_pdo p))) pid) w'"
proof -
  let ?T = "- {START_STORAGE}"
  have "vm_step s START_NETWORK" using assms(2) by (auto intro: vm_step.intros)
  from transition_ok [OF assms(1) this assms(8)] obtain w1 where
    t1: "psv_transition p START_NETWORK w = (0, psv_goto p START_NETWORK, w1)" "carries w w1" by auto
  define w2 where "w2 = snd (psv_enter p START_STORAGE w1)"
  have t2: "psv_transition (psv_goto p START_NETWORK) START_STORAGE w1 = (-1, psv_goto p START_NETWORK, w2)"
    using assms(9) t1(2)
    by (simp add: psv_transition_at [where s = START_NETWORK] vm_step_to carries_os w2_def Let_def split_def)
  have os2: "w_os w2 = w_os w" using t1(2) by (simp add: w2_def carries_os)
  obtain w3 where t3: "psv_failurestate (psv_goto p START_NETWORK) w2 = (0, psv_goto p FAILED, w3)" "carries w2 w3"
    using failurestate_ok [of "psv_goto p START_NETWORK" START_NETWORK ?T w2] assms(8) os2 by auto
  have os3: "w_os w3 = w_os w" using t3(2) os2 by (simp add: carries_os)
  have run: "psv_startvm p None w = psv_start_launch False (psv_goto p FAILED) None w3"
    using assms(2) t1(1) t2 t3(1)
    by (auto simp: psv_startvm_def psv_getstate_at [OF assms(1)] Let_def simp del: vmstate_code.simps)
  let ?d = "pdo_ctx (psv_pdo p)"
  let ?pid = "os_fork (w_os w) (w_tick (tock w3))"
  let ?w4 = "emit (Forked (pd_procpath ?d) (pd_argv ?d) ?pid) (tock (tock w3))"
  have la: "pdf_launch_redirected pd_funcs ?d None (tock w3) = (0, Some ?pid, ?d, ?w4)"
    using assms(7) os3
    by (simp add: pd_funcs_def launch_plain Let_def)
  let ?p2 = "(psv_goto p FAILED)\<lparr>psv_mtx := True, psv_processid := ?pid\<rparr>"
  obtain w5 where f: "psv_start_finish False False 0 ?p2 ?w4 =
      (PSV_ERR_TRANSITIONSFAIL, ?p2\<lparr>psv_mtx := False\<rparr>, w5)" "carries ?w4 w5"
    using start_finish_stuck [of ?p2 ?w4 ?T False] assms(6,8) os3 by auto
  have lk: "mutex_lock (psv_mtx p) w3 = (False, True, tock w3)"
    using assms(3,6) os3 by (simp add: lock_os_ok)
  have "?p2\<lparr>psv_mtx := False\<rparr> = (psv_goto p FAILED)\<lparr>psv_processid := ?pid\<rparr>"
    using assms(3) by (simp add: psv_goto_def)
  then have "psv_start_launch False (psv_goto p FAILED) None w3 =
      (PSV_ERR_TRANSITIONSFAIL, Some ?pid, (psv_goto p FAILED)\<lparr>psv_processid := ?pid\<rparr>, w5)"
    using f(1) lk la assms(4,5) by (simp add: psv_start_launch_def psv_goto_same_pdo Let_def)
  moreover have "seen (Forked (pd_procpath ?d) (pd_argv ?d) ?pid) w5" "0 \<le> ?pid"
    using f(2) assms(7) by (simp_all add: carries_def less_imp_le)
  ultimately show ?thesis using run by auto
qed

text \<open>A system on which only the script of one state exists, and fails.\<close>

definition script_name :: "bhyve_vmstate_t \<Rightarrow> string" where
  "script_name t = sn_name (node_of t :: unit psv_ctx state_node)"

definition failing_os :: "bhyve_vmstate_t \<Rightarrow> os" where
  "failing_os u = calm_os\<lparr>os_stat := \<lambda>_ path. path = ''/vm/'' @ script_name u,
     os_waitpid := \<lambda>_ pid. (pid, exited_status 1)\<rparr>"

lemma short_path: "length s < 1024 \<Longrightarrow> snprintf_buf PATH_MAX s = s"
  by (simp add: PATH_MAX_def)

lemma script_name_simps:
  "script_name INIT = ''init''" "script_name START_NETWORK = ''start_network''"
  "script_name PRESTART_AFTER_RESTART = ''prestart_after_restart''"
  "script_name START_STORAGE = ''start_storage''" "script_name START_AFTER_RESTART = ''start_after_restart''"
  "script_name RUNNING = ''running''" "script_name RESTARTED = ''restarted''"
  "script_name STOPPING = ''stopping''" "script_name STOP_STORAGE = ''stop_storage''"
  "script_name PRESTOP_BEFORE_RESTART = ''prestop_before_restart''"
  "script_name STOP_NETWORK = ''stop_network''" "script_name RESTARTING = ''restarting''"
  "script_name STOPPED = ''stopped''" "script_name RESTART_STOPPED = ''restart_stopped''"
  "script_name FAILED = ''failed''"
  by (simp_all add: script_name_def node_of_def process_state_list_def ps_node_def)

lemma script_name_inject: "script_name t = script_name u \<longleftrightarrow> t = u"
  by (cases t; cases u) (simp_all add: script_name_simps)

lemma failing_os_script:
  fixes w :: logworld
  assumes "w_os w = failing_os u" and "u \<noteq> INIT"
  shows "fst (psv_enter (psv_demo s) t w) = (if t = u then 1 else 0)"
proof -
  have run: "fst (sch_runscript e True None v) = 1" if "w_os v = failing_os u" for e and v :: logworld
  proof -
    have "\<forall>n. os_malloc (w_os v) n" and "\<forall>n. 0 < os_fork (w_os v) n"
      using that by (simp_all add: failing_os_def calm_os_def)
    from sch_runscript_value [OF this, of e] that show ?thesis
      by (auto simp: failing_os_def calm_os_def)
  qed
  have path: "snprintf_buf PATH_MAX (''/vm/'' @ script_name t) = ''/vm/'' @ script_name t"
    by (rule short_path) (cases t; simp add: script_name_simps)
  show ?thesis
    using assms run path
    by (auto simp: psv_enter_def sch_onenter_def psv_demo_def ident_of_def sys_stat_def sys_try_def
        ask_def failing_os_def script_name_inject Let_def split_def simp flip: script_name_def)
qed

theorem psv_startvm_launches_failed_witness:
  "\<exists>pid p' w'. psv_startvm (psv_demo INIT) None (logworld0 (failing_os START_STORAGE))
      = (PSV_ERR_TRANSITIONSFAIL, Some pid, p', w') \<and> psv_at p' FAILED \<and>
     seen (Forked (pd_procpath pd_demo) (pd_argv pd_demo) pid) w'"
proof -
  have os: "w_os (logworld0 (failing_os START_STORAGE)) = (failing_os START_STORAGE)" by simp
  have a: "locks_ok (failing_os START_STORAGE)" "\<forall>n. 0 < os_fork (failing_os START_STORAGE) n"
    by (simp_all add: locks_ok_def failing_os_def calm_os_def)
  have b: "scripts_ok_for (- {START_STORAGE}) (failing_os START_STORAGE) (psv_demo INIT)"
    by (simp add: scripts_ok_for_def failing_os_script)
  have c: "\<forall>v. w_os v = (failing_os START_STORAGE) \<longrightarrow> fst (psv_enter (psv_demo INIT) START_STORAGE v) \<noteq> 0"
    by (simp add: failing_os_script)
  have d: "pdo_ctx (psv_pdo (psv_demo INIT)) = pd_demo" by (simp add: psv_demo_def)
  from psv_startvm_launches_failed [OF psv_demo_at, of INIT "logworld0 (failing_os START_STORAGE)", unfolded os d] a b c
  show ?thesis by fastforce
qed

text \<open>When the first script of a start from \<open>STOPPED\<close> fails, \<open>psv_startvm\<close> returns -1 and the vm stays
  \<open>STOPPED\<close>: the table has no transition from there to \<open>STOP_NETWORK\<close>, so the failure path the code
  takes ends at its first step, and the vm is not marked as failed.\<close>

theorem psv_startvm_stopped_stays:
  fixes p :: "('d, 'm) process_state_vm"
  assumes "psv_at p STOPPED" and "\<forall>v. w_os v = w_os w \<longrightarrow> fst (psv_enter p START_NETWORK v) \<noteq> 0"
  shows "psv_startvm p ldr w = (-1, None, p, snd (psv_enter p START_NETWORK w))"
  using assms
  by (simp add: psv_startvm_def psv_getstate_at [OF assms(1)] psv_transition_at [OF assms(1)]
      vm_step_to psv_walk.simps Let_def split_def del: vmstate_code.simps)

theorem psv_startvm_stopped_stays_witness:
  "\<exists>w'. psv_startvm (psv_demo STOPPED) None (logworld0 (failing_os START_NETWORK))
      = (-1, None, psv_demo STOPPED, w')"
proof -
  have "\<forall>v. w_os v = w_os (logworld0 (failing_os START_NETWORK)) \<longrightarrow>
      fst (psv_enter (psv_demo STOPPED) START_NETWORK v) \<noteq> 0"
    by (simp add: failing_os_script)
  from psv_startvm_stopped_stays [OF psv_demo_at this, of None] show ?thesis by blast
qed

end
