(* ===== verification/Bhyve_Director.thy ===== *)
theory Bhyve_Director
  imports Process_State
begin

text \<open>
  \<open>src/libprocwatch/bhyve_director.c\<close>: the component that owns the virtual machines, starts and stops
  them on command, watches their processes and restarts them.

  The director is reached on two ways: by the calls below, and by the reboot manager callback that a
  vm's process state makes. What both touch (the mutex, the list of vms, the list of vms to restart)
  is part of the world; the structures of the vms themselves are the map \<open>bd_vms\<close>. An address
  identifies a watched vm and its process state at the same time, since each has one of the other.
\<close>

section \<open>Data\<close>

record dirworld = logworld +
  w_bd_mtx :: bool
  w_bd_statelist :: "nat list"
  w_bd_rebootlist :: "nat list"
  w_bd_reboot_state :: int
  w_bd_msgcount :: u64

type_synonym 'm vm_state = "(process_def, 'm dirworld_ext) process_state_vm"

record 'm bhyve_watched_vm =
  bwv_state :: "'m vm_state"
  bwv_config :: bhyve_configuration
  bwv_ldr :: "nat option"
  bwv_startups :: "int list"

text \<open>A configuration generator with its optional function.\<close>

type_synonym 'm config_generator =
  "(bhyve_configuration \<Rightarrow> string \<Rightarrow> 'm dirworld_scheme \<Rightarrow> int \<times> 'm dirworld_scheme) option"

record 'm bhyve_director =
  bd_kqueuefd :: int
  bd_cgo :: "'m config_generator option"
  bd_ld :: "log_director option"
  bd_vms :: "nat \<Rightarrow> 'm bhyve_watched_vm option"

definition BD_ERR_UNLOCKFAILURE :: int where "BD_ERR_UNLOCKFAILURE = 195"
definition BD_ERR_VMSTATEISFAIL :: int where "BD_ERR_VMSTATEISFAIL = 169"
definition BD_ERR_VMSTARTFAILED :: int where "BD_ERR_VMSTARTFAILED = 168"
definition BD_ERR_KEVENTREGFAIL :: int where "BD_ERR_KEVENTREGFAIL = 167"
definition BD_ERR_TRANSITCHFAIL :: int where "BD_ERR_TRANSITCHFAIL = 166"
definition BD_ERR_VMSTARTDIEDIM :: int where "BD_ERR_VMSTARTDIEDIM = 165"
definition BD_ERR_VMSTATENOFAIL :: int where "BD_ERR_VMSTATENOFAIL = 164"
definition BD_ERR_VMCONFGENFAIL :: int where "BD_ERR_VMCONFGENFAIL = 163"
definition BD_ERR_UNKNOWNVMNAME :: int where "BD_ERR_UNKNOWNVMNAME = 162"

definition vm_at :: "'m bhyve_director \<Rightarrow> nat \<Rightarrow> 'm bhyve_watched_vm" where
  "vm_at bd a = the (bd_vms bd a)"

definition put_vm :: "nat \<Rightarrow> 'm bhyve_watched_vm \<Rightarrow> 'm bhyve_director \<Rightarrow> 'm bhyve_director" where
  "put_vm a v bd = bd\<lparr>bd_vms := (bd_vms bd)(a := Some v)\<rparr>"

definition put_state :: "nat \<Rightarrow> 'm vm_state \<Rightarrow> 'm bhyve_director \<Rightarrow> 'm bhyve_director" where
  "put_state a p bd = put_vm a ((vm_at bd a)\<lparr>bwv_state := p\<rparr>) bd"

definition bd_lock :: "'m dirworld_scheme \<Rightarrow> bool \<times> 'm dirworld_scheme" where
  "bd_lock w = (let (err, m, w') = mutex_lock (w_bd_mtx w) w in (err, w'\<lparr>w_bd_mtx := m\<rparr>))"

definition bd_unlock :: "'m dirworld_scheme \<Rightarrow> bool \<times> 'm dirworld_scheme" where
  "bd_unlock w = (let (err, m, w') = mutex_unlock (w_bd_mtx w) w in (err, w'\<lparr>w_bd_mtx := m\<rparr>))"

section \<open>Watched vms\<close>

definition bwv_get_lastboot ::
  "'m bhyve_watched_vm option \<Rightarrow> 'n world_scheme \<Rightarrow> int \<times> 'n world_scheme" where
  "bwv_get_lastboot bwv w =
     (case bwv of
        None \<Rightarrow> (0, set_errno EINVAL w)
      | Some v \<Rightarrow> if bwv_startups v = [] then (0, set_errno ECHILD w) else (last (bwv_startups v), w))"

definition bwv_timestamp ::
  "'m bhyve_watched_vm \<Rightarrow> 'n world_scheme \<Rightarrow> int \<times> 'm bhyve_watched_vm \<times> 'n world_scheme" where
  "bwv_timestamp bwv w =
     (let (ok, w1) = sys_malloc w
      in if \<not> ok then (-1, bwv, w1)
         else (let (t, w2) = sys_time w1
               in (0, bwv\<lparr>bwv_startups := bwv_startups bwv @ [t]\<rparr>, w2)))"

text \<open>The two loops of \<open>bwv_countrestarts_since\<close>: drop what lies before the deadline, count the rest.\<close>

fun drop_before :: "int \<Rightarrow> int list \<Rightarrow> int list" where
  "drop_before deadline [] = []"
| "drop_before deadline (t # ts) = (if t < deadline then drop_before deadline ts else t # ts)"

fun count_startups :: "int list \<Rightarrow> u32 \<Rightarrow> u32" where
  "count_startups [] counter = counter"
| "count_startups (t # ts) counter = count_startups ts (counter + 1)"

definition bwv_countrestarts_since ::
  "'m bhyve_watched_vm \<Rightarrow> int \<Rightarrow> u32 \<times> 'm bhyve_watched_vm" where
  "bwv_countrestarts_since bwv deadline =
     (let rest = drop_before deadline (bwv_startups bwv)
      in (count_startups rest 0, bwv\<lparr>bwv_startups := rest\<rparr>))"

definition bwv_is_countfail ::
  "'m bhyve_watched_vm \<Rightarrow> 'n world_scheme \<Rightarrow> bool \<times> 'm bhyve_watched_vm \<times> 'n world_scheme" where
  "bwv_is_countfail bwv w =
     (let (now, w1) = sys_time (set_errno E0 w);
          (count, v) = bwv_countrestarts_since bwv (now - bc_get_maxrestarttime (bwv_config bwv))
      in if w_errno w1 \<noteq> E0 \<and> count = 0 then (True, v, w1)
         else (bc_get_maxrestart (bwv_config bwv) < count, v, w1))"

definition bwv_generate_config ::
  "'m bhyve_watched_vm \<Rightarrow> 'm config_generator option \<Rightarrow> 'm dirworld_scheme
   \<Rightarrow> int \<times> 'm bhyve_watched_vm \<times> 'm dirworld_scheme" where
  "bwv_generate_config bwv cgo w =
     (case cgo of
        None \<Rightarrow> (0, bwv, w)
      | Some generate_config_file \<Rightarrow>
          (let generated_name = snprintf_buf PATH_MAX (bc_get_configfile (bwv_config bwv) @ ''.generated'')
           in case generate_config_file of
                None \<Rightarrow> (-1, bwv, w)
              | Some f \<Rightarrow>
                  (let (r, w1) = f (bwv_config bwv) generated_name w
                   in if r = 0
                      then (let (r', p, w2) = psv_set_configfile (Some (bwv_state bwv)) (Some generated_name) w1
                            in (r', bwv\<lparr>bwv_state := the p\<rparr>, w2))
                      else (-1, bwv, w1))))"

text \<open>
  The consoles of a vm are null modem device pairs; the link goes to the end the vm does not use. A
  null string is read as an empty one here, where the C code would pass a null pointer to \<open>strncpy\<close>;
  an empty backend makes the code look at the byte before its buffer.
\<close>

definition c_str :: "string option \<Rightarrow> string" where
  "c_str s = (case s of None \<Rightarrow> [] | Some t \<Rightarrow> t)"

definition other_end :: "string \<Rightarrow> string" where
  "other_end backend_name =
     (if backend_name = [] then []
      else if last backend_name \<in> {CHR ''A'', CHR ''a''} then butlast backend_name @ ''B''
      else if last backend_name \<in> {CHR ''B'', CHR ''b''} then butlast backend_name @ ''A''
      else backend_name)"

definition console_path :: "string \<Rightarrow> string \<Rightarrow> string" where
  "console_path backingfile name =
     (let link_path = strncpy_buf PATH_MAX backingfile;
          dir = (if CHR ''/'' \<in> set link_path then cut_last_slash link_path @ ''/'' else link_path)
      in dir @ take (PATH_MAX - length dir - 1) name)"

definition link_console ::
  "bool \<Rightarrow> string \<Rightarrow> bhyve_configuration_console \<Rightarrow> 'm world_scheme \<Rightarrow> int \<times> 'm world_scheme" where
  "link_console link backingfile bcc w =
     (let link_path = console_path backingfile (c_str (bcc_get_name bcc))
      in if link
         then (let backend_name = other_end (strncpy_buf PATH_MAX (c_str (bcc_get_backend bcc)));
                   (_, w1) = sys_unlink link_path w;
                   (ok, w2) = sys_symlink backend_name link_path w1
               in (if ok then 0 else -1, w2))
         else (let (ok, w1) = sys_unlink link_path w in (if ok then 0 else -1, w1)))"

fun link_loop ::
  "bool \<Rightarrow> string \<Rightarrow> bhyve_configuration_console_list \<Rightarrow> nat list \<Rightarrow> 'm world_scheme
   \<Rightarrow> int \<times> 'm world_scheme" where
  "link_loop link backingfile bccl [] w = (0, w)"
| "link_loop link backingfile bccl (counter # counters) w =
     (let (bcc, w1) = bccl_get_consolebyidx bccl counter w
      in case bcc of
           None \<Rightarrow> link_loop link backingfile bccl counters w1
         | Some c \<Rightarrow>
             (let (retcode, w2) = link_console link backingfile c w1
              in if retcode \<noteq> 0 then (retcode, w2)
                 else link_loop link backingfile bccl counters w2))"

definition bwv_linkconsoles :: "'m bhyve_watched_vm \<Rightarrow> bool \<Rightarrow> 'n world_scheme \<Rightarrow> int \<times> 'n world_scheme" where
  "bwv_linkconsoles bwv link w =
     (let bc = bwv_config bwv
      in case bc_get_consolelist bc of
           None \<Rightarrow> (0, w)
         | Some bccl \<Rightarrow>
             link_loop link (c_str (bc_get_backingfile (Some bc))) bccl [0..<bc_get_consolecount bc] w)"

section \<open>The reboot manager callback\<close>

text \<open>
  The loop ends with a null pointer when no vm matches, and the test after it dereferences that: the
  result \<open>None\<close>. The structure behind an address on the list is the watched vm of that process state.
\<close>

definition bd_requestreboot :: "nat \<Rightarrow> 'm dirworld_scheme \<Rightarrow> (int \<times> 'm dirworld_scheme) option" where
  "bd_requestreboot psv w =
     (let (err, w1) = bd_lock w
      in if err then Some (-1, set_errno EDEADLK w1)
         else if psv \<notin> set (w_bd_statelist w1) then None
         else (let w2 = w1\<lparr>w_bd_rebootlist := w_bd_rebootlist w1 @ [psv]\<rparr>;
                   (ok, w3) = sys_cond w2;
                   (result, w4) = (if ok then (0, w3) else (-1, set_errno EDEADLK w3));
                   (err', w5) = bd_unlock w4
               in if err' then Some (-1, set_errno EDEADLK w5) else Some (result, w5)))"

text \<open>As the process state calls it. The crash has no result to return; every vm the director makes is on
  its list, so that line is not reached.\<close>

definition bhyve_director_rmo :: "nat \<Rightarrow> 'm dirworld_scheme \<Rightarrow> int \<times> 'm dirworld_scheme" where
  "bhyve_director_rmo psv w = (case bd_requestreboot psv w of None \<Rightarrow> (-1, w) | Some r \<Rightarrow> r)"

definition bwv_new ::
  "bhyve_configuration option \<Rightarrow> (nat \<Rightarrow> 'm dirworld_scheme \<Rightarrow> int \<times> 'm dirworld_scheme) option
   \<Rightarrow> log_director option \<Rightarrow> 'm dirworld_scheme
   \<Rightarrow> ('m bhyve_watched_vm option \<times> log_director option \<times> 'm dirworld_scheme) option" where
  "bwv_new config rmo ld w =
     (case config of
        None \<Rightarrow> Some (None, ld, set_errno EINVAL w)
      | Some c \<Rightarrow>
          (let (ok, w1) = sys_malloc w
           in if \<not> ok then Some (None, ld, w1)
              else (let (l, ld', w2) = (case ld of
                          None \<Rightarrow> (None, None, w1)
                        | Some d \<Rightarrow> ld_register_redirect (Some d) (Some (bc_get_name c)) w1)
                    in case psv_new c w2 of
                         None \<Rightarrow> None
                       | Some (psv, w3) \<Rightarrow>
                           (let (state, w4) = psv_with_logredirector (psv_withrebootmgr psv rmo) l w3
                            in case state of
                                 None \<Rightarrow> Some (None, ld', w4)
                               | Some p \<Rightarrow> Some (Some \<lparr>bwv_state = p, bwv_config = c, bwv_ldr = l,
                                                      bwv_startups = []\<rparr>, ld', w4)))))"

section \<open>Looking up\<close>

text \<open>The first vm of the list with that name.\<close>

definition find_vm :: "'m bhyve_director \<Rightarrow> string \<Rightarrow> nat list \<Rightarrow> nat option" where
  "find_vm bd name as = List.find (\<lambda>a. bc_get_name (bwv_config (vm_at bd a)) = name) as"

text \<open>A failing unlock after a hit ends the daemon (\<open>err\<close>); the event says so.\<close>

definition bd_getvmbyname ::
  "'m bhyve_director \<Rightarrow> string \<Rightarrow> 'm dirworld_scheme \<Rightarrow> nat option \<times> 'm dirworld_scheme" where
  "bd_getvmbyname bd name w =
     (let (err, w1) = bd_lock w
      in if err then (None, set_errno EDEADLK w1)
         else (case find_vm bd name (w_bd_statelist w1) of
                 None \<Rightarrow> (None, snd (bd_unlock w1))
               | Some a \<Rightarrow> (let (err', w2) = bd_unlock w1
                            in if err' then (None, emit DaemonExit w2) else (Some a, w2))))"

section \<open>Commands\<close>

definition bd_stopvm ::
  "'m bhyve_director \<Rightarrow> string option \<Rightarrow> 'm dirworld_scheme
   \<Rightarrow> int \<times> 'm bhyve_director \<times> 'm dirworld_scheme" where
  "bd_stopvm bd name w =
     (case name of
        None \<Rightarrow> (-1, bd, set_errno EINVAL w)
      | Some n \<Rightarrow>
          (let (bwv, w1) = bd_getvmbyname bd n w
           in case bwv of
                None \<Rightarrow> (-1, bd, set_errno ENOENT w1)
              | Some a \<Rightarrow> (let (r, p, _, w2) = psv_stopvm (bwv_state (vm_at bd a)) False w1
                           in (r, put_state a p bd, w2))))"

definition bd_resetfailvm ::
  "'m bhyve_director \<Rightarrow> string option \<Rightarrow> 'm dirworld_scheme
   \<Rightarrow> int \<times> 'm bhyve_director \<times> 'm dirworld_scheme" where
  "bd_resetfailvm bd name w =
     (case name of
        None \<Rightarrow> (-1, bd, set_errno EINVAL w)
      | Some n \<Rightarrow>
          (let (bwv, w1) = bd_getvmbyname bd n w
           in case bwv of
                None \<Rightarrow> (-1, bd, set_errno ENOENT w1)
              | Some a \<Rightarrow>
                  if \<not> psv_is_failurestate (Some (bwv_state (vm_at bd a)))
                  then (BD_ERR_VMSTATENOFAIL, bd, w1)
                  else (let (r, p, w2) = psv_resetfailure (bwv_state (vm_at bd a)) w1
                        in (r, put_state a p bd, w2))))"

text \<open>The end of \<open>bd_startvm\<close>: is the process still there, and if so, watch it.\<close>

definition bd_start_watch ::
  "'m bhyve_director \<Rightarrow> nat \<Rightarrow> int \<Rightarrow> 'm dirworld_scheme
   \<Rightarrow> int \<times> 'm bhyve_director \<times> 'm dirworld_scheme" where
  "bd_start_watch bd a pid w =
     (let state = bwv_state (vm_at bd a); (alive, w1) = sys_kill pid False (set_errno E0 w)
      in if \<not> alive
         then (let (_, p, w2) = psv_onexit state 4 w1 in (0, put_state a p bd, w2))
         else (let ((wpid, pidstat), w2) = sys_waitnb pid w1
               in if wpid = pid
                  then (if WIFEXITED pidstat \<or> WIFSIGNALED pidstat
                        then (let (r, p, w3) = psv_onexit state (ucast (WEXITSTATUS pidstat)) w2;
                                  (p', w4) = (if r \<noteq> 0
                                              then (let (_, q, w') = psv_failurestate p w3 in (q, w'))
                                              else (p, w3))
                              in (BD_ERR_VMSTARTDIEDIM, put_state a p' bd, w4))
                        else (0, bd, w2))
                  else (let (ok, w3) = sys_do (Watched pid a) os_kevent w2
                        in (if ok then 0 else BD_ERR_KEVENTREGFAIL, bd, w3))))"

text \<open>The launch in the middle, with the translation of the process state's result.\<close>

definition bd_start_launch ::
  "'m bhyve_director \<Rightarrow> nat \<Rightarrow> 'm dirworld_scheme \<Rightarrow> int \<times> 'm bhyve_director \<times> 'm dirworld_scheme" where
  "bd_start_launch bd a w =
     (let v = vm_at bd a; (_, w1) = bwv_linkconsoles v True w;
          (result, pid, p, w2) = psv_startvm (bwv_state v) (bwv_ldr v) w1;
          bd1 = put_state a p bd
      in if result \<noteq> 0
         then (if 0 < result \<and> PSV_ERR_MUTEXUNLOCKFAIL AND result \<noteq> 0 then (BD_ERR_UNLOCKFAILURE, bd1, w2)
               else if 0 < result \<and> PSV_ERR_TRANSITIONSFAIL AND result \<noteq> 0 then (BD_ERR_TRANSITCHFAIL, bd1, w2)
               else (BD_ERR_VMSTARTFAILED, bd1, w2))
         else bd_start_watch bd1 a (case pid of None \<Rightarrow> 0 | Some q \<Rightarrow> q) w2)"

definition bd_startvm ::
  "'m bhyve_director \<Rightarrow> string option \<Rightarrow> 'm dirworld_scheme
   \<Rightarrow> int \<times> 'm bhyve_director \<times> 'm dirworld_scheme" where
  "bd_startvm bd name w =
     (case name of
        None \<Rightarrow> (-1, bd, set_errno EINVAL w)
      | Some n \<Rightarrow>
          (let (bwv, w1) = bd_getvmbyname bd n w
           in case bwv of
                None \<Rightarrow> (BD_ERR_UNKNOWNVMNAME, bd, set_errno ENOENT w1)
              | Some a \<Rightarrow>
                  (let (toomany, v1, w2) = bwv_is_countfail (vm_at bd a) w1;
                       bd1 = put_vm a v1 bd
                   in if toomany
                      then (let (_, p, w3) = psv_failurestate (bwv_state v1) w2
                            in (BD_ERR_VMSTATEISFAIL, put_state a p bd1, w3))
                      else if psv_is_failurestate (Some (bwv_state v1)) then (BD_ERR_VMSTATEISFAIL, bd1, w2)
                      else (let (_, v2, w3) = bwv_timestamp v1 w2;
                                (r, v3, w4) = bwv_generate_config v2 (bd_cgo bd1) w3;
                                bd2 = put_vm a v3 bd1
                            in if r \<noteq> 0
                               then (let (_, p, w5) = psv_failurestate (bwv_state v3) w4
                                     in (BD_ERR_VMCONFGENFAIL, put_state a p bd2, w5))
                               else bd_start_launch bd2 a w4))))"

text \<open>The loop of \<open>bd_runautostart\<close>; the mutex is free while a vm starts.\<close>

fun autostart_loop ::
  "nat list \<Rightarrow> 'm bhyve_director \<Rightarrow> 'm dirworld_scheme \<Rightarrow> int \<times> 'm bhyve_director \<times> 'm dirworld_scheme" where
  "autostart_loop [] bd w = (0, bd, snd (bd_unlock w))"
| "autostart_loop (a # as) bd w =
     (let bc = bwv_config (vm_at bd a)
      in if \<not> fst (bc_get_autostart (Some bc) w) then autostart_loop as bd w
         else (let (err, w1) = bd_unlock w
               in if err then (-1, bd, w1)
                  else (let (_, bd1, w2) = bd_startvm bd (Some (bc_get_name bc)) w1;
                            (err', w3) = bd_lock w2
                        in if err' then (-1, bd1, w3) else autostart_loop as bd1 w3)))"

definition bd_runautostart ::
  "'m bhyve_director \<Rightarrow> 'm dirworld_scheme \<Rightarrow> int \<times> 'm bhyve_director \<times> 'm dirworld_scheme" where
  "bd_runautostart bd w =
     (let (err, w1) = bd_lock w
      in if err then (-1, bd, w1) else autostart_loop (w_bd_statelist w1) bd w1)"

section \<open>Threads\<close>

text \<open>
  The inner loop of \<open>bd_restart_thread\<close>, entered with the mutex held. A vm that exits at once with the
  reboot code puts itself back on the list, so the loop need not end.
\<close>

partial_function (option) restart_drain ::
  "bool \<Rightarrow> 'm bhyve_director \<Rightarrow> 'm dirworld_scheme
   \<Rightarrow> (bool \<times> 'm bhyve_director \<times> 'm dirworld_scheme) option" where
  "restart_drain interrupt bd w =
     (case w_bd_rebootlist w of
        [] \<Rightarrow> Some (interrupt, bd, w)
      | a # rest \<Rightarrow>
          (let w1 = w\<lparr>w_bd_rebootlist := rest\<rparr>;
               interrupt' = (w_bd_reboot_state w1 \<noteq> 0);
               u = bd_unlock w1
           in if fst u \<or> interrupt' then Some (interrupt', bd, snd u)
              else (let r = bd_startvm bd (Some (bc_get_name (bwv_config (vm_at bd a)))) (snd u);
                        l = bd_lock (snd (snd r))
                    in if fst l then Some (interrupt', fst (snd r), snd l)
                       else restart_drain interrupt' (fst (snd r)) (snd l))))"

text \<open>One round of the outer loop after \<open>pthread_cond_wait\<close> came back with the mutex; the result says
  whether the thread goes on.\<close>

definition restart_round ::
  "'m bhyve_director \<Rightarrow> 'm dirworld_scheme
   \<Rightarrow> (bool \<times> 'm bhyve_director \<times> 'm dirworld_scheme) option" where
  "restart_round bd w =
     map_option (\<lambda>(interrupt, bd', w').
        (let (err, w'') = bd_unlock w' in (\<not> err \<and> \<not> interrupt, bd', w'')))
       (restart_drain False bd w)"

datatype proc_event = ProcExit u32 nat | ShutdownEvent | OtherEvent

text \<open>One round of \<open>bd_kqueue_thread\<close>; the result says whether the thread goes on.\<close>

definition bd_kqueue_event ::
  "proc_event \<Rightarrow> 'm bhyve_director \<Rightarrow> 'm dirworld_scheme
   \<Rightarrow> bool \<times> 'm bhyve_director \<times> 'm dirworld_scheme" where
  "bd_kqueue_event ev bd w =
     (case ev of
        ShutdownEvent \<Rightarrow> (False, bd, w)
      | OtherEvent \<Rightarrow> (True, bd, w)
      | ProcExit data a \<Rightarrow>
          (let v = vm_at bd a; (_, w1) = bwv_linkconsoles v False w
           in if WIFEXITED data
              then (let (_, p, w2) = psv_onexit (bwv_state v) (ucast (WEXITSTATUS data)) w1
                    in (True, put_state a p bd, w2))
              else (let (p, w2) = (if WIFSIGNALED data
                                   then (let (_, q, w') = psv_getpid (bwv_state v) w1 in (q, w'))
                                   else (bwv_state v, w1));
                        (_, p', w3) = psv_failurestate p w2
                    in (True, put_state a p' bd, w3))))"

definition bd_thread_start :: "'m bhyve_director \<Rightarrow> 'm dirworld_scheme \<Rightarrow> int \<times> 'm dirworld_scheme" where
  "bd_thread_start bd w = (let (ok, w1) = sys_init w in (if ok then 0 else 1, w1))"

definition bd_thread_stop :: "'m bhyve_director \<Rightarrow> 'm dirworld_scheme \<Rightarrow> int \<times> 'm dirworld_scheme" where
  "bd_thread_stop bd w =
     (let (ok, w1) = sys_try ESYS os_kevent w
      in if \<not> ok then (-1, w1)
         else (let (joined, w2) = sys_init w1
               in if \<not> joined then (-1, w2) else (0, emit (ThreadJoined ''bd kqueue'') w2)))"

section \<open>Construction and release\<close>

definition bwv_free :: "'m bhyve_watched_vm \<Rightarrow> 'm dirworld_scheme \<Rightarrow> 'm dirworld_scheme" where
  "bwv_free bwv w = snd (psv_free (Some (bwv_state bwv)) w)"

fun free_vms :: "nat list \<Rightarrow> 'm bhyve_director \<Rightarrow> 'm dirworld_scheme \<Rightarrow> 'm dirworld_scheme" where
  "free_vms [] bd w = w\<lparr>w_bd_statelist := []\<rparr>"
| "free_vms (a # as) bd w = free_vms as bd (bwv_free (vm_at bd a) (w\<lparr>w_bd_statelist := as\<rparr>))"

text \<open>The wake-up for the end: whether the restart thread, if it still runs, ends when it gets the mutex. With
  \<open>reboot_state\<close> set the round never starts a vm, so it comes back.\<close>

definition restart_ends :: "bool \<Rightarrow> 'm bhyve_director \<Rightarrow> 'm dirworld_scheme \<Rightarrow> bool \<times> 'm dirworld_scheme" where
  "restart_ends running bd w =
     (if \<not> running then (True, w)
      else (let (err, w1) = bd_lock w
            in if err then (True, w1)
               else (case restart_round bd w1 of
                       None \<Rightarrow> (False, w1)
                     | Some (go, _, w2) \<Rightarrow> (\<not> go, w2))))"

text \<open>The result is what is left of the director; \<open>None\<close> is the wait in \<open>pthread_join\<close> for a restart thread
  that does not end. The thread, if it runs, is the one that waits for its condition.\<close>

definition bd_free ::
  "bool \<Rightarrow> 'm bhyve_director \<Rightarrow> 'm dirworld_scheme \<Rightarrow> ('m bhyve_director option \<times> 'm dirworld_scheme) option" where
  "bd_free running bd w =
     (let (r, w1) = bd_thread_stop bd w
      in if r \<noteq> 0 then Some (Some bd, w1)
         else (let (err, w2) = bd_lock w1
               in if err then Some (Some bd, set_errno EDEADLK w2)
                  else (let (ok, w3) = sys_cond (w2\<lparr>w_bd_reboot_state := 1\<rparr>);
                            (ended, w4) = (if \<not> ok then (True, w3) else restart_ends running bd (snd (bd_unlock w3)))
                        in if \<not> ended then None
                           else (let w5 = (if \<not> ok then w4 else snd (bd_lock (emit (ThreadJoined ''bd reboot'') w4)));
                                     w6 = w5\<lparr>w_bd_rebootlist := []\<rparr>;
                                     w7 = free_vms (w_bd_statelist w6) bd w6;
                                     (_, w8) = bd_unlock w7
                                 in Some (None, snd (sys_close (bd_kqueuefd bd) w8))))))"

text \<open>Registering redirections changes the log director, which the caller keeps: it is a result, too.\<close>

fun add_vms ::
  "bhyve_configuration list \<Rightarrow> 'm bhyve_director \<Rightarrow> 'm dirworld_scheme
   \<Rightarrow> ('m bhyve_director option \<times> log_director option \<times> 'm dirworld_scheme) option" where
  "add_vms [] bd w = Some (Some bd, bd_ld bd, w)"
| "add_vms (bc # bcs) bd w =
     (case bwv_new (Some bc) (Some bhyve_director_rmo) (bd_ld bd) w of
        None \<Rightarrow> None
      | Some (None, ld, w1) \<Rightarrow> map_option (\<lambda>(_, w'). (None, ld, w')) (bd_free True (bd\<lparr>bd_ld := ld\<rparr>) w1)
      | Some (Some v, ld, w1) \<Rightarrow>
          (let a = psv_addr (bwv_state v)
           in add_vms bcs (put_vm a v (bd\<lparr>bd_ld := ld\<rparr>))
                (w1\<lparr>w_bd_statelist := a # w_bd_statelist w1\<rparr>)))"

text \<open>The second half of \<open>bd_new\<close>: the threads, then the list of vms.\<close>

definition bd_new_threads ::
  "bhyve_configuration_store \<Rightarrow> log_director option \<Rightarrow> int \<Rightarrow> 'm dirworld_scheme
   \<Rightarrow> ('m bhyve_director option \<times> log_director option \<times> 'm dirworld_scheme) option" where
  "bd_new_threads bcs ld fd w =
     (let bd = \<lparr>bd_kqueuefd = fd, bd_cgo = None, bd_ld = ld, bd_vms = \<lambda>_. None\<rparr>;
          w0 = w\<lparr>w_bd_mtx := False, w_bd_statelist := [], w_bd_rebootlist := [], w_bd_reboot_state := 0,
                 w_bd_msgcount := 0\<rparr>;
          (r, w1) = bd_thread_start bd w0
      in if r \<noteq> 0 then Some (None, ld, w1)
         else (let (ok, w2) = sys_init w1
               in if \<not> ok then Some (None, ld, snd (bd_thread_stop bd w2))
                  else (let (bci, w3) = bcs_iterate_configs (Some bcs) w2
                        in case bci of
                             None \<Rightarrow> map_option (\<lambda>(_, w'). (None, ld, w')) (bd_free True bd w3)
                           | Some it \<Rightarrow> add_vms (bci_collect (length (bcs_configs bcs)) it) bd w3)))"

text \<open>The test after \<open>malloc\<close> looks at the wrong pointer, so without memory \<open>bzero\<close> gets a null pointer:
  an outer \<open>None\<close>, like the wait of \<open>bd_free\<close> that does not end.\<close>

definition bd_new ::
  "bhyve_configuration_store option \<Rightarrow> log_director option \<Rightarrow> 'm dirworld_scheme
   \<Rightarrow> ('m bhyve_director option \<times> log_director option \<times> 'm dirworld_scheme) option" where
  "bd_new bcso ld w =
     (case bcso of
        None \<Rightarrow> Some (None, ld, set_errno EINVAL w)
      | Some bcs \<Rightarrow>
          (let (ok, w1) = sys_malloc w
           in if \<not> ok then None
              else (let (fd, w2) = ask os_kqueue w1
                    in if fd < 0 then Some (None, ld, set_errno ESYS w2)
                       else (let (i1, w3) = sys_init w2
                             in if \<not> i1 then Some (None, ld, w3)
                                else (let (i2, w4) = sys_init w3
                                      in if \<not> i2 then Some (None, ld, w4)
                                         else (let (i3, w5) = sys_init w4
                                               in if \<not> i3 then Some (None, ld, w5)
                                                  else bd_new_threads bcs ld fd w5))))))"

section \<open>Queries\<close>

definition bd_getmsgcount :: "'m dirworld_scheme \<Rightarrow> u64 \<times> 'm dirworld_scheme" where
  "bd_getmsgcount w =
     (let (err, w1) = bd_lock w
      in if err then (0, w1)
         else (let count = w_bd_msgcount w1; (err', w2) = bd_unlock w1
               in (if err' then 0 else count, w2)))"

fun count_list_u64 :: "nat list \<Rightarrow> u64 \<Rightarrow> u64" where
  "count_list_u64 [] count = count"
| "count_list_u64 (a # as) count = count_list_u64 as (count + 1)"

definition bd_countvms :: "'m dirworld_scheme \<Rightarrow> u64 \<times> 'm dirworld_scheme" where
  "bd_countvms w =
     (let (err, w1) = bd_lock w
      in if err then (0, w1)
         else (let count = count_list_u64 (w_bd_statelist w1) 0; (err', w2) = bd_unlock w1
               in (if err' then 0 else count, w2)))"

definition bd_set_cgo ::
  "'m bhyve_director option \<Rightarrow> 'm config_generator option \<Rightarrow> 'm dirworld_scheme
   \<Rightarrow> int \<times> 'm bhyve_director option \<times> 'm dirworld_scheme" where
  "bd_set_cgo bd cgo w =
     (case bd of None \<Rightarrow> (-1, None, set_errno EINVAL w) | Some d \<Rightarrow> (0, Some (d\<lparr>bd_cgo := cgo\<rparr>), w))"

end
