(* ===== verification/Director_Frame.thy ===== *)
theory Director_Frame
  imports Vm_Contract Bhyve_Director
begin

text \<open>
  What the operations of a single vm leave alone: the director's part of the world (\<open>logworld.more\<close>),
  and the system. The reboot manager callback is the one exception, and only touches the list of vms
  to restart.
\<close>

section \<open>The director's part of the world\<close>

lemma more_sys [simp]:
  fixes w :: "'m logworld_scheme"
  shows "logworld.more (tock w) = logworld.more w" "logworld.more (set_errno er w) = logworld.more w"
    "logworld.more (emit ev w) = logworld.more w" "logworld.more (snd (ask f w)) = logworld.more w"
    "logworld.more (snd (sys_init w)) = logworld.more w" "logworld.more (snd (sys_try er g w)) = logworld.more w"
    "logworld.more (snd (sys_malloc w)) = logworld.more w" "logworld.more (snd (sys_do ev g w)) = logworld.more w"
    "logworld.more (snd (sys_close fd w)) = logworld.more w" "logworld.more (snd (sys_stat q w)) = logworld.more w"
    "logworld.more (snd (sys_kill pid b w)) = logworld.more w" "logworld.more (snd (sys_waitpid pid w)) = logworld.more w"
    "logworld.more (snd (sys_waitnb pid w)) = logworld.more w" "logworld.more (snd (sys_time w)) = logworld.more w"
    "logworld.more (snd (sys_fork q a w)) = logworld.more w"
    "logworld.more (snd (sys_unlink q w)) = logworld.more w" "logworld.more (snd (sys_symlink q q' w)) = logworld.more w"
    "logworld.more (snd (snd (mutex_lock m w))) = logworld.more w"
    "logworld.more (snd (snd (mutex_unlock m w))) = logworld.more w"
  by (simp_all add: tock_def set_errno_def emit_def ask_def sys_init_def sys_try_def sys_malloc_def
      sys_do_def sys_close_def sys_stat_def sys_kill_def sys_waitpid_def sys_waitnb_def sys_time_def
      sys_fork_def sys_unlink_def sys_symlink_def mutex_lock_def mutex_unlock_def Let_def)

lemma more_heap [simp]:
  "logworld.more (put_ldr l x w) = logworld.more w" "logworld.more (put_ldrd c y w) = logworld.more w"
  "logworld.more (drop_ldrd c w) = logworld.more w" "logworld.more (drop_ldr l w) = logworld.more w"
  "logworld.more (w\<lparr>w_fresh := n\<rparr>) = logworld.more w"
  by (simp_all add: put_ldr_def put_ldrd_def drop_ldrd_def drop_ldr_def)

lemma more_ldr_lock [simp]:
  "logworld.more (snd (ldr_lock l w)) = logworld.more w" "logworld.more (snd (ldr_unlock l w)) = logworld.more w"
  by (simp_all add: ldr_lock_def ldr_unlock_def Let_def split_def)

lemma more_ldrd [simp]:
  "logworld.more (ldrd_unlist c w) = logworld.more w" "logworld.more (ldrd_freeclient p w) = logworld.more w"
  "logworld.more (snd (ld_register_pipe c w)) = logworld.more w"
  "logworld.more (snd (ldrd_accept_redirect p w)) = logworld.more w"
proof -
  show "logworld.more (ldrd_unlist c w) = logworld.more w"
    by (simp add: ldrd_unlist_def split: option.split)
  then show "logworld.more (ldrd_freeclient p w) = logworld.more w"
    by (cases p) (simp_all add: ldrd_freeclient_def ldrd_unlist_def Let_def split: option.split)
qed (simp_all add: ld_register_pipe_def ldrd_accept_redirect_def Let_def split_def split: option.split)

lemma more_newclient [simp]: "logworld.more (snd (ldr_newclient l w)) = logworld.more w"
  by (simp add: ldr_newclient_def Let_def split_def split: option.split)

lemma more_copy_args [simp]:
  fixes w :: "'m logworld_scheme"
  shows "logworld.more (snd (copy_args as w)) = logworld.more w"
  by (induction as arbitrary: w) (simp_all add: Let_def split_def)

lemma more_pd [simp]:
  fixes w :: "'m logworld_scheme"
  shows "logworld.more (snd (pd_new n d q a w)) = logworld.more w"
    "logworld.more (snd (snd (pd_launch_redirected pd ldr w))) = logworld.more w"
  by (simp_all add: pd_new_def pd_launch_redirected_def Let_def split_def split: option.split)

lemma more_script [simp]: "logworld.more (snd (sch_runscript e b l w)) = logworld.more w"
  by (simp add: sch_runscript_def Let_def split_def split: option.split)

lemma more_enter [simp]: "logworld.more (snd (psv_enter p t w)) = logworld.more w"
  by (simp add: psv_enter_def sch_onenter_def Let_def split_def)

section \<open>What a vm's operations keep\<close>

text \<open>
  Between two process states and two worlds: the fields no operation of the life cycle changes are
  the same, the vm stays in the table with its mutex free, the system and the director's part of the
  world are the same.
\<close>

definition psv_ready :: "('d, 'm) process_state_vm \<Rightarrow> bool" where
  "psv_ready p \<longleftrightarrow> \<not> psv_mtx p \<and> (\<exists>s. psv_at p s)"

definition same_vm :: "('d, 'm) process_state_vm \<Rightarrow> ('d, 'm) process_state_vm \<Rightarrow> bool" where
  "same_vm p q \<longleftrightarrow> psv_addr q = psv_addr p \<and> psv_rmo q = psv_rmo p \<and> psv_ldr q = psv_ldr p \<and>
     psv_scriptpath q = psv_scriptpath p \<and> pdo_funcs (psv_pdo q) = pdo_funcs (psv_pdo p) \<and> psv_ready q"

definition quiet :: "'m logworld_scheme \<Rightarrow> 'm logworld_scheme \<Rightarrow> bool" where
  "quiet w v \<longleftrightarrow> w_os v = w_os w \<and> logworld.more v = logworld.more w"

lemma quiet_refl [simp]: "quiet w w"
  by (simp add: quiet_def)

lemma quiet_trans: "quiet u v \<Longrightarrow> quiet v w \<Longrightarrow> quiet u w"
  by (simp add: quiet_def)

lemma same_vm_trans: "same_vm p q \<Longrightarrow> same_vm q r \<Longrightarrow> same_vm p r"
  by (simp add: same_vm_def)

lemma same_vm_refl [simp]: "same_vm p p \<longleftrightarrow> psv_ready p"
  by (simp add: same_vm_def)

lemma psv_ready_goto [simp]: "psv_ready (psv_goto p s) \<longleftrightarrow> \<not> psv_mtx p"
  by (auto simp: psv_ready_def)

lemma same_vm_goto [simp]: "same_vm p (psv_goto q s) \<longleftrightarrow>
    psv_addr q = psv_addr p \<and> psv_rmo q = psv_rmo p \<and> psv_ldr q = psv_ldr p \<and>
    psv_scriptpath q = psv_scriptpath p \<and> pdo_funcs (psv_pdo q) = pdo_funcs (psv_pdo p) \<and> \<not> psv_mtx q"
  by (simp add: same_vm_def)

lemma transition_quiet:
  assumes "psv_ready p" and "psv_transition p t w = (r, p', w')"
  shows "same_vm p p' \<and> quiet w w'"
proof -
  from assms(1) obtain s where s: "psv_at p s" "\<not> psv_mtx p" by (auto simp: psv_ready_def)
  obtain x v where e: "psv_enter p t w = (x, v)" by (cases "psv_enter p t w")
  then have "quiet w v"
    using psv_enter_os [of p t w] more_enter [of p t w] by (simp add: quiet_def)
  with assms s e show ?thesis
    by (auto simp: psv_transition_at [OF s(1)] split: if_splits)
qed

lemma walk_quiet:
  "psv_ready p \<Longrightarrow> psv_walk ss p w = (r, p', w') \<Longrightarrow> same_vm p p' \<and> quiet w w'"
proof (induction ss arbitrary: p w)
  case (Cons t ss)
  obtain r1 p1 w1 where t: "psv_transition p t w = (r1, p1, w1)" by (metis prod_cases3)
  from transition_quiet [OF Cons.prems(1) t] have one: "same_vm p p1" "quiet w w1" by auto
  show ?case
  proof (cases "r1 = 0")
    case True
    with t Cons.prems(2) have "psv_walk ss p1 w1 = (r, p', w')" by (simp add: psv_walk.simps)
    with Cons.IH [OF _ this] one show ?thesis
      by (auto simp: same_vm_def intro: quiet_trans)
  next
    case False
    with t Cons.prems(2) one show ?thesis by (simp add: psv_walk.simps)
  qed
qed (simp add: psv_walk.simps)

lemma failurestate_quiet:
  "psv_ready p \<Longrightarrow> psv_failurestate p w = (r, p', w') \<Longrightarrow> same_vm p p' \<and> quiet w w'"
  unfolding psv_failurestate_def by (rule walk_quiet)

lemma lock_quiet:
  assumes "mutex_lock m w = (err, m', w')" shows "quiet w w'"
  using assms by (auto simp: mutex_lock_def ask_def quiet_def split: if_splits)

lemma unlock_quiet:
  assumes "mutex_unlock m w = (err, m', w')" shows "quiet w w'"
  using assms by (auto simp: mutex_unlock_def ask_def quiet_def split: if_splits)

text \<open>With working locks the mutex of a vm is free after every operation.\<close>

lemma start_finish_quiet:
  assumes ready: "\<exists>s. psv_at p s" and held: "psv_mtx p" and locks: "locks_ok (w_os w)"
    and run: "psv_start_finish restarting failure result p w = (r, p', w')"
  shows "same_vm (p\<lparr>psv_mtx := False\<rparr>) p' \<and> quiet w w'"
proof -
  let ?p1 = "p\<lparr>psv_mtx := False\<rparr>"
  have r1: "psv_ready ?p1" using ready by (simp add: psv_ready_def)
  have q1: "quiet w (tock w)" by (simp add: quiet_def)
  note unf = run [unfolded psv_start_finish_def, simplified held unlock_os_ok [OF locks], simplified]
  obtain x q v where f: "psv_failurestate ?p1 (tock w) = (x, q, v)" by (metis prod_cases3)
  obtain y q2 v2 where t: "psv_transition ?p1 (if restarting then RESTARTED else RUNNING) (tock w) = (y, q2, v2)"
    by (metis prod_cases3)
  obtain x2 q3 v3 where f2: "psv_failurestate q2 v2 = (x2, q3, v3)" by (metis prod_cases3)
  obtain y4 q4 v4 where t4: "psv_transition q2 RUNNING v2 = (y4, q4, v4)" by (metis prod_cases3)
  obtain x5 q5 v5 where f5: "psv_failurestate q4 v4 = (x5, q5, v5)" by (metis prod_cases3)
  from transition_quiet [OF r1 t] have s2: "same_vm ?p1 q2" "quiet w v2" using q1 quiet_trans by auto
  then have r2: "psv_ready q2" by (simp add: same_vm_def)
  from failurestate_quiet [OF r1 f] have sf: "same_vm ?p1 q" "quiet w v" using q1 quiet_trans by auto
  from failurestate_quiet [OF r2 f2] s2 have s3: "same_vm ?p1 q3" "quiet w v3"
    using same_vm_trans quiet_trans by blast+
  from transition_quiet [OF r2 t4] s2 have s4: "same_vm ?p1 q4" "quiet w v4"
    using same_vm_trans quiet_trans by blast+
  then have r4: "psv_ready q4" by (simp add: same_vm_def)
  from failurestate_quiet [OF r4 f5] s4 have s5: "same_vm ?p1 q5" "quiet w v5"
    using same_vm_trans quiet_trans by blast+
  show ?thesis
    using unf f t f2 t4 f5 sf s2 s3 s4 s5 by (auto simp: Let_def split: if_splits)
qed

lemma launch_quiet:
  assumes "pdf_launch_redirected pd_funcs d ldr w = (r, q, d', w')" shows "quiet w w'"
  using assms pd_launch_redirected_os [of d ldr w] more_pd(2) [of d ldr w]
  by (auto simp: pd_funcs_def quiet_def Let_def split_def)

lemma start_launch_quiet:
  fixes p :: "(process_def, 'm) process_state_vm"
  assumes ready: "psv_ready p" and fn: "pdo_funcs (psv_pdo p) = pd_funcs" and locks: "locks_ok (w_os w)"
    and run: "psv_start_launch restarting p ldr w = (r, pid, p', w')"
  shows "same_vm p p' \<and> quiet w w'"
proof -
  from ready have free: "psv_mtx p = False" and at: "\<exists>s. psv_at p s" by (simp_all add: psv_ready_def)
  let ?l = "if ldr \<noteq> None then ldr else psv_ldr (p\<lparr>psv_mtx := True\<rparr>)"
  obtain res q d w1 where la: "pdf_launch_redirected pd_funcs (pdo_ctx (psv_pdo p)) ?l (tock w) = (res, q, d, w1)"
    by (metis prod_cases4)
  have q1: "quiet w w1" using launch_quiet [OF la] by (simp add: quiet_def)
  let ?p2 = "p\<lparr>psv_mtx := True, psv_pdo := (psv_pdo p)\<lparr>pdo_ctx := d\<rparr>,
      psv_processid := (case q of None \<Rightarrow> psv_processid (p\<lparr>psv_mtx := True\<rparr>) | Some i \<Rightarrow> i)\<rparr>"
  obtain r3 p3 w3 where f: "psv_start_finish restarting (res \<noteq> 0) res ?p2 w1 = (r3, p3, w3)"
    by (metis prod_cases3)
  have at2: "\<exists>s. psv_at ?p2 s" using at by simp
  have lk1: "locks_ok (w_os w1)" using locks q1 by (simp add: quiet_def)
  have m2: "psv_mtx ?p2" by simp
  from start_finish_quiet [OF at2 m2 lk1 f] have s: "same_vm p p3" "quiet w1 w3"
    by (auto simp: same_vm_def)
  have "p' = p3 \<and> w' = w3"
    using run la f fn lock_os_ok [OF locks] free by (auto simp: psv_start_launch_def Let_def)
  with s q1 show ?thesis using quiet_trans by blast
qed

lemma startvm_quiet:
  fixes p :: "(process_def, 'm) process_state_vm"
  assumes ready: "psv_ready p" and fn: "pdo_funcs (psv_pdo p) = pd_funcs" and locks: "locks_ok (w_os w)"
    and run: "psv_startvm p ldr w = (r, pid, p', w')"
  shows "same_vm p p' \<and> quiet w w'"
proof -
  let ?re = "vmstate_code RESTART_STOPPED = psv_getstate p"
  let ?undo = "(if ?re then [STOP_STORAGE] else []) @ [STOP_NETWORK, STOPPED, FAILED]"
  obtain r1 p1 w1 where t1: "psv_transition p (if ?re then PRESTART_AFTER_RESTART else START_NETWORK) w = (r1, p1, w1)"
    by (metis prod_cases3)
  from transition_quiet [OF ready t1] have s1: "same_vm p p1" "quiet w w1" by auto
  obtain r2 p2 w2 where t2: "(if r1 \<noteq> 0 then psv_walk ?undo p1 w1 else (0, p1, w1)) = (r2, p2, w2)"
    by (metis prod_cases3)
  have s2: "same_vm p p2 \<and> quiet w w2"
  proof (cases "r1 = 0")
    case False
    with t2 have "psv_walk ?undo p1 w1 = (r2, p2, w2)" by simp
    from walk_quiet [OF _ this] s1 show ?thesis
      by (auto simp: same_vm_def quiet_def)
  qed (use t2 s1 in simp)
  then have rd2: "psv_ready p2" by (simp add: same_vm_def)
  obtain r3 p3 w3 where t3: "psv_transition p2 (if ?re then START_AFTER_RESTART else START_STORAGE) w2 = (r3, p3, w3)"
    by (metis prod_cases3)
  from transition_quiet [OF rd2 t3] s2 have s3: "same_vm p p3" "quiet w w3"
    using same_vm_trans quiet_trans by blast+
  obtain r4 p4 w4 where t4: "(if r3 \<noteq> 0 then psv_failurestate p3 w3 else (0, p3, w3)) = (r4, p4, w4)"
    by (metis prod_cases3)
  have s4: "same_vm p p4 \<and> quiet w w4"
  proof (cases "r3 = 0")
    case False
    with t4 have "psv_failurestate p3 w3 = (r4, p4, w4)" by simp
    from failurestate_quiet [OF _ this] s3 show ?thesis
      by (auto simp: same_vm_def quiet_def)
  qed (use t4 s3 in simp)
  obtain r5 pid5 p5 w5 where t5: "psv_start_launch ?re p4 ldr w4 = (r5, pid5, p5, w5)" by (metis prod_cases4)
  from s4 have "psv_ready p4" "pdo_funcs (psv_pdo p4) = pd_funcs" "locks_ok (w_os w4)"
    using fn locks by (auto simp: same_vm_def quiet_def)
  from start_launch_quiet [OF this t5] s4 have s5: "same_vm p p5" "quiet w w5"
    using same_vm_trans quiet_trans by blast+
  have id: "same_vm p p" "quiet w (set_errno EALREADY w)" using ready by (simp_all add: quiet_def)
  show ?thesis
    using run t1 t2 t3 t4 t5 s1 s2 s4 s5 id
    by (auto simp: psv_startvm_def Let_def split: if_splits simp del: vmstate_code.simps)
qed

lemma getpid_quiet:
  assumes ready: "psv_ready p" and locks: "locks_ok (w_os w)" and run: "psv_getpid p w = (pid, p', w')"
  shows "p' = p \<and> pid = psv_processid p \<and> quiet w w'"
proof -
  from ready have free: "psv_mtx p = False" by (simp add: psv_ready_def)
  with run lock_os_ok [OF locks] unlock_os_ok [of "tock w"] locks
  show ?thesis by (auto simp: psv_getpid_def quiet_def)
qed

lemma stopvm_quiet:
  assumes ready: "psv_ready p" and locks: "locks_ok (w_os w)"
    and run: "psv_stopvm p False w = (r, p', st, w')"
  shows "same_vm p p' \<and> quiet w w'"
proof -
  obtain r1 p1 w1 where t1: "psv_transition p STOPPING w = (r1, p1, w1)" by (metis prod_cases3)
  from transition_quiet [OF ready t1] have s1: "same_vm p p1" "quiet w w1" by auto
  obtain r2 p2 w2 where t2: "(if r1 \<noteq> 0 then psv_failurestate p1 w1 else (0, p1, w1)) = (r2, p2, w2)"
    by (metis prod_cases3)
  have s2: "same_vm p p2 \<and> quiet w w2"
  proof (cases "r1 = 0")
    case False
    with t2 have "psv_failurestate p1 w1 = (r2, p2, w2)" by simp
    from failurestate_quiet [OF _ this] s1 show ?thesis by (auto simp: same_vm_def quiet_def)
  qed (use t2 s1 in simp)
  obtain pid p3 w3 where g: "psv_getpid p2 w2 = (pid, p3, w3)" by (metis prod_cases3)
  have "psv_ready p2" "locks_ok (w_os w2)" using s2 locks by (auto simp: same_vm_def quiet_def)
  from getpid_quiet [OF this g] s2 have s3: "same_vm p p3" "quiet w w3"
    by (auto intro: quiet_trans)
  obtain sent w4 where k: "sys_kill pid True w3 = (sent, w4)" by (cases "sys_kill pid True w3")
  have "quiet w3 w4" using k frame_os(10) [of pid True w3] more_sys(11) [of pid True w3]
    by (simp add: quiet_def)
  with s3 have s4: "quiet w w4" using quiet_trans by blast
  obtain r5 p5 w5 where f: "psv_failurestate p3 w4 = (r5, p5, w5)" by (metis prod_cases3)
  have "psv_ready p3" using s3 by (simp add: same_vm_def)
  from failurestate_quiet [OF this f] s3 s4 have s5: "same_vm p p5" "quiet w w5"
    using same_vm_trans quiet_trans by blast+
  have id: "same_vm p p" "quiet w (set_errno EALREADY w)" using ready by (simp_all add: quiet_def)
  show ?thesis
    using run t1 t2 g k f s2 s3 s4 s5 id
    by (auto simp: psv_stopvm_def psv_stop_or_reboot_def psv_stop_signal_def Let_def split: if_splits
        simp del: vmstate_code.simps)
qed

end
