(* ===== verification/Director_Contract.thy ===== *)
theory Director_Contract
  imports Director_Frame
begin

text \<open>
  Properties of the director: the invariant of its structures, the isolation of the vms from each
  other, the restart accounting, and what its start command and its threads do.
\<close>

section \<open>Invariant\<close>

definition vm_wf :: "nat \<Rightarrow> 'm bhyve_watched_vm \<Rightarrow> bool" where
  "vm_wf a v \<longleftrightarrow> psv_addr (bwv_state v) = a \<and> psv_rmo (bwv_state v) = Some bhyve_director_rmo \<and>
     pdo_funcs (psv_pdo (bwv_state v)) = pd_funcs \<and> psv_ready (bwv_state v)"

definition bd_wf :: "'m bhyve_director \<Rightarrow> 'm dirworld_scheme \<Rightarrow> bool" where
  "bd_wf bd w \<longleftrightarrow> \<not> w_bd_mtx w \<and> distinct (w_bd_statelist w) \<and>
     (\<forall>a \<in> set (w_bd_statelist w). \<exists>v. bd_vms bd a = Some v \<and> vm_wf a v) \<and>
     set (w_bd_rebootlist w) \<subseteq> set (w_bd_statelist w)"

text \<open>The director's lists and its mutex between two worlds: at most the vm \<open>a\<close> is queued for restart.\<close>

definition dir_step :: "nat \<Rightarrow> 'm dirworld_scheme \<Rightarrow> 'm dirworld_scheme \<Rightarrow> bool" where
  "dir_step a w v \<longleftrightarrow> w_os v = w_os w \<and> w_bd_mtx v = w_bd_mtx w \<and>
     w_bd_statelist v = w_bd_statelist w \<and> set (w_bd_rebootlist v) \<subseteq> insert a (set (w_bd_rebootlist w))"

lemma quiet_dir:
  fixes w v :: "'m dirworld_scheme"
  assumes "quiet w v"
  shows "w_bd_mtx v = w_bd_mtx w" "w_bd_statelist v = w_bd_statelist w"
    "w_bd_rebootlist v = w_bd_rebootlist w" "w_bd_reboot_state v = w_bd_reboot_state w"
    "w_bd_msgcount v = w_bd_msgcount w" "w_os v = w_os w"
  using assms by (cases w; cases v; simp add: quiet_def)+

lemma quiet_step: "quiet w v \<Longrightarrow> dir_step a w v"
  by (auto simp: dir_step_def quiet_dir)

lemma dir_step_trans: "dir_step a u v \<Longrightarrow> dir_step a v w \<Longrightarrow> dir_step a u w"
  by (auto simp: dir_step_def)

lemma dir_step_refl [simp]: "dir_step a w w"
  by (auto simp: dir_step_def)

lemma bd_lock_ok: "locks_ok (w_os w) \<Longrightarrow> \<not> w_bd_mtx w \<Longrightarrow> bd_lock w = (False, (tock w)\<lparr>w_bd_mtx := True\<rparr>)"
  by (simp add: bd_lock_def lock_os_ok)

lemma bd_unlock_ok: "locks_ok (w_os w) \<Longrightarrow> w_bd_mtx w \<Longrightarrow> bd_unlock w = (False, (tock w)\<lparr>w_bd_mtx := False\<rparr>)"
  by (simp add: bd_unlock_def unlock_os_ok)

lemma dir_fields [simp]:
  fixes w :: "'m dirworld_scheme"
  shows "w_bd_mtx (tock w) = w_bd_mtx w" "w_bd_statelist (tock w) = w_bd_statelist w"
    "w_bd_rebootlist (tock w) = w_bd_rebootlist w" "w_bd_reboot_state (tock w) = w_bd_reboot_state w"
    "w_bd_mtx (set_errno e w) = w_bd_mtx w" "w_bd_statelist (set_errno e w) = w_bd_statelist w"
    "w_bd_rebootlist (set_errno e w) = w_bd_rebootlist w" "w_bd_reboot_state (set_errno e w) = w_bd_reboot_state w"
  by (simp_all add: tock_def set_errno_def)

text \<open>A restart request for a vm on the director's list puts it at the end of the list of vms to
  restart, exactly once, wakes the restart thread and returns 0; the list of vms stays as it is and
  the mutex is free again. For an address that is not on the list the code dereferences a null
  pointer.\<close>

theorem bd_requestreboot_spec:
  fixes w :: "'m dirworld_scheme"
  assumes "locks_ok (w_os w)" and "\<not> w_bd_mtx w" and "\<forall>n. os_cond (w_os w) n"
  shows "if a \<in> set (w_bd_statelist w)
    then \<exists>v. bd_requestreboot a w = Some (0, v) \<and> w_bd_rebootlist v = w_bd_rebootlist w @ [a] \<and>
           w_bd_statelist v = w_bd_statelist w \<and> \<not> w_bd_mtx v
    else bd_requestreboot a w = None"
proof -
  let ?w1 = "(tock w)\<lparr>w_bd_mtx := True\<rparr>"
  let ?w2 = "?w1\<lparr>w_bd_rebootlist := w_bd_rebootlist w @ [a]\<rparr>"
  have l: "bd_lock w = (False, ?w1)" using assms(1,2) by (rule bd_lock_ok)
  have c: "sys_cond ?w2 = (True, tock ?w2)" using assms(3) by (simp add: sys_cond_def ask_def)
  have u: "bd_unlock (tock ?w2) = (False, (tock (tock ?w2))\<lparr>w_bd_mtx := False\<rparr>)"
    using assms(1) by (simp add: bd_unlock_ok)
  show ?thesis using l c u by (simp add: bd_requestreboot_def Let_def)
qed

lemma requestreboot_step:
  assumes "locks_ok (w_os w)" and "\<not> w_bd_mtx w" and "bhyve_director_rmo a w = (r, v)"
  shows "dir_step a w v"
proof -
  let ?w1 = "(tock w)\<lparr>w_bd_mtx := True\<rparr>"
  let ?w2 = "?w1\<lparr>w_bd_rebootlist := w_bd_rebootlist w @ [a]\<rparr>"
  have l: "bd_lock w = (False, ?w1)" using assms(1,2) by (rule bd_lock_ok)
  obtain ok where c: "sys_cond ?w2 = (ok, tock ?w2)" by (simp add: sys_cond_def ask_def)
  have u: "bd_unlock (tock ?w2) = (False, (tock (tock ?w2))\<lparr>w_bd_mtx := False\<rparr>)"
    "bd_unlock (set_errno EDEADLK (tock ?w2)) =
       (False, (tock (set_errno EDEADLK (tock ?w2)))\<lparr>w_bd_mtx := False\<rparr>)"
    using assms(1) by (simp_all add: bd_unlock_ok)
  show ?thesis
    using assms(2,3) l c u
    by (cases ok; cases "a \<in> set (w_bd_statelist w)")
       (auto simp: bhyve_director_rmo_def bd_requestreboot_def dir_step_def Let_def)
qed

section \<open>Operations keep the invariant\<close>

lemma exit_reboot_step:
  assumes ready: "psv_ready p" and rmo: "psv_rmo p = Some bhyve_director_rmo"
    and locks: "locks_ok (w_os w)" and free: "\<not> w_bd_mtx w"
    and run: "psv_exit_reboot ss p w = (r, p', w')"
  shows "same_vm p p' \<and> dir_step (psv_addr p) w w'"
proof -
  obtain r1 p1 w1 where k: "psv_walk ss p w = (r1, p1, w1)" by (metis prod_cases3)
  from walk_quiet [OF ready k] have s1: "same_vm p p1" "quiet w w1" by auto
  then have id1: "psv_rmo p1 = Some bhyve_director_rmo" "psv_addr p1 = psv_addr p" "psv_ready p1"
    using rmo by (simp_all add: same_vm_def)
  have lk1: "locks_ok (w_os w1)" "\<not> w_bd_mtx w1" using s1(2) locks free by (simp_all add: quiet_dir)
  obtain q w2 where b: "bhyve_director_rmo (psv_addr p) w1 = (q, w2)"
    by (cases "bhyve_director_rmo (psv_addr p) w1")
  from requestreboot_step [OF lk1 b] s1(2) have s2: "dir_step (psv_addr p) w w2"
    using quiet_step dir_step_trans by blast
  obtain x p3 w3 where f: "psv_failurestate p1 w2 = (x, p3, w3)" by (metis prod_cases3)
  from failurestate_quiet [OF id1(3) f] s1(1) s2 have s3: "same_vm p p3" "dir_step (psv_addr p) w w3"
    using same_vm_trans quiet_step dir_step_trans by blast+
  have s1': "dir_step (psv_addr p) w w1" using s1(2) by (rule quiet_step)
  show ?thesis
    using run k b f id1 s1(1) s1' s2 s3
    by (auto simp: psv_exit_reboot_def Let_def split: if_splits)
qed

lemma onexit_step:
  assumes ready: "psv_ready p" and rmo: "psv_rmo p = Some bhyve_director_rmo"
    and locks: "locks_ok (w_os w)" and free: "\<not> w_bd_mtx w"
    and run: "psv_onexit p c w = (r, p', w')"
  shows "same_vm p p' \<and> dir_step (psv_addr p) w w'"
proof -
  obtain r1 p1 w1 where k: "psv_exit_switch c p w = (r1, p1, w1)" by (metis prod_cases3)
  have s1: "same_vm p p1 \<and> dir_step (psv_addr p) w w1"
  proof -
    have walk: "same_vm p q \<and> dir_step (psv_addr p) w v" if "psv_walk ss p w = (x, q, v)" for ss x q v
      using walk_quiet [OF ready that] quiet_step by blast
    have reb: "same_vm p q \<and> dir_step (psv_addr p) w v" if "psv_exit_reboot ss p w = (x, q, v)" for ss x q v
      by (rule exit_reboot_step [OF ready rmo locks free that])
    have id: "same_vm p p" using ready by simp
    from k walk reb id show ?thesis
      by (auto simp: psv_exit_switch_def Let_def split: if_splits simp del: vmstate_code.simps)
  qed
  then have rd1: "psv_ready p1" "locks_ok (w_os w1)" using locks by (auto simp: same_vm_def dir_step_def)
  obtain x p2 w2 where f: "psv_failurestate p1 w1 = (x, p2, w2)" by (metis prod_cases3)
  from failurestate_quiet [OF rd1(1) f] s1 have s2: "same_vm p p2" "dir_step (psv_addr p) w w2"
    using same_vm_trans quiet_step dir_step_trans by blast+
  then have m2: "psv_mtx p2 = False" "locks_ok (w_os w2)" using locks
    by (auto simp: same_vm_def psv_ready_def dir_step_def)
  have lk: "mutex_lock False w2 = (False, True, tock w2)"
    "mutex_unlock True (tock w2) = (False, False, tock (tock w2))"
    using m2(2) by (simp_all add: lock_os_ok unlock_os_ok)
  have s3: "same_vm p (p2\<lparr>psv_processid := 0, psv_mtx := False\<rparr>)"
    using s2(1) m2(1) by (simp add: same_vm_def psv_ready_def)
  have s4: "dir_step (psv_addr p) w (tock (tock w2))" using s2(2) by (simp add: dir_step_def)
  show ?thesis
    using run k f m2(1) lk s1 s3 s4
    by (auto simp: psv_onexit_def Let_def split: if_splits)
qed

lemma linkconsoles_quiet:
  fixes w :: "'m logworld_scheme"
  assumes "bwv_linkconsoles v link w = (r, w')" shows "quiet w w'"
proof -
  have get: "quiet u (snd (bccl_get_consolebyidx cs i u))" for cs i and u :: "'m logworld_scheme"
    by (simp add: bccl_get_consolebyidx_def quiet_def)
  have one: "quiet u (snd (link_console link f c u))" for f c and u :: "'m logworld_scheme"
    by (simp add: link_console_def quiet_def Let_def split_def)
  have loop: "quiet u (snd (link_loop link f cs is u))" for f cs "is" and u :: "'m logworld_scheme"
  proof (induction "is" arbitrary: u)
    case (Cons i "is")
    obtain c u1 where g: "bccl_get_consolebyidx cs i u = (c, u1)" by (cases "bccl_get_consolebyidx cs i u")
    with get [of u cs i] have q1: "quiet u u1" by simp
    show ?case
    proof (cases c)
      case None
      with g Cons.IH [of u1] q1 show ?thesis using quiet_trans by auto
    next
      case (Some bcc)
      obtain x u2 where l: "link_console link f bcc u1 = (x, u2)" by (cases "link_console link f bcc u1")
      with one [of u1 f bcc] q1 have "quiet u u2" using quiet_trans by auto
      with g Some l Cons.IH [of u2] show ?thesis using quiet_trans by auto
    qed
  qed simp
  show ?thesis
    using assms loop [of w "c_str (bc_get_backingfile (Some (bwv_config v)))"]
    by (auto simp: bwv_linkconsoles_def Let_def split: option.splits) (metis snd_conv)
qed

text \<open>What an operation on the vm \<open>a\<close> may do to the director: change the life cycle state, the pid and the
  start times of that vm, and queue it for restart. Every other vm is untouched.\<close>

definition keeps_vm ::
  "nat \<Rightarrow> 'm bhyve_director \<Rightarrow> 'm dirworld_scheme \<Rightarrow> 'm bhyve_director \<Rightarrow> 'm dirworld_scheme \<Rightarrow> bool" where
  "keeps_vm a bd w bd' w' \<longleftrightarrow>
     (\<forall>b. b \<noteq> a \<longrightarrow> bd_vms bd' b = bd_vms bd b) \<and> bd_vms bd a \<noteq> None \<and> bd_vms bd' a \<noteq> None \<and>
     bwv_config (vm_at bd' a) = bwv_config (vm_at bd a) \<and> bwv_ldr (vm_at bd' a) = bwv_ldr (vm_at bd a) \<and>
     same_vm (bwv_state (vm_at bd a)) (bwv_state (vm_at bd' a)) \<and> bd_cgo bd' = bd_cgo bd \<and> dir_step a w w'"

lemma keeps_vm_trans: "keeps_vm a bd u bd' v \<Longrightarrow> keeps_vm a bd' v bd'' w \<Longrightarrow> keeps_vm a bd u bd'' w"
  by (auto simp: keeps_vm_def intro: dir_step_trans same_vm_trans)

lemma vm_at_put [simp]:
  "vm_at (put_vm a v bd) b = (if b = a then v else vm_at bd b)"
  "bd_vms (put_vm a v bd) b = (if b = a then Some v else bd_vms bd b)"
  "bd_cgo (put_vm a v bd) = bd_cgo bd"
  by (simp_all add: vm_at_def put_vm_def)

lemma keeps_put_vm:
  "bd_vms bd a = Some v \<Longrightarrow> bwv_config v' = bwv_config v \<Longrightarrow> bwv_ldr v' = bwv_ldr v \<Longrightarrow>
   same_vm (bwv_state v) (bwv_state v') \<Longrightarrow> dir_step a w w' \<Longrightarrow> keeps_vm a bd w (put_vm a v' bd) w'"
  by (simp add: keeps_vm_def vm_at_def [of bd])

lemma keeps_put_state:
  "bd_vms bd a = Some v \<Longrightarrow> same_vm (bwv_state v) p \<Longrightarrow> dir_step a w w' \<Longrightarrow>
   keeps_vm a bd w (put_state a p bd) w'"
  unfolding put_state_def by (rule keeps_put_vm) (simp_all add: vm_at_def)

lemma keeps_wf:
  assumes "bd_wf bd w" and "a \<in> set (w_bd_statelist w)" and k: "keeps_vm a bd w bd' w'"
  shows "bd_wf bd' w'"
proof -
  from assms(1,2) obtain v where v: "bd_vms bd a = Some v" "vm_wf a v" by (auto simp: bd_wf_def)
  from k obtain v' where v': "bd_vms bd' a = Some v'" by (auto simp: keeps_vm_def)
  have "vm_wf a v'" using k v v' by (simp add: keeps_vm_def vm_at_def vm_wf_def same_vm_def)
  with v' have a: "\<exists>v. bd_vms bd' a = Some v \<and> vm_wf a v" by blast
  have "\<exists>v. bd_vms bd' b = Some v \<and> vm_wf b v" if "b \<in> set (w_bd_statelist w)" for b
    using that a assms(1) k by (cases "b = a") (auto simp: bd_wf_def keeps_vm_def)
  with k assms(1,2) show ?thesis by (auto simp: bd_wf_def keeps_vm_def dir_step_def)
qed

lemma getvmbyname_ok:
  assumes "locks_ok (w_os w)" and "\<not> w_bd_mtx w"
  shows "\<exists>w'. bd_getvmbyname bd n w = (find_vm bd n (w_bd_statelist w), w') \<and> dir_step a w w' \<and>
    \<not> w_bd_mtx w' \<and> w_bd_rebootlist w' = w_bd_rebootlist w"
  using assms
  by (auto simp: bd_getvmbyname_def bd_lock_ok bd_unlock_ok dir_step_def split: option.split)

lemma find_vm_in: "find_vm bd n as = Some a \<Longrightarrow> a \<in> set as \<and> bc_get_name (bwv_config (vm_at bd a)) = n"
  by (auto simp: find_vm_def find_Some_iff)

definition vm_ok :: "'m bhyve_director \<Rightarrow> nat \<Rightarrow> 'm dirworld_scheme \<Rightarrow> bool" where
  "vm_ok bd a w \<longleftrightarrow> (\<exists>v. bd_vms bd a = Some v \<and> vm_wf a v) \<and> locks_ok (w_os w) \<and> \<not> w_bd_mtx w"

lemma keeps_vm_ok: "vm_ok bd a w \<Longrightarrow> keeps_vm a bd w bd' w' \<Longrightarrow> vm_ok bd' a w'"
  by (auto simp: vm_ok_def keeps_vm_def vm_at_def vm_wf_def same_vm_def dir_step_def)

lemma keeps_same: "vm_ok bd a w \<Longrightarrow> dir_step a w w' \<Longrightarrow> keeps_vm a bd w bd w'"
  by (auto simp: vm_ok_def keeps_vm_def vm_wf_def vm_at_def)

lemma start_watch_keeps:
  assumes ok: "vm_ok bd a w" and run: "bd_start_watch bd a pid w = (r, bd', w')"
  shows "keeps_vm a bd w bd' w'"
proof -
  from ok obtain v where v: "bd_vms bd a = Some v" "vm_wf a v" "locks_ok (w_os w)" "\<not> w_bd_mtx w"
    by (auto simp: vm_ok_def)
  let ?p = "bwv_state v"
  have st: "bwv_state (vm_at bd a) = ?p" using v(1) by (simp add: vm_at_def)
  have p: "psv_ready ?p" "psv_rmo ?p = Some bhyve_director_rmo" "psv_addr ?p = a"
    using v(2) by (simp_all add: vm_wf_def)
  obtain alive w1 where k: "sys_kill pid False (set_errno E0 w) = (alive, w1)"
    by (cases "sys_kill pid False (set_errno E0 w)")
  have q1: "quiet w w1"
    using k frame_os(10) [of pid False "set_errno E0 w"] more_sys(11) [of pid False "set_errno E0 w"]
    by (simp add: quiet_def)
  obtain wpid st w2 where n: "sys_waitnb pid w1 = ((wpid, st), w2)" by (metis prod.exhaust)
  have "quiet w1 w2"
    using n frame_os(12) [of pid w1] more_sys(13) [of pid w1] by (simp add: quiet_def)
  with q1 have q2: "quiet w w2" by (rule quiet_trans)
  have on: "same_vm ?p q \<and> dir_step a w u'"
    if "psv_onexit ?p c u = (x, q, u')" "quiet w u" for c u x q u'
  proof -
    have "locks_ok (w_os u)" "\<not> w_bd_mtx u" using that(2) v(3,4) by (simp_all add: quiet_dir)
    from onexit_step [OF p(1,2) this that(1)] p(3) that(2) show ?thesis
      using quiet_step dir_step_trans by blast
  qed
  have fl: "same_vm ?p q' \<and> dir_step a w u'"
    if "psv_failurestate q u = (x, q', u')" "same_vm ?p q" "dir_step a w u" for q u x q' u'
    using failurestate_quiet [of q u x q' u'] that quiet_step dir_step_trans same_vm_trans
    by (metis same_vm_def)
  obtain x4 p4 w4 where o4: "psv_onexit ?p 4 w1 = (x4, p4, w4)" by (metis prod_cases3)
  obtain x5 p5 w5 where o5: "psv_onexit ?p (ucast (WEXITSTATUS st)) w2 = (x5, p5, w5)" by (metis prod_cases3)
  obtain x6 p6 w6 where f6: "psv_failurestate p5 w5 = (x6, p6, w6)" by (metis prod_cases3)
  note s4 = on [OF o4 q1] and s5 = on [OF o5 q2]
  note s6 = fl [OF f6 conjunct1 [OF s5] conjunct2 [OF s5]]
  obtain ok7 w7 where d7: "sys_do (Watched pid a) os_kevent w2 = (ok7, w7)"
    by (cases "sys_do (Watched pid a) os_kevent w2")
  have "quiet w2 w7" using d7 frame_os(6) [of "Watched pid a" os_kevent w2]
      more_sys(8) [of "Watched pid a" os_kevent w2] by (simp add: quiet_def)
  then have q7: "quiet w w7" using q2 quiet_trans by blast
  show ?thesis
    using run k n o4 o5 f6 d7 st s4 s5 s6 v(1) keeps_same [OF ok quiet_step [OF q2]]
      keeps_same [OF ok quiet_step [OF q7]]
    by (auto simp: bd_start_watch_def Let_def intro: keeps_put_state split: if_splits)
qed

lemma start_launch_keeps:
  assumes ok: "vm_ok bd a w" and run: "bd_start_launch bd a w = (r, bd', w')"
  shows "keeps_vm a bd w bd' w'"
proof -
  from ok obtain v where v: "bd_vms bd a = Some v" "vm_wf a v" "locks_ok (w_os w)" "\<not> w_bd_mtx w"
    by (auto simp: vm_ok_def)
  have at: "vm_at bd a = v" using v(1) by (simp add: vm_at_def)
  obtain x w1 where l: "bwv_linkconsoles v True w = (x, w1)" by (cases "bwv_linkconsoles v True w")
  have q1: "quiet w w1" by (rule linkconsoles_quiet [OF l])
  obtain res pid p w2 where s: "psv_startvm (bwv_state v) (bwv_ldr v) w1 = (res, pid, p, w2)"
    by (metis prod_cases4)
  have "psv_ready (bwv_state v)" "pdo_funcs (psv_pdo (bwv_state v)) = pd_funcs" "locks_ok (w_os w1)"
    using v q1 by (simp_all add: vm_wf_def quiet_def)
  from startvm_quiet [OF this s] q1 have s2: "same_vm (bwv_state v) p" "quiet w w2"
    using quiet_trans by blast+
  let ?bd1 = "put_state a p bd" and ?pid = "case pid of None \<Rightarrow> 0 | Some q \<Rightarrow> q"
  have k1: "keeps_vm a bd w ?bd1 w2"
    by (rule keeps_put_state [OF v(1) s2(1) quiet_step [OF s2(2)]])
  obtain r3 bd3 w3 where t: "bd_start_watch ?bd1 a ?pid w2 = (r3, bd3, w3)" by (metis prod_cases3)
  from keeps_vm_trans [OF k1 start_watch_keeps [OF keeps_vm_ok [OF ok k1] t]]
  have k3: "keeps_vm a bd w bd3 w3" .
  show ?thesis
    using run l s t k1 k3 at by (auto simp: bd_start_launch_def Let_def split: if_splits)
qed

definition cgo_quiet :: "'m config_generator option \<Rightarrow> bool" where
  "cgo_quiet cgo \<longleftrightarrow> (\<forall>f. cgo = Some (Some f) \<longrightarrow> (\<forall>c n u. quiet u (snd (f c n u))))"

lemma generate_config_quiet:
  assumes "cgo_quiet cgo" and "vm_wf a v" and "bwv_generate_config v cgo w = (r, v', w')"
  shows "bwv_config v' = bwv_config v \<and> bwv_ldr v' = bwv_ldr v \<and> same_vm (bwv_state v) (bwv_state v') \<and>
    quiet w w'"
proof -
  have rd: "psv_ready (bwv_state v)" and fn: "pdo_funcs (psv_pdo (bwv_state v)) = pd_funcs"
    using assms(2) by (simp_all add: vm_wf_def)
  show ?thesis
  proof (cases cgo)
    case None
    with assms(3) rd show ?thesis by (simp add: bwv_generate_config_def)
  next
    case (Some g)
    show ?thesis
    proof (cases g)
      case None
      with Some assms(3) rd show ?thesis by (simp add: bwv_generate_config_def Let_def)
    next
      case f: (Some f)
      let ?n = "snprintf_buf PATH_MAX (bc_get_configfile (bwv_config v) @ ''.generated'')"
      obtain x w1 where g1: "f (bwv_config v) ?n w = (x, w1)" by (cases "f (bwv_config v) ?n w")
      have q: "quiet w w1" using assms(1) Some f g1 unfolding cgo_quiet_def by (metis snd_conv)
      have same: "same_vm (bwv_state v) ((bwv_state v)\<lparr>psv_pdo := (psv_pdo (bwv_state v))\<lparr>pdo_ctx := d\<rparr>\<rparr>)" for d
        using rd by (simp add: same_vm_def psv_ready_def)
      show ?thesis
        using assms(3) Some f g1 q rd fn same
        by (auto simp: bwv_generate_config_def psv_set_configfile_def pd_funcs_def pd_set_configfile_def
            Let_def split: if_splits)
    qed
  qed
qed

lemma startvm_keeps:
  assumes wf: "bd_wf bd w" and locks: "locks_ok (w_os w)" and cgo: "cgo_quiet (bd_cgo bd)"
    and a: "find_vm bd n (w_bd_statelist w) = Some a" and run: "bd_startvm bd (Some n) w = (r, bd', w')"
  shows "keeps_vm a bd w bd' w'"
proof -
  have mem: "a \<in> set (w_bd_statelist w)" using find_vm_in [OF a] by simp
  then have ok: "vm_ok bd a w" using wf locks by (auto simp: vm_ok_def bd_wf_def)
  then obtain v where v: "bd_vms bd a = Some v" "vm_wf a v" by (auto simp: vm_ok_def)
  have at: "vm_at bd a = v" using v(1) by (simp add: vm_at_def)
  have free: "\<not> w_bd_mtx w" using wf by (simp add: bd_wf_def)
  obtain w1 where g: "bd_getvmbyname bd n w = (Some a, w1)" "dir_step a w w1"
    using getvmbyname_ok [OF locks free, of bd n a] a by auto
  obtain b v1 w2 where c: "bwv_is_countfail v w1 = (b, v1, w2)" by (metis prod_cases3)
  have v1: "bwv_config v1 = bwv_config v" "bwv_ldr v1 = bwv_ldr v" "bwv_state v1 = bwv_state v" "quiet w1 w2"
    using c by (auto simp: bwv_is_countfail_def bwv_countrestarts_since_def quiet_def sys_time_def ask_def Let_def
        split: if_splits)
  have d2: "dir_step a w w2" using g(2) v1(4) quiet_step dir_step_trans by blast
  have same: "same_vm (bwv_state v) (bwv_state v1)" using v(2) v1(3) by (simp add: vm_wf_def)
  let ?bd1 = "put_vm a v1 bd"
  have k1: "keeps_vm a bd w ?bd1 w2" by (rule keeps_put_vm [OF v(1) v1(1,2) same d2])
  have ok1: "vm_ok ?bd1 a w2" by (rule keeps_vm_ok [OF ok k1])
  have fail: "keeps_vm a bd u (put_state a p (put_vm a x bd')) u'"
    if "psv_failurestate (bwv_state x) y = (q, p, u')" "keeps_vm a bd u (put_vm a x bd') y" for bd' u u' x y q p
  proof -
    have "psv_ready (bwv_state x)" using that(2) by (simp add: keeps_vm_def same_vm_def)
    from failurestate_quiet [OF this that(1)]
    have "keeps_vm a (put_vm a x bd') y (put_state a p (put_vm a x bd')) u'"
      by (intro keeps_put_state) (auto simp: quiet_step)
    with that(2) show ?thesis by (rule keeps_vm_trans)
  qed
  obtain x3 p3 w3 where f3: "psv_failurestate (bwv_state v1) w2 = (x3, p3, w3)" by (metis prod_cases3)
  obtain x4 v4 w4 where t: "bwv_timestamp v1 w2 = (x4, v4, w4)" by (metis prod_cases3)
  have v4: "bwv_config v4 = bwv_config v1" "bwv_ldr v4 = bwv_ldr v1" "bwv_state v4 = bwv_state v1" "quiet w2 w4"
    using t frame_os(5) [of w2] more_sys(7) [of w2]
    by (auto simp: bwv_timestamp_def quiet_def Let_def split_def sys_time_def ask_def split: if_splits)
  have wf4: "vm_wf a v4" using v(2) v1(3) v4(3) by (simp add: vm_wf_def)
  obtain x5 v5 w5 where ge: "bwv_generate_config v4 (bd_cgo bd) w4 = (x5, v5, w5)" by (metis prod_cases3)
  note v5 = generate_config_quiet [OF cgo wf4 ge]
  let ?bd2 = "put_vm a v5 ?bd1"
  have "keeps_vm a ?bd1 w2 ?bd2 w5"
  proof (rule keeps_put_vm [of _ _ v1])
    show "dir_step a w2 w5" using v4(4) v5 quiet_step quiet_trans by blast
  qed (use v4 v5 in auto)
  with k1 have k2: "keeps_vm a bd w ?bd2 w5" by (rule keeps_vm_trans)
  obtain x6 p6 w6 where f6: "psv_failurestate (bwv_state v5) w5 = (x6, p6, w6)" by (metis prod_cases3)
  obtain r7 bd7 w7 where l: "bd_start_launch ?bd2 a w5 = (r7, bd7, w7)" by (metis prod_cases3)
  from keeps_vm_trans [OF k2 start_launch_keeps [OF keeps_vm_ok [OF ok k2] l]]
  have k7: "keeps_vm a bd w bd7 w7" .
  show ?thesis
    using run g(1) c f3 t ge f6 l at k1 k2 k7 fail [OF f3 k1] fail [OF f6 k2]
    by (auto simp: bd_startvm_def Let_def split: if_splits)
qed

end
