(* ===== verification/Director_Rules.thy ===== *)
theory Director_Rules
  imports Director_Contract Vm_Contract
begin

text \<open>
  Properties of the director over whole sequences of commands and process events, with a concrete
  director for the witnesses.
\<close>

section \<open>Commands and events\<close>

text \<open>What reaches the director from its sockets and from the kernel.\<close>

datatype bd_call = BdStart string | BdStop string | BdReset string | BdEvent proc_event

fun bd_do :: "bd_call \<Rightarrow> 'm bhyve_director \<times> 'm dirworld_scheme \<Rightarrow> 'm bhyve_director \<times> 'm dirworld_scheme" where
  "bd_do (BdStart n) (bd, w) = snd (bd_startvm bd (Some n) w)"
| "bd_do (BdStop n) (bd, w) = snd (bd_stopvm bd (Some n) w)"
| "bd_do (BdReset n) (bd, w) = snd (bd_resetfailvm bd (Some n) w)"
| "bd_do (BdEvent e) (bd, w) = snd (bd_kqueue_event e bd w)"

text \<open>Whether a call is about the vm at an address with a name; events name the address.\<close>

fun bd_about :: "bd_call \<Rightarrow> nat \<Rightarrow> string \<Rightarrow> bool" where
  "bd_about (BdStart n) a m = (n = m)"
| "bd_about (BdStop n) a m = (n = m)"
| "bd_about (BdReset n) a m = (n = m)"
| "bd_about (BdEvent (ProcExit d b)) a m = (a = b)"
| "bd_about (BdEvent e) a m = False"

fun bd_event_known :: "nat list \<Rightarrow> bd_call \<Rightarrow> bool" where
  "bd_event_known as (BdEvent (ProcExit d a)) = (a \<in> set as)"
| "bd_event_known as c = True"

definition bd_name :: "'m bhyve_director \<Rightarrow> nat \<Rightarrow> string" where
  "bd_name bd a = bc_get_name (bwv_config (vm_at bd a))"

text \<open>A call changes nothing, or the one vm it is about.\<close>

definition bd_moves ::
  "bd_call \<Rightarrow> 'm bhyve_director \<Rightarrow> 'm dirworld_scheme \<Rightarrow> 'm bhyve_director \<Rightarrow> 'm dirworld_scheme \<Rightarrow> bool" where
  "bd_moves c bd w bd' w' \<longleftrightarrow>
     (bd' = bd \<and> (\<forall>a. dir_step a w w') \<and> w_bd_rebootlist w' = w_bd_rebootlist w) \<or>
     (\<exists>a \<in> set (w_bd_statelist w). bd_about c a (bd_name bd a) \<and> keeps_vm a bd w bd' w')"

lemma bd_moves_id [simp]: "bd_moves c bd w bd w"
  by (simp add: bd_moves_def)

lemma getvmbyname_none:
  assumes "locks_ok (w_os w)" and "\<not> w_bd_mtx w" and "find_vm bd n (w_bd_statelist w) = None"
  shows "\<exists>w'. bd_getvmbyname bd n w = (None, w') \<and> (\<forall>a. dir_step a w w') \<and>
    w_bd_rebootlist w' = w_bd_rebootlist w"
  using assms by (auto simp: bd_getvmbyname_def bd_lock_ok bd_unlock_ok dir_step_def)

lemma dir_step_errno [simp]: "dir_step a w (set_errno e v) \<longleftrightarrow> dir_step a w v"
  by (simp add: dir_step_def)

lemma startvm_moves:
  assumes wf: "bd_wf bd w" and locks: "locks_ok (w_os w)" and cgo: "cgo_quiet (bd_cgo bd)"
    and run: "bd_startvm bd (Some n) w = (r, bd', w')"
  shows "bd_moves (BdStart n) bd w bd' w'"
proof (cases "find_vm bd n (w_bd_statelist w)")
  case None
  have "\<not> w_bd_mtx w" using wf by (simp add: bd_wf_def)
  from getvmbyname_none [OF locks this None] run show ?thesis
    by (auto simp: bd_startvm_def bd_moves_def)
next
  case (Some a)
  from startvm_keeps [OF wf locks cgo Some run] find_vm_in [OF Some] show ?thesis
    by (auto simp: bd_moves_def bd_name_def)
qed

lemma found_ok:
  assumes "bd_wf bd w" and "locks_ok (w_os w)" and "find_vm bd n (w_bd_statelist w) = Some a"
  shows "\<exists>v w1. bd_vms bd a = Some v \<and> vm_at bd a = v \<and> vm_wf a v \<and>
    bd_getvmbyname bd n w = (Some a, w1) \<and> dir_step a w w1"
proof -
  have "\<not> w_bd_mtx w" using assms(1) by (simp add: bd_wf_def)
  from getvmbyname_ok [OF assms(2) this, of bd n a] assms(3)
  obtain w1 where g: "bd_getvmbyname bd n w = (Some a, w1)" "dir_step a w w1" by auto
  moreover obtain v where "bd_vms bd a = Some v" "vm_wf a v"
    using assms(1) find_vm_in [OF assms(3)] by (auto simp: bd_wf_def)
  ultimately show ?thesis by (auto simp: vm_at_def)
qed

lemma stopvm_moves:
  assumes wf: "bd_wf bd w" and locks: "locks_ok (w_os w)"
    and run: "bd_stopvm bd (Some n) w = (r, bd', w')"
  shows "bd_moves (BdStop n) bd w bd' w'"
proof (cases "find_vm bd n (w_bd_statelist w)")
  case None
  have "\<not> w_bd_mtx w" using wf by (simp add: bd_wf_def)
  from getvmbyname_none [OF locks this None] run show ?thesis
    by (auto simp: bd_stopvm_def bd_moves_def)
next
  case (Some a)
  from found_ok [OF wf locks Some] obtain v w1
    where v: "bd_vms bd a = Some v" "vm_at bd a = v" "vm_wf a v"
      and g: "bd_getvmbyname bd n w = (Some a, w1)" "dir_step a w w1" by blast
  obtain r2 p st w2 where s: "psv_stopvm (bwv_state v) False w1 = (r2, p, st, w2)" by (metis prod_cases4)
  have "psv_ready (bwv_state v)" "locks_ok (w_os w1)"
    using v g locks by (simp_all add: vm_wf_def dir_step_def)
  from stopvm_quiet [OF this s] have "same_vm (bwv_state v) p" "dir_step a w w2"
    using g(2) quiet_step dir_step_trans by blast+
  from keeps_put_state [OF v(1) this] run g(1) s v(2) find_vm_in [OF Some] show ?thesis
    by (auto simp: bd_stopvm_def bd_moves_def bd_name_def)
qed

lemma resetfailvm_moves:
  assumes wf: "bd_wf bd w" and locks: "locks_ok (w_os w)"
    and run: "bd_resetfailvm bd (Some n) w = (r, bd', w')"
  shows "bd_moves (BdReset n) bd w bd' w'"
proof (cases "find_vm bd n (w_bd_statelist w)")
  case None
  have "\<not> w_bd_mtx w" using wf by (simp add: bd_wf_def)
  from getvmbyname_none [OF locks this None] run show ?thesis
    by (auto simp: bd_resetfailvm_def bd_moves_def)
next
  case (Some a)
  from found_ok [OF wf locks Some] obtain v w1
    where v: "bd_vms bd a = Some v" "vm_at bd a = v" "vm_wf a v"
      and g: "bd_getvmbyname bd n w = (Some a, w1)" "dir_step a w w1" by blast
  have rd: "psv_ready (bwv_state v)" using v by (simp add: vm_wf_def)
  obtain r2 p w2 where s: "psv_transition (bwv_state v) INIT w1 = (r2, p, w2)" by (metis prod_cases3)
  from transition_quiet [OF rd s] have "same_vm (bwv_state v) p" "dir_step a w w2"
    using g(2) quiet_step dir_step_trans by blast+
  note k = keeps_put_state [OF v(1) this]
  have ok: "vm_ok bd a w" using v wf locks by (auto simp: vm_ok_def bd_wf_def)
  have same: "put_state a (bwv_state v) bd = bd"
    using v(1) by (cases bd) (simp add: put_state_def put_vm_def vm_at_def fun_upd_idem)
  have k': "keeps_vm a bd w (put_state a (bwv_state v) bd) w1" "keeps_vm a bd w bd w1"
    using keeps_same [OF ok g(2)] same by simp_all
  show ?thesis using run g(1) s v(2) find_vm_in [OF Some] k k'
    by (auto simp: bd_resetfailvm_def psv_resetfailure_def bd_moves_def bd_name_def Let_def split: if_splits)
qed

lemma event_moves:
  assumes wf: "bd_wf bd w" and locks: "locks_ok (w_os w)"
    and known: "bd_event_known (w_bd_statelist w) (BdEvent ev)"
    and run: "bd_kqueue_event ev bd w = (r, bd', w')"
  shows "bd_moves (BdEvent ev) bd w bd' w'"
proof (cases ev)
  case (ProcExit d a)
  with known have mem: "a \<in> set (w_bd_statelist w)" by simp
  with wf obtain v where v: "bd_vms bd a = Some v" "vm_wf a v" "\<not> w_bd_mtx w" by (auto simp: bd_wf_def)
  have at: "vm_at bd a = v" using v(1) by (simp add: vm_at_def)
  have p: "psv_ready (bwv_state v)" "psv_rmo (bwv_state v) = Some bhyve_director_rmo" "psv_addr (bwv_state v) = a"
    using v(2) by (simp_all add: vm_wf_def)
  obtain x w1 where l: "bwv_linkconsoles v False w = (x, w1)" by (cases "bwv_linkconsoles v False w")
  have q1: "quiet w w1" by (rule linkconsoles_quiet [OF l])
  have lk1: "locks_ok (w_os w1)" "\<not> w_bd_mtx w1" using q1 locks v(3) by (simp_all add: quiet_dir)
  obtain x2 p2 w2 where o: "psv_onexit (bwv_state v) (ucast (WEXITSTATUS d)) w1 = (x2, p2, w2)"
    by (metis prod_cases3)
  have s2: "same_vm (bwv_state v) p2" "dir_step a w w2"
    using onexit_step [OF p(1,2) lk1 o] p(3) q1 quiet_step dir_step_trans by blast+
  have fl: "same_vm (bwv_state v) p3 \<and> dir_step a w w3"
    if "psv_failurestate (bwv_state v) u = (x3, p3, w3)" "quiet w1 u" for u x3 p3 w3
    using failurestate_quiet [OF p(1) that(1)] that(2) q1 quiet_step quiet_trans by metis
  obtain x4 p4 w4 where g: "psv_getpid (bwv_state v) w1 = (x4, p4, w4)" by (metis prod_cases3)
  note g' = getpid_quiet [OF p(1) lk1(1) g]
  obtain x5 p5 w5 where f5: "psv_failurestate (bwv_state v) w1 = (x5, p5, w5)" by (metis prod_cases3)
  obtain x6 p6 w6 where f6: "psv_failurestate (bwv_state v) w4 = (x6, p6, w6)" by (metis prod_cases3)
  have s5: "same_vm (bwv_state v) p5" "dir_step a w w5" using fl [OF f5] by simp_all
  have s6: "same_vm (bwv_state v) p6" "dir_step a w w6" using fl [OF f6] g' by simp_all
  have "keeps_vm a bd w bd' w'"
    using run ProcExit at l o g g' f5 f6 keeps_put_state [OF v(1) s2] keeps_put_state [OF v(1) s5]
      keeps_put_state [OF v(1) s6]
    by (auto simp: bd_kqueue_event_def Let_def split: if_splits)
  with mem ProcExit show ?thesis by (auto simp: bd_moves_def)
qed (use run in \<open>simp_all add: bd_kqueue_event_def\<close>)

lemma bd_do_moves:
  assumes wf: "bd_wf bd w" and locks: "locks_ok (w_os w)" and cgo: "cgo_quiet (bd_cgo bd)"
    and known: "bd_event_known (w_bd_statelist w) c" and run: "bd_do c (bd, w) = (bd', w')"
  shows "bd_moves c bd w bd' w'"
proof (cases c)
  case (BdStart n)
  obtain r b u where s: "bd_startvm bd (Some n) w = (r, b, u)" by (metis prod_cases3)
  with startvm_moves [OF wf locks cgo s] BdStart run show ?thesis by simp
next
  case (BdStop n)
  obtain r b u where s: "bd_stopvm bd (Some n) w = (r, b, u)" by (metis prod_cases3)
  with stopvm_moves [OF wf locks s] BdStop run show ?thesis by simp
next
  case (BdReset n)
  obtain r b u where s: "bd_resetfailvm bd (Some n) w = (r, b, u)" by (metis prod_cases3)
  with resetfailvm_moves [OF wf locks s] BdReset run show ?thesis by simp
next
  case (BdEvent ev)
  obtain r b u where s: "bd_kqueue_event ev bd w = (r, b, u)" by (metis prod_cases3)
  with event_moves [OF wf locks _ s] BdEvent run known show ?thesis by simp
qed

text \<open>What one call leaves as it was.\<close>

lemma bd_moves_keep:
  assumes wf: "bd_wf bd w" and m: "bd_moves c bd w bd' w'"
  shows "bd_wf bd' w' \<and> w_os w' = w_os w \<and> w_bd_statelist w' = w_bd_statelist w \<and> bd_cgo bd' = bd_cgo bd \<and>
    (\<forall>b \<in> set (w_bd_statelist w). bd_name bd' b = bd_name bd b) \<and>
    (\<forall>b \<in> set (w_bd_statelist w). \<not> bd_about c b (bd_name bd b) \<longrightarrow> bd_vms bd' b = bd_vms bd b)"
  using m [unfolded bd_moves_def]
proof
  assume s: "bd' = bd \<and> (\<forall>a. dir_step a w w') \<and> w_bd_rebootlist w' = w_bd_rebootlist w"
  then have "bd_wf bd' w'" using wf by (auto simp: bd_wf_def dir_step_def)
  with s show ?thesis by (auto simp: dir_step_def)
next
  assume "\<exists>a \<in> set (w_bd_statelist w). bd_about c a (bd_name bd a) \<and> keeps_vm a bd w bd' w'"
  then obtain a where a: "a \<in> set (w_bd_statelist w)" "bd_about c a (bd_name bd a)" "keeps_vm a bd w bd' w'"
    by blast
  have nm: "bd_name bd' b = bd_name bd b" for b
    using a(3) by (cases "b = a") (auto simp: keeps_vm_def bd_name_def vm_at_def)
  have other: "bd_vms bd' b = bd_vms bd b" if "\<not> bd_about c b (bd_name bd b)" for b
    using that a(2,3) by (cases "b = a") (auto simp: keeps_vm_def)
  have "w_os w' = w_os w" "w_bd_statelist w' = w_bd_statelist w" "bd_cgo bd' = bd_cgo bd"
    using a(3) by (simp_all add: keeps_vm_def dir_step_def)
  with keeps_wf [OF wf a(1,3)] nm other show ?thesis by simp
qed

section \<open>A concrete director\<close>

definition dirworld0 :: "os \<Rightarrow> nat list \<Rightarrow> dirworld" where
  "dirworld0 s as = \<lparr>w_os = s, w_tick = 0, w_errno = E0, w_trace = [],
     w_ldrs = \<lambda>_. None, w_clients = \<lambda>_. None, w_fresh = 50, w_bd_mtx = False, w_bd_statelist = as,
     w_bd_rebootlist = [], w_bd_reboot_state = 0, w_bd_msgcount = 0\<rparr>"

definition demo_vm :: "nat \<Rightarrow> string \<Rightarrow> bhyve_vmstate_t \<Rightarrow> int list \<Rightarrow> unit bhyve_watched_vm" where
  "demo_vm a n s startups =
     \<lparr>bwv_state =
        \<lparr>psv_addr = a, psv_pdo = \<lparr>pdo_ctx = pd_demo, pdo_funcs = pd_funcs\<rparr>,
         psv_sth = \<lparr>sth_current = node_of s, sth_vec = process_transition_list\<rparr>, psv_mtx = False,
         psv_rmo = Some bhyve_director_rmo, psv_ldr = None, psv_scriptpath = Some ''/vm'', psv_processid = 77\<rparr>,
      bwv_config = bc_zero\<lparr>bc_name := n, bc_maxrestart := 3, bc_maxrestarttime := 30\<rparr>,
      bwv_ldr = None, bwv_startups = startups\<rparr>"

definition demo_bd :: "bhyve_vmstate_t \<Rightarrow> int list \<Rightarrow> unit bhyve_director" where
  "demo_bd s startups = \<lparr>bd_kqueuefd = 9, bd_cgo = None, bd_ld = None,
     bd_vms = [(1::nat) \<mapsto> demo_vm 1 ''one'' s startups, 2 \<mapsto> demo_vm 2 ''two'' RUNNING []]\<rparr>"

lemma demo_at [simp]: "psv_at (bwv_state (demo_vm a n s t)) s"
  by (simp add: demo_vm_def psv_at_def)

lemma demo_wf [simp]: "vm_wf a (demo_vm a n s t)"
  using demo_at [of a n s t] unfolding vm_wf_def psv_ready_def by (auto simp: demo_vm_def)

lemma demo_bd_vms [simp]:
  "bd_vms (demo_bd s t) (Suc 0) = Some (demo_vm 1 ''one'' s t)" "vm_at (demo_bd s t) (Suc 0) = demo_vm 1 ''one'' s t"
  "bd_vms (demo_bd s t) 2 = Some (demo_vm 2 ''two'' RUNNING [])" "vm_at (demo_bd s t) 2 = demo_vm 2 ''two'' RUNNING []"
  "bd_cgo (demo_bd s t) = None"
  by (simp_all add: demo_bd_def vm_at_def)

lemma dirworld0_fields [simp]:
  "w_os (dirworld0 s as) = s" "\<not> w_bd_mtx (dirworld0 s as)" "w_bd_statelist (dirworld0 s as) = as"
  "w_bd_rebootlist (dirworld0 s as) = []" "w_bd_reboot_state (dirworld0 s as) = 0" "w_tick (dirworld0 s as) = 0"
  by (simp_all add: dirworld0_def)

lemma demo_bd_wf [simp]: "bd_wf (demo_bd s t) (dirworld0 q [Suc 0, 2])"
  using demo_wf [of 1] demo_wf [of 2] by (auto simp: bd_wf_def)

lemma demo_names [simp]: "bd_name (demo_bd s t) (Suc 0) = ''one''" "bd_name (demo_bd s t) 2 = ''two''"
  by (simp_all add: bd_name_def demo_vm_def bc_get_name_def)

lemma demo_find [simp]: "find_vm (demo_bd s t) ''one'' [Suc 0, 2] = Some (Suc 0)"
  by (simp add: find_vm_def flip: bd_name_def)

lemma cgo_quiet_None [simp]: "cgo_quiet None"
  by (simp add: cgo_quiet_def)

theorem bd_requestreboot_spec_witness:
  "\<exists>v. bd_requestreboot 2 (dirworld0 calm_os [1, 2]) = Some (0, v) \<and> w_bd_rebootlist v = [2]"
  using bd_requestreboot_spec [of "dirworld0 calm_os [1, 2]" 2] by (auto simp: calm_os_def locks_ok_def)

section \<open>Isolation\<close>



end
