(* ===== verification/Director_Restart.thy ===== *)
theory Director_Restart
  imports Director_Rules
begin

text \<open>
  Properties of the director's restart handling: the accounting of start times, what the start
  command does when the process comes up, vanishes or dies at once, and the restart thread.
\<close>

section \<open>Start times\<close>

lemma drop_before_dropWhile: "drop_before d ts = dropWhile (\<lambda>t. t < d) ts"
  by (induction ts) simp_all

lemma count_startups_length: "count_startups ts c = c + of_nat (length ts)"
  by (induction ts arbitrary: c) simp_all

lemma sorted_drop_filter: "sorted ts \<Longrightarrow> dropWhile (\<lambda>t. t < d) ts = filter (\<lambda>t. d \<le> t) ts"
proof (induction ts)
  case (Cons t ts)
  have "filter (\<lambda>t. d \<le> t) ts = ts" if "d \<le> t"
    using that Cons.prems by (intro filter_True) auto
  with Cons show ?case by (auto simp: not_less)
qed simp

lemma is_countfail_val:
  fixes w :: "'m world_scheme"
  assumes "length (bwv_startups v) < 2 ^ 32"
  shows "\<exists>w'. bwv_is_countfail v w =
    (let rest = drop_before (os_time (w_os w) (w_tick w) - bc_get_maxrestarttime (bwv_config v)) (bwv_startups v)
     in (unat (bc_get_maxrestart (bwv_config v)) < length rest, v\<lparr>bwv_startups := rest\<rparr>, w')) \<and>
    w_os w' = w_os w"
proof -
  let ?rest = "drop_before (os_time (w_os w) (w_tick w) - bc_get_maxrestarttime (bwv_config v)) (bwv_startups v)"
  have "length ?rest \<le> length (bwv_startups v)"
    by (simp add: drop_before_dropWhile length_dropWhile_le)
  then have "unat (of_nat (length ?rest) :: u32) = length ?rest"
    using assms by (simp add: unat_of_nat)
  then show ?thesis
    by (simp add: bwv_is_countfail_def bwv_countrestarts_since_def sys_time_def ask_def
        count_startups_length word_less_nat_alt Let_def)
qed

text \<open>C24: With the start times in order and less than \<open>2 ^ 32\<close> of them, a vm counts as failed exactly
  when more than \<open>maxrestart\<close> starts lie at or after the point \<open>maxrestarttime\<close> seconds ago; start
  times before that point are forgotten and nothing else of the vm changes.\<close>

theorem bwv_is_countfail_spec:
  fixes w :: "'m world_scheme"
  assumes "sorted (bwv_startups v)" and "length (bwv_startups v) < 2 ^ 32"
    and "since = os_time (w_os w) (w_tick w) - bc_get_maxrestarttime (bwv_config v)"
  shows "\<exists>w'. bwv_is_countfail v w =
    (unat (bc_get_maxrestart (bwv_config v)) < length (filter (\<lambda>t. since \<le> t) (bwv_startups v)),
     v\<lparr>bwv_startups := filter (\<lambda>t. since \<le> t) (bwv_startups v)\<rparr>, w')"
  using is_countfail_val [OF assms(2), of w] assms(1,3)
  by (auto simp: drop_before_dropWhile sorted_drop_filter Let_def)

theorem bwv_is_countfail_spec_witness:
  "\<exists>w'. bwv_is_countfail (demo_vm 1 ''one'' INIT [5, 71, 80, 85, 90]) (world0 (calm_os\<lparr>os_time := \<lambda>_. 100\<rparr>)) =
    (True, demo_vm 1 ''one'' INIT [71, 80, 85, 90], w')"
proof -
  let ?v = "demo_vm 1 ''one'' INIT [5, 71, 80, 85, 90]"
  let ?w = "world0 (calm_os\<lparr>os_time := \<lambda>_. 100\<rparr>)"
  have s: "(70::int) = os_time (w_os ?w) (w_tick ?w) - bc_get_maxrestarttime (bwv_config ?v)"
    by (simp add: world0_def demo_vm_def bc_get_maxrestarttime_def)
  have "sorted (bwv_startups ?v)" "length (bwv_startups ?v) < 2 ^ 32" by (simp_all add: demo_vm_def)
  from bwv_is_countfail_spec [OF this s]
  show ?thesis by (simp add: demo_vm_def bc_get_maxrestart_def)
qed

text \<open>The number of start times the director keeps for a vm.\<close>

definition starts_bounded :: "'m bhyve_watched_vm \<Rightarrow> bool" where
  "starts_bounded v \<longleftrightarrow> length (bwv_startups v) \<le> unat (bc_get_maxrestart (bwv_config v)) + 1 \<and>
     unat (bc_get_maxrestart (bwv_config v)) + 1 < 2 ^ 32"

lemma starts_put_state [simp]:
  "starts_bounded (vm_at (put_state a p bd) b) = starts_bounded (vm_at bd b)"
  by (simp add: put_state_def starts_bounded_def)

lemma starts_put_vm:
  "starts_bounded (vm_at bd b) \<Longrightarrow> (a = b \<Longrightarrow> starts_bounded v) \<Longrightarrow> starts_bounded (vm_at (put_vm a v bd) b)"
  by auto

lemma starts_start_watch [simp]:
  "starts_bounded (vm_at (fst (snd (bd_start_watch bd a pid w))) b) = starts_bounded (vm_at bd b)"
  by (simp add: bd_start_watch_def Let_def split_def)

lemma starts_start_launch [simp]:
  "starts_bounded (vm_at (fst (snd (bd_start_launch bd a w))) b) = starts_bounded (vm_at bd b)"
  by (simp add: bd_start_launch_def Let_def split_def)

lemma starts_generate:
  "bwv_generate_config v cgo w = (r, v', w') \<Longrightarrow> starts_bounded v' = starts_bounded v"
  by (auto simp: bwv_generate_config_def starts_bounded_def Let_def split: option.splits prod.splits if_splits)

lemma starts_startvm:
  assumes b: "starts_bounded (vm_at bd b)" and run: "bd_startvm bd (Some n) w = (r, bd', w')"
  shows "starts_bounded (vm_at bd' b)"
proof -
  obtain found w1 where g: "bd_getvmbyname bd n w = (found, w1)" by (cases "bd_getvmbyname bd n w")
  show ?thesis
  proof (cases found)
    case None
    with g run b show ?thesis by (auto simp: bd_startvm_def)
  next
    case (Some a)
    obtain many v1 w2 where c: "bwv_is_countfail (vm_at bd a) w1 = (many, v1, w2)" by (metis prod_cases3)
    obtain t v2 w3 where t: "bwv_timestamp v1 w2 = (t, v2, w3)" by (metis prod_cases3)
    obtain q v3 w4 where ge: "bwv_generate_config v2 (bd_cgo bd) w3 = (q, v3, w4)" by (metis prod_cases3)
    obtain r5 bd5 w5 where l: "bd_start_launch (put_vm a v3 (put_vm a v1 bd)) a w4 = (r5, bd5, w5)"
      by (metis prod_cases3)
    have v1: "starts_bounded v1 \<and> (\<not> many \<longrightarrow> starts_bounded v2)" if "a = b"
    proof -
      have bound: "length (bwv_startups (vm_at bd a)) \<le> unat (bc_get_maxrestart (bwv_config (vm_at bd a))) + 1"
        "unat (bc_get_maxrestart (bwv_config (vm_at bd a))) + 1 < 2 ^ 32"
        using b that by (auto simp: starts_bounded_def)
      then have "length (bwv_startups (vm_at bd a)) < 2 ^ 32" by simp
      from is_countfail_val [OF this, of w1] c bound length_dropWhile_le [of _ "bwv_startups (vm_at bd a)"]
      have "bwv_config v1 = bwv_config (vm_at bd a)" "length (bwv_startups v1) \<le> length (bwv_startups (vm_at bd a))"
        "\<not> many \<longrightarrow> length (bwv_startups v1) \<le> unat (bc_get_maxrestart (bwv_config v1))"
        by (auto simp: Let_def drop_before_dropWhile not_less)
      with bound t show ?thesis
        by (auto simp: starts_bounded_def bwv_timestamp_def Let_def split: prod.splits if_splits)
    qed
    have "starts_bounded (vm_at (put_vm a v1 bd) b)" using b v1 by (intro starts_put_vm) auto
    moreover have "starts_bounded (vm_at (put_vm a v3 (put_vm a v1 bd)) b)" if "\<not> many"
      using b v1 that starts_generate [OF ge] by (intro starts_put_vm) auto
    moreover have "starts_bounded (vm_at bd5 b)" if "\<not> many"
      using calculation(2) [OF that] starts_start_launch [of _ a w4 b] l by (metis fst_conv snd_conv)
    ultimately show ?thesis
      using run g Some c t ge l b v1
      by (auto simp: bd_startvm_def Let_def split: prod.splits if_splits)
  qed
qed

lemma starts_do: "starts_bounded (vm_at bd b) \<Longrightarrow> starts_bounded (vm_at (fst (bd_do c (bd, w))) b)"
proof (cases c)
  case (BdStart n)
  assume "starts_bounded (vm_at bd b)"
  with BdStart show ?thesis by (metis bd_do.simps(1) prod.collapse starts_startvm)
qed (auto simp: bd_stopvm_def bd_resetfailvm_def bd_kqueue_event_def Let_def split: prod.splits option.splits
    proc_event.splits if_splits)

text \<open>C25: The director never remembers more than \<open>maxrestart + 1\<close> start times of a vm, whatever
  commands and events come in whatever order, so its list cannot grow without bound and the 32-bit
  counter of \<open>bwv_countrestarts_since\<close> cannot wrap (for a limit below \<open>2 ^ 32 - 1\<close>).\<close>

theorem bd_starts_bounded:
  assumes "starts_bounded (vm_at bd a)"
  shows "starts_bounded (vm_at (fst (fold bd_do calls (bd, w))) a)"
  using assms
proof (induction calls arbitrary: bd w)
  case (Cons c calls)
  obtain bd1 w1 where c: "bd_do c (bd, w) = (bd1, w1)" by (cases "bd_do c (bd, w)")
  with starts_do [OF Cons.prems, of c w] Cons.IH [of bd1 w1] show ?case by simp
qed simp

theorem bd_starts_bounded_witness:
  "starts_bounded (vm_at (fst (fold bd_do (replicate 9 (BdStart ''one'')) (demo_bd INIT [1, 2, 3], dirworld0 calm_os [1, 2]))) 1)"
proof (rule bd_starts_bounded)
  have "vm_at (demo_bd INIT [1, 2, 3]) 1 = demo_vm 1 ''one'' INIT [1, 2, 3]" by simp
  then show "starts_bounded (vm_at (demo_bd INIT [1, 2, 3]) 1)"
    by (simp only:) (simp add: starts_bounded_def demo_vm_def bc_get_maxrestart_def)
qed

end
