(* ===== verification/Director_Cycle.thy ===== *)
theory Director_Cycle
  imports Director_Restart
begin

text \<open>
  What the start command of the director does once the process exists, and the way from the exit of
  a process over the restart queue back to a running vm.
\<close>

section \<open>Steps\<close>

lemma requestreboot_hit:
  fixes w :: "'m dirworld_scheme"
  assumes "locks_ok (w_os w)" and "\<not> w_bd_mtx w" and "\<forall>n. os_cond (w_os w) n" and "a \<in> set (w_bd_statelist w)"
  shows "\<exists>v. bhyve_director_rmo a w = (0, v) \<and> w_bd_rebootlist v = w_bd_rebootlist w @ [a] \<and>
    w_bd_statelist v = w_bd_statelist w \<and> \<not> w_bd_mtx v \<and> w_bd_reboot_state v = w_bd_reboot_state w \<and>
    w_os v = w_os w"
proof -
  let ?w1 = "(tock w)\<lparr>w_bd_mtx := True\<rparr>"
  let ?w2 = "?w1\<lparr>w_bd_rebootlist := w_bd_rebootlist w @ [a]\<rparr>"
  have l: "bd_lock w = (False, ?w1)" using assms(1,2) by (rule bd_lock_ok)
  have c: "sys_cond ?w2 = (True, tock ?w2)" using assms(3) by (simp add: sys_cond_def ask_def)
  have u: "bd_unlock (tock ?w2) = (False, (tock (tock ?w2))\<lparr>w_bd_mtx := False\<rparr>)"
    using assms(1) by (simp add: bd_unlock_ok)
  show ?thesis using l c u assms(4) by (simp add: bhyve_director_rmo_def bd_requestreboot_def Let_def)
qed

text \<open>A running vm whose process ends with code 0 waits in \<open>RESTART_STOPPED\<close> and in the queue.\<close>

lemma onexit_queues:
  fixes w :: "'m dirworld_scheme"
  assumes at: "psv_at p RUNNING" and free: "\<not> psv_mtx p" and rmo: "psv_rmo p = Some bhyve_director_rmo"
    and scripts: "scripts_ok (w_os w) p" and locks: "locks_ok (w_os w)" and mtx: "\<not> w_bd_mtx w"
    and cond: "\<forall>n. os_cond (w_os w) n" and mem: "psv_addr p \<in> set (w_bd_statelist w)"
  shows "\<exists>v. psv_onexit p 0 w = (0, psv_goto p RESTART_STOPPED, v) \<and>
    w_bd_rebootlist v = w_bd_rebootlist w @ [psv_addr p] \<and> w_bd_statelist v = w_bd_statelist w \<and>
    \<not> w_bd_mtx v \<and> w_bd_reboot_state v = w_bd_reboot_state w \<and> w_os v = w_os w"
proof -
  let ?ss = "[PRESTOP_BEFORE_RESTART, RESTARTING, RESTART_STOPPED]"
  obtain w1 where k: "psv_walk ?ss p w = (0, psv_goto p RESTART_STOPPED, w1)"
    using walk_ok [OF at _ scripts, of ?ss] by (auto simp: vm_step.intros)
  have "psv_ready p" using at free by (auto simp: psv_ready_def)
  from walk_quiet [OF this k] have q: "quiet w w1" by simp
  have "locks_ok (w_os w1)" "\<not> w_bd_mtx w1" "\<forall>n. os_cond (w_os w1) n" "psv_addr p \<in> set (w_bd_statelist w1)"
    using q locks mtx cond mem by (simp_all add: quiet_dir)
  from requestreboot_hit [OF this] obtain v where
    v: "bhyve_director_rmo (psv_addr p) w1 = (0, v)" "w_bd_rebootlist v = w_bd_rebootlist w1 @ [psv_addr p]"
      "w_bd_statelist v = w_bd_statelist w1" "\<not> w_bd_mtx v" "w_bd_reboot_state v = w_bd_reboot_state w1"
      "w_os v = w_os w1" by blast
  have "psv_onexit p 0 w = (0, psv_goto p RESTART_STOPPED, v)"
    using psv_getstate_at [OF at] k v(1) rmo
    by (simp add: psv_onexit_def psv_exit_switch_def psv_exit_reboot_def Let_def del: vmstate_code.simps)
  with v q show ?thesis by (auto simp: quiet_dir)
qed

text \<open>The system answers with which a started process stays: memory, processes, scripts and queues
  work, and the process can be signalled and has not ended.\<close>

definition start_works :: "os \<Rightarrow> 'm vm_state \<Rightarrow> bool" where
  "start_works s p \<longleftrightarrow> locks_ok s \<and> scripts_ok s p \<and> (\<forall>n. 0 < os_fork s n) \<and> (\<forall>n q. os_kill s n q) \<and>
     (\<forall>n q. fst (os_waitnb s n q) = 0) \<and> (\<forall>n. os_kevent s n)"

lemma start_watch_alive:
  assumes "start_works (w_os w) p" and "pid \<noteq> 0"
  shows "\<exists>w'. bd_start_watch bd a pid w = (0, bd, w') \<and> seen (Watched pid a) w' \<and> quiet w w'"
  using assms
  by (auto simp: start_works_def bd_start_watch_def sys_kill_def sys_try_def sys_waitnb_def sys_do_def
      ask_def quiet_def Let_def split_def)

lemma launch_works:
  fixes w :: "'m logworld_scheme"
  assumes "\<forall>n. 0 < os_fork (w_os w) n"
  shows "fst (pdf_launch_redirected pd_funcs d None w) = 0"
proof -
  have "0 < os_fork (w_os w) (w_tick w)" using assms by simp
  then show ?thesis
    by (simp add: pd_funcs_def pd_launch_redirected_def sys_fork_def ask_def Let_def split_def)
qed

lemma start_launch_runs:
  fixes w :: "'m dirworld_scheme"
  assumes ok: "vm_ok bd a w" and v: "bd_vms bd a = Some v" and at: "psv_at (bwv_state v) s"
    and s: "s \<in> {INIT, STOPPED, RESTART_STOPPED}" and works: "start_works (w_os w) (bwv_state v)"
    and ldr: "bwv_ldr v = None" "psv_ldr (bwv_state v) = None"
  shows "\<exists>pid w'. bd_start_launch bd a w =
      (0, put_state a ((psv_goto (bwv_state v) RUNNING)\<lparr>psv_processid := pid\<rparr>) bd, w') \<and>
    0 < pid \<and> seen (Watched pid a) w' \<and> quiet w w'"
proof -
  let ?p = "bwv_state v"
  have vm: "vm_at bd a = v" using v by (simp add: vm_at_def)
  have wf: "psv_ready ?p" "pdo_funcs (psv_pdo ?p) = pd_funcs"
    using ok v by (auto simp: vm_ok_def vm_wf_def)
  then have free: "psv_mtx ?p = False" by (simp add: psv_ready_def)
  obtain x w1 where l: "bwv_linkconsoles v True w = (x, w1)" by (cases "bwv_linkconsoles v True w")
  have q1: "quiet w w1" by (rule linkconsoles_quiet [OF l])
  then have os1: "w_os w1 = w_os w" by (simp add: quiet_def)
  have sys: "locks_ok (w_os w1)" "scripts_ok (w_os w1) ?p" "\<forall>n. 0 < os_fork (w_os w1) n"
    using works os1 by (simp_all add: start_works_def)
  have fn: "pdf_launch_redirected (pdo_funcs (psv_pdo ?p)) = pdf_launch_redirected pd_funcs"
    using wf(2) by simp
  have la: "fst (pdf_launch_redirected pd_funcs d None u) = 0" if "w_os u = w_os w1" for d u
    using launch_works sys(3) that by metis
  from pdl.startvm_ok [OF at s free sys(1,2) fn, of None] la ldr obtain pid w2 where
    st: "psv_startvm ?p None w1 = (0, Some pid, (psv_goto ?p RUNNING)\<lparr>psv_processid := pid\<rparr>, w2)"
      "pid \<in> range (os_fork (w_os w1))" by auto
  have pid: "0 < pid" using st(2) sys(3) by auto
  from startvm_quiet [OF wf sys(1) st(1)] q1 have q2: "quiet w w2" using quiet_trans by blast
  let ?bd1 = "put_state a ((psv_goto ?p RUNNING)\<lparr>psv_processid := pid\<rparr>) bd"
  from q2 works have "start_works (w_os w2) ?p" by (simp add: quiet_def)
  from start_watch_alive [OF this, of pid ?bd1 a] pid obtain w3 where
    "bd_start_watch ?bd1 a pid w2 = (0, ?bd1, w3)" "seen (Watched pid a) w3" "quiet w2 w3" by auto
  then show ?thesis
    using l st(1) vm ldr pid q2 quiet_trans
    by (auto simp: bd_start_launch_def Let_def)
qed

section \<open>The start command\<close>

text \<open>What a start that works leaves behind: the vm runs with a pid that is being watched, and one start
  time has been added to those still counting.\<close>

definition runs_again :: "'m bhyve_director \<Rightarrow> nat \<Rightarrow> 'm bhyve_director \<Rightarrow> 'm dirworld_scheme \<Rightarrow> bool" where
  "runs_again bd a bd' w' \<longleftrightarrow>
     (\<exists>pid. 0 < pid \<and> seen (Watched pid a) w' \<and>
       bwv_state (vm_at bd' a) = (psv_goto (bwv_state (vm_at bd a)) RUNNING)\<lparr>psv_processid := pid\<rparr>) \<and>
     (\<forall>b. b \<noteq> a \<longrightarrow> bd_vms bd' b = bd_vms bd b)"

lemma startvm_runs:
  fixes w :: "'m dirworld_scheme"
  assumes wf: "bd_wf bd w" and a: "find_vm bd n (w_bd_statelist w) = Some a" and v: "bd_vms bd a = Some v"
    and at: "psv_at (bwv_state v) s" and s: "s \<in> {INIT, STOPPED, RESTART_STOPPED}"
    and works: "start_works (w_os w) (bwv_state v)" and cgo: "bd_cgo bd = None"
    and ldr: "bwv_ldr v = None" "psv_ldr (bwv_state v) = None"
    and few: "length (bwv_startups v) \<le> unat (bc_get_maxrestart (bwv_config v))"
  shows "\<exists>bd' w'. bd_startvm bd (Some n) w = (0, bd', w') \<and> runs_again bd a bd' w' \<and>
    w_os w' = w_os w \<and> w_bd_mtx w' = w_bd_mtx w \<and> w_bd_statelist w' = w_bd_statelist w \<and>
    w_bd_rebootlist w' = w_bd_rebootlist w \<and> w_bd_reboot_state w' = w_bd_reboot_state w"
proof -
  have locks: "locks_ok (w_os w)" and free: "\<not> w_bd_mtx w"
    using works wf by (simp_all add: start_works_def bd_wf_def)
  have vm: "vm_at bd a = v" using v by (simp add: vm_at_def)
  have ok: "vm_ok bd a w" using wf locks find_vm_in [OF a] by (auto simp: vm_ok_def bd_wf_def)
  let ?w1 = "(tock ((tock w)\<lparr>w_bd_mtx := True\<rparr>))\<lparr>w_bd_mtx := False\<rparr>"
  have g: "bd_getvmbyname bd n w = (Some a, ?w1)"
    using locks free a by (simp add: bd_getvmbyname_def bd_lock_ok bd_unlock_ok)
  have lim: "length (bwv_startups v) < 2 ^ 32"
    using few unsigned_less [of "bc_get_maxrestart (bwv_config v)", where ?'a = nat] by simp
  define rest where "rest = drop_before (os_time (w_os ?w1) (w_tick ?w1) - bc_get_maxrestarttime (bwv_config v)) (bwv_startups v)"
  have "length rest \<le> length (bwv_startups v)"
    by (simp add: rest_def drop_before_dropWhile length_dropWhile_le)
  then have nf: "\<not> unat (bc_get_maxrestart (bwv_config v)) < length rest" using few by simp
  obtain w2 where c0: "bwv_is_countfail v ?w1 =
      (unat (bc_get_maxrestart (bwv_config v)) < length rest, v\<lparr>bwv_startups := rest\<rparr>, w2)"
    using is_countfail_val [OF lim, of ?w1] unfolding rest_def by (auto simp: Let_def)
  then have c: "bwv_is_countfail v ?w1 = (False, v\<lparr>bwv_startups := rest\<rparr>, w2)" using nf by simp
  have q2: "quiet ?w1 w2"
    using c0 by (auto simp: bwv_is_countfail_def bwv_countrestarts_since_def quiet_def sys_time_def ask_def Let_def
        split: if_splits)
  obtain t v3 w3 where ts: "bwv_timestamp (v\<lparr>bwv_startups := rest\<rparr>) w2 = (t, v3, w3)" by (metis prod_cases3)
  have v3: "bwv_state v3 = bwv_state v" "bwv_ldr v3 = bwv_ldr v" "quiet w2 w3"
    using ts frame_os(5) [of w2] more_sys(7) [of w2]
    by (auto simp: bwv_timestamp_def quiet_def Let_def split_def sys_time_def ask_def split: if_splits)
  have q3: "quiet ?w1 w3" using q2 v3(3) by (rule quiet_trans)
  have dir3: "w_os w3 = w_os w" "w_bd_mtx w3 = w_bd_mtx w" "w_bd_statelist w3 = w_bd_statelist w"
    "w_bd_rebootlist w3 = w_bd_rebootlist w" "w_bd_reboot_state w3 = w_bd_reboot_state w"
    using quiet_dir [OF q3] free by simp_all
  let ?bd2 = "put_vm a v3 (put_vm a (v\<lparr>bwv_startups := rest\<rparr>) bd)"
  have "vm_wf a v" using ok v by (auto simp: vm_ok_def)
  then have ok2: "vm_ok ?bd2 a w3" using v3(1) dir3 locks free by (simp add: vm_ok_def vm_wf_def)
  obtain pid w4 where l: "bd_start_launch ?bd2 a w3 =
      (0, put_state a ((psv_goto (bwv_state v3) RUNNING)\<lparr>psv_processid := pid\<rparr>) ?bd2, w4)"
      "0 < pid" "seen (Watched pid a) w4" "quiet w3 w4"
    using start_launch_runs [OF ok2, of v3 s] at s works ldr v3 dir3 by auto
  have st: "\<not> psv_is_failurestate (Some (bwv_state v))"
    using s psv_getstate_at [OF at] by (auto simp: psv_is_failurestate_def simp del: vmstate_code.simps)
  let ?bd' = "put_state a ((psv_goto (bwv_state v3) RUNNING)\<lparr>psv_processid := pid\<rparr>) ?bd2"
  have "bd_startvm bd (Some n) w = (0, ?bd', w4)"
    using g c ts l(1) vm st cgo
    by (simp add: bd_startvm_def bwv_generate_config_def Let_def)
  moreover have "runs_again bd a ?bd' w4"
    using l(2,3) v3(1) vm by (auto simp: runs_again_def put_state_def)
  ultimately show ?thesis using quiet_dir [OF l(4)] dir3 by auto
qed

text \<open>C17: With the system in order, the start command on a vm that may start, that has not been started
  too often (at most \<open>maxrestart\<close> start times on record), whose output is not redirected and for which
  no file has to be generated returns 0, and the vm runs: its state is \<open>RUNNING\<close>, its pid is that of the new process, the kernel queue watches
  that pid, no other vm changes, and nothing is queued for restart.\<close>

theorem bd_startvm_running:
  fixes w :: "'m dirworld_scheme"
  assumes "bd_wf bd w" and "find_vm bd n (w_bd_statelist w) = Some a" and "bd_vms bd a = Some v"
    and "psv_at (bwv_state v) s" and "s \<in> {INIT, STOPPED, RESTART_STOPPED}"
    and "start_works (w_os w) (bwv_state v)" and "bd_cgo bd = None"
    and "bwv_ldr v = None" and "psv_ldr (bwv_state v) = None"
    and "length (bwv_startups v) \<le> unat (bc_get_maxrestart (bwv_config v))"
  shows "\<exists>bd' w'. bd_startvm bd (Some n) w = (0, bd', w') \<and> runs_again bd a bd' w' \<and>
    w_bd_rebootlist w' = w_bd_rebootlist w"
  using startvm_runs [OF assms] by blast

lemma demo_start_works: "start_works calm_os (bwv_state (demo_vm a n s t))"
proof -
  have "psv_ldr (bwv_state (demo_vm a n s t)) = None" by (simp add: demo_vm_def)
  from scripts_ok_exit0 [OF this, of calm_os] have "scripts_ok calm_os (bwv_state (demo_vm a n s t))"
    by (simp add: calm_os_def)
  then show ?thesis by (simp add: start_works_def locks_ok_def calm_os_def)
qed

lemma demo_fields [simp]:
  "bwv_ldr (demo_vm a n s t) = None" "psv_ldr (bwv_state (demo_vm a n s t)) = None"
  "bwv_startups (demo_vm a n s t) = t" "bc_get_maxrestart (bwv_config (demo_vm a n s t)) = 3"
  "psv_processid (bwv_state (demo_vm a n s t)) = 77" "psv_addr (bwv_state (demo_vm a n s t)) = a"
  "psv_rmo (bwv_state (demo_vm a n s t)) = Some bhyve_director_rmo" "\<not> psv_mtx (bwv_state (demo_vm a n s t))"
  by (simp_all add: demo_vm_def bc_get_maxrestart_def)

theorem bd_startvm_running_witness:
  "\<exists>bd' w'. bd_startvm (demo_bd STOPPED [3, 4]) (Some ''one'') (dirworld0 calm_os [1, 2]) = (0, bd', w') \<and>
     runs_again (demo_bd STOPPED [3, 4]) 1 bd' w'"
proof -
  let ?w = "dirworld0 calm_os [1, 2]"
  have "\<exists>bd' w'. bd_startvm (demo_bd STOPPED [3, 4]) (Some ''one'') ?w = (0, bd', w') \<and>
      runs_again (demo_bd STOPPED [3, 4]) 1 bd' w' \<and> w_bd_rebootlist w' = w_bd_rebootlist ?w"
    by (rule bd_startvm_running [where v = "demo_vm 1 ''one'' STOPPED [3, 4]" and s = STOPPED])
       (use demo_start_works in simp_all)
  then show ?thesis by blast
qed

section \<open>A process that ends at once\<close>

text \<open>A process that a signal ended before the director registered it (a crash right after the start)
  is treated like an exit with code 0: the exit code field of such a status word is 0, so the vm goes
  to \<open>RESTART_STOPPED\<close> and into the restart queue instead of \<open>FAILED\<close>; the caller gets
  \<open>BD_ERR_VMSTARTDIEDIM\<close>.\<close>

theorem bd_start_watch_signal:
  fixes w :: "'m dirworld_scheme"
  assumes "vm_ok bd a w" and "bd_vms bd a = Some v" and "a \<in> set (w_bd_statelist w)"
    and "psv_at (bwv_state v) RUNNING" and "scripts_ok (w_os w) (bwv_state v)" and "\<forall>n. os_cond (w_os w) n"
    and "\<forall>n. os_kill (w_os w) n pid" and "\<forall>n. os_waitnb (w_os w) n pid = (pid, st)" and "0 \<le> pid"
    and "WIFSIGNALED st" and "WEXITSTATUS st = 0"
  shows "\<exists>bd' w'. bd_start_watch bd a pid w = (BD_ERR_VMSTARTDIEDIM, bd', w') \<and>
    bwv_state (vm_at bd' a) = psv_goto (bwv_state v) RESTART_STOPPED \<and>
    w_bd_rebootlist w' = w_bd_rebootlist w @ [a]"
proof -
  let ?w2 = "tock (tock (set_errno E0 w))"
  have vm: "vm_at bd a = v" using assms(2) by (simp add: vm_at_def)
  have p: "\<not> psv_mtx (bwv_state v)" "psv_rmo (bwv_state v) = Some bhyve_director_rmo"
    "psv_addr (bwv_state v) = a" "locks_ok (w_os w)" "\<not> w_bd_mtx w"
    using assms(1,2) by (auto simp: vm_ok_def vm_wf_def psv_ready_def)
  have k: "sys_kill pid False (set_errno E0 w) = (True, tock (set_errno E0 w))"
    using assms(7) by (simp add: sys_kill_def sys_try_def ask_def)
  have n: "sys_waitnb pid (tock (set_errno E0 w)) = ((pid, st), ?w2)"
    using assms(8,9) by (simp add: sys_waitnb_def ask_def)
  obtain u where o: "psv_onexit (bwv_state v) 0 ?w2 = (0, psv_goto (bwv_state v) RESTART_STOPPED, u)"
      "w_bd_rebootlist u = w_bd_rebootlist ?w2 @ [a]"
    using onexit_queues [OF assms(4) p(1,2), of ?w2] assms(3,5,6) p(3-5) by auto
  show ?thesis
    using k n o vm assms(10,11) by (simp add: bd_start_watch_def put_state_def Let_def)
qed

theorem bd_start_watch_signal_witness:
  "\<exists>bd' w'. bd_start_watch (demo_bd RUNNING []) 1 77
      (dirworld0 (calm_os\<lparr>os_waitnb := \<lambda>_ q. (q, 11)\<rparr>) [1, 2]) = (BD_ERR_VMSTARTDIEDIM, bd', w') \<and>
    w_bd_rebootlist w' = [1]"
proof -
  let ?s = "calm_os\<lparr>os_waitnb := \<lambda>_ q. (q, 11)\<rparr>"
  have "locks_ok ?s" by (simp add: locks_ok_def calm_os_def)
  then have a: "vm_ok (demo_bd RUNNING []) 1 (dirworld0 ?s [1, 2])"
    using demo_wf [of 1] by (simp add: vm_ok_def)
  have "scripts_ok ?s (bwv_state (demo_vm 1 ''one'' RUNNING []))"
    by (rule scripts_ok_exit0) (simp_all add: calm_os_def)
  moreover have "WIFSIGNALED 11" "WEXITSTATUS 11 = 0"
    by (simp_all add: WIFSIGNALED_def WEXITSTATUS_def wstatus_def)
  moreover have "\<forall>n. os_cond ?s n" "\<forall>n q. os_kill ?s n q" by (simp_all add: calm_os_def)
  ultimately show ?thesis
    using bd_start_watch_signal [OF a, of "demo_vm 1 ''one'' RUNNING []" 77 11] by fastforce
qed

text \<open>When the started process cannot be found right after the start, the director treats it as
  failed (exit code 4, so the vm goes to \<open>FAILED\<close> and its pid is cleared) and yet reports success:
  the result is 0.\<close>

theorem bd_start_watch_vanished:
  fixes w :: "'m dirworld_scheme"
  assumes "vm_ok bd a w" and "bd_vms bd a = Some v" and "psv_at (bwv_state v) RUNNING"
    and "scripts_ok (w_os w) (bwv_state v)" and "\<forall>n. \<not> os_kill (w_os w) n pid"
  shows "\<exists>bd' w'. bd_start_watch bd a pid w = (0, bd', w') \<and>
    bwv_state (vm_at bd' a) = (psv_goto (bwv_state v) FAILED)\<lparr>psv_processid := 0\<rparr>"
proof -
  let ?w1 = "set_errno ESYS (tock (set_errno E0 w))" and ?p = "bwv_state v"
  have vm: "vm_at bd a = v" using assms(2) by (simp add: vm_at_def)
  have p: "psv_mtx ?p = False" "locks_ok (w_os w)"
    using assms(1,2) by (auto simp: vm_ok_def vm_wf_def psv_ready_def)
  have k: "sys_kill pid False (set_errno E0 w) = (False, ?w1)"
    using assms(5) by (simp add: sys_kill_def sys_try_def ask_def)
  obtain w3 where f: "psv_failurestate ?p ?w1 = (0, psv_goto ?p FAILED, w3)" "carries ?w1 w3"
    using failurestate_ok [OF assms(3), of UNIV ?w1] assms(4) by auto
  have os3: "w_os w3 = w_os w" using f(2) by (simp add: carries_os)
  have lk: "mutex_lock False w3 = (False, True, tock w3)"
    "mutex_unlock True (tock w3) = (False, False, tock (tock w3))"
    using p(2) os3 by (simp_all add: lock_os_ok unlock_os_ok)
  have "(psv_goto ?p FAILED)\<lparr>psv_processid := 0, psv_mtx := False\<rparr> = (psv_goto ?p FAILED)\<lparr>psv_processid := 0\<rparr>"
    using p(1) by (simp add: psv_goto_def)
  then have "psv_onexit ?p 4 ?w1 = (0, (psv_goto ?p FAILED)\<lparr>psv_processid := 0\<rparr>, tock (tock w3))"
    using f(1) lk p(1) psv_getstate_at [OF assms(3)]
    by (simp add: psv_onexit_def psv_exit_switch_def Let_def del: vmstate_code.simps)
  with k vm show ?thesis by (simp add: bd_start_watch_def put_state_def Let_def)
qed

theorem bd_start_watch_vanished_witness:
  "\<exists>bd' w'. bd_start_watch (demo_bd RUNNING []) 1 77
      (dirworld0 (calm_os\<lparr>os_kill := \<lambda>_ _. False\<rparr>) [1, 2]) = (0, bd', w') \<and>
    psv_at (bwv_state (vm_at bd' 1)) FAILED"
proof -
  let ?s = "calm_os\<lparr>os_kill := \<lambda>_ _. False\<rparr>"
  have "locks_ok ?s" by (simp add: locks_ok_def calm_os_def)
  then have a: "vm_ok (demo_bd RUNNING []) 1 (dirworld0 ?s [1, 2])"
    using demo_wf [of 1] by (simp add: vm_ok_def)
  have "scripts_ok ?s (bwv_state (demo_vm 1 ''one'' RUNNING []))"
    by (rule scripts_ok_exit0) (simp_all add: calm_os_def)
  with bd_start_watch_vanished [OF a, of "demo_vm 1 ''one'' RUNNING []" 77] show ?thesis by fastforce
qed

section \<open>The restart thread\<close>

text \<open>When the restart thread wakes up with an empty queue it goes to sleep again, whatever
  \<open>reboot_state\<close> says: it looks at that flag only while it takes vms from the queue. The wake-up that
  \<open>bd_free\<close> sends to end the thread is lost, and \<open>bd_free\<close> waits for the thread.\<close>

theorem restart_round_misses_shutdown:
  fixes w :: "'m dirworld_scheme"
  assumes "w_bd_rebootlist w = []" and "w_bd_mtx w" and "locks_ok (w_os w)"
  shows "restart_round bd w = Some (True, bd, (tock w)\<lparr>w_bd_mtx := False\<rparr>)"
proof -
  have "restart_drain False bd w = Some (False, bd, w)"
    using assms(1) by (simp add: restart_drain.simps)
  with bd_unlock_ok [OF assms(3,2)] show ?thesis by (simp add: restart_round_def)
qed

theorem restart_round_misses_shutdown_witness:
  "\<exists>bd w'. restart_round (demo_bd RUNNING []) ((dirworld0 calm_os [1, 2])\<lparr>w_bd_mtx := True, w_bd_reboot_state := 1\<rparr>)
     = Some (True, bd, w')"
  using restart_round_misses_shutdown [of "(dirworld0 calm_os [1, 2])\<lparr>w_bd_mtx := True, w_bd_reboot_state := 1\<rparr>"]
  by simp

text \<open>A round with one vm in the queue, whose start leaves the queue empty.\<close>

lemma restart_round_one:
  fixes w :: "'m dirworld_scheme"
  assumes q: "w_bd_rebootlist w = [a]" and mtx: "w_bd_mtx w" and on: "w_bd_reboot_state w = 0"
    and locks: "locks_ok (w_os w)"
    and run: "bd_startvm bd (Some (bd_name bd a)) ((tock w)\<lparr>w_bd_rebootlist := [], w_bd_mtx := False\<rparr>) = (r, bd', w')"
    and after: "w_bd_rebootlist w' = []" "\<not> w_bd_mtx w'" "w_os w' = w_os w"
  shows "\<exists>w''. restart_round bd w = Some (True, bd', w'') \<and> w_bd_rebootlist w'' = [] \<and>
    \<not> w_bd_mtx w'' \<and> (\<forall>e. seen e w' \<longrightarrow> seen e w'')"
proof -
  let ?w1 = "w\<lparr>w_bd_rebootlist := []\<rparr>" and ?l = "(tock w')\<lparr>w_bd_mtx := True\<rparr>"
  have u: "bd_unlock ?w1 = (False, (tock w)\<lparr>w_bd_rebootlist := [], w_bd_mtx := False\<rparr>)"
    using bd_unlock_ok [of ?w1] mtx locks by (simp add: tock_def)
  have l: "bd_lock w' = (False, ?l)" using bd_lock_ok [of w'] after locks by simp
  have d2: "restart_drain False bd' ?l = Some (False, bd', ?l)"
    using after by (simp add: restart_drain.simps)
  have "restart_drain False bd w = restart_drain False bd' ?l"
    using q on u l run by (subst restart_drain.simps) (simp add: bd_name_def Let_def)
  with d2 have d: "restart_drain False bd w = Some (False, bd', ?l)" by simp
  have "bd_unlock ?l = (False, (tock ?l)\<lparr>w_bd_mtx := False\<rparr>)"
    using bd_unlock_ok [of ?l] after locks by simp
  with d have "restart_round bd w = Some (True, bd', (tock ?l)\<lparr>w_bd_mtx := False\<rparr>)"
    by (simp add: restart_round_def)
  then show ?thesis
    using after by (auto simp: tock_def seen_def)
qed

lemma start_works_goto [simp]: "start_works s (psv_goto p t) = start_works s p"
  by (simp add: start_works_def)



end
