(* ===== verification/Director_Generate.thy ===== *)
theory Director_Generate
  imports Generator_Contract Director_Cycle
begin

text \<open>
  The director with the configuration generator of the daemon: \<open>bwv_generate_config\<close> of
  \<open>src/libprocwatch/bhyve_director.c\<close> calls \<open>src/vmstated/config_generator.c\<close> and points the process
  definition to the file that was written.
\<close>

text \<open>The generator as the director sees it. Where the generator is undefined, so is this function.\<close>

definition vmstated_cgo :: "'m config_generator" where
  "vmstated_cgo = Some (\<lambda>bc filename w. the (vmstated_generate_config_file bc filename w))"

text \<open>C19: Before a start the director lets the generator write \<open>configfile.generated\<close>, with the settings of
  the vm behind the text of its own file, and the process definition of the vm then names that file in
  the place of its configuration file; nothing else of the vm changes.\<close>

theorem bwv_generates_config:
  fixes w :: "'m dirworld_scheme"
  assumes "calm w" and "files_work t w" and "mapped_string t = Some text" and "\<forall>f. written f (w_trace w) = []"
    and "\<forall>b \<in> set (consoles_of (bwv_config v)). bcc_name b \<noteq> None"
    and "length (bc_configfile (bwv_config v)) + 10 < PATH_MAX" and "pdo_funcs (psv_pdo (bwv_state v)) = pd_funcs"
    and "pd_procargs (pdo_ctx (psv_pdo (bwv_state v))) = Some as"
  shows "\<exists>w' fd. bwv_generate_config v (Some vmstated_cgo) w =
       (0, v\<lparr>bwv_state := (bwv_state v)\<lparr>psv_pdo := (psv_pdo (bwv_state v))\<lparr>pdo_ctx := (pdo_ctx (psv_pdo (bwv_state v)))
          \<lparr>pd_procargs := Some (as[2 := Some (bc_configfile (bwv_config v) @ ''.generated'')])\<rparr>\<rparr>\<rparr>\<rparr>, w') \<and>
     seen (Opened (bc_configfile (bwv_config v) @ ''.generated'') fd) w' \<and>
     written fd (w_trace w') = text @ [CHR 0x0A] @ file_text (generated_lines (bwv_config v))"
proof -
  let ?f = "bc_configfile (bwv_config v) @ ''.generated''"
  have f: "snprintf_buf PATH_MAX (bc_get_configfile (bwv_config v) @ ''.generated'') = ?f" "strncpy_buf PATH_MAX ?f = ?f"
    using assms(6) by (simp_all add: bc_get_configfile_def)
  obtain w' fd where g: "vmstated_generate_config_file (bwv_config v) ?f w = Some (0, w')" "seen (Opened ?f fd) w'"
    "written fd (w_trace w') = text @ [CHR 0x0A] @ file_text (generated_lines (bwv_config v))"
    using generate_text [OF assms(1-5), of ?f] by blast
  have "bwv_generate_config v (Some vmstated_cgo) w =
       (0, v\<lparr>bwv_state := (bwv_state v)\<lparr>psv_pdo := (psv_pdo (bwv_state v))\<lparr>pdo_ctx := (pdo_ctx (psv_pdo (bwv_state v)))
          \<lparr>pd_procargs := Some (as[2 := Some ?f])\<rparr>\<rparr>\<rparr>\<rparr>, w')"
    using assms(7,8) by (simp add: bwv_generate_config_def vmstated_cgo_def f g(1) psv_set_configfile_def pd_funcs_def
        pd_set_configfile_def)
  with g(2,3) show ?thesis by blast
qed

theorem bwv_generates_config_witness:
  "\<exists>v' w' fd. bwv_generate_config (demo_vm 2 ''two'' STOPPED []) (Some vmstated_cgo) (dirworld0 calm_os [2]) = (0, v', w') \<and>
     pd_procargs (pdo_ctx (psv_pdo (bwv_state v'))) = Some [Some BHYVEBIN, Some ''-k'', Some ''.generated''] \<and>
     seen (Opened ''.generated'' fd) w' \<and>
     written fd (w_trace w') = ''cpus=1'' @ [CHR 0x0A] @ file_text (generated_lines (bwv_config (demo_vm 2 ''two'' STOPPED [])))"
proof -
  let ?v = "demo_vm 2 ''two'' STOPPED []"
  let ?w = "dirworld0 calm_os [2]"
  have w: "calm ?w" "files_work ''cpus=1'' ?w" "mapped_string ''cpus=1'' = Some ''cpus=1''" "\<forall>f. written f (w_trace ?w) = []"
    by (simp_all add: calm_def files_work_def writes_all_def dirworld0_def calm_os_def mapped_string_def PAGE_SIZE_def)
  have c: "\<forall>b \<in> set (consoles_of (bwv_config ?v)). bcc_name b \<noteq> None" "bc_configfile (bwv_config ?v) = []"
    "pdo_funcs (psv_pdo (bwv_state ?v)) = pd_funcs" "pdo_ctx (psv_pdo (bwv_state ?v)) = pd_demo"
    by (simp_all add: demo_vm_def bc_zero_def consoles_of_def)
  have p: "length (bc_configfile (bwv_config ?v)) + 10 < PATH_MAX"
    "pd_procargs (pdo_ctx (psv_pdo (bwv_state ?v))) = Some [Some BHYVEBIN, Some ''-k'', Some ''/vm/config'']"
    by (simp_all add: c PATH_MAX_def pd_demo_def)
  show ?thesis
    using bwv_generates_config [OF w c(1) p(1) c(3) p(2)] by (auto simp: c(2))
qed

end
