(* ===== verification/Director_Boot.thy ===== *)
theory Director_Boot
  imports Director_Cycle
begin

text \<open>
  How the director comes into being: \<open>bd_new\<close> watches one vm for each configuration of the store, and
  the autostart brings up those that ask for it. What it makes is the well-formed director that the
  properties of its commands start from.
\<close>

section \<open>Making a vm\<close>

text \<open>Steps that leave the director's lists alone and only take new addresses.\<close>

definition fresh_step :: "'m logworld_scheme \<Rightarrow> 'm logworld_scheme \<Rightarrow> bool" where
  "fresh_step w v \<longleftrightarrow> quiet w v \<and> w_fresh w \<le> w_fresh v"

lemma fresh_step_basic [simp]:
  "fresh_step w w" "fresh_step w (tock v) = fresh_step w v" "fresh_step w (set_errno e v) = fresh_step w v"
  "fresh_step w (emit ev v) = fresh_step w v" "fresh_step w (put_ldr l x v) = fresh_step w v"
  by (simp_all add: fresh_step_def quiet_def) (simp_all add: tock_def set_errno_def emit_def put_ldr_def)

lemma fresh_step_trans: "fresh_step u v \<Longrightarrow> fresh_step v w \<Longrightarrow> fresh_step u w"
  by (auto simp: fresh_step_def intro: quiet_trans)

lemma fresh_step_calm: "fresh_step w v \<Longrightarrow> calm w \<Longrightarrow> calm v"
  by (simp add: fresh_step_def quiet_def calm_def)

lemma pdobj_calm:
  fixes w :: "'m logworld_scheme"
  assumes "calm w"
  shows "\<exists>obj w'. pdobj_fromconfig (Some c) w = (Some obj, w') \<and> fresh_step w w' \<and> pdo_funcs obj = pd_funcs \<and>
    pd_procargs (pdo_ctx obj) = Some [Some BHYVEBIN, Some ''-k'',
      Some (strncpy_buf PATH_MAX (case bc_get_generated_config c of Some g \<Rightarrow> g | None \<Rightarrow> bc_get_configfile c))]"
proof -
  have "length BHYVEBIN \<le> PATH_MAX" by (simp add: BHYVEBIN_def PATH_MAX_def)
  with assms show ?thesis
    by (cases "bc_get_description c")
       (auto simp: pdobj_fromconfig_def pd_fromconfig_def pdobj_frompd_def calm_malloc Let_def split: option.split)
qed

lemma init_node: "process_state_list ! nat (sth_lookupstate (Some process_state_list) 0) = node_of INIT"
  by (simp add: node_of_def sth_lookupstate_def process_state_list_def ps_node_def)

lemma withconfig_calm:
  fixes w :: "'m logworld_scheme"
  assumes "calm w"
  shows "\<exists>p w'. psv_withconfig obj (Some path) w = (Some p, w') \<and> fresh_step w w' \<and>
    psv_addr p = w_fresh w \<and> w_fresh w' = Suc (w_fresh w) \<and> psv_at p INIT \<and> \<not> psv_mtx p \<and> psv_pdo p = obj \<and>
    psv_scriptpath p = Some path \<and> psv_processid p = 0"
  using assms
  by (simp add: psv_withconfig_def calm_malloc calm_init sth_new_def init_node psv_at_def Let_def)
     (simp add: fresh_step_def quiet_def tock_def)

lemma psv_new_calm:
  fixes w :: "'m logworld_scheme"
  assumes "calm w"
  shows "\<exists>p w'. psv_new c w = Some (Some p, w') \<and> fresh_step w w' \<and>
    w_fresh w \<le> psv_addr p \<and> w_fresh w' = Suc (psv_addr p) \<and> psv_at p INIT \<and> \<not> psv_mtx p \<and> pdo_funcs (psv_pdo p) = pd_funcs \<and>
    psv_processid p = 0"
proof -
  obtain obj w1 where o: "pdobj_fromconfig (Some c) w = (Some obj, w1)" "fresh_step w w1" "pdo_funcs obj = pd_funcs"
    using pdobj_calm [OF assms, of c] by blast
  have c1: "calm w1" using fresh_step_calm [OF o(2) assms] .
  have step: "\<exists>p w'. psv_withconfig obj (Some path) v = (Some p, w') \<and> fresh_step w w' \<and> w_fresh w \<le> psv_addr p \<and>
      w_fresh w' = Suc (psv_addr p) \<and> psv_at p INIT \<and> \<not> psv_mtx p \<and> pdo_funcs (psv_pdo p) = pd_funcs \<and> psv_processid p = 0"
    if v: "fresh_step w v" for path v
  proof -
    obtain p w' where "psv_withconfig obj (Some path) v = (Some p, w')" "fresh_step v w'" "psv_addr p = w_fresh v"
      "w_fresh w' = Suc (w_fresh v)" "psv_at p INIT" "\<not> psv_mtx p" "psv_pdo p = obj" "psv_processid p = 0"
      using withconfig_calm [OF fresh_step_calm [OF v assms], of obj path] by blast
    moreover have "fresh_step w w'" using v \<open>fresh_step v w'\<close> by (rule fresh_step_trans)
    moreover have "w_fresh w \<le> w_fresh v" using v by (simp add: fresh_step_def)
    ultimately show ?thesis using o(3) by simp
  qed
  show ?thesis
  proof (cases "bc_get_scriptpath c = []")
    case False
    with step [OF o(2), of "bc_get_scriptpath c"] o(1) show ?thesis by (auto simp: psv_new_def)
  next
    case True
    show ?thesis
    proof (cases "bc_get_backingfile (Some c)")
      case None
      with True step [OF o(2), of "[]"] o(1) show ?thesis by (auto simp: psv_new_def)
    next
      case (Some f)
      with True step [of "tock w1" "cut_last_slash f"] o(1,2) c1 show ?thesis by (auto simp: psv_new_def calm_malloc)
    qed
  qed
qed

definition ld_ready :: "log_director option \<Rightarrow> bool" where
  "ld_ready ld \<longleftrightarrow> (case ld of None \<Rightarrow> True | Some d \<Rightarrow> \<not> ld_mtx d)"

lemma ldr_new_step:
  fixes w :: "'m logworld_scheme"
  assumes "calm w"
  shows "\<exists>l w'. ldr_new dir (Some name) w = (l, w') \<and> fresh_step w w'"
proof -
  have f: "fresh_step w (v\<lparr>w_fresh := Suc (w_fresh v)\<rparr>)" if "fresh_step w v" for v :: "'m logworld_scheme"
    using that by (simp add: fresh_step_def quiet_def)
  have s: "fresh_step w (snd (sys_try e g v)) = fresh_step w v" "fresh_step w (snd (sys_close fd v)) = fresh_step w v"
    for e g fd and v :: "'m logworld_scheme"
    by (simp_all add: sys_try_def sys_close_def sys_do_def ask_def Let_def)
  show ?thesis
    using assms by (simp add: ldr_new_def calm_malloc calm_init ask_def Let_def split_def f s)
qed

lemma register_redirect_calm:
  fixes w :: "'m logworld_scheme"
  assumes "calm w" and "ld_ready (Some d)"
  shows "\<exists>l d' w'. ld_register_redirect (Some d) (Some name) w = (l, Some d', w') \<and> fresh_step w w' \<and> ld_ready (Some d')"
proof -
  obtain l w1 where l: "ldr_new (ld_log_directory d) (Some name) w = (l, w1)" "fresh_step w w1"
    using ldr_new_step [OF assms(1)] by blast
  have "calm w1" using fresh_step_calm [OF l(2) assms(1)] .
  with l assms(2) show ?thesis
    by (cases l) (auto simp: ld_register_redirect_def ld_ready_def calm_lock calm_unlock)
qed

lemma bwv_new_calm:
  fixes w :: "'m dirworld_scheme"
  assumes "calm w" and "ld_ready ld"
  shows "\<exists>v ld' w'. bwv_new (Some c) (Some bhyve_director_rmo) ld w = Some (Some v, ld', w') \<and> fresh_step w w' \<and> ld_ready ld' \<and>
    w_fresh w \<le> psv_addr (bwv_state v) \<and> psv_addr (bwv_state v) < w_fresh w' \<and>
    vm_wf (psv_addr (bwv_state v)) v \<and> psv_at (bwv_state v) INIT \<and> psv_processid (bwv_state v) = 0 \<and>
    bwv_config v = c \<and> bwv_startups v = [] \<and>
    (ld = None \<longrightarrow> ld' = None \<and> bwv_ldr v = None \<and> psv_ldr (bwv_state v) = None)"
proof -
  let ?reg = "case ld of None \<Rightarrow> (None, None, tock w) | Some d \<Rightarrow> ld_register_redirect (Some d) (Some (bc_get_name c)) (tock w)"
  obtain l ld' w1 where r: "?reg = (l, ld', w1)" "fresh_step w w1" "ld_ready ld'" "ld = None \<longrightarrow> l = None \<and> ld' = None"
  proof (cases ld)
    case None
    then show thesis using that [of None None "tock w"] by (simp add: ld_ready_def)
  next
    case (Some d)
    have "fresh_step w v" if "fresh_step (tock w) v" for v :: "'m dirworld_scheme"
      using fresh_step_trans [of w "tock w" v] that by simp
    with Some register_redirect_calm [of "tock w" d "bc_get_name c"] assms that show thesis by fastforce
  qed
  have c1: "calm w1" using fresh_step_calm [OF r(2) assms(1)] .
  obtain p w' where p: "psv_new c w1 = Some (Some p, w')" "fresh_step w1 w'" "w_fresh w1 \<le> psv_addr p" "w_fresh w' = Suc (psv_addr p)"
    "psv_at p INIT" "\<not> psv_mtx p" "pdo_funcs (psv_pdo p) = pd_funcs" "psv_processid p = 0"
    using psv_new_calm [OF c1, of c] by blast
  let ?p = "p\<lparr>psv_rmo := Some bhyve_director_rmo, psv_ldr := l\<rparr>"
  have at: "psv_at ?p INIT" using p(5) by (simp add: psv_at_def)
  let ?v = "\<lparr>bwv_state = ?p, bwv_config = c, bwv_ldr = l, bwv_startups = []\<rparr>"
  have "bwv_new (Some c) (Some bhyve_director_rmo) ld w = Some (Some ?v, ld', w')"
    using assms(1) r(1) p(1) by (simp add: bwv_new_def calm_malloc psv_withrebootmgr_def psv_with_logredirector_def)
  moreover have "vm_wf (psv_addr p) ?v" using at p(6,7) by (auto simp: vm_wf_def psv_ready_def)
  moreover have "fresh_step w w'" "w_fresh w \<le> psv_addr p"
    using fresh_step_trans [OF r(2) p(2)] r(2) p(3) by (simp_all add: fresh_step_def)
  ultimately show ?thesis using r(3,4) p(4,8) at by (intro exI [of _ ?v] exI [of _ ld'] exI [of _ w']) simp
qed

section \<open>The list of vms\<close>

definition new_vm :: "bool \<Rightarrow> 'm bhyve_watched_vm \<Rightarrow> bool" where
  "new_vm unlogged v \<longleftrightarrow> psv_at (bwv_state v) INIT \<and> psv_processid (bwv_state v) = 0 \<and> bwv_startups v = [] \<and>
     (unlogged \<longrightarrow> bwv_ldr v = None \<and> psv_ldr (bwv_state v) = None)"

text \<open>The director while the list grows: addresses of its vms are taken.\<close>

definition booting :: "bool \<Rightarrow> 'm bhyve_director \<Rightarrow> 'm dirworld_scheme \<Rightarrow> bool" where
  "booting unlogged bd w \<longleftrightarrow> bd_wf bd w \<and> ld_ready (bd_ld bd) \<and> (unlogged \<longrightarrow> bd_ld bd = None) \<and>
     (\<forall>a \<in> set (w_bd_statelist w). a < w_fresh w \<and> new_vm unlogged (vm_at bd a))"

definition watched_configs :: "'m bhyve_director \<Rightarrow> 'm dirworld_scheme \<Rightarrow> bhyve_configuration list" where
  "watched_configs bd w = map (\<lambda>a. bwv_config (vm_at bd a)) (w_bd_statelist w)"

lemma add_vm_step:
  fixes w :: "'m dirworld_scheme"
  assumes "booting u bd w" and "fresh_step w w1" and "ld_ready ld" and "u \<longrightarrow> ld = None"
    and "w_fresh w \<le> a" and "a < w_fresh w1" and "vm_wf a v" and "new_vm u v"
  shows "booting u (put_vm a v (bd\<lparr>bd_ld := ld\<rparr>)) (w1\<lparr>w_bd_statelist := a # w_bd_statelist w1\<rparr>)"
    and "watched_configs (put_vm a v (bd\<lparr>bd_ld := ld\<rparr>)) (w1\<lparr>w_bd_statelist := a # w_bd_statelist w1\<rparr>) =
      bwv_config v # watched_configs bd w"
proof -
  have q: "w_bd_mtx w1 = w_bd_mtx w" "w_bd_statelist w1 = w_bd_statelist w" "w_bd_rebootlist w1 = w_bd_rebootlist w"
    using quiet_dir [of w w1] assms(2) by (simp_all add: fresh_step_def)
  have old: "b < w_fresh w" "b \<noteq> a" if "b \<in> set (w_bd_statelist w)" for b
    using that assms(1,5) by (auto simp: booting_def)
  have le: "w_fresh w \<le> w_fresh w1" using assms(2) by (simp add: fresh_step_def)
  show "booting u (put_vm a v (bd\<lparr>bd_ld := ld\<rparr>)) (w1\<lparr>w_bd_statelist := a # w_bd_statelist w1\<rparr>)"
    using assms(1,3,4,6-8) q old le
    by (auto simp: booting_def bd_wf_def put_vm_def vm_at_def dest: order.strict_trans2)
  show "watched_configs (put_vm a v (bd\<lparr>bd_ld := ld\<rparr>)) (w1\<lparr>w_bd_statelist := a # w_bd_statelist w1\<rparr>) =
      bwv_config v # watched_configs bd w"
    using q old(2) by (auto simp: watched_configs_def put_vm_def vm_at_def)
qed

lemma add_vms_watch:
  fixes w :: "'m dirworld_scheme"
  assumes "calm w" and "booting u bd w"
  shows "\<exists>bd' w'. add_vms cs bd w = Some (Some bd', bd_ld bd', w') \<and> booting u bd' w' \<and> w_os w' = w_os w \<and>
    watched_configs bd' w' = rev cs @ watched_configs bd w \<and> bd_cgo bd' = bd_cgo bd \<and> w_bd_rebootlist w' = w_bd_rebootlist w"
  using assms
proof (induction cs arbitrary: bd w)
  case (Cons c cs)
  have "ld_ready (bd_ld bd)" using Cons.prems(2) by (simp add: booting_def)
  from bwv_new_calm [OF Cons.prems(1) this, of c] obtain v ld w1 where
    n: "bwv_new (Some c) (Some bhyve_director_rmo) (bd_ld bd) w = Some (Some v, ld, w1)" "fresh_step w w1" "ld_ready ld"
      "w_fresh w \<le> psv_addr (bwv_state v)" "psv_addr (bwv_state v) < w_fresh w1" "vm_wf (psv_addr (bwv_state v)) v"
      "psv_at (bwv_state v) INIT" "psv_processid (bwv_state v) = 0" "bwv_config v = c" "bwv_startups v = []"
      "bd_ld bd = None \<longrightarrow> ld = None \<and> bwv_ldr v = None \<and> psv_ldr (bwv_state v) = None"
    by (elim exE conjE) (rule that)
  let ?a = "psv_addr (bwv_state v)"
  let ?bd = "put_vm ?a v (bd\<lparr>bd_ld := ld\<rparr>)" and ?w = "w1\<lparr>w_bd_statelist := ?a # w_bd_statelist w1\<rparr>"
  have u: "u \<longrightarrow> bd_ld bd = None" using Cons.prems(2) by (simp add: booting_def)
  have "u \<longrightarrow> ld = None" "new_vm u v" using u n(7,8,10,11) by (auto simp: new_vm_def)
  note step = add_vm_step [OF Cons.prems(2) n(2,3) this(1) n(4-6) this(2)]
  have "calm ?w" using fresh_step_calm [OF n(2) Cons.prems(1)] by (simp add: calm_def)
  from Cons.IH [OF this step(1)] obtain bd' w' where
    "add_vms cs ?bd ?w = Some (Some bd', bd_ld bd', w')" "booting u bd' w'" "w_os w' = w_os ?w"
    "watched_configs bd' w' = rev cs @ watched_configs ?bd ?w" "bd_cgo bd' = bd_cgo ?bd" "w_bd_rebootlist w' = w_bd_rebootlist ?w"
    by blast
  moreover have "w_os w1 = w_os w" "w_bd_rebootlist w1 = w_bd_rebootlist w"
    using quiet_dir [of w w1] n(2) by (simp_all add: fresh_step_def)
  ultimately show ?case using n(1,9) step(2) by (simp add: put_vm_def)
qed (simp add: watched_configs_def)

lemma bd_new_boots:
  fixes w :: "'m dirworld_scheme"
  assumes "calm w" and "\<forall>n. 0 \<le> os_kqueue (w_os w) n" and "ld_ready ld"
  shows "\<exists>bd w'. bd_new (Some bcs) ld w = Some (Some (bd :: 'm bhyve_director), bd_ld bd, w') \<and> bd_wf bd w' \<and> w_os w' = w_os w \<and>
    watched_configs bd w' = rev (bcs_configs bcs) \<and> (\<forall>a \<in> set (w_bd_statelist w'). new_vm (ld = None) (vm_at bd a)) \<and>
    w_bd_rebootlist w' = [] \<and> bd_cgo bd = None"
proof -
  let ?fd = "os_kqueue (w_os w) (Suc (w_tick w))"
  let ?bd = "\<lparr>bd_kqueuefd = ?fd, bd_cgo = None, bd_ld = ld, bd_vms = \<lambda>_. None\<rparr> :: 'm bhyve_director"
  let ?w0 = "(tock (tock (tock (tock (tock w)))))\<lparr>w_bd_mtx := False, w_bd_statelist := [], w_bd_rebootlist := [],
    w_bd_reboot_state := 0, w_bd_msgcount := 0\<rparr>"
  let ?w1 = "tock (tock (tock ?w0))"
  have c0: "calm ?w0" using assms(1) by (simp add: calm_def)
  have b: "booting (ld = None) ?bd ?w1" using assms(3) by (simp add: booting_def bd_wf_def tock_def)
  have "calm ?w1" using c0 by simp
  from add_vms_watch [OF this b, of "bcs_configs bcs"] obtain bd w' where
    a: "add_vms (bcs_configs bcs) ?bd ?w1 = Some (Some bd, bd_ld bd, w')" "booting (ld = None) bd w'" "w_os w' = w_os w"
      "watched_configs bd w' = rev (bcs_configs bcs)" "bd_cgo bd = None" "w_bd_rebootlist w' = []"
    by (auto simp: watched_configs_def tock_def)
  have "\<not> os_kqueue (w_os w) (Suc (w_tick w)) < 0" using assms(2) by (simp add: not_less)
  then have "bd_new (Some bcs) ld w = bd_new_threads bcs ld ?fd (tock (tock (tock (tock (tock w)))))"
    using assms(1) by (simp add: bd_new_def calm_malloc calm_init ask_def)
  also have "\<dots> = add_vms (bcs_configs bcs) ?bd ?w1"
    using c0 by (simp add: bd_new_threads_def bd_thread_start_def calm_init bcs_iterate_configs_def calm_malloc bci_collect_all Let_def)
  finally show ?thesis using a by (auto simp: booting_def)
qed

text \<open>C5: \<open>bd_new\<close> makes a well-formed director: with locks, memory, kernel queue and threads at hand it
  watches one vm per configuration of the store, the last one first, under pairwise different
  addresses, each in state \<open>INIT\<close> without process and without recorded starts, and nothing waits for a
  restart.\<close>

theorem bd_new_watches:
  fixes w :: "'m dirworld_scheme"
  assumes "calm w" and "\<forall>n. 0 \<le> os_kqueue (w_os w) n" and "ld_ready ld"
  shows "\<exists>bd w'. bd_new (Some bcs) ld w = Some (Some (bd :: 'm bhyve_director), bd_ld bd, w') \<and> bd_wf bd w' \<and> w_os w' = w_os w \<and>
    watched_configs bd w' = rev (bcs_configs bcs) \<and> (\<forall>a \<in> set (w_bd_statelist w'). new_vm (ld = None) (vm_at bd a)) \<and>
    w_bd_rebootlist w' = [] \<and> bd_cgo bd = None"
  using bd_new_boots [OF assms] .

section \<open>Autostart\<close>

definition startable :: "'m bhyve_director \<Rightarrow> os \<Rightarrow> nat \<Rightarrow> bool" where
  "startable bd os a \<longleftrightarrow> (\<exists>v s. bd_vms bd a = Some v \<and> psv_at (bwv_state v) s \<and> s \<in> {INIT, STOPPED, RESTART_STOPPED} \<and>
     start_works os (bwv_state v) \<and> bwv_ldr v = None \<and> psv_ldr (bwv_state v) = None \<and>
     length (bwv_startups v) \<le> unat (bc_get_maxrestart (bwv_config v)))"

definition autostarts :: "'m bhyve_director \<Rightarrow> nat \<Rightarrow> bool" where
  "autostarts bd a \<longleftrightarrow> bc_autostart (bwv_config (vm_at bd a))"

definition brought_up :: "'m bhyve_director \<Rightarrow> 'm bhyve_director \<Rightarrow> nat \<Rightarrow> bool" where
  "brought_up bd bd' a \<longleftrightarrow> (\<exists>pid > 0. bwv_state (vm_at bd' a) = (psv_goto (bwv_state (vm_at bd a)) RUNNING)\<lparr>psv_processid := pid\<rparr>)"

lemma find_distinct: "distinct (map f xs) \<Longrightarrow> x \<in> set xs \<Longrightarrow> List.find (\<lambda>y. f y = f x) xs = Some x"
  by (induction xs) (auto simp: image_iff)

lemma autostart_one:
  fixes w :: "'m dirworld_scheme"
  assumes "bd_wf bd w" and "a \<in> set (w_bd_statelist w)" and "distinct (map (bd_name bd) (w_bd_statelist w))"
    and "startable bd (w_os w) a" and "bd_cgo bd = None"
  shows "\<exists>bd' w'. bd_startvm bd (Some (bd_name bd a)) w = (0, bd', w') \<and> brought_up bd bd' a \<and>
    (\<forall>b. b \<noteq> a \<longrightarrow> bd_vms bd' b = bd_vms bd b) \<and> bd_wf bd' w' \<and> w_os w' = w_os w \<and> w_bd_statelist w' = w_bd_statelist w \<and>
    w_bd_rebootlist w' = w_bd_rebootlist w \<and> w_bd_reboot_state w' = w_bd_reboot_state w \<and>
    (\<forall>b \<in> set (w_bd_statelist w). bd_name bd' b = bd_name bd b) \<and> bd_cgo bd' = None"
proof -
  obtain v s where v: "bd_vms bd a = Some v" "psv_at (bwv_state v) s" "s \<in> {INIT, STOPPED, RESTART_STOPPED}"
    "start_works (w_os w) (bwv_state v)" "bwv_ldr v = None" "psv_ldr (bwv_state v) = None"
    "length (bwv_startups v) \<le> unat (bc_get_maxrestart (bwv_config v))" using assms(4) unfolding startable_def by blast
  have "find_vm bd (bd_name bd a) (w_bd_statelist w) = Some a"
    using find_distinct [OF assms(3,2)] by (simp add: find_vm_def bd_name_def)
  from startvm_runs [OF assms(1) this v(1-4) assms(5) v(5-7)] obtain bd' w' where
    r: "bd_startvm bd (Some (bd_name bd a)) w = (0, bd', w')" "runs_again bd a bd' w'"
      "w_bd_rebootlist w' = w_bd_rebootlist w" "w_bd_reboot_state w' = w_bd_reboot_state w" by blast
  have locks: "locks_ok (w_os w)" using v(4) by (simp add: start_works_def)
  have "cgo_quiet (bd_cgo bd)" using assms(5) by (simp add: cgo_quiet_def)
  from bd_moves_keep [OF assms(1) startvm_moves [OF assms(1) locks this r(1)]] r assms(5)
  show ?thesis by (auto simp: runs_again_def brought_up_def)
qed

text \<open>
  What the loops of the autostart and of the restart thread run with the mutex held, one vm at a time:
  they free the mutex, start the vm and take the mutex again.
\<close>

definition held_wf :: "'m bhyve_director \<Rightarrow> 'm dirworld_scheme \<Rightarrow> bool" where
  "held_wf bd w \<longleftrightarrow> w_bd_mtx w \<and> bd_wf bd (w\<lparr>w_bd_mtx := False\<rparr>) \<and> locks_ok (w_os w) \<and> bd_cgo bd = None \<and>
     distinct (map (bd_name bd) (w_bd_statelist w))"

lemma held_unlock: "held_wf bd w \<Longrightarrow> \<exists>w'. bd_unlock w = (False, w') \<and> bd_wf bd w' \<and> w_bd_statelist w' = w_bd_statelist w \<and>
    w_bd_rebootlist w' = w_bd_rebootlist w \<and> w_os w' = w_os w \<and> w_bd_reboot_state w' = w_bd_reboot_state w"
  by (auto simp: held_wf_def bd_unlock_ok) (simp_all add: bd_wf_def tock_def)

lemma held_start:
  fixes w :: "'m dirworld_scheme"
  assumes "held_wf bd w" and "a \<in> set (w_bd_statelist w)" and "startable bd (w_os w) a"
  shows "\<exists>w1 bd1 w2 w3. bd_unlock w = (False, w1) \<and> bd_startvm bd (Some (bd_name bd a)) w1 = (0, bd1, w2) \<and>
    bd_lock w2 = (False, w3) \<and> held_wf bd1 w3 \<and> brought_up bd bd1 a \<and> (\<forall>b. b \<noteq> a \<longrightarrow> bd_vms bd1 b = bd_vms bd b) \<and>
    w_os w3 = w_os w \<and> w_bd_statelist w3 = w_bd_statelist w \<and> w_bd_rebootlist w3 = w_bd_rebootlist w \<and>
    w_bd_reboot_state w3 = w_bd_reboot_state w"
proof -
  obtain w1 where u: "bd_unlock w = (False, w1)" "bd_wf bd w1" "w_bd_statelist w1 = w_bd_statelist w"
    "w_bd_rebootlist w1 = w_bd_rebootlist w" "w_os w1 = w_os w" "w_bd_reboot_state w1 = w_bd_reboot_state w"
    using held_unlock [OF assms(1)] by blast
  have "a \<in> set (w_bd_statelist w1)" "distinct (map (bd_name bd) (w_bd_statelist w1))" "startable bd (w_os w1) a" "bd_cgo bd = None"
    using assms u(3,5) by (simp_all add: held_wf_def)
  from autostart_one [OF u(2) this] obtain bd1 w2 where
    s: "bd_startvm bd (Some (bd_name bd a)) w1 = (0, bd1, w2)" "brought_up bd bd1 a"
      "\<forall>b. b \<noteq> a \<longrightarrow> bd_vms bd1 b = bd_vms bd b" "bd_wf bd1 w2" "w_os w2 = w_os w1" "w_bd_statelist w2 = w_bd_statelist w1"
      "w_bd_rebootlist w2 = w_bd_rebootlist w1" "w_bd_reboot_state w2 = w_bd_reboot_state w1"
      "\<forall>b \<in> set (w_bd_statelist w1). bd_name bd1 b = bd_name bd b" "bd_cgo bd1 = None"
    by blast
  let ?w3 = "(tock w2)\<lparr>w_bd_mtx := True\<rparr>"
  have os: "locks_ok (w_os w2)" using assms(1) s(5) u(5) by (simp add: held_wf_def)
  have l: "bd_lock w2 = (False, ?w3)" using os s(4) by (simp add: bd_lock_ok bd_wf_def)
  have "distinct (map (bd_name bd1) (w_bd_statelist ?w3))"
    using assms(1) u(3) s(6,9) by (simp add: held_wf_def tock_def cong: map_cong)
  moreover have "bd_wf bd1 (?w3\<lparr>w_bd_mtx := False\<rparr>)" using s(4) by (simp add: bd_wf_def tock_def)
  ultimately have "held_wf bd1 ?w3" using os s(10) by (simp add: held_wf_def)
  with u s l show ?thesis by (intro exI [of _ w1] exI [of _ bd1] exI [of _ w2] exI [of _ ?w3]) (simp add: tock_def)
qed

text \<open>One vm of a list was started and the rest of the list afterwards.\<close>

lemma started_more:
  assumes "brought_up bd bd1 a" and "\<forall>b. b \<noteq> a \<longrightarrow> bd_vms bd1 b = bd_vms bd b" and "a \<notin> A"
    and "\<forall>b \<in> A. brought_up bd1 bd' b" and "\<forall>b. b \<notin> A \<longrightarrow> bd_vms bd' b = bd_vms bd1 b"
  shows "(\<forall>b \<in> insert a A. brought_up bd bd' b) \<and> (\<forall>b. b \<notin> insert a A \<longrightarrow> bd_vms bd' b = bd_vms bd b)"
proof -
  have "brought_up bd bd' b" if "b \<in> A" for b
  proof -
    have "vm_at bd1 b = vm_at bd b" using that assms(2,3) by (metis vm_at_def)
    moreover have "brought_up bd1 bd' b" using assms(4) that by blast
    ultimately show ?thesis by (simp add: brought_up_def)
  qed
  moreover have "brought_up bd bd' a" using assms(1,3,5) by (simp add: brought_up_def vm_at_def)
  ultimately show ?thesis using assms(2,5) by simp
qed

lemma startable_other:
  assumes "\<forall>b. b \<noteq> a \<longrightarrow> bd_vms bd1 b = bd_vms bd b" and "b \<noteq> a"
  shows "startable bd1 os b = startable bd os b" "autostarts bd1 b = autostarts bd b"
  using assms by (simp_all add: startable_def autostarts_def vm_at_def)

lemma autostart_loop_runs:
  fixes w :: "'m dirworld_scheme"
  assumes "held_wf bd w" and "set as \<subseteq> set (w_bd_statelist w)" and "distinct as"
    and "\<forall>a \<in> set as. autostarts bd a \<longrightarrow> startable bd (w_os w) a"
  shows "\<exists>bd' w'. autostart_loop as bd w = (0, bd', w') \<and> bd_wf bd' w' \<and> w_bd_statelist w' = w_bd_statelist w \<and>
    (\<forall>a \<in> {a \<in> set as. autostarts bd a}. brought_up bd bd' a) \<and>
    (\<forall>a. a \<notin> {a \<in> set as. autostarts bd a} \<longrightarrow> bd_vms bd' a = bd_vms bd a)"
  using assms
proof (induction as arbitrary: bd w)
  case Nil
  then show ?case using held_unlock [OF Nil.prems(1)] by auto
next
  case (Cons a as)
  have name: "bc_get_name (bwv_config (vm_at bd a)) = bd_name bd a" by (simp add: bd_name_def)
  show ?case
  proof (cases "autostarts bd a")
    case False
    then have "autostart_loop (a # as) bd w = autostart_loop as bd w" "{b \<in> set (a # as). autostarts bd b} = {b \<in> set as. autostarts bd b}"
      by (auto simp: autostarts_def bc_get_autostart_def)
    with Cons.IH [of bd w] Cons.prems show ?thesis by (simp del: autostart_loop.simps)
  next
    case True
    have "a \<in> set (w_bd_statelist w)" "startable bd (w_os w) a" using Cons.prems(2,4) True by simp_all
    from held_start [OF Cons.prems(1) this] obtain w1 bd1 w2 w3 where
      s: "bd_unlock w = (False, w1)" "bd_startvm bd (Some (bd_name bd a)) w1 = (0, bd1, w2)" "bd_lock w2 = (False, w3)" "held_wf bd1 w3"
        "brought_up bd bd1 a" "\<forall>b. b \<noteq> a \<longrightarrow> bd_vms bd1 b = bd_vms bd b" "w_os w3 = w_os w" "w_bd_statelist w3 = w_bd_statelist w"
      by blast
    have step: "autostart_loop (a # as) bd w = autostart_loop as bd1 w3"
      using True s(1-3) by (simp add: autostarts_def bc_get_autostart_def name Let_def)
    have a: "a \<notin> {b \<in> set as. autostarts bd1 b}" using Cons.prems(3) by simp
    have "autostarts bd1 b = autostarts bd b" if "b \<in> set as" for b
      using that Cons.prems(3) by (intro startable_other(2) [OF s(6)]) auto
    then have set: "{b \<in> set (a # as). autostarts bd b} = insert a {b \<in> set as. autostarts bd1 b}" using True by auto
    have "\<forall>b \<in> set as. autostarts bd1 b \<longrightarrow> startable bd1 (w_os w3) b"
      using Cons.prems(3,4) s(7) startable_other [OF s(6)] by (metis distinct.simps(2) list.set_intros(2))
    from Cons.IH [OF s(4) _ _ this] Cons.prems(2,3) s(8) obtain bd' w' where
      r: "autostart_loop as bd1 w3 = (0, bd', w')" "bd_wf bd' w'" "w_bd_statelist w' = w_bd_statelist w"
        "\<forall>b \<in> {b \<in> set as. autostarts bd1 b}. brought_up bd1 bd' b"
        "\<forall>b. b \<notin> {b \<in> set as. autostarts bd1 b} \<longrightarrow> bd_vms bd' b = bd_vms bd1 b"
      by auto
    show ?thesis unfolding set step using started_more [OF s(5,6) a r(4,5)] r(1-3) by blast
  qed
qed

text \<open>C6: The autostart brings up exactly the vms whose configuration asks for it: with vms of different
  names, each of them ready to start and without redirected output, with no generator of configurations
  and the system in order it returns 0, those vms are \<open>RUNNING\<close>
  with the pid of a new process, and every other vm is as it was.\<close>

theorem bd_runautostart_starts:
  fixes w :: "'m dirworld_scheme"
  assumes "bd_wf bd w" and "locks_ok (w_os w)" and "bd_cgo bd = None"
    and "distinct (map (bd_name bd) (w_bd_statelist w))"
    and "\<forall>a \<in> set (w_bd_statelist w). autostarts bd a \<longrightarrow> startable bd (w_os w) a"
  shows "\<exists>bd' w'. bd_runautostart bd w = (0, bd', w') \<and> bd_wf bd' w' \<and> w_bd_statelist w' = w_bd_statelist w \<and>
    (\<forall>a \<in> set (w_bd_statelist w). if autostarts bd a then brought_up bd bd' a else bd_vms bd' a = bd_vms bd a)"
proof -
  let ?w = "(tock w)\<lparr>w_bd_mtx := True\<rparr>"
  have l: "bd_lock w = (False, ?w)" using assms(1,2) by (simp add: bd_lock_ok bd_wf_def)
  have "held_wf bd ?w" "distinct (w_bd_statelist w)" using assms by (simp_all add: held_wf_def bd_wf_def tock_def)
  with autostart_loop_runs [of bd ?w "w_bd_statelist w"] assms(5) show ?thesis
    using l by (auto simp: bd_runautostart_def)
qed

section \<open>The restart thread\<close>

lemma restart_drain_runs:
  fixes w :: "'m dirworld_scheme"
  assumes "held_wf bd w" and "w_bd_reboot_state w = 0" and "w_bd_rebootlist w = as" and "distinct as"
    and "\<forall>a \<in> set as. startable bd (w_os w) a"
  shows "\<exists>bd' w'. restart_drain False bd w = Some (False, bd', w') \<and> held_wf bd' w' \<and> w_bd_statelist w' = w_bd_statelist w \<and>
    w_bd_rebootlist w' = [] \<and> (\<forall>a \<in> set as. brought_up bd bd' a) \<and> (\<forall>a. a \<notin> set as \<longrightarrow> bd_vms bd' a = bd_vms bd a)"
  using assms
proof (induction as arbitrary: bd w)
  case Nil
  then show ?case by (subst restart_drain.simps) simp
next
  case (Cons a as)
  let ?w = "w\<lparr>w_bd_rebootlist := as\<rparr>"
  have held: "held_wf bd ?w" using Cons.prems(1,3) by (simp add: held_wf_def bd_wf_def)
  have "a \<in> set (w_bd_statelist ?w)" "startable bd (w_os ?w) a"
    using Cons.prems(1,3,5) by (simp_all add: held_wf_def bd_wf_def)
  from held_start [OF held this] obtain w1 bd1 w2 w3 where
    s: "bd_unlock ?w = (False, w1)" "bd_startvm bd (Some (bd_name bd a)) w1 = (0, bd1, w2)" "bd_lock w2 = (False, w3)" "held_wf bd1 w3"
      "brought_up bd bd1 a" "\<forall>b. b \<noteq> a \<longrightarrow> bd_vms bd1 b = bd_vms bd b" "w_os w3 = w_os ?w" "w_bd_statelist w3 = w_bd_statelist ?w"
      "w_bd_rebootlist w3 = w_bd_rebootlist ?w" "w_bd_reboot_state w3 = w_bd_reboot_state ?w"
    by blast
  have step: "restart_drain False bd w = restart_drain False bd1 w3"
    using Cons.prems(2,3) s(1-3) by (subst restart_drain.simps) (simp add: Let_def bd_name_def)
  have a: "a \<notin> set as" and "distinct as" using Cons.prems(4) by simp_all
  have "\<forall>b \<in> set as. startable bd1 (w_os w3) b" using Cons.prems(5) a s(7) startable_other(1) [OF s(6)] by fastforce
  then obtain bd' w' where
    r: "restart_drain False bd1 w3 = Some (False, bd', w')" "held_wf bd' w'" "w_bd_statelist w' = w_bd_statelist w"
      "w_bd_rebootlist w' = []" "\<forall>b \<in> set as. brought_up bd1 bd' b" "\<forall>b. b \<notin> set as \<longrightarrow> bd_vms bd' b = bd_vms bd1 b"
    using Cons.IH [OF s(4)] s(8-10) Cons.prems(2) \<open>distinct as\<close> by auto
  show ?case unfolding step using started_more [OF s(5,6) a r(5,6)] r(1-4) by simp
qed

text \<open>C7: A round of the restart thread comes to an end when the vms that wait for a restart can be started
  (with no generator of configurations and no redirected output):
  the list of waiting vms is empty then, every one of them is \<open>RUNNING\<close> with the pid of a new process,
  all other vms are as they were, the mutex is free and the thread goes on.\<close>

theorem restart_round_drains:
  fixes w :: "'m dirworld_scheme"
  assumes "w_bd_mtx w" and "bd_wf bd (w\<lparr>w_bd_mtx := False\<rparr>)" and "locks_ok (w_os w)" and "bd_cgo bd = None"
    and "distinct (map (bd_name bd) (w_bd_statelist w))" and "w_bd_reboot_state w = 0"
    and "distinct (w_bd_rebootlist w)" and "\<forall>a \<in> set (w_bd_rebootlist w). startable bd (w_os w) a"
  shows "\<exists>bd' w'. restart_round bd w = Some (True, bd', w') \<and> bd_wf bd' w' \<and> w_bd_rebootlist w' = [] \<and>
    w_bd_statelist w' = w_bd_statelist w \<and>
    (\<forall>a. if a \<in> set (w_bd_rebootlist w) then brought_up bd bd' a else bd_vms bd' a = bd_vms bd a)"
proof -
  have "held_wf bd w" using assms(1-5) by (simp add: held_wf_def)
  from restart_drain_runs [OF this assms(6) refl assms(7,8)] obtain bd' w1 where
    d: "restart_drain False bd w = Some (False, bd', w1)" "held_wf bd' w1" "w_bd_statelist w1 = w_bd_statelist w"
      "w_bd_rebootlist w1 = []" "\<forall>a \<in> set (w_bd_rebootlist w). brought_up bd bd' a"
      "\<forall>a. a \<notin> set (w_bd_rebootlist w) \<longrightarrow> bd_vms bd' a = bd_vms bd a" by blast
  from held_unlock [OF d(2)] d show ?thesis by (auto simp: restart_round_def)
qed

section \<open>The properties at a concrete input\<close>

definition two_configs :: bhyve_configuration_store where
  "two_configs = \<lparr>bcs_searchpath = ''/etc'', bcs_configs = [bc_zero\<lparr>bc_name := ''one''\<rparr>, bc_zero\<lparr>bc_name := ''two''\<rparr>]\<rparr>"

theorem bd_new_watches_witness:
  "\<exists>bd w'. bd_new (Some two_configs) None (dirworld0 calm_os []) = Some (Some (bd :: unit bhyve_director), bd_ld bd, w') \<and> bd_wf bd w' \<and>
     map bc_name (watched_configs bd w') = [''two'', ''one'']"
proof -
  have c: "calm (dirworld0 calm_os [])" by (simp add: calm_def) (simp add: calm_os_def)
  have k: "\<forall>n. 0 \<le> os_kqueue (w_os (dirworld0 calm_os [])) n" by (simp add: calm_os_def)
  have l: "ld_ready None" by (simp add: ld_ready_def)
  from bd_new_watches [OF c k l, of two_configs] obtain bd w' where
    n: "bd_new (Some two_configs) None (dirworld0 calm_os []) = Some (Some (bd :: unit bhyve_director), bd_ld bd, w')" "bd_wf bd w'"
      "watched_configs bd w' = rev (bcs_configs two_configs)"
    by (elim exE conjE) (rule that)
  have "map bc_name (watched_configs bd w') = [''two'', ''one'']" using n(3) by (simp add: two_configs_def)
  with n(1,2) show ?thesis by (intro exI [of _ bd] exI [of _ w'] conjI)
qed

text \<open>A director whose first vm asks for the autostart.\<close>

definition auto_bd :: "unit bhyve_director" where
  "auto_bd = (demo_bd INIT [])\<lparr>bd_vms := (bd_vms (demo_bd INIT []))
     (1 \<mapsto> (demo_vm 1 ''one'' INIT [])\<lparr>bwv_config := bc_zero\<lparr>bc_name := ''one'', bc_autostart := True\<rparr>\<rparr>)\<rparr>"

lemma auto_at:
  "vm_at auto_bd (Suc 0) = (demo_vm 1 ''one'' INIT [])\<lparr>bwv_config := bc_zero\<lparr>bc_name := ''one'', bc_autostart := True\<rparr>\<rparr>"
  "vm_at auto_bd 2 = demo_vm 2 ''two'' RUNNING []"
  by (simp_all add: auto_bd_def demo_bd_def vm_at_def)

lemma auto_fields:
  "autostarts auto_bd (Suc 0)" "\<not> autostarts auto_bd 2" "bd_name auto_bd (Suc 0) = ''one''" "bd_name auto_bd 2 = ''two''"
  "bd_vms auto_bd 2 = Some (demo_vm 2 ''two'' RUNNING [])"
  by (simp_all add: autostarts_def bd_name_def auto_at)
     (simp_all add: auto_bd_def demo_bd_def demo_vm_def bc_get_name_def bc_zero_def)

theorem bd_runautostart_starts_witness:
  "\<exists>bd' w'. bd_runautostart auto_bd (dirworld0 calm_os [1, 2]) = (0, bd', w') \<and> brought_up auto_bd bd' 1 \<and>
     bd_vms bd' 2 = Some (demo_vm 2 ''two'' RUNNING [])"
proof -
  let ?w = "dirworld0 calm_os [Suc 0, 2]"
  have "bd_vms auto_bd (Suc 0) = Some ((demo_vm 1 ''one'' INIT [])\<lparr>bwv_config := bc_zero\<lparr>bc_name := ''one'', bc_autostart := True\<rparr>\<rparr>)"
    by (simp add: auto_bd_def)
  then have s: "startable auto_bd calm_os (Suc 0)" and wf: "bd_wf auto_bd ?w"
    using demo_start_works [of 1 "''one''" INIT "[]"] demo_wf [of 1 "''one''" INIT "[]"] demo_wf [of 2 "''two''" RUNNING "[]"] auto_fields(5)
    by (auto simp: startable_def bd_wf_def vm_wf_def intro: exI [of _ INIT])
  have l: "locks_ok calm_os" by (simp add: locks_ok_def calm_os_def)
  have c: "bd_cgo auto_bd = None" by (simp add: auto_bd_def)
  from bd_runautostart_starts [of auto_bd ?w] wf l c s auto_fields show ?thesis by fastforce
qed

theorem restart_round_drains_witness:
  "\<exists>bd' w'. restart_round (demo_bd RESTART_STOPPED []) ((dirworld0 calm_os [1, 2])\<lparr>w_bd_mtx := True, w_bd_rebootlist := [1]\<rparr>) =
       Some (True, bd', w') \<and> w_bd_rebootlist w' = [] \<and> brought_up (demo_bd RESTART_STOPPED []) bd' 1 \<and>
     bd_vms bd' 2 = Some (demo_vm 2 ''two'' RUNNING [])"
proof -
  let ?bd = "demo_bd RESTART_STOPPED []" and ?w = "(dirworld0 calm_os [1, 2])\<lparr>w_bd_mtx := True, w_bd_rebootlist := [1]\<rparr>"
  have "startable ?bd calm_os (Suc 0)"
    using demo_start_works [of 1 "''one''" RESTART_STOPPED "[]"]
    by (auto simp: startable_def intro: exI [of _ RESTART_STOPPED])
  moreover have "bd_wf ?bd (?w\<lparr>w_bd_mtx := False\<rparr>)"
    using demo_bd_wf [of RESTART_STOPPED "[]" calm_os] by (simp add: bd_wf_def)
  moreover have "locks_ok calm_os" by (simp add: locks_ok_def calm_os_def)
  ultimately obtain bd' w' where r: "restart_round ?bd ?w = Some (True, bd', w')" "w_bd_rebootlist w' = []"
    "\<forall>a. if a \<in> set (w_bd_rebootlist ?w) then brought_up ?bd bd' a else bd_vms bd' a = bd_vms ?bd a"
    using restart_round_drains [of ?w ?bd] by auto
  from r(3) [rule_format, of 1] r(3) [rule_format, of 2] r(1,2) show ?thesis by simp
qed

end
