(* ===== verification/Bhyve_Command.thy ===== *)
theory Bhyve_Command
  imports Os_World
begin

text \<open>
  \<open>src/libcommand/bhyve_command.c\<close> and \<open>command_sender.c\<close>: structures as name-value lists, and the
  user command that travels over the socket as a packed name-value list.

  Name-value lists are FreeBSD's libnv, which is not part of the repository: the record \<open>nvlib\<close> holds
  its operations as a parameter, \<open>nv_laws\<close> and \<open>nv_works\<close> state what its manual page promises. Every
  \<open>nvlist_add_*\<close> is \<open>nv_add\<close> with a tagged value, every \<open>nvlist_exists_*\<close> and \<open>nvlist_get_*\<close> a look at
  \<open>nv_get\<close>; creating, packing and unpacking may fail at any call.
\<close>

section \<open>The library of name-value lists\<close>

datatype nv_value =
  NvNull | NvString string | NvNumber u64 | NvBool bool | NvBinary bytes | NvNumbers "u64 list"

record 'n nvlib =
  nv_create :: "nat \<Rightarrow> 'n option"
  nv_get :: "'n \<Rightarrow> string \<Rightarrow> nv_value option"
  nv_add :: "'n \<Rightarrow> string \<Rightarrow> nv_value \<Rightarrow> 'n"
  nv_pack :: "nat \<Rightarrow> 'n \<Rightarrow> bytes option"
  nv_unpack :: "nat \<Rightarrow> bytes \<Rightarrow> 'n option"

definition nvlist_create :: "'n nvlib \<Rightarrow> 'm world_scheme \<Rightarrow> 'n option \<times> 'm world_scheme" where
  "nvlist_create L w = (nv_create L (w_tick w), tock w)"

definition nvlist_pack :: "'n nvlib \<Rightarrow> 'n \<Rightarrow> 'm world_scheme \<Rightarrow> bytes option \<times> 'm world_scheme" where
  "nvlist_pack L nvl w = (nv_pack L (w_tick w) nvl, tock w)"

definition nvlist_unpack :: "'n nvlib \<Rightarrow> bytes \<Rightarrow> 'm world_scheme \<Rightarrow> 'n option \<times> 'm world_scheme" where
  "nvlist_unpack L buffer w = (nv_unpack L (w_tick w) buffer, tock w)"

definition nv_string :: "'n nvlib \<Rightarrow> 'n \<Rightarrow> string \<Rightarrow> string option" where
  "nv_string L nvl name = (case nv_get L nvl name of Some (NvString s) \<Rightarrow> Some s | _ \<Rightarrow> None)"

definition nv_number :: "'n nvlib \<Rightarrow> 'n \<Rightarrow> string \<Rightarrow> u64 option" where
  "nv_number L nvl name = (case nv_get L nvl name of Some (NvNumber n) \<Rightarrow> Some n | _ \<Rightarrow> None)"

definition nv_bool :: "'n nvlib \<Rightarrow> 'n \<Rightarrow> string \<Rightarrow> bool option" where
  "nv_bool L nvl name = (case nv_get L nvl name of Some (NvBool b) \<Rightarrow> Some b | _ \<Rightarrow> None)"

text \<open>A new list is empty; adding under a fresh name adds that value and nothing else; a packed list is
  not empty, and unpacking it gives a list with the same contents.\<close>

definition nv_laws :: "'n nvlib \<Rightarrow> bool" where
  "nv_laws L \<longleftrightarrow>
     (\<forall>t n k. nv_create L t = Some n \<longrightarrow> nv_get L n k = None) \<and>
     (\<forall>n k v k'. nv_get L n k = None \<longrightarrow>
        nv_get L (nv_add L n k v) k' = (if k' = k then Some v else nv_get L n k')) \<and>
     (\<forall>t n b. nv_pack L t n = Some b \<longrightarrow> b \<noteq> [] \<and>
        (\<forall>t' m. nv_unpack L t' b = Some m \<longrightarrow> nv_get L m = nv_get L n))"

definition nv_works :: "'n nvlib \<Rightarrow> bool" where
  "nv_works L \<longleftrightarrow> (\<forall>t. nv_create L t \<noteq> None) \<and> (\<forall>t n. nv_pack L t n \<noteq> None) \<and>
     (\<forall>t t' n b. nv_pack L t n = Some b \<longrightarrow> nv_unpack L t' b \<noteq> None)"

lemma nv_createE: "nv_laws L \<Longrightarrow> nv_create L t = Some n \<Longrightarrow> nv_get L n k = None"
  by (simp add: nv_laws_def)

lemma nv_get_add:
  "nv_laws L \<Longrightarrow> nv_get L n k = None \<Longrightarrow> nv_get L (nv_add L n k v) k' = (if k' = k then Some v else nv_get L n k')"
  by (simp add: nv_laws_def)

lemma nv_unpack_pack:
  "nv_laws L \<Longrightarrow> nv_pack L t n = Some b \<Longrightarrow> nv_unpack L t' b = Some m \<Longrightarrow> nv_get L m = nv_get L n"
  by (simp add: nv_laws_def)

lemma nv_pack_nonempty: "nv_laws L \<Longrightarrow> nv_pack L t n = Some b \<Longrightarrow> b \<noteq> []"
  by (simp add: nv_laws_def)

lemma nv_works_create: "nv_works L \<Longrightarrow> \<exists>n. nv_create L t = Some n"
  and nv_works_pack: "nv_works L \<Longrightarrow> \<exists>b. nv_pack L t n = Some b"
  and nv_works_unpack: "nv_works L \<Longrightarrow> nv_pack L t n = Some b \<Longrightarrow> \<exists>m. nv_unpack L t' b = Some m"
  by (simp_all add: nv_works_def)

section \<open>Mappings between structures and lists\<close>

text \<open>
  \<open>src/libutils/parser_mapping.h\<close>: a mapping names a variable and the place and type of its value in
  a structure. The place, an offset in C, is here the pair of functions that read and write what
  lies there. (The enumeration has these six values, so the \<open>default\<close> branches of the switches below
  are not reached.)
\<close>

datatype 's value_type =
  FIXEDSTRING "'s \<Rightarrow> string" "string \<Rightarrow> 's \<Rightarrow> 's" nat
| DYNAMICSTRING "'s \<Rightarrow> string option" "string option \<Rightarrow> 's \<Rightarrow> 's"
| UINT16 "'s \<Rightarrow> u16" "u16 \<Rightarrow> 's \<Rightarrow> 's"
| UINT32 "'s \<Rightarrow> u32" "u32 \<Rightarrow> 's \<Rightarrow> 's"
| UINT64 "'s \<Rightarrow> u64" "u64 \<Rightarrow> 's \<Rightarrow> 's"
| BOOLEAN "'s \<Rightarrow> bool" "bool \<Rightarrow> 's \<Rightarrow> 's"

record 's parser_mapping =
  pm_varname :: string
  pm_value_type :: "'s value_type"

fun encode_value :: "'s value_type \<Rightarrow> 's \<Rightarrow> nv_value" where
  "encode_value (FIXEDSTRING get put len) s = NvString (get s)"
| "encode_value (DYNAMICSTRING get put) s = (case get s of Some t \<Rightarrow> NvString t | None \<Rightarrow> NvNull)"
| "encode_value (UINT64 get put) s = NvNumber (get s)"
| "encode_value (UINT32 get put) s = NvNumber (ucast (get s))"
| "encode_value (UINT16 get put) s = NvNumber (ucast (get s))"
| "encode_value (BOOLEAN get put) s = NvBool (get s)"

fun encode_items :: "'n nvlib \<Rightarrow> 's parser_mapping list \<Rightarrow> 's \<Rightarrow> 'n \<Rightarrow> 'n" where
  "encode_items L [] s nvl = nvl"
| "encode_items L (m # ms) s nvl =
     encode_items L ms s (nv_add L nvl (pm_varname m) (encode_value (pm_value_type m) s))"

definition bcmd_encodenvlist ::
  "'n nvlib \<Rightarrow> 's parser_mapping list option \<Rightarrow> 's option \<Rightarrow> 'n option \<Rightarrow> 'm world_scheme
   \<Rightarrow> int \<times> 'n option \<times> 'm world_scheme" where
  "bcmd_encodenvlist L mapping buffer nvl w =
     (case (mapping, buffer, nvl) of
        (Some ms, Some s, Some n) \<Rightarrow> (0, Some (encode_items L ms s n), w)
      | _ \<Rightarrow> (-1, nvl, set_errno EINVAL w))"

text \<open>One round of the loop of \<open>bcmd_decodenvlist\<close>; \<open>None\<close> is the early return.\<close>

fun decode_value ::
  "'n nvlib \<Rightarrow> 'n \<Rightarrow> string \<Rightarrow> 's value_type \<Rightarrow> 's \<Rightarrow> 'm world_scheme \<Rightarrow> 's option \<times> 's \<times> 'm world_scheme" where
  "decode_value L nvl name (FIXEDSTRING get put len) s w =
     (case nv_string L nvl name of
        None \<Rightarrow> (Some s, s, w)
      | Some t \<Rightarrow> (Some (put (strncpy_buf len t) s), s, w))"
| "decode_value L nvl name (DYNAMICSTRING get put) s w =
     (case nv_string L nvl name of
        None \<Rightarrow> (Some (put None s), s, w)
      | Some t \<Rightarrow> (let (ok, w') = sys_malloc w
                   in if ok then (Some (put (Some t) s), s, w') else (None, put None s, w')))"
| "decode_value L nvl name (UINT64 get put) s w =
     (case nv_number L nvl name of None \<Rightarrow> (Some s, s, w) | Some n \<Rightarrow> (Some (put n s), s, w))"
| "decode_value L nvl name (UINT32 get put) s w =
     (case nv_number L nvl name of None \<Rightarrow> (Some s, s, w) | Some n \<Rightarrow> (Some (put (ucast n) s), s, w))"
| "decode_value L nvl name (UINT16 get put) s w =
     (case nv_number L nvl name of None \<Rightarrow> (Some s, s, w) | Some n \<Rightarrow> (Some (put (ucast n) s), s, w))"
| "decode_value L nvl name (BOOLEAN get put) s w =
     (case nv_bool L nvl name of None \<Rightarrow> (Some s, s, w) | Some b \<Rightarrow> (Some (put b s), s, w))"

fun bcmd_decodenvlist ::
  "'n nvlib \<Rightarrow> 's parser_mapping list \<Rightarrow> 's \<Rightarrow> 'n \<Rightarrow> 'm world_scheme \<Rightarrow> int \<times> 's \<times> 'm world_scheme" where
  "bcmd_decodenvlist L [] s nvl w = (0, s, w)"
| "bcmd_decodenvlist L (m # ms) s nvl w =
     (case decode_value L nvl (pm_varname m) (pm_value_type m) s w of
        (None, s', w') \<Rightarrow> (-1, s', w')
      | (Some s', _, w') \<Rightarrow> bcmd_decodenvlist L ms s' nvl w')"

section \<open>User commands\<close>

record bhyve_usercommand =
  bcmd_cmd :: "string option"
  bcmd_vmname :: "string option"
  bcmd_result :: u32
  bcmd_reply :: "string option"
  bcmd_replylen :: nat
  bcmd_blob :: "bytes option"
  bcmd_bloblen :: nat

definition bcmd_zero :: bhyve_usercommand where
  "bcmd_zero = \<lparr>bcmd_cmd = None, bcmd_vmname = None, bcmd_result = 0, bcmd_reply = None, bcmd_replylen = 0,
     bcmd_blob = None, bcmd_bloblen = 0\<rparr>"

definition bhyve_command_nv :: "bhyve_usercommand parser_mapping list" where
  "bhyve_command_nv =
     [\<lparr>pm_varname = ''cmd'', pm_value_type = DYNAMICSTRING bcmd_cmd (\<lambda>v s. s\<lparr>bcmd_cmd := v\<rparr>)\<rparr>,
      \<lparr>pm_varname = ''vmname'', pm_value_type = DYNAMICSTRING bcmd_vmname (\<lambda>v s. s\<lparr>bcmd_vmname := v\<rparr>)\<rparr>,
      \<lparr>pm_varname = ''result'', pm_value_type = UINT32 bcmd_result (\<lambda>v s. s\<lparr>bcmd_result := v\<rparr>)\<rparr>,
      \<lparr>pm_varname = ''reply'', pm_value_type = DYNAMICSTRING bcmd_reply (\<lambda>v s. s\<lparr>bcmd_reply := v\<rparr>)\<rparr>]"

definition bcmd_encodenvlist_command ::
  "'n nvlib \<Rightarrow> bhyve_usercommand option \<Rightarrow> 'n option \<Rightarrow> 'm world_scheme
   \<Rightarrow> int \<times> 'n option \<times> 'm world_scheme" where
  "bcmd_encodenvlist_command L buffer nvl w = bcmd_encodenvlist L (Some bhyve_command_nv) buffer nvl w"

definition bcmd_parse_nvlistcmd ::
  "'n nvlib \<Rightarrow> bytes \<Rightarrow> bhyve_usercommand \<Rightarrow> 'm world_scheme \<Rightarrow> int \<times> bhyve_usercommand \<times> 'm world_scheme" where
  "bcmd_parse_nvlistcmd L buffer bcmd w =
     (let (nvl, w1) = nvlist_unpack L buffer w
      in case nvl of
           None \<Rightarrow> (-1, bcmd, w1)
         | Some n \<Rightarrow> bcmd_decodenvlist L bhyve_command_nv bcmd n w1)"

text \<open>
  \<open>command_sender.h\<close>: the object that carries a packed command to the daemon. Both functions may
  fill the reply buffer, the first also the blob, so they map the command to the command; \<open>None\<close> is a
  sender that touches memory that is not its own or never returns.
\<close>

type_synonym 'w send_func = "bytes \<Rightarrow> bhyve_usercommand \<Rightarrow> 'w \<Rightarrow> (int \<times> bhyve_usercommand \<times> 'w) option"

record 'w bhyve_command_sender =
  bcs_send_dynamic :: "'w send_func option"
  bcs_send_fixed :: "'w send_func"

definition bcs_sendcmd_raw ::
  "'n nvlib \<Rightarrow> bhyve_usercommand option \<Rightarrow> ('m world_scheme) bhyve_command_sender option \<Rightarrow> 'm world_scheme
   \<Rightarrow> (int \<times> bhyve_usercommand option \<times> 'm world_scheme) option" where
  "bcs_sendcmd_raw L bcmd bcs w =
     (case (bcmd, bcs) of
        (Some c, Some sender) \<Rightarrow>
          (let (nvl, w1) = nvlist_create L w
           in case nvl of
                None \<Rightarrow> Some (-1, bcmd, w1)
              | Some n \<Rightarrow>
                  (let (r, nvl', w2) = bcmd_encodenvlist_command L (Some c) (Some n) w1
                   in if r \<noteq> 0 then Some (-1, bcmd, w2)
                      else (let (buffer, w3) = nvlist_pack L (the nvl') w2
                            in case buffer of
                                 None \<Rightarrow> Some (-1, bcmd, w3)
                               | Some b \<Rightarrow>
                                   map_option (\<lambda>(result, c', w4). (result, Some c', w4))
                                     (case bcs_send_dynamic sender of
                                        Some send \<Rightarrow> send b c w3
                                      | None \<Rightarrow> bcs_send_fixed sender b c w3))))
      | _ \<Rightarrow> Some (-1, bcmd, set_errno EINVAL w))"

definition bcs_sendcmd ::
  "'n nvlib \<Rightarrow> string option \<Rightarrow> string option \<Rightarrow> ('m world_scheme) bhyve_command_sender option
   \<Rightarrow> 'm world_scheme \<Rightarrow> (int \<times> 'm world_scheme) option" where
  "bcs_sendcmd L cmd vmname bcs w =
     (if cmd = None \<or> vmname = None \<or> bcs = None then Some (-1, set_errno EINVAL w)
      else map_option (\<lambda>(r, _, w'). (r, w'))
             (bcs_sendcmd_raw L (Some (bcmd_zero\<lparr>bcmd_cmd := cmd, bcmd_vmname := vmname\<rparr>)) bcs w))"

section \<open>Decoding what was encoded\<close>

text \<open>What a mapping carries over from one structure to another.\<close>

fun copy_value :: "'s value_type \<Rightarrow> 's \<Rightarrow> 's \<Rightarrow> 's" where
  "copy_value (FIXEDSTRING get put len) s t = put (strncpy_buf len (get s)) t"
| "copy_value (DYNAMICSTRING get put) s t = put (get s) t"
| "copy_value (UINT64 get put) s t = put (get s) t"
| "copy_value (UINT32 get put) s t = put (get s) t"
| "copy_value (UINT16 get put) s t = put (get s) t"
| "copy_value (BOOLEAN get put) s t = put (get s) t"

definition copy_items :: "'s parser_mapping list \<Rightarrow> 's \<Rightarrow> 's \<Rightarrow> 's" where
  "copy_items ms s t = fold (\<lambda>m. copy_value (pm_value_type m) s) ms t"

lemma encode_items_get:
  "nv_laws L \<Longrightarrow> distinct (map pm_varname ms) \<Longrightarrow> \<forall>m \<in> set ms. nv_get L nvl (pm_varname m) = None \<Longrightarrow>
   (\<forall>m \<in> set ms. nv_get L (encode_items L ms s nvl) (pm_varname m) = Some (encode_value (pm_value_type m) s)) \<and>
   (\<forall>k. k \<notin> pm_varname ` set ms \<longrightarrow> nv_get L (encode_items L ms s nvl) k = nv_get L nvl k)"
proof (induction ms arbitrary: nvl)
  case (Cons m ms)
  let ?n = "nv_add L nvl (pm_varname m) (encode_value (pm_value_type m) s)"
  have add: "nv_get L ?n k = (if k = pm_varname m then Some (encode_value (pm_value_type m) s) else nv_get L nvl k)" for k
    using Cons.prems by (intro nv_get_add) simp_all
  have "\<forall>m' \<in> set ms. nv_get L ?n (pm_varname m') = None"
    using Cons.prems by (auto simp: add) (metis image_eqI)
  with Cons.IH [of ?n] Cons.prems add show ?case by auto
qed simp

lemma ucast_back [simp]:
  "ucast (ucast (x :: u32) :: u64) = x" "ucast (ucast (y :: u16) :: u64) = y"
  by (rule bit_word_eqI; auto simp: bit_simps)+

lemma decode_value_copy:
  assumes "nv_get L nvl k = Some (encode_value v s)" and "\<forall>n. os_malloc (w_os w) n"
  shows "\<exists>w'. decode_value L nvl k v t w = (Some (copy_value v s t), t, w') \<and> w_os w' = w_os w"
  using assms
  by (cases v) (auto simp: nv_string_def nv_number_def nv_bool_def sys_malloc_def sys_try_def ask_def
      split: option.split)

lemma decode_copy:
  "\<forall>m \<in> set ms. nv_get L nvl (pm_varname m) = Some (encode_value (pm_value_type m) s) \<Longrightarrow>
   \<forall>n. os_malloc (w_os w) n \<Longrightarrow>
   \<exists>w'. bcmd_decodenvlist L ms t nvl w = (0, copy_items ms s t, w') \<and> w_os w' = w_os w"
proof (induction ms arbitrary: t w)
  case (Cons m ms)
  from decode_value_copy [of L nvl "pm_varname m" "pm_value_type m" s w t] Cons.prems obtain w1 where
    "decode_value L nvl (pm_varname m) (pm_value_type m) t w = (Some (copy_value (pm_value_type m) s t), t, w1)"
    "w_os w1 = w_os w" by auto
  with Cons.IH [of w1 "copy_value (pm_value_type m) s t"] Cons.prems show ?case by (auto simp: copy_items_def)
qed (simp add: copy_items_def)

section \<open>Tables that name each variable once\<close>

text \<open>
  What the users of a table rely on. Any structure survives the trip through a name-value list as far as
  its table goes.
\<close>

locale named_table =
  fixes table :: "'s parser_mapping list"
  assumes names: "distinct (map pm_varname table)"
begin

lemma entry_found: "m \<in> set table \<Longrightarrow> List.find (\<lambda>m'. pm_varname m' = pm_varname m) table = Some m"
  using names by (induction table) (auto simp: image_iff)

lemma same_entry: "m \<in> set table \<Longrightarrow> m' \<in> set table \<Longrightarrow> pm_varname m = pm_varname m' \<Longrightarrow> m = m'"
  using names by (auto simp: distinct_map dest: inj_onD)

lemma encoded:
  assumes "nv_laws L" and "\<And>k. nv_get L nvl k = None"
  shows "\<forall>m \<in> set table. nv_get L (encode_items L table s nvl) (pm_varname m) = Some (encode_value (pm_value_type m) s)"
    and "k \<notin> pm_varname ` set table \<Longrightarrow> nv_get L (encode_items L table s nvl) k = None"
  using encode_items_get [OF assms(1) names, of nvl s] assms(2) by simp_all

lemma decoded:
  assumes "nv_laws L" and "\<And>k. nv_get L nvl k = None"
    and "nv_get L nvl' = nv_get L (encode_items L table s nvl)" and "\<forall>n. os_malloc (w_os w) n"
  shows "\<exists>w'. bcmd_decodenvlist L table t nvl' w = (0, copy_items table s t, w') \<and> w_os w' = w_os w"
  using encoded(1) [OF assms(1,2)] assms(3,4) by (intro decode_copy) auto

end

interpretation command_table: named_table bhyve_command_nv
  by unfold_locales (simp add: bhyve_command_nv_def)

end
