(* ===== verification/Config_Parse.thy ===== *)
theory Config_Parse
  imports Bhyve_Config Bhyve_Command
begin

text \<open>
  Reading configuration files: \<open>src/libprocwatch/bhyve_uclparser.c\<close>, \<open>bhyve_uclparser_funcs.c\<close>, the tables
  and the file handling of \<open>bhyve_config.c\<close> and \<open>bhyve_config_console.c\<close>, and \<open>daemon_config.c\<close>.

  UCL files are parsed by libucl, which is not part of the repository: the record \<open>ucllib\<close> holds what
  the code asks of it. \<open>ucl_children\<close> are the values \<open>ucl_iterate_object\<close> yields one after the other;
  \<open>ucl_tostring\<close> is null for a value that is not a string.

  The result \<open>None\<close> is a null pointer that the code dereferences or memory that it releases twice.
\<close>

section \<open>The library of UCL objects\<close>

datatype 'u ucl_file = UclNoParser | UclBadFile | UclEmpty | UclRoot 'u

record 'u ucllib =
  ucl_load :: "nat \<Rightarrow> string \<Rightarrow> 'u ucl_file"
  ucl_children :: "'u \<Rightarrow> 'u list"
  ucl_key :: "'u \<Rightarrow> string option"
  ucl_tostring :: "'u \<Rightarrow> string option"
  ucl_toint :: "'u \<Rightarrow> int"
  ucl_toboolean :: "'u \<Rightarrow> bool"

section \<open>The generic parser\<close>

definition bup_findmapping ::
  "'s parser_mapping list option \<Rightarrow> string option \<Rightarrow> 'm world_scheme \<Rightarrow> 's parser_mapping option \<times> 'm world_scheme" where
  "bup_findmapping mappings varname w =
     (case (mappings, varname) of
        (Some ms, Some v) \<Rightarrow>
          if ms = [] then (None, set_errno EINVAL w) else (List.find (\<lambda>m. pm_varname m = v) ms, w)
      | _ \<Rightarrow> (None, set_errno EINVAL w))"

text \<open>A sub parser fills a place of the structure, here the function that writes a console list there.\<close>

type_synonym 's console_place = "bhyve_configuration_console_list option \<Rightarrow> 's \<Rightarrow> 's"

record ('u, 's, 'w) bhyve_uclparser_item =
  bui_varname :: string
  bui_place :: "'s console_place"
  bui_delegate_func :: "('u \<Rightarrow> 's console_place \<Rightarrow> 's \<Rightarrow> 'w \<Rightarrow> (int \<times> 's \<times> 'w) option) option"

definition bup_find_subparser ::
  "('u, 's, 'm world_scheme) bhyve_uclparser_item list option \<Rightarrow> string option \<Rightarrow> 'm world_scheme
   \<Rightarrow> ('u, 's, 'm world_scheme) bhyve_uclparser_item option \<times> 'm world_scheme" where
  "bup_find_subparser bup varname w =
     (case (bup, varname) of
        (Some bs, Some v) \<Rightarrow>
          if bs = [] then (None, set_errno EINVAL w) else (List.find (\<lambda>b. bui_varname b = v) bs, w)
      | _ \<Rightarrow> (None, set_errno EINVAL w))"

text \<open>The switch over the type of a value: the return value when the function returns there, the
  structure and the world.\<close>

fun parse_value ::
  "'u ucllib \<Rightarrow> 's value_type \<Rightarrow> 'u \<Rightarrow> 's \<Rightarrow> 'm world_scheme \<Rightarrow> (int option \<times> 's \<times> 'm world_scheme) option" where
  "parse_value L (FIXEDSTRING get put len) cur s w =
     (case ucl_tostring L cur of None \<Rightarrow> None | Some t \<Rightarrow> Some (None, put (strncpy_buf len t) s, w))"
| "parse_value L (DYNAMICSTRING get put) cur s w =
     (case ucl_tostring L cur of
        None \<Rightarrow> Some (None, put None s, w)
      | Some t \<Rightarrow>
          (let (ok, w') = sys_malloc w
           in Some (if ok then (None, put (Some t) s, w') else (Some (-1), put None s, w'))))"
| "parse_value L (UINT64 get put) cur s w = Some (None, put (word_of_int (ucl_toint L cur)) s, w)"
| "parse_value L (UINT32 get put) cur s w = Some (None, put (word_of_int (ucl_toint L cur)) s, w)"
| "parse_value L (UINT16 get put) cur s w = Some (None, put (word_of_int (ucl_toint L cur)) s, w)"
| "parse_value L (BOOLEAN get put) cur s w = Some (None, put (ucl_toboolean L cur) s, w)"

fun parse_items ::
  "'u ucllib \<Rightarrow> 's parser_mapping list \<Rightarrow> ('u, 's, 'm world_scheme) bhyve_uclparser_item list option
   \<Rightarrow> 'u list \<Rightarrow> 's \<Rightarrow> 'm world_scheme \<Rightarrow> (int \<times> 's \<times> 'm world_scheme) option" where
  "parse_items L ms subs [] s w = Some (0, s, w)"
| "parse_items L ms subs (cur # cs) s w =
     (let (mapping, w1) = bup_findmapping (Some ms) (ucl_key L cur) w
      in case mapping of
           None \<Rightarrow>
             (let (bui, w2) = (if subs \<noteq> None then bup_find_subparser subs (ucl_key L cur) w1 else (None, w1))
              in case Option.bind bui bui_delegate_func of
                   None \<Rightarrow> parse_items L ms subs cs s w2
                 | Some f \<Rightarrow>
                     (case f cur (bui_place (the bui)) s w2 of
                        None \<Rightarrow> None
                      | Some (_, s', w3) \<Rightarrow> parse_items L ms subs cs s' w3))
         | Some m \<Rightarrow>
             (case parse_value L (pm_value_type m) cur s w1 of
                None \<Rightarrow> None
              | Some (Some r, s', w2) \<Rightarrow> Some (r, s', w2)
              | Some (None, s', w2) \<Rightarrow> parse_items L ms subs cs s' w2))"

definition bup_generic_parsefromucl ::
  "'u ucllib \<Rightarrow> 's \<Rightarrow> 'u \<Rightarrow> 's parser_mapping list \<Rightarrow> ('u, 's, 'm world_scheme) bhyve_uclparser_item list option
   \<Rightarrow> 'm world_scheme \<Rightarrow> (int \<times> 's \<times> 'm world_scheme) option" where
  "bup_generic_parsefromucl L ctx confobj ms subs w = parse_items L ms subs (ucl_children L confobj) ctx w"

definition bup_parsefromucl ::
  "'u ucllib \<Rightarrow> bhyve_configuration \<Rightarrow> 'u \<Rightarrow> bhyve_configuration parser_mapping list
   \<Rightarrow> ('u, bhyve_configuration, 'm world_scheme) bhyve_uclparser_item list option
   \<Rightarrow> 'm world_scheme \<Rightarrow> (int \<times> bhyve_configuration \<times> 'm world_scheme) option" where
  "bup_parsefromucl L bc confobj ms subs w = bup_generic_parsefromucl L bc confobj ms subs w"

section \<open>Consoles\<close>

definition bc_console2config :: "bhyve_configuration_console parser_mapping list" where
  "bc_console2config =
     [\<lparr>pm_varname = ''name'', pm_value_type = DYNAMICSTRING bcc_name (\<lambda>v c. c\<lparr>bcc_name := v\<rparr>)\<rparr>,
      \<lparr>pm_varname = ''enabled'', pm_value_type = BOOLEAN bcc_enabled (\<lambda>v c. c\<lparr>bcc_enabled := v\<rparr>)\<rparr>,
      \<lparr>pm_varname = ''backend'', pm_value_type = DYNAMICSTRING bcc_backend (\<lambda>v c. c\<lparr>bcc_backend := v\<rparr>)\<rparr>]"

text \<open>The list is \<open>None\<close> after \<open>buf_parse_console\<close> released it on an error.\<close>

definition buf_parse_console ::
  "'u ucllib \<Rightarrow> bhyve_configuration_console_list \<Rightarrow> string option \<Rightarrow> 'u \<Rightarrow> 'm world_scheme
   \<Rightarrow> (int \<times> bhyve_configuration_console_list option \<times> 'm world_scheme) option" where
  "buf_parse_console L bccl consolename confobj w =
     (let (bcc, w1) = bcc_new consolename True w
      in case bcc of
           None \<Rightarrow> Some (-1, Some bccl, w1)
         | Some c \<Rightarrow>
             (case bup_generic_parsefromucl L c confobj bc_console2config None w1 of
                None \<Rightarrow> None
              | Some (r, c', w2) \<Rightarrow>
                  if r \<noteq> 0 then Some (-1, None, w2)
                  else (let (r', bccl') = bccl_add (Some bccl) (Some c')
                        in Some (if r' \<noteq> 0 then -1 else 0, bccl', w2))))"

text \<open>\<open>bup_parselistfromucl\<close> with the one sub parser it is called with.\<close>

fun bup_parselistfromucl ::
  "('u ucllib \<Rightarrow> 'a \<Rightarrow> string option \<Rightarrow> 'u \<Rightarrow> 'w \<Rightarrow> (int \<times> 'a option \<times> 'w) option)
   \<Rightarrow> 'u ucllib \<Rightarrow> 'a option \<Rightarrow> 'u list \<Rightarrow> 'w \<Rightarrow> (int \<times> 'a option \<times> 'w) option" where
  "bup_parselistfromucl subparser L ctx [] w = Some (0, ctx, w)"
| "bup_parselistfromucl subparser L ctx (cur # cs) w =
     (case ctx of
        None \<Rightarrow> None
      | Some c \<Rightarrow>
          (case subparser L c (ucl_key L cur) cur w of
             None \<Rightarrow> None
           | Some (r, ctx', w') \<Rightarrow>
               if r \<noteq> 0 then Some (-1, ctx', w') else bup_parselistfromucl subparser L ctx' cs w'))"

definition buf_parse_console_list ::
  "'u ucllib \<Rightarrow> 'u \<Rightarrow> 's console_place \<Rightarrow> 's \<Rightarrow> 'm world_scheme \<Rightarrow> (int \<times> 's \<times> 'm world_scheme) option" where
  "buf_parse_console_list L confobj ctx s w =
     (let (bccl, w1) = bccl_new w
      in case bccl of
           None \<Rightarrow> Some (-1, s, w1)
         | Some _ \<Rightarrow>
             (case bup_parselistfromucl buf_parse_console L bccl (ucl_children L confobj) w1 of
                None \<Rightarrow> None
              | Some (r, bccl', w2) \<Rightarrow>
                  if r \<noteq> 0 then (case bccl' of None \<Rightarrow> None | Some _ \<Rightarrow> Some (-1, s, w2))
                  else Some (0, ctx bccl' s, w2)))"

section \<open>Configurations\<close>

text \<open>
  The table maps \<open>cores\<close> as a pointer to a string. A string that is read leaves its address there, of
  which the 16 bits of the member keep the lowest, \<open>addr\<close>; a null pointer leaves zero.
\<close>

definition put_cores :: "u16 \<Rightarrow> string option \<Rightarrow> bhyve_configuration \<Rightarrow> bhyve_configuration" where
  "put_cores addr v bc = bc\<lparr>bc_cores_text := v, bc_cores := (if v = None then 0 else addr)\<rparr>"

definition bc_nvlist2config :: "u16 \<Rightarrow> bhyve_configuration parser_mapping list" where
  "bc_nvlist2config addr =
     [\<lparr>pm_varname = ''name'', pm_value_type = FIXEDSTRING bc_name (\<lambda>v c. c\<lparr>bc_name := v\<rparr>) PATH_MAX\<rparr>,
      \<lparr>pm_varname = ''configfile'', pm_value_type = FIXEDSTRING bc_configfile (\<lambda>v c. c\<lparr>bc_configfile := v\<rparr>) PATH_MAX\<rparr>,
      \<lparr>pm_varname = ''scriptpath'', pm_value_type = FIXEDSTRING bc_scriptpath (\<lambda>v c. c\<lparr>bc_scriptpath := v\<rparr>) PATH_MAX\<rparr>,
      \<lparr>pm_varname = ''os'', pm_value_type = DYNAMICSTRING bc_os (\<lambda>v c. c\<lparr>bc_os := v\<rparr>)\<rparr>,
      \<lparr>pm_varname = ''osversion'', pm_value_type = DYNAMICSTRING bc_osversion (\<lambda>v c. c\<lparr>bc_osversion := v\<rparr>)\<rparr>,
      \<lparr>pm_varname = ''owner'', pm_value_type = DYNAMICSTRING bc_owner (\<lambda>v c. c\<lparr>bc_owner := v\<rparr>)\<rparr>,
      \<lparr>pm_varname = ''group'', pm_value_type = DYNAMICSTRING bc_group (\<lambda>v c. c\<lparr>bc_group := v\<rparr>)\<rparr>,
      \<lparr>pm_varname = ''description'', pm_value_type = DYNAMICSTRING bc_description (\<lambda>v c. c\<lparr>bc_description := v\<rparr>)\<rparr>,
      \<lparr>pm_varname = ''maxrestart'', pm_value_type = UINT32 bc_maxrestart (\<lambda>v c. c\<lparr>bc_maxrestart := v\<rparr>)\<rparr>,
      \<lparr>pm_varname = ''maxrestarttime'', pm_value_type = UINT64 (\<lambda>c. word_of_int (bc_maxrestarttime c))
         (\<lambda>v c. c\<lparr>bc_maxrestarttime := sint v\<rparr>)\<rparr>,
      \<lparr>pm_varname = ''autostart'', pm_value_type = BOOLEAN bc_autostart (\<lambda>v c. c\<lparr>bc_autostart := v\<rparr>)\<rparr>,
      \<lparr>pm_varname = ''bootrom'', pm_value_type = DYNAMICSTRING bc_bootrom (\<lambda>v c. c\<lparr>bc_bootrom := v\<rparr>)\<rparr>,
      \<lparr>pm_varname = ''memory'', pm_value_type = UINT32 bc_memory (\<lambda>v c. c\<lparr>bc_memory := v\<rparr>)\<rparr>,
      \<lparr>pm_varname = ''numcpus'', pm_value_type = UINT16 bc_numcpus (\<lambda>v c. c\<lparr>bc_numcpus := v\<rparr>)\<rparr>,
      \<lparr>pm_varname = ''sockets'', pm_value_type = UINT16 bc_sockets (\<lambda>v c. c\<lparr>bc_sockets := v\<rparr>)\<rparr>,
      \<lparr>pm_varname = ''cores'', pm_value_type = DYNAMICSTRING bc_cores_text (put_cores addr)\<rparr>,
      \<lparr>pm_varname = ''generate_acpi_tables'', pm_value_type = BOOLEAN bc_generate_acpi_tables
         (\<lambda>v c. c\<lparr>bc_generate_acpi_tables := v\<rparr>)\<rparr>,
      \<lparr>pm_varname = ''wire_memory'', pm_value_type = BOOLEAN bc_wire_memory (\<lambda>v c. c\<lparr>bc_wire_memory := v\<rparr>)\<rparr>,
      \<lparr>pm_varname = ''vmexit_on_halt'', pm_value_type = BOOLEAN bc_vmexit_on_halt (\<lambda>v c. c\<lparr>bc_vmexit_on_halt := v\<rparr>)\<rparr>,
      \<lparr>pm_varname = ''hostbridge'', pm_value_type = DYNAMICSTRING bc_hostbridge (\<lambda>v c. c\<lparr>bc_hostbridge := v\<rparr>)\<rparr>]"

definition bc_ucl2subparser_items ::
  "'u ucllib \<Rightarrow> ('u, bhyve_configuration, 'm world_scheme) bhyve_uclparser_item list" where
  "bc_ucl2subparser_items L =
     [\<lparr>bui_varname = ''consoles'', bui_place = (\<lambda>v c. c\<lparr>bc_consoles := v\<rparr>),
       bui_delegate_func = Some (buf_parse_console_list L)\<rparr>]"

definition bc_parsefromucl ::
  "'u ucllib \<Rightarrow> u16 \<Rightarrow> bhyve_configuration \<Rightarrow> 'u \<Rightarrow> 'm world_scheme
   \<Rightarrow> (int \<times> bhyve_configuration \<times> 'm world_scheme) option" where
  "bc_parsefromucl L addr bc confobj w =
     bup_parsefromucl L bc confobj (bc_nvlist2config addr) (Some (bc_ucl2subparser_items L)) w"

text \<open>The lookup function that a macro of \<open>src/libcommand/nvlist_mapping.h\<close> makes for a table.\<close>

definition nvlistitem_mapping_lookupfunc :: "'s parser_mapping list \<Rightarrow> string option \<Rightarrow> 's parser_mapping option" where
  "nvlistitem_mapping_lookupfunc v input =
     (case input of None \<Rightarrow> None | Some name \<Rightarrow> List.find (\<lambda>m. pm_varname m = name) v)"

definition bc_findmapping :: "u16 \<Rightarrow> string option \<Rightarrow> bhyve_configuration parser_mapping option" where
  "bc_findmapping addr input = nvlistitem_mapping_lookupfunc (bc_nvlist2config addr) input"

definition bc_tonvlist ::
  "'n nvlib \<Rightarrow> u16 \<Rightarrow> bhyve_configuration option \<Rightarrow> 'n option \<Rightarrow> 'm world_scheme \<Rightarrow> int \<times> 'n option \<times> 'm world_scheme" where
  "bc_tonvlist N addr bc nvl w = bcmd_encodenvlist N (Some (bc_nvlist2config addr)) bc nvl w"

definition bc_fromnvlist ::
  "'n nvlib \<Rightarrow> u16 \<Rightarrow> bhyve_configuration option \<Rightarrow> 'n option \<Rightarrow> 'm world_scheme
   \<Rightarrow> int \<times> bhyve_configuration option \<times> 'm world_scheme" where
  "bc_fromnvlist N addr bc nvl w =
     (case (bc, nvl) of
        (Some c, Some n) \<Rightarrow>
          (let (r, c', w') = bcmd_decodenvlist N (bc_nvlist2config addr) c n w in (r, Some c', w'))
      | _ \<Rightarrow> (-1, bc, set_errno EINVAL w))"

section \<open>Files and directories\<close>

text \<open>The loop over the sections of a file; each round that gets so far adds a configuration to the store.\<close>

fun parse_configs ::
  "'u ucllib \<Rightarrow> string \<Rightarrow> 'u list \<Rightarrow> bhyve_configuration_store \<Rightarrow> 'm world_scheme
   \<Rightarrow> (bhyve_configuration_store \<times> 'm world_scheme) option" where
  "parse_configs L configfile [] bcs w = Some (bcs, w)"
| "parse_configs L configfile (cur # cs) bcs w =
     (let (ok, w1) = sys_malloc w
      in if \<not> ok then Some (bcs, w1)
         else (case ucl_key L cur of
                 None \<Rightarrow> None
               | Some configname \<Rightarrow>
                   (let (addr, w2) = ask os_addr w1
                    in case bc_parsefromucl L addr (bc_zero\<lparr>bc_name := strncpy_buf PATH_MAX configname\<rparr>) cur w2 of
                         None \<Rightarrow> None
                       | Some (r, bc, w3) \<Rightarrow>
                           if r \<noteq> 0 then Some (bcs, w3)
                           else (let (ok', w4) = sys_malloc w3
                                 in if \<not> ok' then Some (bcs, w4)
                                    else parse_configs L configfile cs
                                      (bcs\<lparr>bcs_configs := bc\<lparr>bc_backing_filepath := Some configfile\<rparr> # bcs_configs bcs\<rparr>) w4))))"

definition bcs_parseucl ::
  "'u ucllib \<Rightarrow> bhyve_configuration_store \<Rightarrow> string \<Rightarrow> 'm world_scheme
   \<Rightarrow> (int \<times> bhyve_configuration_store \<times> 'm world_scheme) option" where
  "bcs_parseucl L bcs configfile w =
     (let (file, w1) = (ucl_load L (w_tick w) configfile, tock w)
      in case file of
           UclNoParser \<Rightarrow> Some (-1, bcs, w1)
         | UclBadFile \<Rightarrow> Some (-1, bcs, w1)
         | UclEmpty \<Rightarrow> Some (0, bcs, w1)
         | UclRoot root \<Rightarrow>
             map_option (\<lambda>(bcs', w2). (0, bcs', w2)) (parse_configs L configfile (ucl_children L root) bcs w1))"

definition bcs_parseconfdir ::
  "'u ucllib \<Rightarrow> bhyve_configuration_store option \<Rightarrow> string option \<Rightarrow> 'm world_scheme
   \<Rightarrow> (int \<times> bhyve_configuration_store option \<times> 'm world_scheme) option" where
  "bcs_parseconfdir L bcs path w =
     (case (bcs, path) of
        (Some b, Some p) \<Rightarrow>
          (let (ok, w1) = sys_malloc w; configlen = length ''config'' + length p + 2
           in if \<not> ok then Some (-1, bcs, w1)
              else map_option (\<lambda>(r, b', w'). (r, Some b', w'))
                     (bcs_parseucl L b (snprintf_buf configlen (p @ ''/'' @ ''config'')) w1))
      | _ \<Rightarrow> Some (-1, bcs, w))"

definition DT_DIR :: u8 where "DT_DIR = 4"

text \<open>The loop over the entries of the directory. An entry has a name and a type.\<close>

fun walk_entries ::
  "'u ucllib \<Rightarrow> (string \<times> u8) list \<Rightarrow> bool \<Rightarrow> bhyve_configuration_store \<Rightarrow> 'm world_scheme
   \<Rightarrow> (bool \<times> bhyve_configuration_store \<times> 'm world_scheme) option" where
  "walk_entries L [] found_one bcs w = Some (found_one, bcs, w)"
| "walk_entries L ((name, ty) # es) found_one bcs w =
     (if name \<noteq> [] \<and> hd name = CHR ''.'' then walk_entries L es found_one bcs w
      else if DT_DIR AND ty = 0 then walk_entries L es found_one bcs w
      else (let (ok, w1) = sys_malloc w; maxbuf = length (bcs_searchpath bcs) + length name + 2
            in if \<not> ok then Some (found_one, bcs, w1)
               else (case bcs_parseconfdir L (Some bcs)
                            (Some (snprintf_buf maxbuf (bcs_searchpath bcs @ ''/'' @ name))) w1 of
                       None \<Rightarrow> None
                     | Some (r, bcs', w2) \<Rightarrow> walk_entries L es (found_one \<or> r = 0) (the bcs') w2)))"

definition bcs_walkdir ::
  "'u ucllib \<Rightarrow> bhyve_configuration_store option \<Rightarrow> 'm world_scheme
   \<Rightarrow> (int \<times> bhyve_configuration_store option \<times> 'm world_scheme) option" where
  "bcs_walkdir L bcs w =
     (case bcs of
        None \<Rightarrow> Some (-1, None, w)
      | Some b \<Rightarrow>
          (let (d, w1) = ask (\<lambda>s n. os_readdir s n (bcs_searchpath b)) w
           in case d of
                None \<Rightarrow> Some (1, Some b, set_errno ENOENT w1)
              | Some es \<Rightarrow>
                  (case walk_entries L es False b w1 of
                     None \<Rightarrow> None
                   | Some (found_one, b', w2) \<Rightarrow>
                       (let (ok, w3) = ask os_close (if found_one then w2 else set_errno ENOENT w2)
                        in Some (if \<not> ok \<or> \<not> found_one then 1 else 0, Some b', w3)))))"

section \<open>The store as an object\<close>

record 'w bhyve_configuration_store_funcs =
  bcsf_getconfig_byname :: "bhyve_configuration_store \<Rightarrow> string option \<Rightarrow> bhyve_configuration option"
  bcsf_getiterator :: "bhyve_configuration_store option \<Rightarrow> 'w \<Rightarrow> bhyve_configuration_iterator option \<times> 'w"

record 'w bhyve_configuration_store_obj =
  bcso_ctx :: "bhyve_configuration_store option"
  bcso_funcs :: "'w bhyve_configuration_store_funcs"

definition bcs_funcs :: "('m world_scheme) bhyve_configuration_store_funcs" where
  "bcs_funcs = \<lparr>bcsf_getconfig_byname = bcs_getconfig_byname, bcsf_getiterator = bcs_iterate_configs\<rparr>"

definition bcsobj_frombcs ::
  "bhyve_configuration_store option \<Rightarrow> 'm world_scheme
   \<Rightarrow> (('m world_scheme) bhyve_configuration_store_obj) option \<times> 'm world_scheme" where
  "bcsobj_frombcs bcs w =
     (let (ok, w') = sys_malloc w in (if ok then Some \<lparr>bcso_ctx = bcs, bcso_funcs = bcs_funcs\<rparr> else None, w'))"

section \<open>The daemon's own configuration\<close>

text \<open>The members are of type \<open>size_t\<close>, their table entries of 32 bits: reading a value replaces the lower
  half.\<close>

record daemon_config =
  dc_tapid_min :: u64
  dc_tapid_max :: u64
  dc_nmdmid_min :: u64
  dc_nmdmid_max :: u64

definition lower_half :: "u32 \<Rightarrow> u64 \<Rightarrow> u64" where
  "lower_half v x = (x AND 0xFFFFFFFF00000000) OR ucast v"

definition dconf_nvlist2config :: "daemon_config parser_mapping list" where
  "dconf_nvlist2config =
     [\<lparr>pm_varname = ''tap_min'', pm_value_type = UINT32 (\<lambda>c. ucast (dc_tapid_min c))
         (\<lambda>v c. c\<lparr>dc_tapid_min := lower_half v (dc_tapid_min c)\<rparr>)\<rparr>,
      \<lparr>pm_varname = ''tap_max'', pm_value_type = UINT32 (\<lambda>c. ucast (dc_tapid_max c))
         (\<lambda>v c. c\<lparr>dc_tapid_max := lower_half v (dc_tapid_max c)\<rparr>)\<rparr>,
      \<lparr>pm_varname = ''nmdm_min'', pm_value_type = UINT32 (\<lambda>c. ucast (dc_nmdmid_min c))
         (\<lambda>v c. c\<lparr>dc_nmdmid_min := lower_half v (dc_nmdmid_min c)\<rparr>)\<rparr>,
      \<lparr>pm_varname = ''nmdm_max'', pm_value_type = UINT32 (\<lambda>c. ucast (dc_nmdmid_max c))
         (\<lambda>v c. c\<lparr>dc_nmdmid_max := lower_half v (dc_nmdmid_max c)\<rparr>)\<rparr>]"

definition dconf_zero :: daemon_config where
  "dconf_zero = \<lparr>dc_tapid_min = 0, dc_tapid_max = 0, dc_nmdmid_min = 0, dc_nmdmid_max = 0\<rparr>"

definition dconf_findmapping :: "string option \<Rightarrow> daemon_config parser_mapping option" where
  "dconf_findmapping input = nvlistitem_mapping_lookupfunc dconf_nvlist2config input"

definition dconf_parsefromucl ::
  "'u ucllib \<Rightarrow> daemon_config \<Rightarrow> 'u \<Rightarrow> 'm world_scheme \<Rightarrow> (int \<times> daemon_config \<times> 'm world_scheme) option" where
  "dconf_parsefromucl L dc confobj w = bup_generic_parsefromucl L dc confobj dconf_nvlist2config None w"

text \<open>The loop over the sections, with the return code as it stands.\<close>

fun dconf_sections ::
  "'u ucllib \<Rightarrow> 'u list \<Rightarrow> int \<Rightarrow> daemon_config \<Rightarrow> 'm world_scheme \<Rightarrow> (int \<times> daemon_config \<times> 'm world_scheme) option" where
  "dconf_sections L [] retcode dc w = Some (retcode, dc, w)"
| "dconf_sections L (cur # cs) retcode dc w =
     (case ucl_key L cur of
        None \<Rightarrow> None
      | Some configname \<Rightarrow>
          if configname \<noteq> ''vmstated'' then dconf_sections L cs retcode dc w
          else (case dconf_parsefromucl L dconf_zero cur w of
                  None \<Rightarrow> None
                | Some (r, dc', w') \<Rightarrow> dconf_sections L cs r dc' w'))"

definition dconf_parseucl ::
  "'u ucllib \<Rightarrow> daemon_config \<Rightarrow> string \<Rightarrow> 'm world_scheme \<Rightarrow> (int \<times> daemon_config \<times> 'm world_scheme) option" where
  "dconf_parseucl L dc configfile w =
     (let (file, w1) = (ucl_load L (w_tick w) configfile, tock w)
      in case file of
           UclNoParser \<Rightarrow> Some (-1, dc, w1)
         | UclBadFile \<Rightarrow> Some (-1, dc, w1)
         | UclEmpty \<Rightarrow> Some (-1, dc, w1)
         | UclRoot root \<Rightarrow> dconf_sections L (ucl_children L root) 0 dc w1)"

definition dconf_new :: "'m world_scheme \<Rightarrow> daemon_config option \<times> 'm world_scheme" where
  "dconf_new w = (let (ok, w') = sys_malloc w in (if ok then Some dconf_zero else None, w'))"

text \<open>The getters return 32 bits.\<close>

definition dconf_get ::
  "(daemon_config \<Rightarrow> u64) \<Rightarrow> daemon_config option \<Rightarrow> 'm world_scheme \<Rightarrow> u32 \<times> 'm world_scheme" where
  "dconf_get member dc w = (case dc of None \<Rightarrow> (0, set_errno EINVAL w) | Some c \<Rightarrow> (ucast (member c), w))"

definition dconf_get_tapid_min :: "daemon_config option \<Rightarrow> 'm world_scheme \<Rightarrow> u32 \<times> 'm world_scheme" where
  "dconf_get_tapid_min dc w = dconf_get dc_tapid_min dc w"

definition dconf_get_tapid_max :: "daemon_config option \<Rightarrow> 'm world_scheme \<Rightarrow> u32 \<times> 'm world_scheme" where
  "dconf_get_tapid_max dc w = dconf_get dc_tapid_max dc w"

definition dconf_get_nmdmid_min :: "daemon_config option \<Rightarrow> 'm world_scheme \<Rightarrow> u32 \<times> 'm world_scheme" where
  "dconf_get_nmdmid_min dc w = dconf_get dc_nmdmid_min dc w"

definition dconf_get_nmdmid_max :: "daemon_config option \<Rightarrow> 'm world_scheme \<Rightarrow> u32 \<times> 'm world_scheme" where
  "dconf_get_nmdmid_max dc w = dconf_get dc_nmdmid_max dc w"

end
