(* ===== verification/Parse_Contract.thy ===== *)
theory Parse_Contract
  imports Config_Parse
begin

text \<open>
  What reading a configuration means. A value is written to one place of a structure and no other
  (\<open>lawful_table\<close>), so a parsed object leaves in each place the last value given for its key; the
  sections of a file become configurations of the store.
\<close>

section \<open>Places of a structure\<close>

text \<open>What \<open>encode_value\<close> reads back from the place of an entry is what was written there, and writing
  does not change what an observation \<open>f\<close> sees.\<close>

fun well_behaved :: "'s value_type \<Rightarrow> bool" where
  "well_behaved (FIXEDSTRING get put len) \<longleftrightarrow> (\<forall>v s. get (put v s) = v)"
| "well_behaved (DYNAMICSTRING get put) \<longleftrightarrow> (\<forall>v s. get (put v s) = v)"
| "well_behaved (UINT16 get put) \<longleftrightarrow> (\<forall>v s. get (put v s) = v)"
| "well_behaved (UINT32 get put) \<longleftrightarrow> (\<forall>v s. get (put v s) = v)"
| "well_behaved (UINT64 get put) \<longleftrightarrow> (\<forall>v s. get (put v s) = v)"
| "well_behaved (BOOLEAN get put) \<longleftrightarrow> (\<forall>v s. get (put v s) = v)"

fun leaves :: "'s value_type \<Rightarrow> ('s \<Rightarrow> 'a) \<Rightarrow> bool" where
  "leaves (FIXEDSTRING get put len) f \<longleftrightarrow> (\<forall>v s. f (put v s) = f s)"
| "leaves (DYNAMICSTRING get put) f \<longleftrightarrow> (\<forall>v s. f (put v s) = f s)"
| "leaves (UINT16 get put) f \<longleftrightarrow> (\<forall>v s. f (put v s) = f s)"
| "leaves (UINT32 get put) f \<longleftrightarrow> (\<forall>v s. f (put v s) = f s)"
| "leaves (UINT64 get put) f \<longleftrightarrow> (\<forall>v s. f (put v s) = f s)"
| "leaves (BOOLEAN get put) f \<longleftrightarrow> (\<forall>v s. f (put v s) = f s)"

section \<open>Parsing as a pure function\<close>

text \<open>What one value of an object does to a structure when memory suffices and the values of fixed strings
  are strings.\<close>

fun value_put :: "'u ucllib \<Rightarrow> 's value_type \<Rightarrow> 'u \<Rightarrow> 's \<Rightarrow> 's" where
  "value_put L (FIXEDSTRING get put len) cur s = put (strncpy_buf len (the (ucl_tostring L cur))) s"
| "value_put L (DYNAMICSTRING get put) cur s = put (ucl_tostring L cur) s"
| "value_put L (UINT64 get put) cur s = put (word_of_int (ucl_toint L cur)) s"
| "value_put L (UINT32 get put) cur s = put (word_of_int (ucl_toint L cur)) s"
| "value_put L (UINT16 get put) cur s = put (word_of_int (ucl_toint L cur)) s"
| "value_put L (BOOLEAN get put) cur s = put (ucl_toboolean L cur) s"

text \<open>The value itself, as it would be encoded.\<close>

fun ucl_value :: "'u ucllib \<Rightarrow> 's value_type \<Rightarrow> 'u \<Rightarrow> nv_value" where
  "ucl_value L (FIXEDSTRING get put len) cur = NvString (strncpy_buf len (the (ucl_tostring L cur)))"
| "ucl_value L (DYNAMICSTRING get put) cur = (case ucl_tostring L cur of None \<Rightarrow> NvNull | Some t \<Rightarrow> NvString t)"
| "ucl_value L (UINT64 get put) cur = NvNumber (word_of_int (ucl_toint L cur))"
| "ucl_value L (UINT32 get put) cur = NvNumber (ucast (word_of_int (ucl_toint L cur) :: u32))"
| "ucl_value L (UINT16 get put) cur = NvNumber (ucast (word_of_int (ucl_toint L cur) :: u16))"
| "ucl_value L (BOOLEAN get put) cur = NvBool (ucl_toboolean L cur)"

lemma encode_value_put: "well_behaved v \<Longrightarrow> encode_value v (value_put L v cur s) = ucl_value L v cur"
  by (cases v) auto

lemma leaves_value_put: "leaves v f \<Longrightarrow> f (value_put L v cur s) = f s"
  by (cases v) auto

lemma copy_value_encode:
  assumes "well_behaved v" and "\<And>get put len. v = FIXEDSTRING get put len \<Longrightarrow> length (get s) \<le> len"
  shows "encode_value v (copy_value v s t) = encode_value v s"
  using assms by (cases v) auto

lemma copy_value_leaves: "leaves v f \<Longrightarrow> f (copy_value v s t) = f t"
  by (cases v) auto

fun is_fixed :: "'s value_type \<Rightarrow> bool" where
  "is_fixed (FIXEDSTRING get put len) = True" | "is_fixed _ = False"

lemma parse_value_put:
  assumes "calm w" and "is_fixed v \<longrightarrow> ucl_tostring L cur \<noteq> None"
  shows "\<exists>w'. parse_value L v cur s w = Some (None, value_put L v cur s, w') \<and> calm w' \<and> w_os w' = w_os w"
  using assms by (cases v) (auto simp: calm_malloc split: option.split)

text \<open>One value of an object, found in the table or handed to a sub parser.\<close>

definition child_put :: "'u ucllib \<Rightarrow> 's parser_mapping list \<Rightarrow> ('u \<Rightarrow> 's \<Rightarrow> 's) \<Rightarrow> 'u \<Rightarrow> 's \<Rightarrow> 's" where
  "child_put L ms sub cur s =
     (case Option.bind (ucl_key L cur) (\<lambda>k. List.find (\<lambda>m. pm_varname m = k) ms) of
        Some m \<Rightarrow> value_put L (pm_value_type m) cur s
      | None \<Rightarrow> sub cur s)"

definition strings_given :: "'u ucllib \<Rightarrow> 's parser_mapping list \<Rightarrow> 'u list \<Rightarrow> bool" where
  "strings_given L ms cs \<longleftrightarrow> (\<forall>cur \<in> set cs. \<forall>m \<in> set ms. ucl_key L cur = Some (pm_varname m) \<longrightarrow>
     is_fixed (pm_value_type m) \<longrightarrow> ucl_tostring L cur \<noteq> None)"

text \<open>The sub parsers do what the pure function \<open>sub\<close> says.\<close>

definition subs_do ::
  "'u ucllib \<Rightarrow> ('u, 's, 'm world_scheme) bhyve_uclparser_item list option \<Rightarrow> ('u \<Rightarrow> 's \<Rightarrow> 's) \<Rightarrow> bool" where
  "subs_do L subs sub \<longleftrightarrow> (\<forall>cur s w. calm w \<longrightarrow>
     (case (if subs \<noteq> None then bup_find_subparser subs (ucl_key L cur) w else (None, w)) of
        (bui, w') \<Rightarrow>
          (case Option.bind bui bui_delegate_func of
             None \<Rightarrow> calm w' \<and> w_os w' = w_os w \<and> sub cur s = s
           | Some f \<Rightarrow> \<exists>r w''. f cur (bui_place (the bui)) s w' = Some (r, sub cur s, w'') \<and> calm w'' \<and> w_os w'' = w_os w)))"

lemma findmapping_calm:
  "ms \<noteq> [] \<Longrightarrow> calm w \<Longrightarrow> \<exists>w'. bup_findmapping (Some ms) k w = (Option.bind k (\<lambda>k. List.find (\<lambda>m. pm_varname m = k) ms), w') \<and>
     calm w' \<and> w_os w' = w_os w"
  by (cases k) (auto simp: bup_findmapping_def)

lemma parse_items_pure:
  assumes "ms \<noteq> []" and "subs_do L subs sub" and "calm w" and "strings_given L ms cs"
  shows "\<exists>w'. parse_items L ms subs cs s w = Some (0, fold (child_put L ms sub) cs s, w') \<and> calm w' \<and> w_os w' = w_os w"
  using assms(3,4)
proof (induction cs arbitrary: s w)
  case (Cons cur cs)
  have given: "strings_given L ms cs" using Cons.prems(2) by (simp add: strings_given_def)
  obtain w1 where w1: "bup_findmapping (Some ms) (ucl_key L cur) w
      = (Option.bind (ucl_key L cur) (\<lambda>k. List.find (\<lambda>m. pm_varname m = k) ms), w1)" "calm w1" "w_os w1 = w_os w"
    using findmapping_calm [OF assms(1) Cons.prems(1)] by blast
  show ?case
  proof (cases "Option.bind (ucl_key L cur) (\<lambda>k. List.find (\<lambda>m. pm_varname m = k) ms)")
    case (Some m)
    then obtain k where k: "ucl_key L cur = Some k" "List.find (\<lambda>m. pm_varname m = k) ms = Some m"
      by (auto simp: bind_eq_Some_conv)
    from k(2) have m: "m \<in> set ms" "pm_varname m = k" by (auto simp: find_Some_iff)
    have "is_fixed (pm_value_type m) \<longrightarrow> ucl_tostring L cur \<noteq> None"
      using Cons.prems(2) m k(1) by (auto simp: strings_given_def)
    then obtain w2 where w2: "parse_value L (pm_value_type m) cur s w1 = Some (None, value_put L (pm_value_type m) cur s, w2)"
        "calm w2" "w_os w2 = w_os w"
      using parse_value_put [OF w1(2), of "pm_value_type m" L cur s] w1(3) by auto
    show ?thesis
      using Cons.IH [OF w2(2) given, of "value_put L (pm_value_type m) cur s"] w1 w2 Some by (auto simp: child_put_def)
  next
    case None
    have "case (if subs \<noteq> None then bup_find_subparser subs (ucl_key L cur) w1 else (None, w1)) of
        (bui, w') \<Rightarrow>
          (case Option.bind bui bui_delegate_func of
             None \<Rightarrow> calm w' \<and> w_os w' = w_os w1 \<and> sub cur s = s
           | Some f \<Rightarrow> \<exists>r w''. f cur (bui_place (the bui)) s w' = Some (r, sub cur s, w'') \<and> calm w'' \<and> w_os w'' = w_os w1)"
      using assms(2) w1(2) by (simp only: subs_do_def)
    then obtain bui w2 where b: "(if subs \<noteq> None then bup_find_subparser subs (ucl_key L cur) w1 else (None, w1)) = (bui, w2)"
      and c: "case Option.bind bui bui_delegate_func of
             None \<Rightarrow> calm w2 \<and> w_os w2 = w_os w1 \<and> sub cur s = s
           | Some f \<Rightarrow> \<exists>r w''. f cur (bui_place (the bui)) s w2 = Some (r, sub cur s, w'') \<and> calm w'' \<and> w_os w'' = w_os w1"
      by (auto split: prod.splits)
    show ?thesis
    proof (cases "Option.bind bui bui_delegate_func")
      case None
      with c have "calm w2" "w_os w2 = w_os w1" "sub cur s = s" by auto
      with Cons.IH [OF \<open>calm w2\<close> given, of s] show ?thesis
        using w1 b None \<open>Option.bind (ucl_key L cur) _ = None\<close> by (auto simp: child_put_def Let_def)
    next
      case (Some f)
      with c obtain r w3 where "f cur (bui_place (the bui)) s w2 = Some (r, sub cur s, w3)" "calm w3" "w_os w3 = w_os w1"
        by auto
      with Cons.IH [OF \<open>calm w3\<close> given, of "sub cur s"] show ?thesis
        using w1 b Some \<open>Option.bind (ucl_key L cur) _ = None\<close> by (auto simp: child_put_def Let_def)
    qed
  qed
qed simp

lemma no_subs [simp]: "subs_do L None (\<lambda>_ s. s)"
  by (simp add: subs_do_def)

section \<open>The last value wins\<close>

definition last_value :: "'u ucllib \<Rightarrow> 's parser_mapping \<Rightarrow> 'u list \<Rightarrow> nv_value \<Rightarrow> nv_value" where
  "last_value L m cs old =
     fold (\<lambda>cur v. if ucl_key L cur = Some (pm_varname m) then ucl_value L (pm_value_type m) cur else v) cs old"

text \<open>
  What the readers of a table rely on beside the names: each entry reads back what was written to its
  place, and no entry changes what another one reads.
\<close>

locale lawful_table = named_table +
  assumes reads_back: "m \<in> set table \<Longrightarrow> well_behaved (pm_value_type m)"
    and leaves_others: "m \<in> set table \<Longrightarrow> m' \<in> set table \<Longrightarrow> pm_varname m \<noteq> pm_varname m' \<Longrightarrow>
      leaves (pm_value_type m) (encode_value (pm_value_type m'))"
begin

lemma child_put_value:
  assumes "m \<in> set table" and "\<And>cur s. encode_value (pm_value_type m) (sub cur s) = encode_value (pm_value_type m) s"
  shows "encode_value (pm_value_type m) (child_put L table sub cur s) =
    (if ucl_key L cur = Some (pm_varname m) then ucl_value L (pm_value_type m) cur else encode_value (pm_value_type m) s)"
proof (cases "ucl_key L cur = Some (pm_varname m)")
  case True
  then show ?thesis
    using assms(1) entry_found [OF assms(1)] reads_back [OF assms(1)] by (simp add: child_put_def encode_value_put)
next
  case False
  show ?thesis
  proof (cases "Option.bind (ucl_key L cur) (\<lambda>k. List.find (\<lambda>m. pm_varname m = k) table)")
    case None
    with False assms(2) show ?thesis by (simp add: child_put_def)
  next
    case (Some m')
    then have "m' \<in> set table" "ucl_key L cur = Some (pm_varname m')"
      by (auto simp: bind_eq_Some_conv find_Some_iff)
    with False have "leaves (pm_value_type m') (encode_value (pm_value_type m))"
      by (intro leaves_others [OF _ assms(1)]) auto
    with Some False show ?thesis by (simp add: child_put_def leaves_value_put)
  qed
qed

lemma fold_put_value:
  assumes "m \<in> set table" and "\<And>cur s. encode_value (pm_value_type m) (sub cur s) = encode_value (pm_value_type m) s"
  shows "encode_value (pm_value_type m) (fold (child_put L table sub) cs s) = last_value L m cs (encode_value (pm_value_type m) s)"
  by (induction cs arbitrary: s) (simp_all add: last_value_def child_put_value [OF assms])

lemma copy_items_encode:
  assumes "m \<in> set table"
    and fits: "\<And>m get put len. m \<in> set table \<Longrightarrow> pm_value_type m = FIXEDSTRING get put len \<Longrightarrow> length (get s) \<le> len"
  shows "encode_value (pm_value_type m) (copy_items table s t) = encode_value (pm_value_type m) s"
proof -
  have "encode_value (pm_value_type m) (fold (\<lambda>m. copy_value (pm_value_type m) s) ns t) =
      (if m \<in> set ns then encode_value (pm_value_type m) s else encode_value (pm_value_type m) t)"
    if "set ns \<subseteq> set table" for ns
    using that
  proof (induction ns arbitrary: t)
    case (Cons n ns)
    show ?case
    proof (cases "n = m")
      case True
      have "encode_value (pm_value_type m) (copy_value (pm_value_type m) s t) = encode_value (pm_value_type m) s"
        by (rule copy_value_encode [OF reads_back [OF assms(1)]]) (rule fits [OF assms(1)])
      with True Cons show ?thesis by simp
    next
      case False
      with Cons.prems assms(1) have "leaves (pm_value_type n) (encode_value (pm_value_type m))"
        by (intro leaves_others) (auto dest: same_entry)
      with Cons False show ?thesis by (simp add: copy_value_leaves)
    qed
  qed simp
  with assms(1) show ?thesis by (simp add: copy_items_def)
qed

end

text \<open>The three tables for files keep these laws.\<close>

interpretation console_table: lawful_table bc_console2config
  by unfold_locales (auto simp: bc_console2config_def)

interpretation config_table: lawful_table "bc_nvlist2config addr" for addr
  by unfold_locales (auto simp: bc_nvlist2config_def put_cores_def)

lemma lower_half_ucast: "ucast (lower_half v x) = v"
proof -
  have m: "(0xFFFFFFFF00000000 :: u64) = push_bit 32 (mask 32)"
    by (simp add: mask_eq_exp_minus_1 push_bit_eq_mult)
  show ?thesis unfolding lower_half_def m by (rule bit_word_eqI) (auto simp: bit_simps simp del: push_bit_numeral mask_numeral)
qed

interpretation daemon_table: lawful_table dconf_nvlist2config
  by unfold_locales (auto simp: dconf_nvlist2config_def lower_half_ucast)

section \<open>Consoles\<close>

definition console_of :: "'u ucllib \<Rightarrow> string \<Rightarrow> 'u \<Rightarrow> bhyve_configuration_console" where
  "console_of L name obj = fold (child_put L bc_console2config (\<lambda>_ s. s)) (ucl_children L obj)
     \<lparr>bcc_name = Some name, bcc_enabled = True, bcc_backend = None\<rparr>"

text \<open>The consoles of an object of sections, none if a section has no name. The newest is first.\<close>

definition console_list :: "'u ucllib \<Rightarrow> 'u \<Rightarrow> bhyve_configuration_console list option" where
  "console_list L obj =
     (if \<exists>c \<in> set (ucl_children L obj). ucl_key L c = None then None
      else Some (rev (map (\<lambda>c. console_of L (the (ucl_key L c)) c) (ucl_children L obj))))"

lemma console_strings: "strings_given L bc_console2config cs"
  by (auto simp: strings_given_def bc_console2config_def)

lemma parse_console_ok:
  assumes "calm w"
  shows "\<exists>w'. buf_parse_console L bccl (Some name) obj w = Some (0, Some (console_of L name obj # bccl), w') \<and>
    calm w' \<and> w_os w' = w_os w"
proof -
  let ?c = "\<lparr>bcc_name = Some name, bcc_enabled = True, bcc_backend = None\<rparr>"
  have n: "bc_console2config \<noteq> []" by (simp add: bc_console2config_def)
  obtain w' where "parse_items L bc_console2config None (ucl_children L obj) ?c (tock (tock w)) =
      Some (0, console_of L name obj, w')" "calm w'" "w_os w' = w_os w"
    using parse_items_pure [OF n no_subs _ console_strings, of "tock (tock w)" L "ucl_children L obj" ?c] assms
    by (auto simp: console_of_def)
  then show ?thesis
    using assms by (simp add: buf_parse_console_def bcc_new_def calm_malloc bup_generic_parsefromucl_def bccl_add_def)
qed

lemma parse_list_ok:
  assumes "calm w"
  shows "\<exists>r l w'. bup_parselistfromucl buf_parse_console L (Some bccl) cs w = Some (r, Some l, w') \<and> calm w' \<and> w_os w' = w_os w \<and>
    (r = 0 \<longleftrightarrow> (\<forall>c \<in> set cs. ucl_key L c \<noteq> None)) \<and>
    (r = 0 \<longrightarrow> l = rev (map (\<lambda>c. console_of L (the (ucl_key L c)) c) cs) @ bccl)"
  using assms
proof (induction cs arbitrary: bccl w)
  case (Cons c cs)
  show ?case
  proof (cases "ucl_key L c")
    case None
    with Cons.prems show ?thesis by (simp add: buf_parse_console_def bcc_new_def)
  next
    case (Some name)
    obtain w1 where "buf_parse_console L bccl (Some name) c w = Some (0, Some (console_of L name c # bccl), w1)"
      "calm w1" "w_os w1 = w_os w"
      using parse_console_ok [OF Cons.prems, of L bccl name c] by auto
    with Cons.IH [of w1 "console_of L name c # bccl"] Some show ?thesis by auto
  qed
qed simp

lemma console_list_ok:
  assumes "calm w"
  shows "\<exists>r w'. buf_parse_console_list L obj ctx s w =
    Some (r, (case console_list L obj of None \<Rightarrow> s | Some l \<Rightarrow> ctx (Some l) s), w') \<and> calm w' \<and> w_os w' = w_os w"
proof -
  have "calm (tock w)" using assms by simp
  from parse_list_ok [OF this, of L "[]" "ucl_children L obj"] obtain r l w' where
    p: "bup_parselistfromucl buf_parse_console L (Some []) (ucl_children L obj) (tock w) = Some (r, Some l, w')"
    "calm w'" "w_os w' = w_os (tock w)" and r: "r = 0 \<longleftrightarrow> (\<forall>c \<in> set (ucl_children L obj). ucl_key L c \<noteq> None)"
    and l: "r = 0 \<longrightarrow> l = rev (map (\<lambda>c. console_of L (the (ucl_key L c)) c) (ucl_children L obj)) @ []"
    by blast
  show ?thesis
  proof (cases "r = 0")
    case True
    with r have "\<not> (\<exists>c \<in> set (ucl_children L obj). ucl_key L c = None)" by simp
    with p l True assms show ?thesis
      by (auto simp: buf_parse_console_list_def bccl_new_def calm_malloc console_list_def)
  next
    case False
    with r have "\<exists>c \<in> set (ucl_children L obj). ucl_key L c = None" by simp
    with p False assms show ?thesis
      by (simp add: buf_parse_console_list_def bccl_new_def calm_malloc console_list_def)
  qed
qed

section \<open>Configurations\<close>

definition put_consoles :: "'u ucllib \<Rightarrow> 'u \<Rightarrow> bhyve_configuration \<Rightarrow> bhyve_configuration" where
  "put_consoles L cur bc =
     (if ucl_key L cur = Some ''consoles''
      then (case console_list L cur of None \<Rightarrow> bc | Some l \<Rightarrow> bc\<lparr>bc_consoles := Some l\<rparr>) else bc)"

lemma subs_consoles:
  fixes L :: "'u ucllib"
  shows "subs_do L (Some (bc_ucl2subparser_items L :: ('u, bhyve_configuration, 'm world_scheme) bhyve_uclparser_item list))
    (put_consoles L)"
  unfolding subs_do_def
proof (intro allI impI)
  fix cur s and w :: "'m world_scheme"
  assume w: "calm w"
  let ?b = "\<lparr>bui_varname = ''consoles'', bui_place = (\<lambda>v c. c\<lparr>bc_consoles := v\<rparr>),
       bui_delegate_func = Some (buf_parse_console_list L :: _ \<Rightarrow> _ \<Rightarrow> _ \<Rightarrow> 'm world_scheme \<Rightarrow> _)\<rparr>"
  show "case (if Some (bc_ucl2subparser_items L :: ('u, bhyve_configuration, 'm world_scheme) bhyve_uclparser_item list) \<noteq> None then bup_find_subparser (Some (bc_ucl2subparser_items L)) (ucl_key L cur) w
          else (None, w)) of
        (bui, w') \<Rightarrow>
          (case Option.bind bui bui_delegate_func of
             None \<Rightarrow> calm w' \<and> w_os w' = w_os w \<and> put_consoles L cur s = s
           | Some f \<Rightarrow> \<exists>r w''. f cur (bui_place (the bui)) s w' = Some (r, put_consoles L cur s, w'') \<and> calm w'' \<and> w_os w'' = w_os w)"
  proof (cases "ucl_key L cur = Some ''consoles''")
    case True
    have b: "bup_find_subparser (Some (bc_ucl2subparser_items L)) (Some ''consoles'') w = (Some ?b, w)"
      by (simp add: bup_find_subparser_def bc_ucl2subparser_items_def)
    show ?thesis
      using console_list_ok [OF w, of L cur "bui_place ?b" s] True
      by (simp add: b put_consoles_def cong: option.case_cong)
  next
    case False
    then have "\<exists>w'. bup_find_subparser (Some (bc_ucl2subparser_items L)) (ucl_key L cur) w = (None, w') \<and> calm w' \<and> w_os w' = w_os w"
      using w by (cases "ucl_key L cur") (auto simp: bup_find_subparser_def bc_ucl2subparser_items_def)
    then show ?thesis using False by (auto simp: put_consoles_def)
  qed
qed

text \<open>The configuration a section describes.\<close>

definition config_of :: "'u ucllib \<Rightarrow> u16 \<Rightarrow> 'u \<Rightarrow> bhyve_configuration \<Rightarrow> bhyve_configuration" where
  "config_of L addr obj bc = fold (child_put L (bc_nvlist2config addr) (put_consoles L)) (ucl_children L obj) bc"

definition strings_ok :: "'u ucllib \<Rightarrow> 'u \<Rightarrow> bool" where
  "strings_ok L obj \<longleftrightarrow> (\<forall>cur \<in> set (ucl_children L obj).
     ucl_key L cur \<in> {Some ''name'', Some ''configfile'', Some ''scriptpath''} \<longrightarrow> ucl_tostring L cur \<noteq> None)"

lemma strings_config: "strings_ok L obj \<Longrightarrow> strings_given L (bc_nvlist2config addr) (ucl_children L obj)"
  by (auto simp: strings_given_def strings_ok_def bc_nvlist2config_def)

lemma parse_config_ok:
  assumes "calm w" and "strings_ok L obj"
  shows "\<exists>w'. bc_parsefromucl L addr bc obj w = Some (0, config_of L addr obj bc, w') \<and> calm w' \<and> w_os w' = w_os w"
proof -
  have n: "bc_nvlist2config addr \<noteq> []" by (simp add: bc_nvlist2config_def)
  show ?thesis
    using parse_items_pure [OF n subs_consoles assms(1) strings_config [OF assms(2)], where s = bc]
    by (simp add: bc_parsefromucl_def bup_parsefromucl_def bup_generic_parsefromucl_def config_of_def)
qed

lemma consoles_keep: "m \<in> set (bc_nvlist2config addr) \<Longrightarrow>
  encode_value (pm_value_type m) (put_consoles L cur bc) = encode_value (pm_value_type m) bc"
  by (auto simp: bc_nvlist2config_def put_consoles_def split: option.split)

lemma config_of_value: "m \<in> set (bc_nvlist2config addr) \<Longrightarrow>
  encode_value (pm_value_type m) (config_of L addr obj bc) =
    last_value L m (ucl_children L obj) (encode_value (pm_value_type m) bc)"
  unfolding config_of_def by (rule config_table.fold_put_value) (simp_all add: consoles_keep)

text \<open>An observation of a configuration that only one key changes.\<close>

lemma fold_observe:
  assumes "\<And>cur s. f (g cur s) = h cur (f s)"
  shows "f (fold g cs s) = fold h cs (f s)"
  by (induction cs arbitrary: s) (simp_all add: assms)

definition last_consoles ::
  "'u ucllib \<Rightarrow> 'u list \<Rightarrow> bhyve_configuration_console list option \<Rightarrow> bhyve_configuration_console list option" where
  "last_consoles L cs old =
     fold (\<lambda>cur v. if ucl_key L cur = Some ''consoles'' \<and> console_list L cur \<noteq> None then console_list L cur else v) cs old"

lemma value_put_consoles: "m \<in> set (bc_nvlist2config addr) \<Longrightarrow> bc_consoles (value_put L (pm_value_type m) cur s) = bc_consoles s"
  by (auto simp: bc_nvlist2config_def put_cores_def)

lemma no_consoles_entry: "m \<in> set (bc_nvlist2config addr) \<Longrightarrow> pm_varname m \<noteq> ''consoles''"
  by (auto simp: bc_nvlist2config_def)

lemma child_put_consoles:
  "bc_consoles (child_put L (bc_nvlist2config addr) (put_consoles L) cur s) =
    (if ucl_key L cur = Some ''consoles'' \<and> console_list L cur \<noteq> None then console_list L cur else bc_consoles s)"
proof (cases "Option.bind (ucl_key L cur) (\<lambda>k. List.find (\<lambda>m. pm_varname m = k) (bc_nvlist2config addr))")
  case None
  then show ?thesis by (auto simp: child_put_def put_consoles_def)
next
  case (Some m)
  then have "m \<in> set (bc_nvlist2config addr)" "ucl_key L cur = Some (pm_varname m)"
    by (auto simp: bind_eq_Some_conv find_Some_iff)
  with Some show ?thesis by (simp add: child_put_def value_put_consoles no_consoles_entry)
qed

lemma config_of_consoles: "bc_consoles (config_of L addr obj bc) = last_consoles L (ucl_children L obj) (bc_consoles bc)"
  unfolding config_of_def last_consoles_def by (rule fold_observe) (rule child_put_consoles)

text \<open>The number of cores, which the table takes for a string.\<close>

definition last_cores :: "'u ucllib \<Rightarrow> u16 \<Rightarrow> 'u list \<Rightarrow> u16 \<Rightarrow> u16" where
  "last_cores L addr cs old =
     fold (\<lambda>cur v. if ucl_key L cur = Some ''cores'' then (if ucl_tostring L cur = None then 0 else addr) else v) cs old"

definition cores_entry :: "u16 \<Rightarrow> bhyve_configuration parser_mapping" where
  "cores_entry addr = \<lparr>pm_varname = ''cores'', pm_value_type = DYNAMICSTRING bc_cores_text (put_cores addr)\<rparr>"

lemma find_cores: "List.find (\<lambda>m. pm_varname m = ''cores'') (bc_nvlist2config addr) = Some (cores_entry addr)"
  by (simp add: bc_nvlist2config_def cores_entry_def)

lemma value_put_cores: "m \<in> set (bc_nvlist2config addr) \<Longrightarrow> pm_varname m \<noteq> ''cores'' \<Longrightarrow>
  bc_cores (value_put L (pm_value_type m) cur s) = bc_cores s"
  by (auto simp: bc_nvlist2config_def)

lemma child_put_cores:
  "bc_cores (child_put L (bc_nvlist2config addr) (put_consoles L) cur s) =
    (if ucl_key L cur = Some ''cores'' then (if ucl_tostring L cur = None then 0 else addr) else bc_cores s)"
proof (cases "ucl_key L cur = Some ''cores''")
  case True
  then show ?thesis by (simp add: child_put_def find_cores cores_entry_def put_cores_def)
next
  case False
  show ?thesis
  proof (cases "Option.bind (ucl_key L cur) (\<lambda>k. List.find (\<lambda>m. pm_varname m = k) (bc_nvlist2config addr))")
    case None
    with False show ?thesis by (auto simp: child_put_def put_consoles_def split: option.split)
  next
    case (Some m)
    then have "m \<in> set (bc_nvlist2config addr)" "ucl_key L cur = Some (pm_varname m)"
      by (auto simp: bind_eq_Some_conv find_Some_iff)
    with Some False show ?thesis by (simp add: child_put_def value_put_cores)
  qed
qed

lemma config_of_cores: "bc_cores (config_of L addr obj bc) = last_cores L addr (ucl_children L obj) (bc_cores bc)"
  unfolding config_of_def last_cores_def by (rule fold_observe) (rule child_put_cores)

section \<open>Files\<close>

definition section_config :: "'u ucllib \<Rightarrow> string \<Rightarrow> 'u \<Rightarrow> u16 \<Rightarrow> bhyve_configuration" where
  "section_config L configfile obj addr =
     (config_of L addr obj (bc_zero\<lparr>bc_name := strncpy_buf PATH_MAX (the (ucl_key L obj))\<rparr>))\<lparr>bc_backing_filepath := Some configfile\<rparr>"

lemma parse_configs_ok:
  assumes "calm w" and "\<forall>obj \<in> set cs. ucl_key L obj \<noteq> None \<and> strings_ok L obj"
  shows "\<exists>addrs w'. length addrs = length cs \<and> calm w' \<and> w_os w' = w_os w \<and> parse_configs L f cs bcs w =
    Some (bcs\<lparr>bcs_configs := rev (map2 (section_config L f) cs addrs) @ bcs_configs bcs\<rparr>, w')"
  using assms
proof (induction cs arbitrary: bcs w)
  case (Cons c cs)
  obtain k where k: "ucl_key L c = Some k" using Cons.prems(2) by auto
  let ?a = "os_addr (w_os w) (Suc (w_tick w))"
  let ?bc = "bc_zero\<lparr>bc_name := strncpy_buf PATH_MAX k\<rparr>"
  obtain w1 where w1: "bc_parsefromucl L ?a ?bc c (tock (tock w)) = Some (0, config_of L ?a c ?bc, w1)" "calm w1" "w_os w1 = w_os w"
    using parse_config_ok [of "tock (tock w)" L c ?a ?bc] Cons.prems by auto
  let ?bcs = "bcs\<lparr>bcs_configs := section_config L f c ?a # bcs_configs bcs\<rparr>"
  obtain addrs w2 where w2: "length addrs = length cs" "calm w2" "w_os w2 = w_os w" "parse_configs L f cs ?bcs (tock w1) =
    Some (?bcs\<lparr>bcs_configs := rev (map2 (section_config L f) cs addrs) @ bcs_configs ?bcs\<rparr>, w2)"
    using Cons.IH [of "tock w1" ?bcs] Cons.prems w1(2,3) by auto
  have "parse_configs L f (c # cs) bcs w = parse_configs L f cs ?bcs (tock w1)"
    using Cons.prems(1) w1 k by (simp add: calm_malloc ask_def section_config_def)
  with w2 show ?case by (intro exI [of _ "?a # addrs"] exI [of _ w2]) simp
qed (intro exI [of _ "[]"], simp)

section \<open>A concrete library\<close>

text \<open>Objects as a tree, for the witnesses: a key with a string, a number, a truth value or more objects.\<close>

datatype demo_object =
  UStr string string | UNum string int | UBool string bool | USection string "demo_object list"

fun demo_key :: "demo_object \<Rightarrow> string" where
  "demo_key (UStr k v) = k" | "demo_key (UNum k v) = k" | "demo_key (UBool k v) = k" | "demo_key (USection k v) = k"

definition demo_ucl :: "demo_object ucl_file \<Rightarrow> demo_object ucllib" where
  "demo_ucl file =
     \<lparr>ucl_load = \<lambda>_ _. file,
      ucl_children = (\<lambda>obj. case obj of USection k cs \<Rightarrow> cs | _ \<Rightarrow> []),
      ucl_key = (\<lambda>obj. Some (demo_key obj)),
      ucl_tostring = (\<lambda>obj. case obj of UStr k v \<Rightarrow> Some v | _ \<Rightarrow> None),
      ucl_toint = (\<lambda>obj. case obj of UNum k v \<Rightarrow> v | _ \<Rightarrow> 0),
      ucl_toboolean = (\<lambda>obj. case obj of UBool k v \<Rightarrow> v | _ \<Rightarrow> False)\<rparr>"

definition demo_section :: demo_object where
  "demo_section = USection ''one''
     [UStr ''configfile'' ''/vm/one'', UNum ''memory'' 512, UNum ''cores'' 4, UNum ''memory'' 1024,
      USection ''consoles'' [USection ''com1'' [UStr ''backend'' ''/dev/nmdb0'']]]"

definition demo_root :: demo_object where
  "demo_root = USection '''' [demo_section, USection ''two'' [UStr ''configfile'' ''/vm/two'']]"

lemma demo_sections_ok:
  "strings_ok (demo_ucl f) demo_section" "strings_ok (demo_ucl f) (USection ''two'' [UStr ''configfile'' ''/vm/two''])"
  by (simp_all add: strings_ok_def demo_ucl_def demo_section_def)

section \<open>Properties\<close>

text \<open>C13: Reading a section of a configuration file, with memory at hand and the three fixed strings given
  as strings, succeeds; every variable of the table then has the last value the section gives for its
  key, or keeps what it had, unknown keys are passed over, and the consoles are those of the last
  \<open>consoles\<close> section whose entries all have names.\<close>

theorem bc_parsefromucl_values:
  fixes w :: "'m world_scheme"
  assumes "calm w" and "strings_ok L obj"
  shows "\<exists>bc' w'. bc_parsefromucl L addr bc obj w = Some (0, bc', w') \<and>
    (\<forall>m \<in> set (bc_nvlist2config addr). encode_value (pm_value_type m) bc' =
       last_value L m (ucl_children L obj) (encode_value (pm_value_type m) bc)) \<and>
    bc_consoles bc' = last_consoles L (ucl_children L obj) (bc_consoles bc)"
  using parse_config_ok [OF assms, of addr bc] by (auto simp: config_of_value config_of_consoles)

theorem bc_parsefromucl_values_witness:
  "\<exists>bc' w'. bc_parsefromucl (demo_ucl UclEmpty) 7 bc_zero demo_section (world0 calm_os) = Some (0, bc', w') \<and>
     encode_value (UINT32 bc_memory (\<lambda>v c. c\<lparr>bc_memory := v\<rparr>)) bc' = NvNumber 1024 \<and>
     bc_consoles bc' = Some [\<lparr>bcc_name = Some ''com1'', bcc_enabled = True, bcc_backend = Some ''/dev/nmdb0''\<rparr>]"
proof -
  let ?L = "demo_ucl UclEmpty"
  let ?m = "\<lparr>pm_varname = ''memory'', pm_value_type = UINT32 bc_memory (\<lambda>v c. c\<lparr>bc_memory := v\<rparr>)\<rparr> :: bhyve_configuration parser_mapping"
  obtain bc' w' where p: "bc_parsefromucl ?L 7 bc_zero demo_section (world0 calm_os) = Some (0, bc', w')"
    and v: "\<forall>m \<in> set (bc_nvlist2config 7). encode_value (pm_value_type m) bc' =
       last_value ?L m (ucl_children ?L demo_section) (encode_value (pm_value_type m) bc_zero)"
    and c: "bc_consoles bc' = last_consoles ?L (ucl_children ?L demo_section) (bc_consoles bc_zero)"
    using bc_parsefromucl_values [OF calm_world0 demo_sections_ok(1), of UclEmpty 7 bc_zero] by blast
  have "?m \<in> set (bc_nvlist2config 7)" by (simp add: bc_nvlist2config_def)
  from bspec [OF v this]
  have "encode_value (pm_value_type ?m) bc' = last_value ?L ?m (ucl_children ?L demo_section)
      (encode_value (pm_value_type ?m) bc_zero)" .
  moreover have "last_value ?L ?m (ucl_children ?L demo_section) (encode_value (pm_value_type ?m) bc_zero) = NvNumber 1024"
    by (simp add: last_value_def demo_ucl_def demo_section_def)
  moreover have "bc_consoles bc' = Some [\<lparr>bcc_name = Some ''com1'', bcc_enabled = True, bcc_backend = Some ''/dev/nmdb0''\<rparr>]"
    unfolding c by (simp add: last_consoles_def console_list_def console_of_def child_put_def bc_console2config_def
        demo_ucl_def demo_section_def)
  ultimately show ?thesis using p by auto
qed

text \<open>The number of cores of a configuration file never arrives: a number given for \<open>cores\<close> leaves
  zero, since the table takes the variable for a string and a number is no string.\<close>

theorem bc_parsefromucl_cores:
  fixes w :: "'m world_scheme"
  assumes "calm w" and "strings_ok L obj" and "bc_cores bc = 0"
    and "\<forall>cur \<in> set (ucl_children L obj). ucl_key L cur = Some ''cores'' \<longrightarrow> ucl_tostring L cur = None"
  shows "\<exists>bc' w'. bc_parsefromucl L addr bc obj w = Some (0, bc', w') \<and> bc_get_cores bc' = 0"
proof -
  have "last_cores L addr cs 0 = 0" if "set cs \<subseteq> set (ucl_children L obj)" for cs
    using that assms(4) by (induction cs) (auto simp: last_cores_def)
  then show ?thesis
    using parse_config_ok [OF assms(1,2), of addr bc] assms(3) by (auto simp: config_of_cores bc_get_cores_def)
qed

theorem bc_parsefromucl_cores_witness:
  "UNum ''cores'' 4 \<in> set (ucl_children (demo_ucl UclEmpty) demo_section) \<and>
   (\<exists>bc' w'. bc_parsefromucl (demo_ucl UclEmpty) 7 bc_zero demo_section (world0 calm_os) = Some (0, bc', w') \<and>
     bc_get_cores bc' = 0)"
proof
  show "\<exists>bc' w'. bc_parsefromucl (demo_ucl UclEmpty) 7 bc_zero demo_section (world0 calm_os) = Some (0, bc', w') \<and>
     bc_get_cores bc' = 0"
    by (rule bc_parsefromucl_cores [OF calm_world0 demo_sections_ok(1)]) (auto simp: bc_zero_def demo_ucl_def demo_section_def)
qed (simp add: demo_ucl_def demo_section_def)

end
