(* ===== verification/Nv_Demo.thy ===== *)
theory Nv_Demo
  imports Bhyve_Command
begin

text \<open>
  A library of name-value lists that keeps the laws of \<open>Bhyve_Command\<close>, for the witnesses: lists of
  pairs, packed as self-delimiting bytes.
\<close>

section \<open>Self-delimiting numbers, strings and values\<close>

fun enc_nat :: "nat \<Rightarrow> bytes" where
  "enc_nat 0 = [0]"
| "enc_nat (Suc n) = 1 # enc_nat n"

fun dec_nat :: "bytes \<Rightarrow> nat \<times> bytes" where
  "dec_nat [] = (0, [])"
| "dec_nat (b # bs) = (if b = 0 then (0, bs) else (let (n, r) = dec_nat bs in (Suc n, r)))"

lemma dec_enc_nat [simp]: "dec_nat (enc_nat n @ r) = (n, r)"
  by (induction n) simp_all

fun enc_many :: "('a \<Rightarrow> bytes) \<Rightarrow> 'a list \<Rightarrow> bytes" where
  "enc_many f [] = enc_nat 0"
| "enc_many f (x # xs) = enc_nat 1 @ f x @ enc_many f xs"

text \<open>The first argument bounds the number of elements.\<close>

fun dec_many :: "nat \<Rightarrow> (bytes \<Rightarrow> 'a \<times> bytes) \<Rightarrow> bytes \<Rightarrow> 'a list \<times> bytes" where
  "dec_many 0 d bs = ([], bs)"
| "dec_many (Suc k) d bs =
     (let (t, r) = dec_nat bs
      in if t = 0 then ([], r)
         else (let (x, r') = d r; (xs, r'') = dec_many k d r' in (x # xs, r'')))"

lemma dec_enc_many:
  "(\<And>x r. x \<in> set xs \<Longrightarrow> d (f x @ r) = (x, r)) \<Longrightarrow> length xs < k \<Longrightarrow>
   dec_many k d (enc_many f xs @ r) = (xs, r)"
proof (induction xs arbitrary: k)
  case Nil
  then show ?case using dec_enc_nat [of 0 r] by (cases k) simp_all
next
  case (Cons x xs)
  then obtain j where k: "k = Suc j" "length xs < j" by (cases k) auto
  with Cons.IH [of j] Cons.prems(1) dec_enc_nat [of 1 "f x @ enc_many f xs @ r"] show ?case by simp
qed

lemma enc_nat_length [simp]: "length (enc_nat n) = n + 1"
  by (induction n) simp_all

lemma enc_many_size: "length (enc_many f xs) = 1 + 2 * length xs + (\<Sum>x\<leftarrow>xs. length (f x))"
  by (induction xs) simp_all

definition dec_all :: "(bytes \<Rightarrow> 'a \<times> bytes) \<Rightarrow> bytes \<Rightarrow> 'a list \<times> bytes" where
  "dec_all d bs = dec_many (length bs) d bs"

lemma enc_many_length: "length xs < length (enc_many f xs)"
  by (induction xs) (auto simp: add_mono_thms_linordered_field)

lemma dec_all_enc:
  "(\<And>x r. x \<in> set xs \<Longrightarrow> d (f x @ r) = (x, r)) \<Longrightarrow> dec_all d (enc_many f xs @ r) = (xs, r)"
  unfolding dec_all_def using enc_many_length [of xs f] by (intro dec_enc_many) auto

definition enc_word :: "'w::len word \<Rightarrow> bytes" where
  "enc_word n = map (\<lambda>i. of_bool (bit n i)) [0..<LENGTH('w)]"

definition dec_word :: "bytes \<Rightarrow> 'w::len word \<times> bytes" where
  "dec_word bs = (horner_sum of_bool 2 (map (\<lambda>b. b = 1) (take LENGTH('w) bs)), drop LENGTH('w) bs)"

lemma enc_word_length [simp]: "length (enc_word (n :: 'w::len word)) = LENGTH('w)"
  by (simp add: enc_word_def)

lemma dec_enc_word [simp]: "dec_word (enc_word n @ r) = (n, r)"
proof -
  have "map (\<lambda>b. b = 1) (enc_word n) = map (bit n) [0..<LENGTH('a)]"
    by (simp add: enc_word_def comp_def)
  then show ?thesis
    by (simp add: dec_word_def horner_sum_bit_eq_take_bit)
qed

definition enc_string :: "string \<Rightarrow> bytes" where
  "enc_string = enc_many (\<lambda>c. [of_char c])"

definition dec_string :: "bytes \<Rightarrow> string \<times> bytes" where
  "dec_string = dec_all (\<lambda>bs. (char_of (unat (hd bs)), tl bs))"

lemma char_byte: "char_of (unat (of_char c :: u8)) = c"
proof -
  have "(of_char c :: u8) = of_nat (of_char c)" by (simp only: of_nat_of_char)
  then have "unat (of_char c :: u8) = of_char c" by (simp only: unat_of_nat) simp
  then show ?thesis by simp
qed

lemma dec_enc_string [simp]: "dec_string (enc_string s @ r) = (s, r)"
  unfolding dec_string_def enc_string_def by (rule dec_all_enc) (simp add: char_byte)

fun enc_value :: "nv_value \<Rightarrow> bytes" where
  "enc_value NvNull = enc_nat 0"
| "enc_value (NvString s) = enc_nat 1 @ enc_string s"
| "enc_value (NvNumber n) = enc_nat 2 @ enc_word n"
| "enc_value (NvBool b) = enc_nat 3 @ enc_nat (of_bool b)"
| "enc_value (NvBinary bs) = enc_nat 4 @ enc_many enc_word bs"
| "enc_value (NvNumbers ns) = enc_nat 5 @ enc_many enc_word ns"

definition dec_value :: "bytes \<Rightarrow> nv_value \<times> bytes" where
  "dec_value bs =
     (let (t, r) = dec_nat bs
      in if t = 0 then (NvNull, r)
         else if t = 1 then apfst NvString (dec_string r)
         else if t = 2 then apfst NvNumber (dec_word r)
         else if t = 3 then apfst (\<lambda>n. NvBool (n = 1)) (dec_nat r)
         else if t = 4 then apfst NvBinary (dec_all dec_word r)
         else apfst NvNumbers (dec_all dec_word r))"

lemma dec_enc_value [simp]: "dec_value (enc_value v @ r) = (v, r)"
  by (cases v) (simp_all add: dec_value_def dec_all_enc del: enc_nat.simps)

section \<open>The library\<close>

definition enc_pair :: "string \<times> nv_value \<Rightarrow> bytes" where
  "enc_pair p = enc_string (fst p) @ enc_value (snd p)"

definition dec_pair :: "bytes \<Rightarrow> (string \<times> nv_value) \<times> bytes" where
  "dec_pair bs = (let (k, r) = dec_string bs; (v, r') = dec_value r in ((k, v), r'))"

lemma dec_enc_pair [simp]: "dec_pair (enc_pair p @ r) = (p, r)"
  by (simp add: dec_pair_def enc_pair_def)

definition demo_nv :: "(string \<times> nv_value) list nvlib" where
  "demo_nv = \<lparr>nv_create = \<lambda>_. Some [], nv_get = map_of, nv_add = \<lambda>n k v. (k, v) # n,
     nv_pack = \<lambda>_ n. Some (enc_many enc_pair n), nv_unpack = \<lambda>_ b. Some (fst (dec_all dec_pair b))\<rparr>"

lemma enc_many_nonempty: "enc_many f xs \<noteq> []"
  using enc_many_length [of xs f] by auto

lemma dec_all_pairs: "dec_all dec_pair (enc_many enc_pair n) = (n, [])"
  using dec_all_enc [of n dec_pair enc_pair "[]"] by simp

lemma demo_nv_laws [simp]: "nv_laws demo_nv"
  by (simp add: nv_laws_def demo_nv_def enc_many_nonempty dec_all_pairs)

lemma demo_nv_works [simp]: "nv_works demo_nv"
  by (simp add: nv_works_def demo_nv_def)

end
