(* ===== verification/Store_Contract.thy ===== *)
theory Store_Contract
  imports Parse_Contract Nv_Demo
begin

text \<open>
  From files to the store: what loading a configuration file and walking the configuration directory put
  into the store, the trip of a configuration through a name-value list, and the daemon's own file.
\<close>

section \<open>The configurations of a file\<close>

text \<open>A configuration of the store holds what a section \<open>obj\<close> of the file says: the name of the section
  stands for a missing \<open>name\<close>, everything else that is missing is zero or null.\<close>

definition section_holds :: "'u ucllib \<Rightarrow> string \<times> 'u \<Rightarrow> bhyve_configuration \<Rightarrow> bool" where
  "section_holds L s bc \<longleftrightarrow> (\<exists>addr. case s of (configfile, obj) \<Rightarrow>
     bc_backing_filepath bc = Some configfile \<and>
     bc_consoles bc = last_consoles L (ucl_children L obj) None \<and>
     (\<forall>m \<in> set (bc_nvlist2config addr). encode_value (pm_value_type m) bc =
        last_value L m (ucl_children L obj)
          (encode_value (pm_value_type m) (bc_zero\<lparr>bc_name := strncpy_buf PATH_MAX (the (ucl_key L obj))\<rparr>))))"

lemma backing_keeps: "m \<in> set (bc_nvlist2config addr) \<Longrightarrow>
  encode_value (pm_value_type m) (bc\<lparr>bc_backing_filepath := p\<rparr>) = encode_value (pm_value_type m) bc"
  by (auto simp: bc_nvlist2config_def)

lemma section_config_holds: "section_holds L (f, obj) (section_config L f obj addr)"
  unfolding section_holds_def section_config_def
  by (intro exI [of _ addr]) (simp add: backing_keeps config_of_value config_of_consoles bc_zero_def)

definition file_good :: "'u ucllib \<Rightarrow> 'u ucl_file \<Rightarrow> bool" where
  "file_good L file \<longleftrightarrow> (\<forall>root. file = UclRoot root \<longrightarrow>
     (\<forall>obj \<in> set (ucl_children L root). ucl_key L obj \<noteq> None \<and> strings_ok L obj))"

definition file_sections :: "'u ucllib \<Rightarrow> string \<Rightarrow> 'u ucl_file \<Rightarrow> (string \<times> 'u) list" where
  "file_sections L configfile file = (case file of UclRoot root \<Rightarrow> map (Pair configfile) (ucl_children L root) | _ \<Rightarrow> [])"

definition file_loads :: "'u ucl_file \<Rightarrow> bool" where
  "file_loads file \<longleftrightarrow> (case file of UclNoParser \<Rightarrow> False | UclBadFile \<Rightarrow> False | _ \<Rightarrow> True)"

lemma sections_hold:
  "length addrs = length cs \<Longrightarrow> list_all2 (section_holds L) (map (Pair f) cs) (map2 (section_config L f) cs addrs)"
  by (simp add: list_all2_conv_all_nth section_config_holds)

lemma parseucl_store:
  assumes "calm w" and "file_good L (ucl_load L (w_tick w) f)"
  shows "\<exists>new w'. calm w' \<and> w_os w' = w_os w \<and>
    bcs_parseucl L bcs f w = Some (if file_loads (ucl_load L (w_tick w) f) then 0 else -1,
      bcs\<lparr>bcs_configs := rev new @ bcs_configs bcs\<rparr>, w') \<and>
    list_all2 (section_holds L) (file_sections L f (ucl_load L (w_tick w) f)) new"
proof (cases "ucl_load L (w_tick w) f")
  case (UclRoot root)
  then have "\<forall>obj \<in> set (ucl_children L root). ucl_key L obj \<noteq> None \<and> strings_ok L obj"
    using assms(2) by (simp add: file_good_def)
  from parse_configs_ok [of "tock w" _ L f bcs, OF _ this] assms(1)
  obtain addrs w' where "length addrs = length (ucl_children L root)" "calm w'" "w_os w' = w_os w"
    "parse_configs L f (ucl_children L root) bcs (tock w) =
       Some (bcs\<lparr>bcs_configs := rev (map2 (section_config L f) (ucl_children L root) addrs) @ bcs_configs bcs\<rparr>, w')"
    by auto
  with UclRoot sections_hold [of addrs "ucl_children L root" L f] show ?thesis
    by (auto simp: bcs_parseucl_def file_loads_def file_sections_def)
qed (use assms(1) in \<open>auto simp: bcs_parseucl_def file_loads_def file_sections_def\<close>)

section \<open>The configuration directory\<close>

text \<open>The entries that are looked into, and the file that is looked for there.\<close>

definition vm_dir :: "string \<times> u8 \<Rightarrow> bool" where
  "vm_dir e \<longleftrightarrow> (fst e = [] \<or> hd (fst e) \<noteq> CHR ''.'') \<and> DT_DIR AND snd e \<noteq> 0"

definition vm_file :: "string \<Rightarrow> string \<times> u8 \<Rightarrow> string" where
  "vm_file searchpath e = (searchpath @ ''/'' @ fst e) @ ''/'' @ ''config''"

lemma parseconfdir_file:
  assumes "calm w"
  shows "bcs_parseconfdir L (Some b) (Some p) w =
    map_option (\<lambda>(r, b', w'). (r, Some b', w')) (bcs_parseucl L b (p @ ''/'' @ ''config'') (tock w))"
  using assms by (simp add: bcs_parseconfdir_def calm_malloc)

lemma walk_entries_store:
  assumes "calm w" and "\<And>t p. ucl_load L t p = load p"
    and "\<forall>e \<in> set es. vm_dir e \<longrightarrow> file_good L (load (vm_file (bcs_searchpath bcs) e))"
  shows "\<exists>new w'. calm w' \<and> w_os w' = w_os w \<and>
    walk_entries L es found bcs w = Some (found \<or> (\<exists>e \<in> set es. vm_dir e \<and> file_loads (load (vm_file (bcs_searchpath bcs) e))),
      bcs\<lparr>bcs_configs := rev new @ bcs_configs bcs\<rparr>, w') \<and>
    list_all2 (section_holds L) (concat (map (\<lambda>e. file_sections L (vm_file (bcs_searchpath bcs) e)
      (load (vm_file (bcs_searchpath bcs) e))) (filter vm_dir es))) new"
  using assms(1,3)
proof (induction es arbitrary: found bcs w)
  case Nil
  then show ?case by (intro exI [of _ "[]"] exI [of _ w]) simp
next
  case (Cons e es)
  let ?f = "vm_file (bcs_searchpath bcs) e"
  obtain name ty where e: "e = (name, ty)" by (cases e)
  show ?case
  proof (cases "vm_dir e")
    case False
    then have "walk_entries L (e # es) found bcs w = walk_entries L es found bcs w"
      by (auto simp: e vm_dir_def)
    with False Cons.IH [of w bcs found] Cons.prems show ?thesis by simp
  next
    case True
    with Cons.prems have g: "file_good L (ucl_load L (w_tick (tock (tock w))) ?f)" by (simp add: assms(2))
    obtain new1 w1 where p: "bcs_parseucl L bcs ?f (tock (tock w)) =
        Some (if file_loads (load ?f) then 0 else -1, bcs\<lparr>bcs_configs := rev new1 @ bcs_configs bcs\<rparr>, w1)"
      "calm w1" "w_os w1 = w_os w" "list_all2 (section_holds L) (file_sections L ?f (load ?f)) new1"
      using parseucl_store [OF _ g, of bcs] Cons.prems(1) by (auto simp: assms(2))
    let ?b = "bcs\<lparr>bcs_configs := rev new1 @ bcs_configs bcs\<rparr>"
    have d: "DT_DIR AND ty \<noteq> 0" "\<not> (name \<noteq> [] \<and> hd name = CHR ''.'')" using True by (auto simp: e vm_dir_def)
    have step: "walk_entries L (e # es) found bcs w = walk_entries L es (found \<or> file_loads (load ?f)) ?b w1"
      using p(1) d Cons.prems(1) by (auto simp: e calm_malloc parseconfdir_file vm_file_def simp del: append_assoc)
    obtain new2 w2 where "calm w2" "w_os w2 = w_os w" "walk_entries L es (found \<or> file_loads (load ?f)) ?b w1 =
        Some ((found \<or> file_loads (load ?f)) \<or> (\<exists>e \<in> set es. vm_dir e \<and> file_loads (load (vm_file (bcs_searchpath bcs) e))),
          ?b\<lparr>bcs_configs := rev new2 @ bcs_configs ?b\<rparr>, w2)"
      "list_all2 (section_holds L) (concat (map (\<lambda>e. file_sections L (vm_file (bcs_searchpath bcs) e)
        (load (vm_file (bcs_searchpath bcs) e))) (filter vm_dir es))) new2"
      using Cons.IH [of w1 ?b "found \<or> file_loads (load ?f)"] Cons.prems(2) p(2,3) by auto
    with step p(4) True show ?thesis
      by (intro exI [of _ "new1 @ new2"] exI [of _ w2]) (auto intro: list_all2_appendI)
  qed
qed

text \<open>A key that a section does not have leaves zero.\<close>

lemma last_value_absent:
  "(\<forall>cur \<in> set cs. ucl_key L cur \<noteq> Some (pm_varname m)) \<Longrightarrow> last_value L m cs old = old"
  unfolding last_value_def by (induction cs) simp_all

lemma section_number:
  assumes "section_holds L (f, obj) bc" and "\<And>addr. m \<in> set (bc_nvlist2config addr)"
    and "\<forall>cur \<in> set (ucl_children L obj). ucl_key L cur \<noteq> Some (pm_varname m)"
  shows "\<exists>addr. encode_value (pm_value_type m) bc =
    encode_value (pm_value_type m) (bc_zero\<lparr>bc_name := strncpy_buf PATH_MAX (the (ucl_key L obj))\<rparr>)"
  using assms last_value_absent [OF assms(3)] by (fastforce simp: section_holds_def)

section \<open>Through a name-value list and back\<close>

definition strings_fit :: "bhyve_configuration \<Rightarrow> bool" where
  "strings_fit bc \<longleftrightarrow> length (bc_name bc) \<le> PATH_MAX \<and> length (bc_configfile bc) \<le> PATH_MAX \<and>
     length (bc_scriptpath bc) \<le> PATH_MAX"

lemma config_fixed_fits:
  "strings_fit s \<Longrightarrow> m \<in> set (bc_nvlist2config addr) \<Longrightarrow> pm_value_type m = FIXEDSTRING get put len \<Longrightarrow> length (get s) \<le> len"
  by (auto simp: bc_nvlist2config_def strings_fit_def)

section \<open>The daemon's file\<close>

definition daemon_of :: "'u ucllib \<Rightarrow> 'u \<Rightarrow> daemon_config" where
  "daemon_of L obj = fold (child_put L dconf_nvlist2config (\<lambda>_ s. s)) (ucl_children L obj) dconf_zero"

lemma dconf_parse_ok:
  assumes "calm w"
  shows "\<exists>w'. dconf_parsefromucl L dconf_zero obj w = Some (0, daemon_of L obj, w') \<and> calm w' \<and> w_os w' = w_os w"
proof -
  have n: "dconf_nvlist2config \<noteq> []" by (simp add: dconf_nvlist2config_def)
  have s: "strings_given L dconf_nvlist2config (ucl_children L obj)"
    by (auto simp: strings_given_def dconf_nvlist2config_def)
  show ?thesis
    unfolding dconf_parsefromucl_def bup_generic_parsefromucl_def daemon_of_def
    by (rule parse_items_pure [OF n no_subs assms s])
qed

text \<open>The last section named \<open>vmstated\<close> counts.\<close>

definition last_daemon :: "'u ucllib \<Rightarrow> 'u list \<Rightarrow> daemon_config \<Rightarrow> daemon_config" where
  "last_daemon L cs dc = fold (\<lambda>cur d. if ucl_key L cur = Some ''vmstated'' then daemon_of L cur else d) cs dc"

lemma dconf_sections_ok:
  "calm w \<Longrightarrow> \<forall>cur \<in> set cs. ucl_key L cur \<noteq> None \<Longrightarrow>
   \<exists>w'. dconf_sections L cs 0 dc w = Some (0, last_daemon L cs dc, w') \<and> calm w' \<and> w_os w' = w_os w"
proof (induction cs arbitrary: dc w)
  case (Cons c cs)
  obtain k where k: "ucl_key L c = Some k" using Cons.prems(2) by auto
  show ?case
  proof (cases "k = ''vmstated''")
    case True
    obtain w1 where "dconf_parsefromucl L dconf_zero c w = Some (0, daemon_of L c, w1)" "calm w1" "w_os w1 = w_os w"
      using dconf_parse_ok [OF Cons.prems(1), of L c] by auto
    with Cons.IH [of w1 "daemon_of L c"] Cons.prems(2) True k show ?thesis by (simp add: last_daemon_def split del: if_split)
  next
    case False
    with Cons.IH [of w dc] Cons.prems k show ?thesis by (simp add: last_daemon_def)
  qed
qed (simp add: last_daemon_def)

lemma daemon_of_value: "m \<in> set dconf_nvlist2config \<Longrightarrow>
  encode_value (pm_value_type m) (daemon_of L obj) =
    last_value L m (ucl_children L obj) (encode_value (pm_value_type m) dconf_zero)"
  unfolding daemon_of_def by (rule daemon_table.fold_put_value) simp_all

lemma walkdir_store:
  fixes w :: "'m world_scheme"
  assumes "calm w" and "\<forall>n. os_close (w_os w) n" and "\<forall>t p. ucl_load L t p = load p"
    and "os_readdir (w_os w) (w_tick w) (bcs_searchpath b) = Some es"
    and "\<forall>e \<in> set es. vm_dir e \<longrightarrow> file_good L (load (vm_file (bcs_searchpath b) e))"
  shows "\<exists>new w'. bcs_walkdir L (Some b) w =
      Some (if \<exists>e \<in> set es. vm_dir e \<and> file_loads (load (vm_file (bcs_searchpath b) e)) then 0 else 1,
        Some (b\<lparr>bcs_configs := rev new @ bcs_configs b\<rparr>), w') \<and> w_os w' = w_os w \<and>
    list_all2 (section_holds L) (concat (map (\<lambda>e. file_sections L (vm_file (bcs_searchpath b) e)
      (load (vm_file (bcs_searchpath b) e))) (filter vm_dir es))) new"
proof -
  obtain new w1 where "w_os w1 = w_os w" "walk_entries L es False b (tock w) =
      Some (\<exists>e \<in> set es. vm_dir e \<and> file_loads (load (vm_file (bcs_searchpath b) e)),
        b\<lparr>bcs_configs := rev new @ bcs_configs b\<rparr>, w1)"
    "list_all2 (section_holds L) (concat (map (\<lambda>e. file_sections L (vm_file (bcs_searchpath b) e)
      (load (vm_file (bcs_searchpath b) e))) (filter vm_dir es))) new"
    using walk_entries_store [of "tock w" L load es b False] assms(1,3,5) by auto
  then show ?thesis
    using assms(2,4) by (intro exI [of _ new]) (simp add: bcs_walkdir_def ask_def Let_def)
qed

text \<open>A section without the key never asks for the autostart.\<close>

lemma section_autostart:
  assumes "section_holds L (f, obj) bc" and "\<forall>cur \<in> set (ucl_children L obj). ucl_key L cur \<noteq> Some ''autostart''"
  shows "\<not> bc_autostart bc"
proof -
  let ?m = "\<lparr>pm_varname = ''autostart'', pm_value_type = BOOLEAN bc_autostart (\<lambda>v c. c\<lparr>bc_autostart := v\<rparr>)\<rparr> :: bhyve_configuration parser_mapping"
  have "?m \<in> set (bc_nvlist2config addr)" for addr by (simp add: bc_nvlist2config_def)
  from section_number [OF assms(1) this] assms(2) show ?thesis by (simp add: bc_zero_def)
qed

section \<open>Properties\<close>

text \<open>C12: Walking the configuration directory, with memory at hand and well-formed files, looks into every
  subdirectory whose name does not start with a dot, takes each section of its file \<open>config\<close> into the
  store in front of those before it, each with the values the section gives, and returns 0 exactly when
  a file could be loaded; what was in the store stays.\<close>

theorem bcs_walkdir_store:
  fixes w :: "'m world_scheme"
  assumes "calm w" and "\<forall>n. os_close (w_os w) n" and "\<forall>t p. ucl_load L t p = load p"
    and "os_readdir (w_os w) (w_tick w) (bcs_searchpath b) = Some es"
    and "\<forall>e \<in> set es. vm_dir e \<longrightarrow> file_good L (load (vm_file (bcs_searchpath b) e))"
  shows "\<exists>new w'. bcs_walkdir L (Some b) w =
      Some (if \<exists>e \<in> set es. vm_dir e \<and> file_loads (load (vm_file (bcs_searchpath b) e)) then 0 else 1,
        Some (b\<lparr>bcs_configs := rev new @ bcs_configs b\<rparr>), w') \<and>
    list_all2 (section_holds L) (concat (map (\<lambda>e. file_sections L (vm_file (bcs_searchpath b) e)
      (load (vm_file (bcs_searchpath b) e))) (filter vm_dir es))) new"
  using walkdir_store [OF assms] by blast

definition demo_dir :: os where
  "demo_dir = calm_os\<lparr>os_readdir := \<lambda>_ _. Some [(''.'', 4), (''one'', 4), (''note'', 8)]\<rparr>"

theorem bcs_walkdir_store_witness:
  "\<exists>new w'. bcs_walkdir (demo_ucl (UclRoot demo_root)) (Some \<lparr>bcs_searchpath = ''/vm'', bcs_configs = []\<rparr>) (world0 demo_dir) =
     Some (0, Some \<lparr>bcs_searchpath = ''/vm'', bcs_configs = rev new\<rparr>, w') \<and>
     list_all2 (section_holds (demo_ucl (UclRoot demo_root)))
       [(''/vm/one/config'', demo_section), (''/vm/one/config'', USection ''two'' [UStr ''configfile'' ''/vm/two''])] new"
proof -
  let ?L = "demo_ucl (UclRoot demo_root)"
  let ?w = "world0 demo_dir"
  let ?b = "\<lparr>bcs_searchpath = ''/vm'', bcs_configs = []\<rparr>"
  have c: "calm ?w" by (simp add: calm_def demo_dir_def calm_os_def world0_def)
  have o: "\<forall>n. os_close (w_os ?w) n" by (simp add: demo_dir_def calm_os_def world0_def)
  have l: "\<forall>t p. ucl_load ?L t p = UclRoot demo_root" by (simp add: demo_ucl_def)
  have d: "os_readdir (w_os ?w) (w_tick ?w) (bcs_searchpath ?b) = Some [(''.'', 4), (''one'', 4), (''note'', 8)]"
    by (simp add: demo_dir_def world0_def)
  have ch: "ucl_children ?L demo_root = [demo_section, USection ''two'' [UStr ''configfile'' ''/vm/two'']]"
    by (simp add: demo_ucl_def demo_root_def)
  have g: "file_good ?L (UclRoot demo_root)"
    by (simp add: file_good_def ch demo_sections_ok) (simp add: demo_ucl_def)
  have v: "\<not> vm_dir (''.'', 4)" "vm_dir (''one'', 4)" "\<not> vm_dir (''note'', 8)" by (simp_all add: vm_dir_def DT_DIR_def)
  from bcs_walkdir_store [OF c o l d] g show ?thesis
    by (simp add: v file_loads_def file_sections_def ch vm_file_def)
qed

text \<open>C33: A vm whose section sets neither \<open>maxrestart\<close> nor \<open>maxrestarttime\<close> gets zero for both, where the
  manual promises 3 and 30: reading starts from a cleared structure and not from \<open>bc_new\<close>.\<close>

theorem bcs_parseucl_no_limits:
  fixes w :: "'m world_scheme"
  assumes "calm w" and "ucl_load L (w_tick w) configfile = UclRoot root"
    and "ucl_children L root = [obj]" and "ucl_key L obj = Some name" and "strings_ok L obj"
    and "\<forall>cur \<in> set (ucl_children L obj). ucl_key L cur \<noteq> Some ''maxrestart'' \<and> ucl_key L cur \<noteq> Some ''maxrestarttime''"
  shows "\<exists>bc w'. bcs_parseucl L bcs configfile w = Some (0, bcs\<lparr>bcs_configs := bc # bcs_configs bcs\<rparr>, w') \<and>
    bc_get_maxrestart bc = 0 \<and> (word_of_int (bc_get_maxrestarttime bc) :: u64) = 0"
proof -
  let ?r = "\<lparr>pm_varname = ''maxrestart'', pm_value_type = UINT32 bc_maxrestart (\<lambda>v c. c\<lparr>bc_maxrestart := v\<rparr>)\<rparr> :: bhyve_configuration parser_mapping"
  let ?t = "\<lparr>pm_varname = ''maxrestarttime'', pm_value_type = UINT64 (\<lambda>c. word_of_int (bc_maxrestarttime c))
      (\<lambda>v c. c\<lparr>bc_maxrestarttime := sint v\<rparr>)\<rparr> :: bhyve_configuration parser_mapping"
  have m: "?r \<in> set (bc_nvlist2config addr)" "?t \<in> set (bc_nvlist2config addr)" for addr
    by (simp_all add: bc_nvlist2config_def)
  have "file_good L (ucl_load L (w_tick w) configfile)" using assms(2-5) by (simp add: file_good_def)
  from parseucl_store [OF assms(1) this, of bcs] assms(2,3)
  obtain bc w' where p: "bcs_parseucl L bcs configfile w = Some (0, bcs\<lparr>bcs_configs := bc # bcs_configs bcs\<rparr>, w')"
    and h: "section_holds L (configfile, obj) bc"
    by (auto simp: file_loads_def file_sections_def list_all2_Cons1)
  from section_number [OF h m(1)] assms(6) have "ucast (ucast (bc_maxrestart bc) :: u64) = (0 :: u32)"
    by (auto simp: bc_zero_def)
  then have "bc_maxrestart bc = 0" by simp
  moreover from section_number [OF h m(2)] assms(6) have "(word_of_int (bc_maxrestarttime bc) :: u64) = 0"
    by (auto simp: bc_zero_def)
  ultimately show ?thesis using p by (auto simp: bc_get_maxrestart_def bc_get_maxrestarttime_def)
qed

theorem bcs_parseucl_no_limits_witness:
  "\<exists>bc w'. bcs_parseucl (demo_ucl (UclRoot (USection '''' [demo_section]))) \<lparr>bcs_searchpath = ''/vm'', bcs_configs = []\<rparr>
       ''/vm/one/config'' (world0 calm_os) = Some (0, \<lparr>bcs_searchpath = ''/vm'', bcs_configs = [bc]\<rparr>, w') \<and>
     bc_get_maxrestart bc = 0 \<and> (word_of_int (bc_get_maxrestarttime bc) :: u64) = 0"
proof -
  let ?L = "demo_ucl (UclRoot (USection '''' [demo_section]))"
  have "\<forall>cur \<in> set (ucl_children ?L demo_section). ucl_key ?L cur \<noteq> Some ''maxrestart'' \<and> ucl_key ?L cur \<noteq> Some ''maxrestarttime''"
    by (simp add: demo_ucl_def demo_section_def)
  with bcs_parseucl_no_limits [OF calm_world0, of ?L "''/vm/one/config''" "USection '''' [demo_section]" demo_section "''one''"
      "\<lparr>bcs_searchpath = ''/vm'', bcs_configs = []\<rparr>"] demo_sections_ok(1) [of "UclRoot (USection '''' [demo_section])"]
  show ?thesis by (simp add: demo_ucl_def demo_section_def)
qed

text \<open>C14: A configuration written to a name-value list and read back into any other leaves there what every
  entry of the table had in the first.\<close>

theorem bc_nvlist_roundtrip:
  fixes w :: "'m world_scheme"
  assumes "nv_laws N" and "nv_create N t = Some nvl" and "\<forall>n. os_malloc (w_os w) n" and "strings_fit bc"
  shows "\<exists>nvl' w' bc' w''. bc_tonvlist N addr (Some bc) (Some nvl) w = (0, Some nvl', w') \<and>
    bc_fromnvlist N addr' (Some other) (Some nvl') w' = (0, Some bc', w'') \<and>
    (\<forall>m \<in> set (bc_nvlist2config addr). encode_value (pm_value_type m) bc' = encode_value (pm_value_type m) bc)"
proof -
  have same: "encode_items N (bc_nvlist2config addr) = encode_items N (bc_nvlist2config addr')"
    by (rule ext)+ (simp add: bc_nvlist2config_def)
  have vals: "(\<forall>m \<in> set (bc_nvlist2config a). encode_value (pm_value_type m) x = encode_value (pm_value_type m) y) \<longleftrightarrow>
      (\<forall>m \<in> set (bc_nvlist2config a'). encode_value (pm_value_type m) x = encode_value (pm_value_type m) y)" for a a' x y
    by (simp add: bc_nvlist2config_def)
  obtain w'' where "bcmd_decodenvlist N (bc_nvlist2config addr') other (encode_items N (bc_nvlist2config addr) bc nvl) w =
      (0, copy_items (bc_nvlist2config addr') bc other, w'')"
    using config_table.decoded [OF assms(1) _ _ assms(3), of nvl "encode_items N (bc_nvlist2config addr) bc nvl" addr' bc other]
      nv_createE [OF assms(1,2)] same by auto
  moreover have "\<forall>m \<in> set (bc_nvlist2config addr'). encode_value (pm_value_type m) (copy_items (bc_nvlist2config addr') bc other) =
      encode_value (pm_value_type m) bc"
    by (intro ballI config_table.copy_items_encode) (auto intro: config_fixed_fits [OF assms(4)])
  ultimately show ?thesis
    using vals [of addr' _ _ addr] by (simp add: bc_tonvlist_def bc_fromnvlist_def bcmd_encodenvlist_def) 
qed

theorem bc_nvlist_roundtrip_witness:
  "\<exists>nvl' w' bc' w''. bc_tonvlist demo_nv 1 (Some (bc_zero\<lparr>bc_name := ''one'', bc_os := Some ''BSD'', bc_memory := 512\<rparr>)) (Some []) (world0 calm_os)
       = (0, Some nvl', w') \<and>
     bc_fromnvlist demo_nv 2 (Some (bc_zero\<lparr>bc_owner := Some ''root''\<rparr>)) (Some nvl') w' = (0, Some bc', w'') \<and>
     bc_name bc' = ''one'' \<and> bc_os bc' = Some ''BSD'' \<and> bc_owner bc' = None"
proof -
  let ?bc = "bc_zero\<lparr>bc_name := ''one'', bc_os := Some ''BSD'', bc_memory := 512\<rparr>"
  have c: "nv_create demo_nv 0 = Some []" by (simp add: demo_nv_def)
  have m: "\<forall>n. os_malloc (w_os (world0 calm_os)) n" by (simp add: world0_def calm_os_def)
  have f: "strings_fit ?bc" by (simp add: strings_fit_def bc_zero_def PATH_MAX_def)
  from bc_nvlist_roundtrip [OF demo_nv_laws c m f, of 1 2 "bc_zero\<lparr>bc_owner := Some ''root''\<rparr>"] obtain nvl' w' bc' w'' where
    r: "bc_tonvlist demo_nv 1 (Some ?bc) (Some []) (world0 calm_os) = (0, Some nvl', w')"
      "bc_fromnvlist demo_nv 2 (Some (bc_zero\<lparr>bc_owner := Some ''root''\<rparr>)) (Some nvl') w' = (0, Some bc', w'')"
    and v: "\<forall>m \<in> set (bc_nvlist2config 1). encode_value (pm_value_type m) bc' = encode_value (pm_value_type m) ?bc"
    by blast
  from v have "bc_name bc' = ''one'' \<and> bc_os bc' = Some ''BSD'' \<and> bc_owner bc' = None"
    by (simp add: bc_nvlist2config_def bc_zero_def split: option.splits)
  with r show ?thesis by blast
qed

text \<open>The daemon's file sets the range of identifiers to the last value given for each key in the last
  section named \<open>vmstated\<close>, zero for a key that is missing there; without such a section nothing
  changes and 0 is returned all the same.\<close>

theorem dconf_parseucl_values:
  fixes w :: "'m world_scheme"
  assumes "calm w" and "ucl_load L (w_tick w) configfile = UclRoot root"
    and "\<forall>cur \<in> set (ucl_children L root). ucl_key L cur \<noteq> None"
  shows "\<exists>dc' w'. dconf_parseucl L dc configfile w = Some (0, dc', w') \<and>
    (case find (\<lambda>cur. ucl_key L cur = Some ''vmstated'') (rev (ucl_children L root)) of
       None \<Rightarrow> dc' = dc
     | Some obj \<Rightarrow> \<forall>m \<in> set dconf_nvlist2config. encode_value (pm_value_type m) dc' =
         last_value L m (ucl_children L obj) (NvNumber 0))"
proof -
  have z: "m \<in> set dconf_nvlist2config \<Longrightarrow> encode_value (pm_value_type m) dconf_zero = NvNumber 0" for m
    by (auto simp: dconf_nvlist2config_def dconf_zero_def)
  have l: "last_daemon L cs dc = (case find (\<lambda>cur. ucl_key L cur = Some ''vmstated'') (rev cs) of
      None \<Rightarrow> dc | Some obj \<Rightarrow> daemon_of L obj)" for cs
    by (induction cs rule: rev_induct) (simp_all add: last_daemon_def)
  show ?thesis
    using dconf_sections_ok [of "tock w" "ucl_children L root" L dc] assms
    by (auto simp: dconf_parseucl_def l daemon_of_value z split: option.split)
qed

theorem dconf_parseucl_values_witness:
  "\<exists>dc' w'. dconf_parseucl (demo_ucl (UclRoot (USection '''' [USection ''other'' [],
       USection ''vmstated'' [UNum ''tap_min'' 10, UNum ''tap_max'' 99]]))) dconf_zero ''/etc/vmstated.conf'' (world0 calm_os) = Some (0, dc', w') \<and>
     fst (dconf_get_tapid_min (Some dc') w') = 10 \<and> fst (dconf_get_tapid_max (Some dc') w') = 99 \<and>
     fst (dconf_get_nmdmid_max (Some dc') w') = 0"
proof -
  let ?d = "USection ''vmstated'' [UNum ''tap_min'' 10, UNum ''tap_max'' 99]"
  let ?root = "USection '''' [USection ''other'' [], ?d]"
  let ?L = "demo_ucl (UclRoot ?root)"
  have r: "ucl_load ?L (w_tick (world0 calm_os)) ''/etc/vmstated.conf'' = UclRoot ?root" by (simp add: demo_ucl_def)
  have k: "\<forall>cur \<in> set (ucl_children ?L ?root). ucl_key ?L cur \<noteq> None" by (simp add: demo_ucl_def)
  have f: "find (\<lambda>cur. ucl_key ?L cur = Some ''vmstated'') (rev (ucl_children ?L ?root)) = Some ?d" by (simp add: demo_ucl_def)
  from dconf_parseucl_values [OF calm_world0 r k, of dconf_zero] obtain dc' w' where
    p: "dconf_parseucl ?L dconf_zero ''/etc/vmstated.conf'' (world0 calm_os) = Some (0, dc', w')"
    and v: "\<forall>m \<in> set dconf_nvlist2config. encode_value (pm_value_type m) dc' = last_value ?L m (ucl_children ?L ?d) (NvNumber 0)"
    unfolding f by auto
  have "last_value ?L m (ucl_children ?L ?d) x = (if pm_varname m = ''tap_min'' then ucl_value ?L (pm_value_type m) (UNum ''tap_min'' 10)
      else if pm_varname m = ''tap_max'' then ucl_value ?L (pm_value_type m) (UNum ''tap_max'' 99) else x)" for m :: "daemon_config parser_mapping" and x
    by (auto simp: last_value_def demo_ucl_def)
  with v have "(ucast (ucast (dc_tapid_min dc') :: u32) :: u64) = 10" "(ucast (ucast (dc_tapid_max dc') :: u32) :: u64) = 99"
    "(ucast (ucast (dc_nmdmid_max dc') :: u32) :: u64) = 0"
    by (simp_all add: dconf_nvlist2config_def demo_ucl_def)
  then have "(ucast (dc_tapid_min dc') :: u32) = 10" "(ucast (dc_tapid_max dc') :: u32) = 99" "(ucast (dc_nmdmid_max dc') :: u32) = 0"
    using ucast_back(1) [of "ucast (dc_tapid_min dc')"] ucast_back(1) [of "ucast (dc_tapid_max dc')"]
      ucast_back(1) [of "ucast (dc_nmdmid_max dc')"] by simp_all
  with p show ?thesis
    by (auto simp: dconf_get_tapid_min_def dconf_get_tapid_max_def dconf_get_nmdmid_max_def dconf_get_def)
qed

end
