(* ===== verification/Transmit_Collect.thy ===== *)
theory Transmit_Collect
  imports Os_World
begin

text \<open>
  \<open>src/libutils/transmit_collect.c\<close> and \<open>src/libsocket/reply_collector.c\<close>: buffers are stored one by
  one and handed out as one block with the list of their lengths.

  A buffer is its list of bytes; a \<open>size_t\<close> that counts bytes in memory is a natural number. Writing
  to a block of memory past its end is undefined in C; here it is the result \<open>None\<close>.
\<close>

section \<open>Data\<close>

record socket_transmission_collector =
  stc_mtx :: bool
  stc_items :: "bytes list"

definition sizeof_size_t :: nat where
  "sizeof_size_t = 8"

text \<open>Copying \<open>bs\<close> into a block at an offset.\<close>

definition bcopy_to :: "'a list \<Rightarrow> nat \<Rightarrow> 'a list \<Rightarrow> 'a list option" where
  "bcopy_to bs offset block =
     (if offset + length bs \<le> length block
      then Some (take offset block @ bs @ drop (offset + length bs) block) else None)"

section \<open>The collector\<close>

definition stc_getbuffercount ::
  "socket_transmission_collector \<Rightarrow> 'm world_scheme
   \<Rightarrow> nat \<times> socket_transmission_collector \<times> 'm world_scheme" where
  "stc_getbuffercount stc w =
     (let (err, m, w1) = mutex_lock (stc_mtx stc) w
      in if err then (0, stc\<lparr>stc_mtx := m\<rparr>, w1)
         else (let total = foldl (\<lambda>t _. t + 1) 0 (stc_items stc); (err', m', w2) = mutex_unlock m w1
               in (if err' then 0 else total, stc\<lparr>stc_mtx := m'\<rparr>, w2)))"

definition stc_getbuffersize ::
  "socket_transmission_collector \<Rightarrow> 'm world_scheme
   \<Rightarrow> nat \<times> socket_transmission_collector \<times> 'm world_scheme" where
  "stc_getbuffersize stc w =
     (let (err, m, w1) = mutex_lock (stc_mtx stc) w
      in if err then (0, stc\<lparr>stc_mtx := m\<rparr>, w1)
         else (let total = foldl (\<lambda>t b. t + length b) 0 (stc_items stc); (err', m', w2) = mutex_unlock m w1
               in (if err' then 0 else total, stc\<lparr>stc_mtx := m'\<rparr>, w2)))"

definition stc_free :: "socket_transmission_collector option \<Rightarrow> 'm world_scheme \<Rightarrow> 'm world_scheme" where
  "stc_free stc w =
     (case stc of
        None \<Rightarrow> w
      | Some s \<Rightarrow> (let (_, m, w1) = mutex_lock (stc_mtx s) w; (_, _, w2) = mutex_unlock m w1 in w2))"

definition stc_new :: "'m world_scheme \<Rightarrow> socket_transmission_collector option \<times> 'm world_scheme" where
  "stc_new w =
     (let (ok, w1) = sys_malloc w
      in if \<not> ok then (None, w1)
         else (let s = \<lparr>stc_mtx = False, stc_items = []\<rparr>; (inited, w2) = sys_init w1
               in if \<not> inited then (None, stc_free (Some s) w2) else (Some s, w2)))"

text \<open>With the pointer tests; the item is in the list even when the unlock after it fails.\<close>

definition stc_store_transmit ::
  "socket_transmission_collector option \<Rightarrow> bytes option \<Rightarrow> 'm world_scheme
   \<Rightarrow> int \<times> socket_transmission_collector option \<times> 'm world_scheme" where
  "stc_store_transmit stc buffer w =
     (case (stc, buffer) of
        (Some s, Some b) \<Rightarrow>
          if b = [] then (-1, stc, w)
          else (let (ok, w1) = sys_malloc w
                in if \<not> ok then (-1, stc, w1)
                   else (let (ok', w2) = sys_malloc w1
                         in if \<not> ok' then (-1, stc, w2)
                            else (let (err, m, w3) = mutex_lock (stc_mtx s) w2
                                  in if err then (-1, Some (s\<lparr>stc_mtx := m\<rparr>), w3)
                                     else (let (err', m', w4) = mutex_unlock m w3;
                                               s' = s\<lparr>stc_items := stc_items s @ [b], stc_mtx := m'\<rparr>
                                           in (if err' then -1 else 0, Some s', w4)))))
      | _ \<Rightarrow> (-1, stc, w))"

text \<open>The loop of \<open>stc_collect\<close>.\<close>

fun collect_items ::
  "bytes list \<Rightarrow> bytes \<Rightarrow> nat list \<Rightarrow> nat \<Rightarrow> nat \<Rightarrow> (bytes \<times> nat list) option" where
  "collect_items [] buffer buffer_lens offset counter = Some (buffer, buffer_lens)"
| "collect_items (i # is) buffer buffer_lens offset counter =
     (case (bcopy_to i offset buffer, bcopy_to [length i] counter buffer_lens) of
        (Some buffer', Some lens') \<Rightarrow> collect_items is buffer' lens' (offset + length i) (counter + 1)
      | _ \<Rightarrow> None)"

text \<open>
  The second halves of \<open>stc_collect\<close>, after the sizes were found to fit. The result holds the return
  value, the block and the lengths as they are afterwards.
\<close>

definition stc_collect_copy ::
  "socket_transmission_collector \<Rightarrow> bytes \<Rightarrow> nat list \<Rightarrow> 'm world_scheme
   \<Rightarrow> (int \<times> bytes \<times> nat list \<times> socket_transmission_collector \<times> 'm world_scheme) option" where
  "stc_collect_copy stc buffer buffer_lens w =
     (let (err, m, w1) = mutex_lock (stc_mtx stc) w
      in if err then Some (-1, buffer, buffer_lens, stc\<lparr>stc_mtx := m\<rparr>, w1)
         else (case collect_items (stc_items stc) buffer buffer_lens 0 0 of
                 None \<Rightarrow> None
               | Some (buffer', lens') \<Rightarrow>
                   (let (err', m', w2) = mutex_unlock m w1
                    in Some (if err' then -1 else 0, buffer', lens', stc\<lparr>stc_mtx := m'\<rparr>, w2))))"

definition stc_collect ::
  "socket_transmission_collector \<Rightarrow> bytes \<Rightarrow> nat \<Rightarrow> nat list \<Rightarrow> nat \<Rightarrow> 'm world_scheme
   \<Rightarrow> (int \<times> bytes \<times> nat list \<times> socket_transmission_collector \<times> 'm world_scheme) option" where
  "stc_collect stc buffer bufferlen buffer_lens buffer_lenslen w =
     (if bufferlen = 0 \<or> buffer_lenslen = 0 then Some (-1, buffer, buffer_lens, stc, w)
      else (let (size, s1, w1) = stc_getbuffersize stc w
            in if bufferlen < size then Some (-1, buffer, buffer_lens, s1, set_errno ENOMEM w1)
               else (let (count, s2, w2) = stc_getbuffercount s1 w1
                     in if buffer_lenslen < sizeof_size_t * count
                        then Some (-1, buffer, buffer_lens, s2, set_errno ENOMEM w2)
                        else stc_collect_copy s2 buffer buffer_lens w2)))"

section \<open>The reply collector\<close>

record socket_reply_collector =
  src_stc :: socket_transmission_collector
  src_short_replies :: "string option"
  src_collected_buffer :: "bytes option"

definition src_new :: "'m world_scheme \<Rightarrow> socket_reply_collector option \<times> 'm world_scheme" where
  "src_new w =
     (let (ok, w1) = sys_malloc w
      in if \<not> ok then (None, w1)
         else (let (stc, w2) = stc_new w1
               in case stc of
                    None \<Rightarrow> (None, w2)
                  | Some s \<Rightarrow> (Some \<lparr>src_stc = s, src_short_replies = None, src_collected_buffer = None\<rparr>, w2)))"

definition src_free :: "socket_reply_collector option \<Rightarrow> 'm world_scheme \<Rightarrow> 'm world_scheme" where
  "src_free src w = (case src of None \<Rightarrow> w | Some s \<Rightarrow> stc_free (Some (src_stc s)) w)"

text \<open>Fresh memory of some length, before anything was written to it.\<close>

definition fresh_bytes :: "nat \<Rightarrow> bytes" where
  "fresh_bytes n = replicate n 0"

definition src_get_reply ::
  "socket_reply_collector \<Rightarrow> 'm world_scheme
   \<Rightarrow> ((bytes \<times> nat) option \<times> socket_reply_collector \<times> 'm world_scheme) option" where
  "src_get_reply src w =
     (let s0 = src\<lparr>src_collected_buffer := None\<rparr>;
          (count, stc1, w1) = stc_getbuffercount (src_stc s0) w;
          (ok, w2) = sys_malloc w1
      in if \<not> ok then Some (None, s0\<lparr>src_stc := stc1\<rparr>, w2)
         else (let (size, stc2, w3) = stc_getbuffersize stc1 w2; (ok', w4) = sys_malloc w3
               in if \<not> ok' then Some (None, s0\<lparr>src_stc := stc2\<rparr>, w4)
                  else (let (size', stc3, w5) = stc_getbuffersize stc2 w4
                        in case stc_collect stc3 (fresh_bytes size) size' (replicate count 0)
                                  (sizeof_size_t * count) w5 of
                             None \<Rightarrow> None
                           | Some (r, buffer, _, stc4, w6) \<Rightarrow>
                               (let s1 = s0\<lparr>src_stc := stc4, src_collected_buffer := Some buffer\<rparr>
                                in if r \<noteq> 0 then Some (None, s1, w6)
                                   else (let (size'', stc5, w7) = stc_getbuffersize stc4 w6
                                         in Some (Some (buffer, size''), s1\<lparr>src_stc := stc5\<rparr>, w7))))))"

definition src_short_reply ::
  "socket_reply_collector option \<Rightarrow> string \<Rightarrow> 'm world_scheme
   \<Rightarrow> int \<times> socket_reply_collector option \<times> 'm world_scheme" where
  "src_short_reply src reply w =
     (case src of
        None \<Rightarrow> (-1, None, set_errno EINVAL w)
      | Some s \<Rightarrow>
          if src_short_replies s \<noteq> None then (1, Some s, w)
          else (let (ok, w1) = sys_malloc w
                in if \<not> ok then (-1, Some s, w1)
                   else (0, Some (s\<lparr>src_short_replies := Some reply\<rparr>), w1)))"

definition src_has_reply ::
  "socket_reply_collector option \<Rightarrow> 'm world_scheme
   \<Rightarrow> bool \<times> socket_reply_collector option \<times> 'm world_scheme" where
  "src_has_reply src w =
     (case src of
        None \<Rightarrow> (False, None, w)
      | Some s \<Rightarrow> (let (size, stc, w1) = stc_getbuffersize (src_stc s) w
                   in (size \<noteq> 0, Some (s\<lparr>src_stc := stc\<rparr>), w1)))"

definition src_has_short_reply :: "socket_reply_collector option \<Rightarrow> bool" where
  "src_has_short_reply src = (case src of None \<Rightarrow> False | Some s \<Rightarrow> src_short_replies s \<noteq> None)"

definition src_reply ::
  "socket_reply_collector option \<Rightarrow> bytes option \<Rightarrow> 'm world_scheme
   \<Rightarrow> int \<times> socket_reply_collector option \<times> 'm world_scheme" where
  "src_reply src buffer w =
     (case (src, buffer) of
        (Some s, Some b) \<Rightarrow>
          (let (r, stc, w1) = stc_store_transmit (Some (src_stc s)) (Some b) w
           in (r, Some (s\<lparr>src_stc := the stc\<rparr>), w1))
      | _ \<Rightarrow> (-1, src, set_errno EINVAL w))"

definition src_get_short_reply :: "socket_reply_collector \<Rightarrow> string option" where
  "src_get_short_reply src = src_short_replies src"

section \<open>Lemmas\<close>

lemma foldl_count: "foldl (\<lambda>t _. t + 1) n xs = n + length xs" for n :: nat
  by (induction xs arbitrary: n) simp_all

lemma foldl_size: "foldl (\<lambda>t b. t + length b) n xs = n + length (concat xs)"
  by (induction xs arbitrary: n) simp_all

text \<open>The copy loop fills the block with the items in order, and the lengths with their lengths, when
  both have room; it touches nothing behind them.\<close>

lemma collect_items_fits:
  "offset + length (concat is) \<le> length buffer \<Longrightarrow> counter + length is \<le> length lens \<Longrightarrow>
   collect_items is buffer lens offset counter =
     Some (take offset buffer @ concat is @ drop (offset + length (concat is)) buffer,
           take counter lens @ map length is @ drop (counter + length is) lens)"
proof (induction "is" arbitrary: buffer lens offset counter)
  case (Cons i "is")
  let ?b = "take offset buffer @ i @ drop (offset + length i) buffer"
  let ?l = "take counter lens @ [length i] @ drop (counter + 1) lens"
  have b: "bcopy_to i offset buffer = Some ?b" and l: "bcopy_to [length i] counter lens = Some ?l"
    using Cons.prems by (simp_all add: bcopy_to_def)
  have "collect_items is ?b ?l (offset + length i) (counter + 1) =
     Some (take (offset + length i) ?b @ concat is @ drop (offset + length i + length (concat is)) ?b,
           take (counter + 1) ?l @ map length is @ drop (counter + 1 + length is) ?l)"
    using Cons.prems by (intro Cons.IH) auto
  then show ?case
    using b l Cons.prems by (simp add: ac_simps)
qed simp

lemma collect_items_overflow:
  "offset \<le> length buffer \<Longrightarrow> length buffer < offset + length (concat is) \<Longrightarrow> collect_items is buffer lens offset counter = None"
proof (induction "is" arbitrary: buffer lens offset counter)
  case (Cons i "is")
  show ?case
  proof (cases "bcopy_to i offset buffer")
    case (Some b)
    then have "length b = length buffer" "offset + length i \<le> length buffer"
      by (auto simp: bcopy_to_def split: if_splits)
    with Cons.prems have "offset + length i \<le> length b" "length b < offset + length i + length (concat is)"
      by simp_all
    from Cons.IH [OF this] Some show ?thesis by (simp split: option.split)
  qed simp
qed (simp_all add: bcopy_to_def)

lemma count_calm: "calm w \<Longrightarrow> \<not> stc_mtx s \<Longrightarrow> stc_getbuffercount s w = (length (stc_items s), s, tock (tock w))"
  by (simp add: stc_getbuffercount_def calm_lock calm_unlock foldl_count del: One_nat_def)

lemma size_calm: "calm w \<Longrightarrow> \<not> stc_mtx s \<Longrightarrow> stc_getbuffersize s w = (length (concat (stc_items s)), s, tock (tock w))"
  by (simp add: stc_getbuffersize_def calm_lock calm_unlock foldl_size)

lemma store_calm:
  assumes "calm w" and "\<not> stc_mtx s" and "b \<noteq> []"
  shows "stc_store_transmit (Some s) (Some b) w =
    (0, Some (s\<lparr>stc_items := stc_items s @ [b]\<rparr>), tock (tock (tock (tock w))))"
  using assms by (simp add: stc_store_transmit_def calm_malloc calm_lock calm_unlock Let_def)

lemma new_calm: "calm w \<Longrightarrow> stc_new w = (Some \<lparr>stc_mtx = False, stc_items = []\<rparr>, tock (tock w))"
  by (simp add: stc_new_def calm_malloc calm_init)

lemma collect_calm:
  assumes "calm w" and "\<not> stc_mtx s"
    and "length (concat (stc_items s)) \<le> length buffer" and "length (stc_items s) \<le> length lens"
    and "0 < length buffer" and "0 < length lens"
  shows "\<exists>w'. stc_collect s buffer (length buffer) lens (sizeof_size_t * length lens) w =
    Some (0, concat (stc_items s) @ drop (length (concat (stc_items s))) buffer,
          map length (stc_items s) @ drop (length (stc_items s)) lens, s, w') \<and> calm w' \<and>
    w_os w' = w_os w \<and> w_trace w' = w_trace w"
  using assms collect_items_fits [of 0 "stc_items s" buffer 0 lens]
  by (auto simp: stc_collect_def stc_collect_copy_def size_calm count_calm calm_lock calm_unlock sizeof_size_t_def
      Let_def)

section \<open>Properties\<close>

text \<open>Storing several buffers.\<close>

fun stc_store_all ::
  "bytes list \<Rightarrow> socket_transmission_collector \<Rightarrow> 'm world_scheme
   \<Rightarrow> int \<times> socket_transmission_collector \<times> 'm world_scheme" where
  "stc_store_all [] s w = (0, s, w)"
| "stc_store_all (b # bs) s w =
     (let (r, s', w') = stc_store_transmit (Some s) (Some b) w
      in if r \<noteq> 0 then (r, the s', w') else stc_store_all bs (the s') w')"

lemma store_all_calm:
  "calm w \<Longrightarrow> \<not> stc_mtx s \<Longrightarrow> [] \<notin> set bs \<Longrightarrow>
   \<exists>w'. stc_store_all bs s w = (0, s\<lparr>stc_items := stc_items s @ bs\<rparr>, w') \<and> calm w'"
proof (induction bs arbitrary: s w)
  case (Cons b bs)
  from Cons.prems have "b \<noteq> []" by auto
  from store_calm [OF Cons.prems(1,2) this] Cons.prems
    Cons.IH [of "tock (tock (tock (tock w)))" "s\<lparr>stc_items := stc_items s @ [b]\<rparr>"]
  show ?case by auto
qed simp

text \<open>C28: Buffers stored one after the other in a new collector come out as one block: with locks and
  memory working, collecting into a block and a length array of at least their size succeeds, the
  block starts with their concatenation and the array with their lengths in that order, and the rest
  of both is as it was. (So cutting the block at those lengths gives the buffers again.)\<close>

theorem stc_store_collect:
  fixes w :: "'m world_scheme"
  assumes "calm w" and "[] \<notin> set bs" and "bs \<noteq> []"
    and "length (concat bs) \<le> length buffer" and "length bs \<le> length lens"
  shows "\<exists>s w1 s' w2 w3. stc_new w = (Some s, w1) \<and> stc_store_all bs s w1 = (0, s', w2) \<and>
    stc_collect s' buffer (length buffer) lens (sizeof_size_t * length lens) w2 =
      Some (0, concat bs @ drop (length (concat bs)) buffer, map length bs @ drop (length bs) lens, s', w3)"
proof -
  let ?s = "\<lparr>stc_mtx = False, stc_items = []\<rparr>"
  have "calm (tock (tock w))" using assms(1) by simp
  from store_all_calm [OF this, of ?s bs] assms(2) obtain w2 where
    st: "stc_store_all bs ?s (tock (tock w)) = (0, ?s\<lparr>stc_items := bs\<rparr>, w2)" "calm w2" by auto
  have "0 < length (concat bs)" "0 < length bs" using assms(2,3) by (cases bs; auto)+
  then have "0 < length buffer" "0 < length lens" using assms(4,5) by linarith+
  from collect_calm [OF st(2), of "?s\<lparr>stc_items := bs\<rparr>" buffer lens] assms(4,5) this new_calm [OF assms(1)] st(1)
  show ?thesis by auto
qed

theorem stc_store_collect_witness:
  "\<exists>s w1 s' w2 w3. stc_new (world0 calm_os) = (Some s, w1) \<and> stc_store_all [[1, 2], [3]] s w1 = (0, s', w2) \<and>
    stc_collect s' [9, 9, 9, 9] 4 [0, 0] 16 w2 = Some (0, [1, 2, 3, 9], [2, 1], s', w3)"
  using stc_store_collect [of "world0 calm_os" "[[1, 2], [3]]" "[9, 9, 9, 9]" "[0, 0]"]
  by (simp add: sizeof_size_t_def numeral_eq_Suc del: stc_store_all.simps)

text \<open>The size check of \<open>stc_collect\<close> relies on functions that report 0 when they cannot get the lock.
  When the lock is busy for the two checks and free for the copy, a block that is too small is
  written past its end.\<close>

theorem stc_collect_overflow:
  fixes w :: "'m world_scheme"
  assumes "\<not> stc_mtx s" and "\<not> os_lock (w_os w) (w_tick w)" and "\<not> os_lock (w_os w) (w_tick w + 1)"
    and "os_lock (w_os w) (w_tick w + 2)" and "length buffer < length (concat (stc_items s))"
    and "0 < length buffer" and "0 < lenslen"
  shows "stc_collect s buffer (length buffer) lens lenslen w = None"
  using assms collect_items_overflow [of 0 buffer "stc_items s" lens 0]
  by (simp add: stc_collect_def stc_getbuffersize_def stc_getbuffercount_def stc_collect_copy_def
      mutex_lock_def ask_def Let_def)

theorem stc_collect_overflow_witness:
  "stc_collect \<lparr>stc_mtx = False, stc_items = [[1, 2, 3]]\<rparr> [0] 1 [0] 8
     (world0 (calm_os\<lparr>os_lock := \<lambda>n. 2 \<le> n\<rparr>)) = None"
  using stc_collect_overflow [of "\<lparr>stc_mtx = False, stc_items = [[1, 2, 3]]\<rparr>"
      "world0 (calm_os\<lparr>os_lock := \<lambda>n. 2 \<le> n\<rparr>)" "[0]" 8 "[0]"]
  by (simp add: world0_def)

text \<open>Replying several times.\<close>

fun src_reply_all ::
  "bytes list \<Rightarrow> socket_reply_collector \<Rightarrow> 'm world_scheme \<Rightarrow> socket_reply_collector \<times> 'm world_scheme" where
  "src_reply_all [] s w = (s, w)"
| "src_reply_all (b # bs) s w =
     (let (_, s', w') = src_reply (Some s) (Some b) w in src_reply_all bs (the s') w')"

lemma reply_all_calm:
  "calm w \<Longrightarrow> \<not> stc_mtx (src_stc s) \<Longrightarrow> [] \<notin> set bs \<Longrightarrow>
   \<exists>w'. src_reply_all bs s w =
      (s\<lparr>src_stc := (src_stc s)\<lparr>stc_items := stc_items (src_stc s) @ bs\<rparr>\<rparr>, w') \<and> calm w'"
proof (induction bs arbitrary: s w)
  case (Cons b bs)
  from Cons.prems have "b \<noteq> []" by auto
  from store_calm [OF Cons.prems(1,2) this] Cons.prems
    Cons.IH [of "tock (tock (tock (tock w)))" "s\<lparr>src_stc := (src_stc s)\<lparr>stc_items := stc_items (src_stc s) @ [b]\<rparr>\<rparr>"]
  show ?case by (auto simp: src_reply_def)
qed simp

text \<open>A collector with replies gives them out as one block and keeps them.\<close>

lemma get_reply_calm:
  fixes w :: "'m world_scheme"
  assumes "calm w" and "\<not> stc_mtx (src_stc s)" and "stc_items (src_stc s) = bs" and "bs \<noteq> []" and "[] \<notin> set bs"
  shows "\<exists>w'. src_get_reply s w =
      Some (Some (concat bs, length (concat bs)), s\<lparr>src_collected_buffer := Some (concat bs)\<rparr>, w') \<and>
    calm w' \<and> w_os w' = w_os w \<and> w_trace w' = w_trace w"
proof -
  let ?t = "src_stc s" and ?lens = "replicate (length bs) (0::nat)" and ?buf = "fresh_bytes (length (concat bs))"
  have c: "stc_getbuffercount ?t u = (length bs, ?t, tock (tock u))"
    "stc_getbuffersize ?t u = (length (concat bs), ?t, tock (tock u))" if "calm u" for u :: "'m world_scheme"
    using that assms(2,3) by (simp_all add: count_calm size_calm)
  have "0 < length (concat bs)" using assms(4,5) by (cases bs) auto
  then have pos: "0 < length ?buf" "0 < length ?lens" using assms(4) by (simp_all add: fresh_bytes_def)
  let ?u = "tock (tock (tock (tock (tock (tock (tock (tock w)))))))"
  have "calm ?u" using assms(1) by simp
  from collect_calm [OF this assms(2), of ?buf ?lens] assms(3) pos obtain u' where
    "stc_collect ?t ?buf (length (concat bs)) ?lens (sizeof_size_t * length bs) ?u =
      Some (0, concat bs, map length bs, ?t, u')" "calm u'" "w_os u' = w_os w" "w_trace u' = w_trace w"
    by (auto simp: fresh_bytes_def)
  with c assms(1) show ?thesis by (simp add: src_get_reply_def calm_malloc Let_def)
qed

text \<open>A reply collector hands back, as one block with its length, exactly the replies it was given, in
  order; without any reply there is no block.\<close>

theorem src_replies_collected:
  fixes w :: "'m world_scheme"
  assumes "calm w" and "[] \<notin> set bs"
  shows "\<exists>s w1. src_new w = (Some s, w1) \<and>
    (\<exists>s' w'. src_get_reply (fst (src_reply_all bs s w1)) (snd (src_reply_all bs s w1)) =
       Some (if bs = [] then None else Some (concat bs, length (concat bs)), s', w'))"
proof -
  let ?s = "\<lparr>src_stc = \<lparr>stc_mtx = False, stc_items = []\<rparr>, src_short_replies = None, src_collected_buffer = None\<rparr>"
  let ?w1 = "tock (tock (tock w))"
  have n: "src_new w = (Some ?s, ?w1)" using assms(1) by (simp add: src_new_def calm_malloc new_calm)
  obtain w2 where r: "src_reply_all bs ?s ?w1 = (?s\<lparr>src_stc := \<lparr>stc_mtx = False, stc_items = bs\<rparr>\<rparr>, w2)" "calm w2"
    using reply_all_calm [of ?w1 ?s bs] assms by auto
  let ?t = "\<lparr>stc_mtx = False, stc_items = bs\<rparr>"
  have c: "stc_getbuffercount ?t u = (length bs, ?t, tock (tock u))"
    "stc_getbuffersize ?t u = (length (concat bs), ?t, tock (tock u))" if "calm u" for u :: "'m world_scheme"
    using that by (simp_all add: count_calm size_calm)
  show ?thesis
  proof (cases "bs = []")
    case True
    with n r c show ?thesis
      by (simp add: src_get_reply_def calm_malloc stc_collect_def fresh_bytes_def Let_def)
  next
    case False
    have "\<not> stc_mtx (src_stc (?s\<lparr>src_stc := ?t\<rparr>))" "stc_items (src_stc (?s\<lparr>src_stc := ?t\<rparr>)) = bs" by simp_all
    from get_reply_calm [OF r(2) this False assms(2)] n r(1) False show ?thesis by auto
  qed
qed

theorem src_replies_collected_witness:
  "\<exists>s w1. src_new (world0 calm_os) = (Some s, w1) \<and>
    (\<exists>s' w'. src_get_reply (fst (src_reply_all [[1], [2, 3]] s w1)) (snd (src_reply_all [[1], [2, 3]] s w1)) =
       Some (Some ([1, 2, 3], 3), s', w'))"
  using src_replies_collected [of "world0 calm_os" "[[1], [2, 3]]"]
  by (simp add: numeral_eq_Suc del: src_reply_all.simps)

end
