(* ===== verification/Socket_Connection.thy ===== *)
theory Socket_Connection
  imports Transmit_Collect
begin

text \<open>
  The part of \<open>src/libsocket/socket_handle.c\<close> that works on one client connection: its receive
  buffer, the parser that looks for a message at the front of the buffer, and the replies.

  A message is a command word of at most four characters, a zero byte, data and a zero byte. The
  buffer has \<open>SHC_MAXTRANSPORTDATA\<close> bytes; the pointers \<open>zerocmd\<close> and \<open>zerodata\<close> into it are indices.
  The result \<open>None\<close> is the end of the daemon (\<open>err\<close>), a failing assertion, an access outside of the
  buffer, or a read loop that does not come to an end.
\<close>

section \<open>Data\<close>

definition SHC_MAXTRANSPORTDATA :: nat where "SHC_MAXTRANSPORTDATA = 1024"
definition SH_CMDLEN :: nat where "SH_CMDLEN = 4"
definition SH_ERRMSGLEN :: nat where "SH_ERRMSGLEN = 512"

definition SH_CMDERR_INVALIDCMD :: int where "SH_CMDERR_INVALIDCMD = 1"
definition SH_CMDERR_GARBAGECMD :: int where "SH_CMDERR_GARBAGECMD = 2"
definition SH_CMDERR_DATATOOLON :: int where "SH_CMDERR_DATATOOLON = 3"
definition SH_WRN_KEEPREADNMORE :: int where "SH_WRN_KEEPREADNMORE = 172"

record socket_cmdparsedata =
  pd_zerocmd :: "nat option"
  pd_zerodata :: "nat option"
  pd_cmdlen :: nat
  pd_datalen :: nat
  pd_errmsg :: string
  pd_errcode :: u64

definition pd_zero :: socket_cmdparsedata where
  "pd_zero = \<lparr>pd_zerocmd = None, pd_zerodata = None, pd_cmdlen = 0, pd_datalen = 0, pd_errmsg = [], pd_errcode = 0\<rparr>"

record socket_connection =
  shc_clientfd :: int
  shc_uid :: u32
  shc_pid :: int
  shc_bytes_read :: u64
  shc_zero_recv :: u16
  shc_buffer :: bytes
  shc_src :: "socket_reply_collector option"

section \<open>Bytes and strings\<close>

definition bytes_of_string :: "string \<Rightarrow> bytes" where
  "bytes_of_string s = map of_char s"

definition string_of_bytes :: "bytes \<Rightarrow> string" where
  "string_of_bytes bs = map (\<lambda>b. char_of (unat b)) bs"

text \<open>The C string that starts at the first byte.\<close>

definition c_string :: "bytes \<Rightarrow> string" where
  "c_string bs = string_of_bytes (takeWhile (\<lambda>b. b \<noteq> 0) bs)"

text \<open>The index \<open>memchr\<close> finds for the byte 0.\<close>

fun memchr0 :: "bytes \<Rightarrow> nat option" where
  "memchr0 [] = None"
| "memchr0 (b # bs) = (if b = 0 then Some 0 else map_option Suc (memchr0 bs))"

text \<open>\<open>printf\<close> with \<open>%04d\<close>.\<close>

definition fmt04 :: "int \<Rightarrow> string" where
  "fmt04 i =
     (if i < 0 then (let s = show_nat (nat (- i)) in ''-'' @ replicate (3 - length s) CHR ''0'' @ s)
      else (let s = show_nat (nat i) in replicate (4 - length s) CHR ''0'' @ s))"

section \<open>Connections\<close>

definition shc_new :: "int \<Rightarrow> u32 \<Rightarrow> int \<Rightarrow> 'm world_scheme \<Rightarrow> socket_connection option \<times> 'm world_scheme" where
  "shc_new clientfd uid pid w =
     (let (ok, w1) = sys_malloc w
      in if \<not> ok then (None, w1)
         else (let (src, w2) = src_new w1
               in (Some \<lparr>shc_clientfd = clientfd, shc_uid = uid, shc_pid = pid, shc_bytes_read = 0,
                         shc_zero_recv = 0, shc_buffer = replicate SHC_MAXTRANSPORTDATA 0, shc_src = src\<rparr>, w2)))"

definition shc_free :: "socket_connection option \<Rightarrow> 'm world_scheme \<Rightarrow> 'm world_scheme" where
  "shc_free shc w =
     (case shc of
        None \<Rightarrow> w
      | Some c \<Rightarrow>
          (let w1 = src_free (shc_src c) w
           in if shc_clientfd c \<noteq> 0 then snd (sys_close (shc_clientfd c) w1) else w1))"

text \<open>The move goes over a copy: what lies behind the moved bytes is zero only where it was not before
  \<open>count\<close>.\<close>

definition shc_dropbytes ::
  "socket_connection \<Rightarrow> nat \<Rightarrow> 'm world_scheme \<Rightarrow> int \<times> socket_connection \<times> 'm world_scheme" where
  "shc_dropbytes shc count w =
     (if count = 0 then (-1, shc, w)
      else if count = SHC_MAXTRANSPORTDATA \<or> unat (shc_bytes_read shc) \<le> count
      then (0, shc\<lparr>shc_buffer := replicate SHC_MAXTRANSPORTDATA 0, shc_bytes_read := 0\<rparr>, w)
      else (let (ok, w1) = sys_malloc w
            in if \<not> ok then (-1, shc, w1)
               else (let n = SHC_MAXTRANSPORTDATA - count;
                         temp = take n (drop count (shc_buffer shc));
                         zeroed = take count (shc_buffer shc) @ replicate n 0
                     in (0, shc\<lparr>shc_buffer := temp @ drop n zeroed,
                                shc_bytes_read := shc_bytes_read shc - of_nat count\<rparr>, w1))))"

definition shc_dropmessage ::
  "socket_connection \<Rightarrow> socket_cmdparsedata \<Rightarrow> 'm world_scheme \<Rightarrow> int \<times> socket_connection \<times> 'm world_scheme" where
  "shc_dropmessage shc parsedata w = shc_dropbytes shc (pd_cmdlen parsedata + pd_datalen parsedata + 2) w"

section \<open>Parsing\<close>

text \<open>The branch for a command word that is not too long.\<close>

definition parse_data ::
  "socket_connection \<Rightarrow> socket_cmdparsedata \<Rightarrow> nat \<Rightarrow> 'm world_scheme
   \<Rightarrow> (int \<times> socket_connection \<times> socket_cmdparsedata \<times> 'm world_scheme) option" where
  "parse_data shc pd cmdlen w =
     (case memchr0 (take (SHC_MAXTRANSPORTDATA - cmdlen - 1) (drop (cmdlen + 1) (shc_buffer shc))) of
        None \<Rightarrow>
          if shc_bytes_read shc = of_nat SHC_MAXTRANSPORTDATA
          then (let pd1 = pd\<lparr>pd_zerodata := None,
                             pd_errmsg := snprintf_buf 512
                               (fmt04 SH_CMDERR_DATATOOLON @ '': Data for command \"'' @ c_string (shc_buffer shc) @
                                ''\" is too long''),
                             pd_errcode := word_of_int SH_CMDERR_DATATOOLON\<rparr>;
                    (r, shc1, w1) = shc_dropbytes shc SHC_MAXTRANSPORTDATA w
                in if r \<noteq> 0 then None else Some (0, shc1, pd1, w1))
          else Some (0, shc, pd\<lparr>pd_zerodata := None, pd_errcode := word_of_int SH_WRN_KEEPREADNMORE\<rparr>, w)
      | Some i \<Rightarrow> Some (0, shc, pd\<lparr>pd_zerodata := Some (cmdlen + 1 + i), pd_datalen := i\<rparr>, w))"

definition sh_try_cmdparsing ::
  "socket_connection \<Rightarrow> socket_cmdparsedata \<Rightarrow> 'm world_scheme
   \<Rightarrow> (int \<times> socket_connection \<times> socket_cmdparsedata \<times> 'm world_scheme) option" where
  "sh_try_cmdparsing shc pd w =
     (if shc_bytes_read shc = 0
      then Some (0, shc, pd\<lparr>pd_errcode := word_of_int SH_WRN_KEEPREADNMORE\<rparr>, w)
      else (case memchr0 (take (unat (shc_bytes_read shc)) (shc_buffer shc)) of
              None \<Rightarrow>
                if length (shc_buffer shc) < unat (shc_bytes_read shc) then None
                else if SHC_MAXTRANSPORTDATA \<le> unat (shc_bytes_read shc)
                then (let (_, shc1, w1) = shc_dropbytes shc SHC_MAXTRANSPORTDATA w
                      in Some (0, shc1, pd\<lparr>pd_zerocmd := None, pd_errcode := word_of_int SH_CMDERR_GARBAGECMD,
                                           pd_errmsg := strncpy_buf SH_ERRMSGLEN ''Invalid input''\<rparr>, w1))
                else Some (0, shc, pd\<lparr>pd_zerocmd := None\<rparr>, w)
            | Some cmdlen \<Rightarrow>
                (let pd1 = pd\<lparr>pd_zerocmd := Some cmdlen, pd_cmdlen := cmdlen\<rparr>
                 in if SH_CMDLEN < cmdlen
                    then (let pd2 = pd1\<lparr>pd_errmsg := snprintf_buf SH_ERRMSGLEN
                                          (fmt04 SH_CMDERR_INVALIDCMD @ '': Invalid command \"'' @
                                           c_string (shc_buffer shc) @ ''\" is too long ('' @ show_nat cmdlen @
                                           '' bytes)''),
                                        pd_errcode := word_of_int SH_CMDERR_INVALIDCMD\<rparr>;
                              (r, shc1, w1) = shc_dropmessage shc pd2 w
                          in if r \<noteq> 0 then None else Some (0, shc1, pd2, w1))
                    else parse_data shc pd1 cmdlen w)))"

section \<open>Reading\<close>

text \<open>\<open>read\<close> on the socket: at most as many bytes as asked for; \<open>None\<close> is the result -1.\<close>

definition sys_recv :: "int \<Rightarrow> u64 \<Rightarrow> 'm world_scheme \<Rightarrow> bytes option \<times> 'm world_scheme" where
  "sys_recv fd n w =
     (let (r, w1) = ask (\<lambda>s t. os_recv s t fd) w
      in case r of None \<Rightarrow> (None, set_errno ESYS w1) | Some bs \<Rightarrow> (Some (take (unat n) bs), w1))"

text \<open>The loop treats a failing read as one that took away a byte.\<close>

partial_function (option) read_loop ::
  "socket_connection \<Rightarrow> u64 \<Rightarrow> u64 \<Rightarrow> u64 \<Rightarrow> 'm world_scheme \<Rightarrow> (socket_connection \<times> 'm world_scheme) option" where
  "read_loop shc remaining to_read ready w =
     (if remaining = 0 \<or> ready = 0 then Some (shc, w)
      else (let r = sys_recv (shc_clientfd shc) to_read w
            in case fst r of
                 None \<Rightarrow>
                   read_loop (shc\<lparr>shc_bytes_read := shc_bytes_read shc - 1\<rparr>) (remaining + 1)
                     (min ready (remaining + 1)) (ready + 1) (snd r)
               | Some bs \<Rightarrow>
                   if bs = [] then Some (shc, snd r)
                   else (case bcopy_to bs (unat (shc_bytes_read shc)) (shc_buffer shc) of
                           None \<Rightarrow> None
                         | Some b \<Rightarrow>
                             read_loop
                               (shc\<lparr>shc_buffer := b, shc_bytes_read := shc_bytes_read shc + of_nat (length bs)\<rparr>)
                               (remaining - of_nat (length bs)) (min ready (remaining - of_nat (length bs)))
                               (ready - of_nat (length bs)) (snd r))))"

definition sh_read_data ::
  "socket_connection option \<Rightarrow> u64 \<Rightarrow> 'm world_scheme \<Rightarrow> (int \<times> socket_connection option \<times> 'm world_scheme) option"
  where
  "sh_read_data shc bytes_ready w =
     (case shc of
        None \<Rightarrow> Some (-1, None, set_errno EINVAL w)
      | Some c \<Rightarrow>
          (let remaining = of_nat SHC_MAXTRANSPORTDATA - shc_bytes_read c
           in map_option (\<lambda>(c', w'). (0, Some c', w'))
                (read_loop c remaining (min bytes_ready remaining) bytes_ready w)))"

section \<open>Replies\<close>

text \<open>\<open>write\<close> to the socket: how many of the bytes were taken, 0 also for a failure.\<close>

definition sys_send :: "int \<Rightarrow> bytes \<Rightarrow> 'm world_scheme \<Rightarrow> nat \<times> 'm world_scheme" where
  "sys_send fd bs w =
     (let (r, w1) = ask (\<lambda>s t. os_write s t (int (length bs))) w; n = min (length bs) (nat r)
      in if r < 0 then (0, set_errno ESYS w1) else if n = 0 then (0, w1) else (n, emit (Sent fd (take n bs)) w1))"

text \<open>The loops that write a block; the result is what was not written.\<close>

function send_all :: "int \<Rightarrow> bytes \<Rightarrow> 'm world_scheme \<Rightarrow> bytes \<times> 'm world_scheme" where
  "send_all fd bs w =
     (if bs = [] then ([], w)
      else (let (n, w1) = sys_send fd bs w in if n = 0 then (bs, w1) else send_all fd (drop n bs) w1))"
  by pat_completeness auto
termination
  by (relation "measure (\<lambda>(fd, bs, w). length bs)") (auto simp: diff_less)

declare send_all.simps [simp del]

definition sh_reply_msg :: "socket_connection \<Rightarrow> string \<Rightarrow> 'm world_scheme \<Rightarrow> int \<times> 'm world_scheme" where
  "sh_reply_msg shc msg w =
     (let (rest, w1) = send_all (shc_clientfd shc) (bytes_of_string msg @ [0]) w
      in (if rest = [] then 0 else -1, w1))"

definition sh_reply_data ::
  "socket_connection \<Rightarrow> 'm world_scheme \<Rightarrow> (int \<times> socket_connection \<times> 'm world_scheme) option" where
  "sh_reply_data shc w =
     (case shc_src shc of
        None \<Rightarrow> Some (-1, shc, set_errno EINVAL w)
      | Some src \<Rightarrow>
          (case src_get_reply src w of
             None \<Rightarrow> None
           | Some (None, src', w1) \<Rightarrow> Some (-1, shc\<lparr>shc_src := Some src'\<rparr>, w1)
           | Some (Some (buffer, bufferlen), src', w1) \<Rightarrow>
               (let datastr = snprintf_buf 128 (''DATA '' @ show_nat bufferlen);
                    (rest, w2) = send_all (shc_clientfd shc) (bytes_of_string datastr @ [0]) w1
                in if rest \<noteq> [] then None
                   else (let (rest', w3) = send_all (shc_clientfd shc) (take bufferlen buffer) w2
                         in if rest' \<noteq> [] then None else Some (0, shc\<lparr>shc_src := Some src'\<rparr>, w3)))))"

definition sh_reply_genericmsg :: "socket_connection \<Rightarrow> u64 \<Rightarrow> 'm world_scheme \<Rightarrow> int \<times> 'm world_scheme" where
  "sh_reply_genericmsg shc errcode w =
     sh_reply_msg shc (snprintf_buf SHC_MAXTRANSPORTDATA
       (fmt04 (sint errcode) @ '': '' @ (if errcode = 0 then [] else ''N'') @ ''OK'')) w"

definition sh_reply_shortmsg :: "socket_connection \<Rightarrow> u64 \<Rightarrow> string \<Rightarrow> 'm world_scheme \<Rightarrow> int \<times> 'm world_scheme" where
  "sh_reply_shortmsg shc errcode msg w =
     sh_reply_msg shc (snprintf_buf SHC_MAXTRANSPORTDATA (fmt04 (sint errcode) @ '': '' @ msg)) w"

end
