(* ===== verification/Socket_Client.thy ===== *)
theory Socket_Client
  imports Socket_Connection
begin

text \<open>
  \<open>src/libsocket/socket_connect.c\<close>: the client's end of the daemon's socket. A command word, a zero byte
  and data go out, a reply comes back into a buffer of the caller; a reply that starts with \<open>DATA\<close>
  announces a block of bytes, for which memory is allocated.

  Sizes are \<open>size_t\<close> and wrap, and a failing \<open>read\<close> or \<open>write\<close> counts as \<open>2 ^ 64 - 1\<close> bytes, as in the
  code. The result \<open>None\<close> is an access outside of a buffer, a failing assertion, or a loop that does
  not come to an end. \<open>struct socket_connection\<close> is called \<open>client_connection\<close> here, since the daemon's end
  has a structure of the same name.
\<close>

section \<open>The connection\<close>

record client_connection =
  sc_clientfd :: int
  sc_sockpath :: string

definition sc_new :: "string option \<Rightarrow> 'm world_scheme \<Rightarrow> (client_connection option \<times> 'm world_scheme) option" where
  "sc_new sockpath w =
     (case sockpath of
        None \<Rightarrow> Some (None, set_errno EINVAL w)
      | Some p \<Rightarrow>
          (let (ok, w1) = sys_malloc w; (fd, w2) = ask os_socket w1
           in if \<not> ok then None
              else if fd < 0 then Some (None, w2)
              else Some (Some \<lparr>sc_clientfd = fd, sc_sockpath = strncpy_buf PATH_MAX p\<rparr>, w2)))"

definition sc_connect :: "client_connection option \<Rightarrow> 'm world_scheme \<Rightarrow> int \<times> 'm world_scheme" where
  "sc_connect sc w =
     (case sc of
        None \<Rightarrow> (-1, set_errno EINVAL w)
      | Some c \<Rightarrow> (let (ok, w1) = ask os_sockop w in if ok then (0, w1) else (-1, set_errno ESYS w1)))"

definition sc_free :: "client_connection option \<Rightarrow> 'm world_scheme \<Rightarrow> 'm world_scheme" where
  "sc_free sc w = (case sc of None \<Rightarrow> w | Some c \<Rightarrow> snd (sys_close (sc_clientfd c) w))"

section \<open>Sending\<close>

definition send_length :: "string \<Rightarrow> bytes option \<Rightarrow> u64 \<Rightarrow> u64" where
  "send_length command data datalen = of_nat (length command) + (if data \<noteq> None then datalen else 0) + 1"

text \<open>The cleared buffer with the command, its zero byte and the data; copying from a null pointer or past
  the end is \<open>None\<close>.\<close>

definition send_buffer :: "string \<Rightarrow> bytes option \<Rightarrow> u64 \<Rightarrow> bytes option" where
  "send_buffer command data datalen =
     (let text = bytes_of_string (snprintf_buf SHC_MAXTRANSPORTDATA (command @ [CHR 0x00]));
          sendbuf = text @ replicate (SHC_MAXTRANSPORTDATA - length text) 0
      in case data of
           None \<Rightarrow> if datalen = 0 then Some sendbuf else None
         | Some d \<Rightarrow>
             if length d < unat datalen then None
             else bcopy_to (take (unat datalen) d) (length command + 1) sendbuf)"

text \<open>\<open>write\<close> with its result as a \<open>size_t\<close>.\<close>

definition sys_send_size :: "int \<Rightarrow> bytes \<Rightarrow> 'm world_scheme \<Rightarrow> u64 \<times> 'm world_scheme" where
  "sys_send_size fd bs w =
     (let (r, w1) = ask (\<lambda>s t. os_write s t (int (length bs))) w; n = min (length bs) (nat r)
      in if r < 0 then (-1, set_errno ESYS w1) else if n = 0 then (0, w1) else (of_nat n, emit (Sent fd (take n bs)) w1))"

text \<open>The loop that writes the message: the next piece has \<open>sendlen - bytes_sent\<close> bytes, where \<open>bytes_sent\<close>
  is the size of the last piece only.\<close>

partial_function (option) send_pieces ::
  "int \<Rightarrow> bytes \<Rightarrow> u64 \<Rightarrow> u64 \<Rightarrow> u64 \<Rightarrow> 'm world_scheme \<Rightarrow> 'm world_scheme option" where
  "send_pieces fd sendbuf sendlen bytes_sent bytes_total w =
     (if sendlen - bytes_total = 0 then Some w
      else if length sendbuf < unat bytes_total + unat (sendlen - bytes_sent) then None
      else let r = sys_send_size fd (take (unat (sendlen - bytes_sent)) (drop (unat bytes_total) sendbuf)) w
           in if fst r = 0 then Some (snd r)
              else send_pieces fd sendbuf sendlen (fst r) (bytes_total + fst r) (snd r))"

section \<open>Receiving\<close>

text \<open>Reading into the caller's buffer from \<open>offset\<close> on until the buffer holds a zero byte somewhere. Each
  round reads to the same place.\<close>

partial_function (option) recv_string ::
  "int \<Rightarrow> nat \<Rightarrow> u64 \<Rightarrow> bytes \<Rightarrow> 'm world_scheme \<Rightarrow> (bytes \<times> 'm world_scheme) option" where
  "recv_string fd offset retbuffer_len retbuffer w =
     (let r = sys_recv fd (retbuffer_len - of_nat offset) w
      in if fst r = Some [] then Some (retbuffer, snd r)
         else (case (case fst r of None \<Rightarrow> Some retbuffer | Some bs \<Rightarrow> bcopy_to bs offset retbuffer) of
                 None \<Rightarrow> None
               | Some b \<Rightarrow>
                   if memchr0 (take (unat retbuffer_len) b) \<noteq> None then Some (b, snd r)
                   else if length b < unat retbuffer_len then None
                   else recv_string fd offset retbuffer_len b (snd r)))"

text \<open>Reading up to four bytes into the array that shows what kind of reply it is.\<close>

partial_function (option) recv_four ::
  "int \<Rightarrow> bytes \<Rightarrow> u64 \<Rightarrow> 'm world_scheme \<Rightarrow> (bytes \<times> 'm world_scheme) option" where
  "recv_four fd recv_check bytes_total w =
     (let r = sys_recv fd (4 - bytes_total) w
      in case fst r of
           None \<Rightarrow> recv_four fd recv_check (bytes_total - 1) (snd r)
         | Some bs \<Rightarrow>
             if bs = [] then Some (recv_check, snd r)
             else (case bcopy_to bs (unat bytes_total) recv_check of
                     None \<Rightarrow> None
                   | Some b \<Rightarrow> recv_four fd b (bytes_total + of_nat (length bs)) (snd r)))"

text \<open>Reading the announced length byte by byte; \<open>False\<close> is the return when no zero byte came.\<close>

partial_function (option) recv_number ::
  "int \<Rightarrow> u64 \<Rightarrow> u64 \<Rightarrow> bytes \<Rightarrow> 'm world_scheme \<Rightarrow> (bool \<times> bytes \<times> 'm world_scheme) option" where
  "recv_number fd retbuffer_len bytes_total retbuffer w =
     (let r = sys_recv fd 1 w
      in if fst r = Some [] then Some (True, retbuffer, snd r)
         else (case (case fst r of None \<Rightarrow> Some retbuffer | Some bs \<Rightarrow> bcopy_to bs (unat bytes_total) retbuffer) of
                 None \<Rightarrow> None
               | Some b \<Rightarrow>
                   if length b \<le> unat bytes_total then None
                   else if b ! unat bytes_total = 0 then Some (True, b, snd r)
                   else let after = (case fst r of None \<Rightarrow> bytes_total - 1 | Some bs \<Rightarrow> bytes_total + 1)
                        in if retbuffer_len \<le> after then Some (False, b, snd r)
                           else recv_number fd retbuffer_len after b (snd r)))"

text \<open>Reading the block; the result is the block and how many bytes came.\<close>

partial_function (option) recv_blob ::
  "int \<Rightarrow> u64 \<Rightarrow> u64 \<Rightarrow> bytes \<Rightarrow> 'm world_scheme \<Rightarrow> (bytes \<times> u64 \<times> 'm world_scheme) option" where
  "recv_blob fd bloblen bytes_total blob w =
     (if bloblen = 0 then Some (blob, bytes_total, w)
      else let r = sys_recv fd bloblen w
           in case fst r of
                None \<Rightarrow> recv_blob fd (bloblen + 1) (bytes_total - 1) blob (snd r)
              | Some bs \<Rightarrow>
                  if bs = [] then Some (blob, bytes_total, snd r)
                  else (case bcopy_to bs (unat bytes_total) blob of
                          None \<Rightarrow> None
                        | Some b \<Rightarrow> recv_blob fd (bloblen - of_nat (length bs)) (bytes_total + of_nat (length bs)) b (snd r)))"

text \<open>\<open>atoll\<close>: white space, a sign and digits; out of range it leaves the nearest number and an error, without digits
  zero and (on FreeBSD) an error. The
  result \<open>None\<close> is a number that goes on up to the end of the memory.\<close>

definition digit_byte :: "u8 \<Rightarrow> bool" where
  "digit_byte b \<longleftrightarrow> 48 \<le> b \<and> b \<le> 57"

definition digits_value :: "bytes \<Rightarrow> int" where
  "digits_value ds = fold (\<lambda>d n. 10 * n + (uint d - 48)) ds 0"

definition atoll :: "bytes \<Rightarrow> 'm world_scheme \<Rightarrow> (int \<times> 'm world_scheme) option" where
  "atoll bs w =
     (let bs1 = dropWhile (\<lambda>b. b = 32 \<or> 9 \<le> b \<and> b \<le> 13) bs;
          neg = bs1 \<noteq> [] \<and> hd bs1 = 45;
          bs2 = (if bs1 \<noteq> [] \<and> (hd bs1 = 45 \<or> hd bs1 = 43) then tl bs1 else bs1);
          ds = takeWhile digit_byte bs2;
          v = (if neg then - digits_value ds else digits_value ds)
      in if length ds = length bs2 then None
         else if ds = [] then Some (0, set_errno EINVAL w)
         else if v < - (2 ^ 63) then Some (- (2 ^ 63), set_errno ESYS w)
         else if 2 ^ 63 \<le> v then Some (2 ^ 63 - 1, set_errno ESYS w)
         else Some (v, w))"

section \<open>Sending a message and receiving the reply\<close>

text \<open>The part that both functions begin with: the size test, \<open>select\<close>, the buffer, the writing and the
  second \<open>select\<close>. The boolean tells that the reply can be read.\<close>

definition sc_transmit ::
  "client_connection \<Rightarrow> string \<Rightarrow> bytes option \<Rightarrow> u64 \<Rightarrow> 'm world_scheme \<Rightarrow> (bool \<times> 'm world_scheme) option" where
  "sc_transmit sc command data datalen w =
     (let sendlen = send_length command data datalen
      in if of_nat SHC_MAXTRANSPORTDATA < sendlen then Some (False, set_errno EMSGSIZE w)
         else (let (ok, w1) = ask os_sockop w
               in if \<not> ok then Some (False, w1)
                  else (case send_buffer command data datalen of
                          None \<Rightarrow> None
                        | Some sendbuf \<Rightarrow>
                            (case send_pieces (sc_clientfd sc) sendbuf sendlen 0 0 w1 of
                               None \<Rightarrow> None
                             | Some w2 \<Rightarrow> Some (ask os_sockop w2)))))"

definition sc_sendrecv_len ::
  "client_connection option \<Rightarrow> string option \<Rightarrow> bytes option \<Rightarrow> u64 \<Rightarrow> bytes \<Rightarrow> u64 \<Rightarrow> 'm world_scheme
   \<Rightarrow> (int \<times> bytes \<times> 'm world_scheme) option" where
  "sc_sendrecv_len sc command data datalen retbuffer retbuffer_len w =
     (case (sc, command) of
        (Some c, Some cmd) \<Rightarrow>
          (case sc_transmit c cmd data datalen w of
             None \<Rightarrow> None
           | Some (ok, w1) \<Rightarrow>
               if \<not> ok then Some (-1, retbuffer, w1)
               else map_option (\<lambda>(b, w2). (0, b, w2)) (recv_string (sc_clientfd c) 0 retbuffer_len retbuffer w1))
      | _ \<Rightarrow> Some (-1, retbuffer, set_errno EINVAL w))"

definition sc_sendrecv ::
  "client_connection option \<Rightarrow> string option \<Rightarrow> string option \<Rightarrow> bytes \<Rightarrow> u64 \<Rightarrow> 'm world_scheme
   \<Rightarrow> (int \<times> bytes \<times> 'm world_scheme) option" where
  "sc_sendrecv sc command data retbuffer retbuffer_len w =
     (if sc = None \<or> command = None then Some (-1, retbuffer, set_errno EINVAL w)
      else sc_sendrecv_len sc command (map_option (\<lambda>d. bytes_of_string d @ [0]) data)
             (case data of None \<Rightarrow> 0 | Some d \<Rightarrow> of_nat (length d) + 1) retbuffer retbuffer_len w)"

text \<open>The branch for a reply with data: the block and its length as the caller gets them.\<close>

definition recv_data ::
  "int \<Rightarrow> bytes \<Rightarrow> u64 \<Rightarrow> bytes option \<Rightarrow> u64 \<Rightarrow> 'm world_scheme
   \<Rightarrow> (int \<times> bytes \<times> bytes option \<times> u64 \<times> 'm world_scheme) option" where
  "recv_data fd retbuffer retbuffer_len blob_reply blob_reply_len w =
     (case recv_number fd retbuffer_len 4 retbuffer w of
        None \<Rightarrow> None
      | Some (found, b, w1) \<Rightarrow>
          if \<not> found then Some (-1, b, blob_reply, blob_reply_len, w1)
          else (case atoll (drop 5 b) (set_errno E0 w1) of
                  None \<Rightarrow> None
                | Some (num, w2) \<Rightarrow>
                    if w_errno w2 \<noteq> E0 then Some (-1, b, blob_reply, blob_reply_len, w2)
                    else (let bloblen = word_of_int num; (ok, w3) = sys_malloc w2
                          in if \<not> ok then Some (-1, b, None, blob_reply_len, w3)
                             else (case recv_blob fd bloblen 0 (replicate (unat bloblen) 0) w3 of
                                     None \<Rightarrow> None
                                   | Some (blob, received, w4) \<Rightarrow>
                                       if received \<noteq> bloblen then None else Some (0, b, Some blob, bloblen, w4)))))"

definition sc_sendrecv_dynamic ::
  "client_connection option \<Rightarrow> string option \<Rightarrow> bytes option \<Rightarrow> u64 \<Rightarrow> bytes \<Rightarrow> u64 \<Rightarrow> bytes option \<Rightarrow> u64
   \<Rightarrow> 'm world_scheme \<Rightarrow> (int \<times> bytes \<times> bytes option \<times> u64 \<times> 'm world_scheme) option" where
  "sc_sendrecv_dynamic sc command data datalen retbuffer retbuffer_len blob_reply blob_reply_len w =
     (case (sc, command) of
        (Some c, Some cmd) \<Rightarrow>
          (case sc_transmit c cmd data datalen w of
             None \<Rightarrow> None
           | Some (ok, w1) \<Rightarrow>
               if \<not> ok then Some (-1, retbuffer, blob_reply, blob_reply_len, w1)
               else (case recv_four (sc_clientfd c) (replicate 5 0) 0 w1 of
                       None \<Rightarrow> None
                     | Some (recv_check, w2) \<Rightarrow>
                         if c_string recv_check \<noteq> ''DATA''
                         then (case bcopy_to (take 4 recv_check) 0 retbuffer of
                                 None \<Rightarrow> None
                               | Some b \<Rightarrow>
                                   map_option (\<lambda>(b', w3). (0, b', blob_reply, blob_reply_len, w3))
                                     (recv_string (sc_clientfd c) 4 retbuffer_len b w2))
                         else recv_data (sc_clientfd c) retbuffer retbuffer_len blob_reply blob_reply_len w2))
      | _ \<Rightarrow> Some (-1, retbuffer, blob_reply, blob_reply_len, set_errno EINVAL w))"

end
