(* ===== verification/Vm_Info.thy ===== *)
theory Vm_Info
  imports Bhyve_Command Transmit_Collect
begin

text \<open>
  \<open>src/libcommand/vm_info.c\<close>: what the daemon tells about its vms, as structures and as a packed
  name-value list. The packed lists of the single vms are collected (\<open>Transmit_Collect\<close>) into one
  binary value beside the list of their lengths.

  The members are words of their C types, since the mapping reads them as memory: the entry of the
  pid has the offset of the state and the type of a 64-bit number, so it covers the state and the
  pid behind it (little-endian, as on the machines the daemon runs on). \<open>vm_count\<close> is a \<open>size_t\<close>
  mapped as a 32-bit number. A failing \<open>assert\<close>, a read behind an array, and libnv's abort on a
  missing value are the result \<open>None\<close>.
\<close>

section \<open>Data\<close>

record bhyve_vm_info =
  bvmi_vmname :: "string option"
  bvmi_os :: "string option"
  bvmi_osversion :: "string option"
  bvmi_vmstate :: u32
  bvmi_pid :: u32
  bvmi_lastboot :: u64
  bvmi_owner :: "string option"
  bvmi_group :: "string option"
  bvmi_description :: "string option"

record bhyve_vm_manager_info =
  bvmmi_vm_infos :: "bhyve_vm_info option list"
  bvmmi_vm_count :: u64
  bvmmi_msgcount :: u64

definition bvmi_zero :: bhyve_vm_info where
  "bvmi_zero = \<lparr>bvmi_vmname = None, bvmi_os = None, bvmi_osversion = None, bvmi_vmstate = 0, bvmi_pid = 0,
     bvmi_lastboot = 0, bvmi_owner = None, bvmi_group = None, bvmi_description = None\<rparr>"

text \<open>The eight bytes at the offset of \<open>vmstate\<close>.\<close>

definition state_pid_read :: "bhyve_vm_info \<Rightarrow> u64" where
  "state_pid_read s = ucast (bvmi_vmstate s) OR push_bit 32 (ucast (bvmi_pid s))"

definition state_pid_write :: "u64 \<Rightarrow> bhyve_vm_info \<Rightarrow> bhyve_vm_info" where
  "state_pid_write v s = s\<lparr>bvmi_vmstate := ucast v, bvmi_pid := ucast (drop_bit 32 v)\<rparr>"

text \<open>The low four bytes of \<open>vm_count\<close>.\<close>

definition count_write :: "u32 \<Rightarrow> bhyve_vm_manager_info \<Rightarrow> bhyve_vm_manager_info" where
  "count_write v s = s\<lparr>bvmmi_vm_count := (bvmmi_vm_count s AND NOT (mask 32)) OR ucast v\<rparr>"

definition vminfoitem2nvlist :: "bhyve_vm_info parser_mapping list" where
  "vminfoitem2nvlist =
     [\<lparr>pm_varname = ''vmname'', pm_value_type = DYNAMICSTRING bvmi_vmname (\<lambda>v s. s\<lparr>bvmi_vmname := v\<rparr>)\<rparr>,
      \<lparr>pm_varname = ''os'', pm_value_type = DYNAMICSTRING bvmi_os (\<lambda>v s. s\<lparr>bvmi_os := v\<rparr>)\<rparr>,
      \<lparr>pm_varname = ''osversion'', pm_value_type = DYNAMICSTRING bvmi_osversion (\<lambda>v s. s\<lparr>bvmi_osversion := v\<rparr>)\<rparr>,
      \<lparr>pm_varname = ''vmstate'', pm_value_type = UINT32 bvmi_vmstate (\<lambda>v s. s\<lparr>bvmi_vmstate := v\<rparr>)\<rparr>,
      \<lparr>pm_varname = ''pid'', pm_value_type = UINT64 state_pid_read state_pid_write\<rparr>,
      \<lparr>pm_varname = ''lastboot'', pm_value_type = UINT64 bvmi_lastboot (\<lambda>v s. s\<lparr>bvmi_lastboot := v\<rparr>)\<rparr>,
      \<lparr>pm_varname = ''owner'', pm_value_type = DYNAMICSTRING bvmi_owner (\<lambda>v s. s\<lparr>bvmi_owner := v\<rparr>)\<rparr>,
      \<lparr>pm_varname = ''group'', pm_value_type = DYNAMICSTRING bvmi_group (\<lambda>v s. s\<lparr>bvmi_group := v\<rparr>)\<rparr>,
      \<lparr>pm_varname = ''description'',
       pm_value_type = DYNAMICSTRING bvmi_description (\<lambda>v s. s\<lparr>bvmi_description := v\<rparr>)\<rparr>]"

definition vminfo2nvlist :: "bhyve_vm_manager_info parser_mapping list" where
  "vminfo2nvlist =
     [\<lparr>pm_varname = ''vm_count'', pm_value_type = UINT32 (\<lambda>s. ucast (bvmmi_vm_count s)) count_write\<rparr>,
      \<lparr>pm_varname = ''msgcount'', pm_value_type = UINT64 bvmmi_msgcount (\<lambda>v s. s\<lparr>bvmmi_msgcount := v\<rparr>)\<rparr>]"

section \<open>Construction\<close>

definition bvmmi_new ::
  "bhyve_vm_info option list \<Rightarrow> u64 \<Rightarrow> u64 \<Rightarrow> 'm world_scheme \<Rightarrow> bhyve_vm_manager_info option \<times> 'm world_scheme" where
  "bvmmi_new vm_infos vm_count msgcount w =
     (let (ok, w1) = sys_malloc w
      in if \<not> ok then (None, w1)
         else (let (ok', w2) = sys_malloc w1
               in if \<not> ok' then (None, w2)
                  else (Some \<lparr>bvmmi_vm_infos = take (unat vm_count) vm_infos, bvmmi_vm_count = vm_count,
                              bvmmi_msgcount = msgcount\<rparr>, w2)))"

text \<open>\<open>if (s) if (!(x = strdup(s))) fail\<close>: \<open>None\<close> is the failure.\<close>

definition strdup_opt :: "string option \<Rightarrow> 'm world_scheme \<Rightarrow> string option option \<times> 'm world_scheme" where
  "strdup_opt s w =
     (case s of
        None \<Rightarrow> (Some None, w)
      | Some t \<Rightarrow> (let (ok, w') = sys_malloc w in (if ok then Some (Some t) else None, w')))"

fun strdup_all :: "string option list \<Rightarrow> 'm world_scheme \<Rightarrow> string option list option \<times> 'm world_scheme" where
  "strdup_all [] w = (Some [], w)"
| "strdup_all (s # ss) w =
     (case strdup_opt s w of
        (None, w') \<Rightarrow> (None, w')
      | (Some t, w') \<Rightarrow> (let (ts, w'') = strdup_all ss w' in (map_option (Cons t) ts, w'')))"

definition bvmi_new ::
  "string option \<Rightarrow> string option \<Rightarrow> string option \<Rightarrow> string option \<Rightarrow> string option \<Rightarrow> string option
   \<Rightarrow> u32 \<Rightarrow> u32 \<Rightarrow> u64 \<Rightarrow> 'm world_scheme \<Rightarrow> bhyve_vm_info option \<times> 'm world_scheme" where
  "bvmi_new vmname os osversion owner grp description vmstate pid lastboot w =
     (case vmname of
        None \<Rightarrow> (None, set_errno EINVAL w)
      | Some name \<Rightarrow>
          (let (ok, w1) = sys_malloc w
           in if \<not> ok then (None, w1)
              else (case strdup_all [Some name, os, osversion, owner, grp, description] w1 of
                      (None, w2) \<Rightarrow> (None, w2)
                    | (Some ts, w2) \<Rightarrow>
                        (Some \<lparr>bvmi_vmname = ts ! 0, bvmi_os = ts ! 1, bvmi_osversion = ts ! 2,
                               bvmi_vmstate = vmstate, bvmi_pid = pid, bvmi_lastboot = lastboot,
                               bvmi_owner = ts ! 3, bvmi_group = ts ! 4, bvmi_description = ts ! 5\<rparr>, w2))))"

section \<open>Encoding\<close>

definition bvmi_encodenvlist ::
  "'n nvlib \<Rightarrow> bhyve_vm_info option \<Rightarrow> 'n option \<Rightarrow> 'm world_scheme \<Rightarrow> int \<times> 'n option \<times> 'm world_scheme" where
  "bvmi_encodenvlist L bvmi nvl w =
     (if bvmi = None \<or> nvl = None then (-1, nvl, set_errno EINVAL w)
      else bcmd_encodenvlist L (Some vminfoitem2nvlist) bvmi nvl w)"

text \<open>The loop of \<open>bvmmi_encodenvlist\<close>: each vm packed and stored; the result of the round ends it. What
  could be packed is stored even when encoding failed.\<close>

fun encode_infos ::
  "'n nvlib \<Rightarrow> bhyve_vm_info option list \<Rightarrow> socket_transmission_collector \<Rightarrow> 'm world_scheme
   \<Rightarrow> int \<times> socket_transmission_collector \<times> 'm world_scheme" where
  "encode_infos L [] stc w = (0, stc, w)"
| "encode_infos L (info # infos) stc w =
     (let (itemnvl, w1) = nvlist_create L w
      in case itemnvl of
           None \<Rightarrow> (-1, stc, w1)
         | Some n \<Rightarrow>
             (let (r, nvl, w2) = bvmi_encodenvlist L info (Some n) w1;
                  (buffer, w3) = nvlist_pack L (the nvl) w2;
                  (r', stc', w4) =
                    (case buffer of
                       None \<Rightarrow> (-1, stc, w3)
                     | Some b \<Rightarrow>
                         (let (q, s, u) = stc_store_transmit (Some stc) (Some b) w3
                          in (if q \<noteq> 0 then -1 else r, the s, u)))
              in if (if r \<noteq> 0 then -1 else r') \<noteq> 0 then (-1, stc', w4) else encode_infos L infos stc' w4))"

text \<open>The second half: collect the items, add them and their lengths.\<close>

definition encode_blob ::
  "'n nvlib \<Rightarrow> int \<Rightarrow> nat \<Rightarrow> socket_transmission_collector \<Rightarrow> 'n \<Rightarrow> 'm world_scheme
   \<Rightarrow> (int \<times> 'n \<times> 'm world_scheme) option" where
  "encode_blob L result vm_count stc nvl w =
     (let (outsize, stc1, w1) = stc_getbuffersize stc w; (ok, w2) = sys_malloc w1
      in if \<not> ok then Some (-1, nvl, stc_free (Some stc1) w2)
         else (case stc_collect stc1 (fresh_bytes outsize) outsize (replicate vm_count 0)
                      (sizeof_size_t * vm_count) w2 of
                 None \<Rightarrow> None
               | Some (r, buffer, lenarray, stc2, w3) \<Rightarrow>
                   if r \<noteq> 0 then Some (-1, nvl, stc_free (Some stc2) w3)
                   else (let nvl1 = nv_add L nvl ''vm_infos'' (NvBinary buffer);
                             nvl2 = nv_add L nvl1 ''vm_infos.lengths'' (NvNumbers (map of_nat lenarray))
                         in Some (result, nvl2, stc_free (Some stc2) w3))))"

definition bvmmi_encodenvlist ::
  "'n nvlib \<Rightarrow> bhyve_vm_manager_info option \<Rightarrow> 'n option \<Rightarrow> 'm world_scheme
   \<Rightarrow> (int \<times> 'n option \<times> 'm world_scheme) option" where
  "bvmmi_encodenvlist L bvmmi nvl w =
     (case (bvmmi, nvl) of
        (Some info, Some _) \<Rightarrow>
          (let (r, nvl1, w1) = bcmd_encodenvlist L (Some vminfo2nvlist) bvmmi nvl w
           in if r \<noteq> 0 then Some (-1, nvl1, w1)
              else (let (ok, w2) = sys_malloc w1
                    in if \<not> ok then Some (-1, nvl1, w2)
                       else (let (ok', w3) = sys_malloc w2
                             in if \<not> ok' then Some (-1, nvl1, w3)
                                else (let (stc, w4) = stc_new w3; n = unat (bvmmi_vm_count info)
                                      in case stc of
                                           None \<Rightarrow> Some (-1, nvl1, w4)
                                         | Some s \<Rightarrow>
                                             if length (bvmmi_vm_infos info) < n then None
                                             else (let (result, s', w5) =
                                                         encode_infos L (take n (bvmmi_vm_infos info)) s w4
                                                   in map_option (\<lambda>(q, nvl2, w6). (q, Some nvl2, w6))
                                                        (encode_blob L result n s' (the nvl1) w5))))))
      | _ \<Rightarrow> Some (-1, nvl, set_errno EINVAL w))"

text \<open>The test after packing looks at the address of the result and never fails.\<close>

definition bvmmi_encodebinary ::
  "'n nvlib \<Rightarrow> bhyve_vm_manager_info option \<Rightarrow> 'm world_scheme
   \<Rightarrow> (int \<times> bytes option \<times> 'm world_scheme) option" where
  "bvmmi_encodebinary L bvmmi w =
     (let (nvl, w1) = nvlist_create L w
      in if nvl = None then Some (-1, None, w1)
         else (case bvmmi_encodenvlist L bvmmi nvl w1 of
                 None \<Rightarrow> None
               | Some (r, nvl', w2) \<Rightarrow>
                   if r \<noteq> 0 then Some (r, None, w2)
                   else (let (buffer, w3) = nvlist_pack L (the nvl') w2 in Some (0, buffer, w3))))"

section \<open>Decoding\<close>

definition bvmi_decodenvlist ::
  "'n nvlib \<Rightarrow> 'n option \<Rightarrow> bhyve_vm_info option \<Rightarrow> 'm world_scheme
   \<Rightarrow> int \<times> bhyve_vm_info option \<times> 'm world_scheme" where
  "bvmi_decodenvlist L nvl bvmi w =
     (case (nvl, bvmi) of
        (Some n, Some i) \<Rightarrow>
          (let (r, i', w') = bcmd_decodenvlist L vminfoitem2nvlist i n w in (r, Some i', w'))
      | _ \<Rightarrow> (-1, bvmi, set_errno EINVAL w))"

text \<open>
  The loop that cuts the binary value at the lengths; the list holds the vms decoded so far. The sum of
  the lengths and the offset wrap at 64 bits. Unpacking past the end of the value reads memory that
  is not its own: \<open>None\<close>.
\<close>

fun decode_infos ::
  "'n nvlib \<Rightarrow> u64 list \<Rightarrow> u64 \<Rightarrow> bytes \<Rightarrow> 'm world_scheme
   \<Rightarrow> (int \<times> bhyve_vm_info option list \<times> 'm world_scheme) option" where
  "decode_infos L [] offset buffer w = Some (0, [], w)"
| "decode_infos L (len # lens) offset buffer w =
     (let (ok, w1) = sys_malloc w
      in if \<not> ok then Some (-1, [], w1)
         else if length buffer < unat offset + unat len then None
         else (let (itemnvl, w2) = nvlist_unpack L (take (unat len) (drop (unat offset) buffer)) w1
               in if itemnvl = None then Some (-1, [], w2)
                  else (let (r, bvi, w3) = bvmi_decodenvlist L itemnvl (Some bvmi_zero) w2
                        in if r \<noteq> 0 then Some (-1, [], w3)
                           else map_option (\<lambda>(q, infos, w4). (q, bvi # infos, w4))
                                  (decode_infos L lens (offset + len) buffer w3))))"

definition bvmmi_zero :: bhyve_vm_manager_info where
  "bvmmi_zero = \<lparr>bvmmi_vm_infos = [], bvmmi_vm_count = 0, bvmmi_msgcount = 0\<rparr>"

definition bvmmi_decodenvlist ::
  "'n nvlib \<Rightarrow> 'n option \<Rightarrow> bhyve_vm_manager_info option \<Rightarrow> 'm world_scheme
   \<Rightarrow> (int \<times> bhyve_vm_manager_info option \<times> 'm world_scheme) option" where
  "bvmmi_decodenvlist L nvl bvmmi w =
     (case (nvl, bvmmi) of
        (Some n, Some _) \<Rightarrow>
          (let (r, info, w1) = bcmd_decodenvlist L vminfo2nvlist bvmmi_zero n w
           in if r \<noteq> 0 then Some (-1, Some info, w1)
              else (case nv_get L n ''vm_infos.lengths'' of
                      Some (NvNumbers lengths) \<Rightarrow>
                        if length lengths \<noteq> unat (bvmmi_vm_count info) then None
                        else (let (ok, w2) = sys_malloc w1
                              in if \<not> ok then Some (-1, Some info, w2)
                                 else (case nv_get L n ''vm_infos'' of
                                         Some (NvBinary buffer) \<Rightarrow>
                                           if sum_list lengths \<noteq> of_nat (length buffer) then None
                                           else map_option (\<lambda>(q, infos, w3).
                                                    (q, Some (info\<lparr>bvmmi_vm_infos := infos\<rparr>), w3))
                                                  (decode_infos L lengths 0 buffer w2)
                                       | _ \<Rightarrow> None))
                    | _ \<Rightarrow> Some (-1, Some info, w1)))
      | _ \<Rightarrow> Some (-1, bvmmi, set_errno EINVAL w))"

definition bvmmi_decodebinary ::
  "'n nvlib \<Rightarrow> bytes \<Rightarrow> 'm world_scheme
   \<Rightarrow> (int \<times> bhyve_vm_manager_info option \<times> 'm world_scheme) option" where
  "bvmmi_decodebinary L buffer w =
     (let (nvl, w1) = nvlist_unpack L buffer w
      in if nvl = None then Some (-1, None, w1)
         else (let (ok, w2) = sys_malloc w1
               in if \<not> ok then Some (-1, None, w2) else bvmmi_decodenvlist L nvl (Some bvmmi_zero) w2))"

section \<open>Access\<close>

definition bvmmi_getvmcount :: "bhyve_vm_manager_info option \<Rightarrow> 'm world_scheme \<Rightarrow> u64 \<times> 'm world_scheme" where
  "bvmmi_getvmcount bvmmi w =
     (case bvmmi of None \<Rightarrow> (0, set_errno EINVAL w) | Some i \<Rightarrow> (bvmmi_vm_count i, w))"

definition bvmmi_getvminfo_byidx ::
  "bhyve_vm_manager_info option \<Rightarrow> u64 \<Rightarrow> 'm world_scheme \<Rightarrow> bhyve_vm_info option \<times> 'm world_scheme" where
  "bvmmi_getvminfo_byidx bvmmi idx w =
     (case bvmmi of
        None \<Rightarrow> (None, set_errno EINVAL w)
      | Some i \<Rightarrow> if bvmmi_vm_count i \<le> idx then (None, set_errno EDOM w)
                  else (bvmmi_vm_infos i ! unat idx, w))"

definition bvmi_get_statestring :: "bhyve_vm_info \<Rightarrow> string" where
  "bvmi_get_statestring bvmi =
     (let s = bvmi_vmstate bvmi
      in if s = 0 then ''INIT'' else if s = 10 then ''STNW'' else if s = 11 then ''RPRE''
         else if s = 20 then ''SAST'' else if s = 21 then ''RAST'' else if s = 100 then ''RUNN''
         else if s = 101 then ''RRUN'' else if s = 102 then ''STOP'' else if s = 150 then ''SOST''
         else if s = 160 then ''PRER'' else if s = 200 then ''SONW'' else if s = 210 then ''REST''
         else if s = 300 then ''STPD'' else if s = 310 then ''RSTP'' else if s = 400 then ''FAIL''
         else ''UNKW'')"

definition bvmi_get_state :: "bhyve_vm_info \<Rightarrow> u32" where
  "bvmi_get_state bvmi = bvmi_vmstate bvmi"

definition bvmi_get_pid :: "bhyve_vm_info \<Rightarrow> int" where
  "bvmi_get_pid bvmi = sint (bvmi_pid bvmi)"

definition bvmi_get_lastboot :: "bhyve_vm_info \<Rightarrow> int" where
  "bvmi_get_lastboot bvmi = sint (bvmi_lastboot bvmi)"

definition bvmi_get_vmname :: "bhyve_vm_info \<Rightarrow> string option" where
  "bvmi_get_vmname bvmi = bvmi_vmname bvmi"

definition bvmi_get_os :: "bhyve_vm_info \<Rightarrow> string option" where
  "bvmi_get_os bvmi = bvmi_os bvmi"

definition bvmi_get_osversion :: "bhyve_vm_info \<Rightarrow> string option" where
  "bvmi_get_osversion bvmi = bvmi_osversion bvmi"

definition bvmi_get_owner :: "bhyve_vm_info \<Rightarrow> string option" where
  "bvmi_get_owner bvmi = bvmi_owner bvmi"

definition bvmi_get_group :: "bhyve_vm_info \<Rightarrow> string option" where
  "bvmi_get_group bvmi = bvmi_group bvmi"

definition bvmi_get_description :: "bhyve_vm_info \<Rightarrow> string option" where
  "bvmi_get_description bvmi = bvmi_description bvmi"

end
