(* ===== verification/Control_Program.thy ===== *)
theory Control_Program
  imports Socket_Client Vm_Info
begin

text \<open>
  \<open>src/vmstatedctl/vmstatedctl_main.c\<close>: the control program. It looks its first argument up in a table of
  commands, sends the packed command over the socket and hands the reply to the handler of that command.

  The program ends with an exit code or with \<open>err\<close>, which takes a value of \<open>errno\<close> for one. What it
  prints is text written to the descriptors 1 and 2. \<open>None\<close> is memory used that is not the program's
  own. The reply buffer is memory as \<open>malloc\<close> leaves it: its contents are the parameter \<open>heap\<close>.
\<close>

section \<open>Printing\<close>

definition printf_out :: "int \<Rightarrow> string \<Rightarrow> 'm world_scheme \<Rightarrow> 'm world_scheme" where
  "printf_out fd text w = emit (Wrote fd text) w"

definition pad_right :: "nat \<Rightarrow> string \<Rightarrow> string" where
  "pad_right n s = s @ replicate (n - length s) CHR '' ''"

definition pad_left :: "nat \<Rightarrow> string \<Rightarrow> string" where
  "pad_left n s = replicate (n - length s) CHR '' '' @ s"

text \<open>A null pointer is printed so.\<close>

definition show_null :: "string option \<Rightarrow> string" where
  "show_null s = (case s of None \<Rightarrow> ''(null)'' | Some t \<Rightarrow> t)"

section \<open>Commands\<close>

type_synonym 'w cmd_func = "string list \<Rightarrow> bhyve_usercommand \<Rightarrow> 'w \<Rightarrow> (int \<times> bhyve_usercommand \<times> 'w) option"

record 'w vmstatedctl_cmd =
  vcc_command :: string
  vcc_func :: "'w cmd_func"
  vcc_requires_vm_name :: bool

text \<open>\<open>strdup\<close> gives null when memory is short; of a null pointer it cannot be called.\<close>

definition sys_strdup :: "string \<Rightarrow> 'm world_scheme \<Rightarrow> string option \<times> 'm world_scheme" where
  "sys_strdup s w = (let (ok, w') = sys_malloc w in (if ok then Some s else None, w'))"

definition cmd_with_name :: "string \<Rightarrow> ('m world_scheme) cmd_func" where
  "cmd_with_name word argv buc w =
     (let (cmd, w1) = sys_strdup word w
      in case argv of
           [] \<Rightarrow> None
         | a # as \<Rightarrow> (let (name, w2) = sys_strdup a w1 in Some (0, buc\<lparr>bcmd_cmd := cmd, bcmd_vmname := name\<rparr>, w2)))"

definition cmd_start :: "('m world_scheme) cmd_func" where
  "cmd_start = cmd_with_name ''startvm''"

definition cmd_stop :: "('m world_scheme) cmd_func" where
  "cmd_stop = cmd_with_name ''stopvm''"

definition cmd_failreset :: "('m world_scheme) cmd_func" where
  "cmd_failreset = cmd_with_name ''resetfail''"

definition cmd_status :: "('m world_scheme) cmd_func" where
  "cmd_status argv buc w =
     (let (cmd, w1) = sys_strdup ''status'' w in Some (0, buc\<lparr>bcmd_cmd := cmd, bcmd_vmname := None\<rparr>, w1))"

definition ctl_commands :: "('m world_scheme) vmstatedctl_cmd list" where
  "ctl_commands =
     [\<lparr>vcc_command = ''start'', vcc_func = cmd_start, vcc_requires_vm_name = True\<rparr>,
      \<lparr>vcc_command = ''stop'', vcc_func = cmd_stop, vcc_requires_vm_name = True\<rparr>,
      \<lparr>vcc_command = ''status'', vcc_func = cmd_status, vcc_requires_vm_name = False\<rparr>,
      \<lparr>vcc_command = ''failreset'', vcc_func = cmd_failreset, vcc_requires_vm_name = True\<rparr>]"

section \<open>Replies\<close>

type_synonym ('n, 'w) reply_func = "'n nvlib \<Rightarrow> bhyve_usercommand \<Rightarrow> 'w \<Rightarrow> (int \<times> 'w) option"

record ('n, 'w) vmstatedctl_replyhandler =
  vcr_command :: string
  vcr_func :: "('n, 'w) reply_func option"

definition cmd_default_reply :: "('n, 'm world_scheme) reply_func" where
  "cmd_default_reply N buc w = Some (0, printf_out 1 (show_null (bcmd_reply buc) @ [CHR 0x0A]) w)"

fun cmd_printsep :: "char \<Rightarrow> 'm world_scheme \<Rightarrow> 'm world_scheme" where
  "cmd_printsep sepchar w = printf_out 1 [CHR 0x0A] ((printf_out 1 [sepchar] ^^ 79) w)"

text \<open>The line of one vm.\<close>

definition status_line :: "bhyve_vm_info \<Rightarrow> string" where
  "status_line bvi = pad_right 16 (show_null (bvmi_get_vmname bvi)) @ ''   '' @ pad_left 4 (bvmi_get_statestring bvi) @
     '' '' @ pad_right 8 (show_null (bvmi_get_owner bvi)) @ [CHR 0x0A]"

fun status_lines ::
  "bhyve_vm_manager_info option \<Rightarrow> nat list \<Rightarrow> 'm world_scheme \<Rightarrow> 'm world_scheme option" where
  "status_lines bvmmi [] w = Some w"
| "status_lines bvmmi (counter # cs) w =
     (case bvmmi_getvminfo_byidx bvmmi (of_nat counter) w of
        (None, w1) \<Rightarrow> None
      | (Some bvi, w1) \<Rightarrow> status_lines bvmmi cs (printf_out 1 (status_line bvi) w1))"

definition cmd_status_reply :: "('n, 'm world_scheme) reply_func" where
  "cmd_status_reply N buc w =
     (case bvmmi_decodebinary N (case bcmd_blob buc of None \<Rightarrow> [] | Some b \<Rightarrow> take (bcmd_bloblen buc) b) w of
        None \<Rightarrow> None
      | Some (r, bvmmi, w1) \<Rightarrow>
          if r \<noteq> 0 then Some (-1, printf_out 2 ''Failed to decode vm_info data'' w1)
          else (let (vm_count, w2) = bvmmi_getvmcount bvmmi w1;
                    w3 = printf_out 1 (''vmstated running, managing '' @ show_nat (unat vm_count) @ '' virtual machines'' @ [CHR 0x0A]) w2;
                    w4 = (if vm_count \<noteq> 0
                          then printf_out 1 (pad_right 16 ''Name'' @ '' '' @ pad_right 6 ''Status'' @ '' '' @ pad_right 8 ''Owner'' @ [CHR 0x0A]) w3
                          else w3)
                in map_option (\<lambda>w5. (0, w5)) (status_lines bvmmi [0..<unat vm_count] (cmd_printsep CHR ''='' w4))))"

definition ctl_replies :: "('n, 'm world_scheme) vmstatedctl_replyhandler list" where
  "ctl_replies =
     [\<lparr>vcr_command = ''start'', vcr_func = Some cmd_default_reply\<rparr>,
      \<lparr>vcr_command = ''stop'', vcr_func = Some cmd_default_reply\<rparr>,
      \<lparr>vcr_command = ''status'', vcr_func = Some cmd_status_reply\<rparr>,
      \<lparr>vcr_command = ''failreset'', vcr_func = Some cmd_default_reply\<rparr>]"

section \<open>Sending\<close>

definition DEFAULT_BUFFERSIZE :: nat where "DEFAULT_BUFFERSIZE = 512"

text \<open>The bytes at \<open>bcmd->reply\<close>: \<open>heap\<close> as it is before the reply, nothing for a null pointer. Afterwards
  they are read as a C string; a buffer without a zero byte is none.\<close>

definition reply_buffer :: "bytes \<Rightarrow> bhyve_usercommand \<Rightarrow> bytes" where
  "reply_buffer heap buc = (case bcmd_reply buc of None \<Rightarrow> [] | Some _ \<Rightarrow> heap)"

definition with_reply :: "bytes \<Rightarrow> bhyve_usercommand \<Rightarrow> bhyve_usercommand option" where
  "with_reply retbuffer buc =
     (if bcmd_reply buc = None then Some buc
      else if 0 \<in> set retbuffer then Some (buc\<lparr>bcmd_reply := Some (c_string retbuffer)\<rparr>) else None)"

definition send_bhyvecmd_raw :: "client_connection \<Rightarrow> bytes \<Rightarrow> ('m world_scheme) send_func" where
  "send_bhyvecmd_raw sc heap data buc w =
     (case sc_sendrecv_len (Some sc) (Some ''BHYV'') (Some data) (of_nat (length data))
             (reply_buffer heap buc) (of_nat (bcmd_replylen buc)) w of
        None \<Rightarrow> None
      | Some (r, b, w1) \<Rightarrow> map_option (\<lambda>buc'. (r, buc', w1)) (with_reply b buc))"

definition send_bhyvecmd_dynamic :: "client_connection \<Rightarrow> bytes \<Rightarrow> ('m world_scheme) send_func" where
  "send_bhyvecmd_dynamic sc heap data buc w =
     (case sc_sendrecv_dynamic (Some sc) (Some ''BHYV'') (Some data) (of_nat (length data))
             (reply_buffer heap buc) (of_nat (bcmd_replylen buc)) (bcmd_blob buc) (of_nat (bcmd_bloblen buc)) w of
        None \<Rightarrow> None
      | Some (r, b, blob, bloblen, w1) \<Rightarrow>
          map_option (\<lambda>buc'. (r, buc'\<lparr>bcmd_blob := blob, bcmd_bloblen := unat bloblen\<rparr>, w1)) (with_reply b buc))"

definition send_bhyvecmd ::
  "'n nvlib \<Rightarrow> client_connection \<Rightarrow> bytes \<Rightarrow> bhyve_usercommand \<Rightarrow> 'm world_scheme
   \<Rightarrow> (int \<times> bhyve_usercommand option \<times> 'm world_scheme) option" where
  "send_bhyvecmd N sc heap buc w =
     bcs_sendcmd_raw N (Some buc)
       (Some \<lparr>bcs_send_dynamic = Some (send_bhyvecmd_dynamic sc heap), bcs_send_fixed = send_bhyvecmd_raw sc heap\<rparr>) w"

section \<open>The program\<close>

datatype program_end = Exit int | Err errno

definition print_usage :: "'m world_scheme \<Rightarrow> 'm world_scheme" where
  "print_usage w =
     (let nl = [CHR 0x0A]
      in printf_out 1 ('' - status'' @ nl @ nl)
        (printf_out 1 (''Following general commands are supported and do not require a vmname:'' @ nl)
          (printf_out 1 ('' - start'' @ nl @ '' - stop'' @ nl @ '' - failreset'' @ nl @ nl)
            (printf_out 1 (''Following vm commands are supported and require a vmname parameter:'' @ nl)
              (printf_out 1 (''Usage: vmstatedctl [command] <vmname>'' @ nl @ nl) w)))))"

text \<open>The loop over the commands: \<open>ptr\<close> are the arguments still to use, \<open>None\<close> as the end is to go on.\<close>

fun find_command ::
  "('m world_scheme) vmstatedctl_cmd list \<Rightarrow> string \<Rightarrow> nat \<Rightarrow> string list \<Rightarrow> nat \<Rightarrow> bool \<Rightarrow> int \<Rightarrow> bhyve_usercommand
   \<Rightarrow> 'm world_scheme \<Rightarrow> (program_end option \<times> bool \<times> int \<times> bhyve_usercommand \<times> 'm world_scheme) option" where
  "find_command [] name argc ptr minargcount found result buc w = Some (None, found, result, buc, w)"
| "find_command (c # cs) name argc ptr minargcount found result buc w =
     (if vcc_command c \<noteq> name then find_command cs name argc ptr minargcount found result buc w
      else (let minargs = (if vcc_requires_vm_name c then minargcount else 2)
            in if argc < minargs then Some (Some (Err EINVAL), found, result, buc, set_errno EINVAL w)
               else (case vcc_func c (drop 2 ptr) buc w of
                       None \<Rightarrow> None
                     | Some (r, buc', w') \<Rightarrow> find_command cs name argc (drop 2 ptr) minargs True r buc' w')))"

fun call_replies ::
  "'n nvlib \<Rightarrow> ('n, 'm world_scheme) vmstatedctl_replyhandler list \<Rightarrow> string \<Rightarrow> bhyve_usercommand \<Rightarrow> 'm world_scheme
   \<Rightarrow> 'm world_scheme option" where
  "call_replies N [] name buc w = Some w"
| "call_replies N (h # hs) name buc w =
     (if vcr_command h \<noteq> name then call_replies N hs name buc w
      else (case vcr_func h of
              None \<Rightarrow> call_replies N hs name buc w
            | Some f \<Rightarrow>
                (case f N buc w of None \<Rightarrow> None | Some (_, w') \<Rightarrow> call_replies N hs name buc w')))"

definition ctl_exchange ::
  "'n nvlib \<Rightarrow> bytes \<Rightarrow> string \<Rightarrow> bhyve_usercommand \<Rightarrow> 'm world_scheme \<Rightarrow> (program_end \<times> 'm world_scheme) option" where
  "ctl_exchange N heap name buc w =
     (case sc_new (Some ''/var/run/vmstated.sock'') w of
        None \<Rightarrow> None
      | Some (None, w1) \<Rightarrow> Some (Err (w_errno w1), w1)
      | Some (Some sc, w1) \<Rightarrow>
          (let (r, w2) = sc_connect (Some sc) w1
           in if r \<noteq> 0 then Some (Err (w_errno w2), w2)
              else if 0 \<notin> set heap then None
              else (case send_bhyvecmd N sc heap buc w2 of
                      None \<Rightarrow> None
                    | Some (r', buc', w3) \<Rightarrow>
                        if r' \<noteq> 0 then Some (Err (w_errno w3), w3)
                        else map_option (\<lambda>w4. (Exit 0, sc_free (Some sc) w4)) (call_replies N ctl_replies name (the buc') w3))))"

text \<open>The arguments include the program's name. The reply buffer is taken for a string when the command is
  packed, although nothing was written there yet.\<close>

definition vmstatedctl_main ::
  "'n nvlib \<Rightarrow> string list \<Rightarrow> bytes \<Rightarrow> 'm world_scheme \<Rightarrow> (program_end \<times> 'm world_scheme) option" where
  "vmstatedctl_main N argv heap w =
     (let (ok, w1) = sys_malloc w
      in if \<not> ok then Some (Err ENOMEM, w1)
         else (let (nvl, w2) = nvlist_create N w1
               in if nvl = None then Some (Err ENOMEM, w2)
                  else if length argv < 2 then Some (Exit 0, print_usage w2)
                  else (case find_command ctl_commands (argv ! 1) (length argv) argv 3 False 0
                               (bcmd_zero\<lparr>bcmd_reply := Some (c_string heap), bcmd_replylen := DEFAULT_BUFFERSIZE\<rparr>) w2 of
                          None \<Rightarrow> None
                        | Some (Some e, _, _, _, w3) \<Rightarrow> Some (e, w3)
                        | Some (None, found, result, buc, w3) \<Rightarrow>
                            if \<not> found then Some (Exit 1, printf_out 1 (''Unknown command: '' @ argv ! 1 @ [CHR 0x0A]) w3)
                            else if result = 0 then ctl_exchange N heap (argv ! 1) buc w3
                            else Some (Exit 0, w3))))"

end
