(* ===== verification/Socket_Handle.thy ===== *)
theory Socket_Handle
  imports Socket_Connection
begin

text \<open>
  The rest of \<open>src/libsocket/socket_handle.c\<close>: the listening socket, the thread that takes events off
  the kernel queue, the handler that serves one event, and starting and stopping.

  The accept thread joins each handler thread before it looks at the next event, so one event is
  served after the other. The kernel's events are arguments. An event carries the connection it was
  registered with; the model finds it by its descriptor, which is the connection's identity. The
  subscribers' contexts are one value that their functions pass on.

  The result \<open>None\<close> is the end of the daemon (\<open>err\<close>), undefined behaviour, or a call that does not come
  back. The handler reads its argument after releasing it (\<open>free(sct)\<close>); the model takes the memory
  to be still intact there.
\<close>

section \<open>Data\<close>

definition SH_EVT_CMD_SHUTDOWN :: int where "SH_EVT_CMD_SHUTDOWN = 0"

definition SH_ERR_INVALIDPARAMS :: int where "SH_ERR_INVALIDPARAMS = 200"
definition SH_ERR_ITEMALLOCFAIL :: int where "SH_ERR_ITEMALLOCFAIL = 197"
definition SH_ERR_MUTEXLOCKFAIL :: int where "SH_ERR_MUTEXLOCKFAIL = 192"
definition SH_ERR_ALREADYRUNNIN :: int where "SH_ERR_ALREADYRUNNIN = 189"
definition SH_ERR_TISNOTRUNNING :: int where "SH_ERR_TISNOTRUNNING = 188"

type_synonym ('c, 'w) on_data =
  "u32 \<Rightarrow> int \<Rightarrow> string \<Rightarrow> bytes \<Rightarrow> u64 \<Rightarrow> socket_reply_collector option \<Rightarrow> 'c \<Rightarrow> 'w
   \<Rightarrow> (int \<times> socket_reply_collector option \<times> 'c \<times> 'w) option"

record ('c, 'w) socket_listener =
  shl_on_data :: "('c, 'w) on_data option"

datatype sh_state = Initializing | Ready | Started | Running | Stopping | Stopped

fun sh_state_code :: "sh_state \<Rightarrow> nat" where
  "sh_state_code Initializing = 0"
| "sh_state_code Ready = 1"
| "sh_state_code Started = 2"
| "sh_state_code Running = 3"
| "sh_state_code Stopping = 4"
| "sh_state_code Stopped = 5"

record ('c, 'w) socket_handle =
  sh_socketfd :: int
  sh_keventfd :: int
  sh_sockpath :: "string option"
  sh_state :: sh_state
  sh_mtx :: bool
  sh_thread_counter :: u64
  sh_listeners :: "('c, 'w) socket_listener list"
  sh_connections :: "socket_connection list"

record sock_kevent =
  ev_ident :: int
  ev_eof :: bool
  ev_filter :: int
  ev_data :: u64
  ev_udata :: "int option"

definition sh_lock :: "('c, 'w) socket_handle \<Rightarrow> 'm world_scheme \<Rightarrow> bool \<times> ('c, 'w) socket_handle \<times> 'm world_scheme"
  where "sh_lock sh w = (let (err, m, w1) = mutex_lock (sh_mtx sh) w in (err, sh\<lparr>sh_mtx := m\<rparr>, w1))"

definition sh_unlock :: "('c, 'w) socket_handle \<Rightarrow> 'm world_scheme \<Rightarrow> bool \<times> ('c, 'w) socket_handle \<times> 'm world_scheme"
  where "sh_unlock sh w = (let (err, m, w1) = mutex_unlock (sh_mtx sh) w in (err, sh\<lparr>sh_mtx := m\<rparr>, w1))"

section \<open>Subscribing and looking up\<close>

definition shl_new ::
  "('c, 'w) on_data option \<Rightarrow> 'm world_scheme \<Rightarrow> ('c, 'w) socket_listener option \<times> 'm world_scheme" where
  "shl_new on_data w =
     (let (ok, w1) = sys_malloc w in (if ok then Some \<lparr>shl_on_data = on_data\<rparr> else None, w1))"

definition sh_subscribe_ondata ::
  "('c, 'w) socket_handle option \<Rightarrow> ('c, 'w) on_data option \<Rightarrow> 'm world_scheme
   \<Rightarrow> int \<times> ('c, 'w) socket_handle option \<times> 'm world_scheme" where
  "sh_subscribe_ondata sho on_data w =
     (case (sho, on_data) of
        (Some sh, Some _) \<Rightarrow>
          (let (shl, w1) = shl_new on_data w
           in case shl of
                None \<Rightarrow> (SH_ERR_ITEMALLOCFAIL, sho, w1)
              | Some l \<Rightarrow>
                  (let (err, sh1, w2) = sh_lock sh w1
                   in if err then (SH_ERR_MUTEXLOCKFAIL, Some sh1, w2)
                      else (let (_, sh2, w3) = sh_unlock (sh1\<lparr>sh_listeners := l # sh_listeners sh1\<rparr>) w2
                            in (0, Some sh2, w3))))
      | _ \<Rightarrow> (SH_ERR_INVALIDPARAMS, sho, w))"

definition sh_lookup_connection :: "('c, 'w) socket_handle option \<Rightarrow> int \<Rightarrow> socket_connection option" where
  "sh_lookup_connection sho clientfd =
     (case sho of
        None \<Rightarrow> None
      | Some sh \<Rightarrow> if clientfd = 0 then None else List.find (\<lambda>c. shc_clientfd c = clientfd) (sh_connections sh))"

text \<open>Writing a connection back to its place, and taking it out.\<close>

definition put_shc :: "socket_connection \<Rightarrow> ('c, 'w) socket_handle \<Rightarrow> ('c, 'w) socket_handle" where
  "put_shc c sh =
     sh\<lparr>sh_connections := map (\<lambda>x. if shc_clientfd x = shc_clientfd c then c else x) (sh_connections sh)\<rparr>"

definition drop_shc :: "int \<Rightarrow> ('c, 'w) socket_handle \<Rightarrow> ('c, 'w) socket_handle" where
  "drop_shc fd sh = sh\<lparr>sh_connections := filter (\<lambda>x. shc_clientfd x \<noteq> fd) (sh_connections sh)\<rparr>"

section \<open>Calling the subscribers\<close>

text \<open>The loop, entered with the mutex held; the mutex is free during the call of a subscriber.\<close>

fun call_loop ::
  "('c, 'm world_scheme) socket_listener list \<Rightarrow> ('c, 'm world_scheme) socket_handle \<Rightarrow> socket_connection \<Rightarrow> nat
   \<Rightarrow> 'c \<Rightarrow> 'm world_scheme
   \<Rightarrow> (int \<times> ('c, 'm world_scheme) socket_handle \<times> socket_connection \<times> 'c \<times> 'm world_scheme) option" where
  "call_loop [] sh shc cmdlen c w = Some (0, sh, shc, c, w)"
| "call_loop (l # ls) sh shc cmdlen c w =
     (case shl_on_data l of
        None \<Rightarrow> call_loop ls sh shc cmdlen c w
      | Some f \<Rightarrow>
          (let (err, sh1, w1) = sh_unlock sh w
           in if err then Some (-1, sh1, shc, c, w1)
              else (case f (shc_uid shc) (shc_pid shc) (c_string (shc_buffer shc))
                           (drop (cmdlen + 1) (shc_buffer shc)) (shc_bytes_read shc - of_nat cmdlen - 1)
                           (shc_src shc) c w1 of
                      None \<Rightarrow> None
                    | Some (r, src, c', w2) \<Rightarrow>
                        (let shc' = shc\<lparr>shc_src := src\<rparr>; (err', sh2, w3) = sh_lock sh1 w2
                         in if err' then Some (-1, sh2, shc', c', w3)
                            else if r \<noteq> 0 then Some (r, sh2, shc', c', w3)
                            else call_loop ls sh2 shc' cmdlen c' w3))))"

definition sh_call_listeners ::
  "('c, 'm world_scheme) socket_handle \<Rightarrow> socket_connection \<Rightarrow> 'c \<Rightarrow> 'm world_scheme
   \<Rightarrow> (int \<times> ('c, 'm world_scheme) socket_handle \<times> socket_connection \<times> 'c \<times> 'm world_scheme) option" where
  "sh_call_listeners sh shc c w =
     (let (err, sh1, w1) = sh_lock sh w
      in if err then None
         else map_option (\<lambda>(r, sh2, shc', c', w2). (let (_, sh3, w3) = sh_unlock sh2 w2 in (r, sh3, shc', c', w3)))
                (call_loop (sh_listeners sh1) sh1 shc (length (c_string (shc_buffer shc))) c w1))"

section \<open>Serving one event\<close>

definition sh_disconnect_client ::
  "('c, 'w) socket_handle \<Rightarrow> socket_connection \<Rightarrow> 'm world_scheme \<Rightarrow> int \<times> ('c, 'w) socket_handle \<times> 'm world_scheme"
  where
  "sh_disconnect_client sh shc w =
     (let (err, sh1, w1) = sh_lock sh w
      in if err then (-1, sh1, w1)
         else (let (_, sh2, w2) = sh_unlock (drop_shc (shc_clientfd shc) sh1) w1;
                   (_, w3) = sys_close (shc_clientfd shc) w2
               in (0, sh2, shc_free (Some (shc\<lparr>shc_clientfd := 0\<rparr>)) w3)))"

definition sh_accept_client ::
  "('c, 'w) socket_handle \<Rightarrow> 'm world_scheme \<Rightarrow> (('c, 'w) socket_handle \<times> 'm world_scheme) option" where
  "sh_accept_client sh w =
     (let (clientfd, w1) = ask os_accept w
      in if clientfd < 0 then None
         else (let (cred, w2) = ask os_peercred w1
               in case cred of
                    None \<Rightarrow> None
                  | Some (uid, pid) \<Rightarrow>
                      (let (shc, w3) = shc_new clientfd uid pid w2
                       in case shc of
                            None \<Rightarrow> None
                          | Some c \<Rightarrow>
                              (let (err, sh1, w4) = sh_lock sh w3
                               in if err then None
                                  else (let (_, sh2, w5) = sh_unlock (sh1\<lparr>sh_connections := c # sh_connections sh1\<rparr>) w4;
                                            (ok, w6) = sys_try ESYS os_kevent w5
                                        in if ok then Some (sh2, w6) else None)))))"

text \<open>The answer after the subscribers ran, by what the reply collector holds.\<close>

definition sh_send_answer ::
  "int \<Rightarrow> socket_connection \<Rightarrow> 'm world_scheme \<Rightarrow> (socket_connection \<times> 'm world_scheme) option" where
  "sh_send_answer result shc w =
     (let (has, src, w1) = src_has_reply (shc_src shc) w; shc1 = shc\<lparr>shc_src := src\<rparr>
      in if has then map_option (\<lambda>(_, shc2, w2). (shc2, w2)) (sh_reply_data shc1 w1)
         else if src_has_short_reply src
         then (let (r, w2) = sh_reply_shortmsg shc1 (word_of_int result)
                               (case src_get_short_reply (the src) of None \<Rightarrow> [] | Some m \<Rightarrow> m) w1
               in if r \<noteq> 0 then None else Some (shc1, w2))
         else (let (r, w2) = sh_reply_genericmsg shc1 (word_of_int result) w1
               in if r \<noteq> 0 then None else Some (shc1, w2)))"

text \<open>From the parsed buffer on: an error message if parsing found one, the subscribers, the answer, and
  the message is dropped from the buffer.\<close>

definition sh_process ::
  "('c, 'm world_scheme) socket_handle \<Rightarrow> socket_connection \<Rightarrow> socket_cmdparsedata \<Rightarrow> 'c \<Rightarrow> 'm world_scheme
   \<Rightarrow> (('c, 'm world_scheme) socket_handle \<times> 'c \<times> 'm world_scheme) option" where
  "sh_process sh shc pd c w =
     (let (r, w1) = (if pd_errcode pd \<noteq> 0 then sh_reply_msg shc (pd_errmsg pd) w else (0, w))
      in if r \<noteq> 0 then None
         else (case sh_call_listeners sh shc c w1 of
                 None \<Rightarrow> None
               | Some (result, sh1, shc1, c1, w2) \<Rightarrow>
                   (case sh_send_answer result shc1 w2 of
                      None \<Rightarrow> None
                    | Some (shc2, w3) \<Rightarrow>
                        (let (r', shc3, w4) = shc_dropmessage shc2 pd w3
                         in if r' \<noteq> 0 then None else Some (put_shc shc3 sh1, c1, w4)))))"

definition sh_client_data ::
  "('c, 'm world_scheme) socket_handle \<Rightarrow> socket_connection \<Rightarrow> u64 \<Rightarrow> 'c \<Rightarrow> 'm world_scheme
   \<Rightarrow> (('c, 'm world_scheme) socket_handle \<times> 'c \<times> 'm world_scheme) option" where
  "sh_client_data sh shc bytes_ready c w =
     (case sh_read_data (Some shc) bytes_ready w of
        None \<Rightarrow> None
      | Some (r, shco, w1) \<Rightarrow>
          if r < 0 then (let (_, sh1, w2) = sh_disconnect_client sh (the shco) w1 in Some (sh1, c, w2))
          else (case sh_try_cmdparsing (the shco) pd_zero w1 of
                  None \<Rightarrow> None
                | Some (q, shc1, pd, w2) \<Rightarrow>
                    if q \<noteq> 0 then None
                    else if pd_errcode pd = word_of_int SH_WRN_KEEPREADNMORE then Some (put_shc shc1 sh, c, w2)
                    else sh_process sh shc1 pd c w2))"

definition sh_serve ::
  "sock_kevent \<Rightarrow> ('c, 'm world_scheme) socket_handle \<Rightarrow> 'c \<Rightarrow> 'm world_scheme
   \<Rightarrow> (('c, 'm world_scheme) socket_handle \<times> 'c \<times> 'm world_scheme) option" where
  "sh_serve ev sh c w =
     (if sh_socketfd sh = ev_ident ev then map_option (\<lambda>(sh', w'). (sh', c, w')) (sh_accept_client sh w)
      else (case Option.bind (ev_udata ev) (sh_lookup_connection (Some sh)) of
              None \<Rightarrow>
                if ev_udata ev \<noteq> None then None
                else Some (sh, c, if \<not> ev_eof ev \<and> ev_filter ev \<noteq> 0 then snd (sys_close (ev_ident ev) w) else w)
            | Some shc \<Rightarrow>
                if ev_eof ev then (let (_, sh1, w1) = sh_disconnect_client sh shc w in Some (sh1, c, w1))
                else if ev_filter ev \<noteq> 0 then sh_client_data sh shc (ev_data ev) c w
                else Some (sh, c, w)))"

text \<open>The handler thread: after serving, the event is enabled again (which may fail for a descriptor that
  was closed) and the thread signs off.\<close>

definition sh_accept_handler_thread ::
  "sock_kevent \<Rightarrow> ('c, 'm world_scheme) socket_handle \<Rightarrow> 'c \<Rightarrow> 'm world_scheme
   \<Rightarrow> (('c, 'm world_scheme) socket_handle \<times> 'c \<times> 'm world_scheme) option" where
  "sh_accept_handler_thread ev sh c w =
     (case sh_serve ev sh c w of
        None \<Rightarrow> None
      | Some (sh1, c1, w1) \<Rightarrow>
          (let gone = (sh_socketfd sh1 \<noteq> ev_ident ev \<and> sh_lookup_connection (Some sh1) (ev_ident ev) = None);
               (ok, w2) = sys_try (if gone then EBADF else ESYS) os_kevent w1
           in if \<not> ok \<and> w_errno w2 \<noteq> EBADF then None
              else (let (err, sh2, w3) = sh_lock sh1 w2
                    in if err then None
                       else (let (_, sh3, w4) = sh_unlock (sh2\<lparr>sh_thread_counter := sh_thread_counter sh2 - 1\<rparr>) w3;
                                 (_, w5) = sys_cond w4
                             in Some (sh3, c1, w5)))))"

section \<open>The accept thread\<close>

text \<open>Its beginning, one round of its loop (the first component says whether it goes on), and its end.
  The end looks through the argument of the last handler: a null pointer when there was none
  (\<open>handled\<close>). The counter it waits for is 0 by then, since every handler was joined.\<close>

definition sh_accept_begin ::
  "('c, 'w) socket_handle \<Rightarrow> 'm world_scheme \<Rightarrow> (('c, 'w) socket_handle \<times> 'm world_scheme) option" where
  "sh_accept_begin sh w =
     (let (err, sh1, w1) = sh_lock sh w
      in if err then None
         else (let (_, w2) = sys_cond w1; (_, sh2, w3) = sh_unlock (sh1\<lparr>sh_state := Running\<rparr>) w2 in Some (sh2, w3)))"

definition sh_accept_round ::
  "sock_kevent \<Rightarrow> ('c, 'm world_scheme) socket_handle \<Rightarrow> 'c \<Rightarrow> 'm world_scheme
   \<Rightarrow> (bool \<times> ('c, 'm world_scheme) socket_handle \<times> 'c \<times> 'm world_scheme) option" where
  "sh_accept_round ev sh c w =
     (let (ok, w1) = sys_try ESYS os_kevent w
      in if \<not> ok then None
         else if ev_ident ev = SH_EVT_CMD_SHUTDOWN then Some (False, sh, c, w1)
         else (let (ok', w2) = sys_malloc w1
               in if \<not> ok' then None
                  else (let (err, sh1, w3) = sh_lock sh w2
                        in if err then None
                           else (let (_, sh2, w4) = sh_unlock (sh1\<lparr>sh_thread_counter := sh_thread_counter sh1 + 1\<rparr>) w3;
                                     (created, w5) = sys_init w4
                                 in if \<not> created then None
                                    else (case sh_accept_handler_thread ev sh2 c w5 of
                                            None \<Rightarrow> None
                                          | Some (sh3, c', w6) \<Rightarrow>
                                              (let (joined, w7) = sys_init w6
                                               in if joined then Some (True, sh3, c', w7) else None))))))"

definition sh_accept_end ::
  "bool \<Rightarrow> ('c, 'w) socket_handle \<Rightarrow> 'm world_scheme \<Rightarrow> (('c, 'w) socket_handle \<times> 'm world_scheme) option" where
  "sh_accept_end handled sh w =
     (let (err, sh1, w1) = sh_lock sh w
      in if err then None
         else (let (_, sh2, w2) = sh_unlock (sh1\<lparr>sh_state := Stopped\<rparr>) w1
               in if \<not> handled then None
                  else (let (err', sh3, w3) = sh_lock sh2 w2
                        in if err' then None
                           else (let (_, sh4, w4) = sh_unlock sh3 w3
                                 in if sh_thread_counter sh4 = 0 then Some (sh4, w4) else None))))"

text \<open>The thread on a sequence of events that the queue delivers; an empty sequence means that it waits.
  The result also says whether a handler ran.\<close>

fun sh_accept_loop ::
  "sock_kevent list \<Rightarrow> bool \<Rightarrow> ('c, 'm world_scheme) socket_handle \<Rightarrow> 'c \<Rightarrow> 'm world_scheme
   \<Rightarrow> (bool \<times> ('c, 'm world_scheme) socket_handle \<times> 'c \<times> 'm world_scheme) option" where
  "sh_accept_loop [] handled sh c w = Some (handled, sh, c, w)"
| "sh_accept_loop (ev # evs) handled sh c w =
     (case sh_accept_round ev sh c w of
        None \<Rightarrow> None
      | Some (go, sh1, c1, w1) \<Rightarrow>
          if go then sh_accept_loop evs True sh1 c1 w1
          else map_option (\<lambda>(sh2, w2). (handled, sh2, c1, w2)) (sh_accept_end handled sh1 w1))"

section \<open>Starting and stopping\<close>

text \<open>When the thread cannot be created nobody signals the condition that \<open>sh_start\<close> waits for.\<close>

definition sh_start ::
  "('c, 'w) socket_handle option \<Rightarrow> 'm world_scheme \<Rightarrow> (int \<times> ('c, 'w) socket_handle option \<times> 'm world_scheme) option"
  where
  "sh_start sho w =
     (case sho of
        None \<Rightarrow> Some (SH_ERR_INVALIDPARAMS, None, w)
      | Some sh \<Rightarrow>
          if sh_state_code (sh_state sh) < sh_state_code Ready then Some (SH_ERR_INVALIDPARAMS, sho, w)
          else (let (err, sh1, w1) = sh_lock sh w
                in if err then Some (SH_ERR_MUTEXLOCKFAIL, Some sh1, w1)
                   else if sh_state_code Started \<le> sh_state_code (sh_state sh1)
                   then (let (_, sh2, w2) = sh_unlock sh1 w1 in Some (SH_ERR_ALREADYRUNNIN, Some sh2, w2))
                   else (let (created, w2) = sys_init w1
                         in if \<not> created then None
                            else (case sh_accept_begin (sh1\<lparr>sh_state := Started, sh_mtx := False\<rparr>) w2 of
                                    None \<Rightarrow> None
                                  | Some (sh2, w3) \<Rightarrow>
                                      (let (_, sh3, w4) = sh_unlock (sh2\<lparr>sh_mtx := True\<rparr>) w3
                                       in Some (0, Some sh3, w4))))))"

text \<open>Stopping waits for the thread, which gets the shutdown event next.\<close>

definition sh_stop ::
  "bool \<Rightarrow> ('c, 'w) socket_handle option \<Rightarrow> 'm world_scheme
   \<Rightarrow> (int \<times> ('c, 'w) socket_handle option \<times> 'm world_scheme) option" where
  "sh_stop handled sho w =
     (case sho of
        None \<Rightarrow> Some (SH_ERR_INVALIDPARAMS, None, w)
      | Some sh \<Rightarrow>
          (let (err, sh1, w1) = sh_lock sh w
           in if err then Some (SH_ERR_MUTEXLOCKFAIL, Some sh1, w1)
              else if sh_state sh1 \<noteq> Running
              then (let (_, sh2, w2) = sh_unlock sh1 w1 in Some (SH_ERR_TISNOTRUNNING, Some sh2, w2))
              else (let (_, sh2, w2) = sh_unlock (sh1\<lparr>sh_state := Stopping\<rparr>) w1;
                        (ok, w3) = sys_try ESYS os_kevent w2;
                        (ok', w4) = sys_try ESYS os_kevent w3
                    in if \<not> ok \<or> \<not> ok' then None
                       else (case sh_accept_end handled sh2 w4 of
                               None \<Rightarrow> None
                             | Some (sh3, w5) \<Rightarrow>
                                 (let (joined, w6) = sys_init w5
                                  in if joined then Some (0, Some (sh3), emit (ThreadJoined ''socket'') w6) else None)))))"

section \<open>Construction and release\<close>

fun free_connections :: "socket_connection list \<Rightarrow> 'm world_scheme \<Rightarrow> 'm world_scheme" where
  "free_connections [] w = w"
| "free_connections (c # cs) w = free_connections cs (shc_free (Some c) w)"

definition sh_free ::
  "('c, 'w) socket_handle option \<Rightarrow> 'm world_scheme \<Rightarrow> 'm world_scheme option" where
  "sh_free sho w =
     (case sho of
        None \<Rightarrow> Some w
      | Some sh \<Rightarrow>
          (let (err, sh1, w1) = sh_lock sh w
           in if err then None
              else (let w2 = free_connections (sh_connections sh1) w1;
                        (_, w3) = sys_close (sh_socketfd sh1) w2;
                        w4 = (case sh_sockpath sh1 of None \<Rightarrow> set_errno ESYS w3 | Some p \<Rightarrow> snd (sys_unlink p w3));
                        w5 = (if sh_keventfd sh1 \<noteq> 0 then snd (sys_close (sh_keventfd sh1) w4) else w4);
                        (_, _, w6) = sh_unlock sh1 w5;
                        (c1, w7) = sys_init w6; (c2, w8) = sys_init w7; (m, w9) = sys_init w8
                    in if c1 \<and> c2 \<and> m then Some w9 else None)))"

text \<open>The inner \<open>None\<close> is the null pointer that \<open>sh_new\<close> returns.\<close>

definition sh_abandon ::
  "('c, 'w) socket_handle \<Rightarrow> 'm world_scheme \<Rightarrow> (('c, 'w) socket_handle option \<times> 'm world_scheme) option" where
  "sh_abandon sh w = map_option (\<lambda>w'. (None, w')) (sh_free (Some sh) w)"

text \<open>The second half: mutex, condition variables and events. The events are registered with the mutex
  held, so a failure there makes \<open>sh_free\<close> lock it a second time.\<close>

definition sh_new_events ::
  "('c, 'w) socket_handle \<Rightarrow> 'm world_scheme \<Rightarrow> (('c, 'w) socket_handle option \<times> 'm world_scheme) option" where
  "sh_new_events sh w =
     (let (i1, w1) = sys_init w
      in if \<not> i1 then sh_abandon sh w1
         else (let (i2, w2) = sys_init w1
               in if \<not> i2 then sh_abandon sh w2
                  else (let (i3, w3) = sys_init w2
                        in if \<not> i3 then sh_abandon sh w3
                           else (let (err, sh1, w4) = sh_lock sh w3
                                 in if err then None
                                    else (let (k1, w5) = sys_try ESYS os_kevent w4
                                          in if \<not> k1 then sh_abandon sh1 w5
                                             else (let (k2, w6) = sys_try ESYS os_kevent w5
                                                   in if \<not> k2 then sh_abandon sh1 w6
                                                      else (let (_, sh2, w7) = sh_unlock (sh1\<lparr>sh_state := Ready\<rparr>) w6
                                                            in Some (Some sh2, w7))))))))"

definition sh_new ::
  "string option \<Rightarrow> nat \<Rightarrow> 'm world_scheme \<Rightarrow> (('c, 'w) socket_handle option \<times> 'm world_scheme) option" where
  "sh_new sockpath mode w =
     (case sockpath of
        None \<Rightarrow> Some (None, set_errno EINVAL w)
      | Some path \<Rightarrow>
          (let (ok, w1) = sys_malloc (set_errno E0 w)
           in if \<not> ok then Some (None, w1)
              else (let (kfd, w2) = ask os_kqueue w1; (fd, w3) = ask os_socket w2;
                        sh = \<lparr>sh_socketfd = fd, sh_keventfd = kfd, sh_sockpath = None, sh_state = Initializing,
                              sh_mtx = False, sh_thread_counter = 0, sh_listeners = [], sh_connections = []\<rparr>
                    in if fd < 0 then sh_abandon sh w3
                       else (let (dup, w4) = sys_malloc w3;
                                 sh1 = sh\<lparr>sh_sockpath := (if dup then Some path else None)\<rparr>;
                                 (bound, w5) = sys_try ESYS os_sockop w4
                             in if \<not> bound then sh_abandon sh1 w5
                                else (let (modeok, w6) = (if mode = 0 then (True, w5) else sys_try ESYS os_sockop w5)
                                      in if \<not> modeok then sh_abandon sh1 w6
                                         else (let (listening, w7) = sys_try ESYS os_sockop w6
                                               in if \<not> listening then Some (None, w7)
                                                  else sh_new_events sh1 w7))))))"

end
