(* ===== verification/Info_Contract.thy ===== *)
theory Info_Contract
  imports Vm_Info Nv_Demo
begin

text \<open>
  Properties of the commands and of the vm information on their way through a packed name-value list.
\<close>

section \<open>Commands\<close>

lemma copy_command:
  "copy_items bhyve_command_nv c bcmd_zero =
     bcmd_zero\<lparr>bcmd_cmd := bcmd_cmd c, bcmd_vmname := bcmd_vmname c, bcmd_result := bcmd_result c,
       bcmd_reply := bcmd_reply c\<rparr>"
  by (simp add: copy_items_def bhyve_command_nv_def)

text \<open>The buffer of a packed command: some list made, encoded and packed.\<close>

definition packed_command :: "'n nvlib \<Rightarrow> bhyve_usercommand \<Rightarrow> bytes \<Rightarrow> bool" where
  "packed_command L c b \<longleftrightarrow>
     (\<exists>t n t'. nv_create L t = Some n \<and> nv_pack L t' (encode_items L bhyve_command_nv c n) = Some b)"

lemma parse_packed:
  assumes laws: "nv_laws L" and works: "nv_works L" and b: "packed_command L c b" and mem: "\<forall>n. os_malloc (w_os w) n"
  shows "\<exists>w'. bcmd_parse_nvlistcmd L b bcmd_zero w = (0, copy_items bhyve_command_nv c bcmd_zero, w') \<and>
    w_os w' = w_os w"
proof -
  from b obtain t n t' where n: "nv_create L t = Some n"
    and p: "nv_pack L t' (encode_items L bhyve_command_nv c n) = Some b" by (auto simp: packed_command_def)
  obtain m where m: "nv_unpack L (w_tick w) b = Some m" using nv_works_unpack [OF works p] by blast
  have "nv_get L n k = None" for k using nv_createE [OF laws n] .
  from command_table.decoded [OF laws this nv_unpack_pack [OF laws p m], of "tock w" bcmd_zero] mem
  show ?thesis using m by (simp add: bcmd_parse_nvlistcmd_def nvlist_unpack_def)
qed

text \<open>What \<open>bcs_sendcmd_raw\<close> hands to the function for binary replies.\<close>

lemma sendcmd_raw_packs:
  fixes w :: "'m world_scheme"
  assumes "nv_works L" and "bcs_send_dynamic sender = Some send"
  shows "\<exists>b w1. packed_command L c b \<and> w_os w1 = w_os w \<and> w_trace w1 = w_trace w \<and> w_tick w1 = w_tick w + 2 \<and>
    bcs_sendcmd_raw L (Some c) (Some sender) w = map_option (\<lambda>(r, c', w'). (r, Some c', w')) (send b c w1)"
proof -
  obtain n where n: "nv_create L (w_tick w) = Some n" using nv_works_create [OF assms(1)] by blast
  let ?n = "encode_items L bhyve_command_nv c n"
  obtain b where b: "nv_pack L (w_tick (tock w)) ?n = Some b" using nv_works_pack [OF assms(1)] by blast
  have "packed_command L c b" using n b by (auto simp: packed_command_def)
  with n b assms(2) show ?thesis
    by (intro exI [of _ b] exI [of _ "tock (tock w)"])
       (simp add: bcs_sendcmd_raw_def nvlist_create_def nvlist_pack_def bcmd_encodenvlist_command_def bcmd_encodenvlist_def)
qed

text \<open>C27: With a library of name-value lists that keeps its promises and memory available, a command
  given to \<open>bcs_sendcmd\<close> reaches the sender's function as a buffer which \<open>bcmd_parse_nvlistcmd\<close> turns
  back into that command: the same command word and vm name, no reply, result 0. The result of the
  call is the sender's.\<close>

theorem bcs_sendcmd_roundtrip:
  fixes w :: "'m world_scheme" and u :: "'k world_scheme"
  assumes "nv_laws L" and "nv_works L" and "\<forall>n. os_malloc (w_os u) n"
    and "bcs_send_dynamic sender = Some send"
  shows "\<exists>b w1. bcs_sendcmd L (Some cmd) (Some vmname) (Some sender) w =
      map_option (\<lambda>(r, c, w'). (r, w')) (send b (bcmd_zero\<lparr>bcmd_cmd := Some cmd, bcmd_vmname := Some vmname\<rparr>) w1) \<and>
    (\<exists>u'. bcmd_parse_nvlistcmd L b bcmd_zero u =
      (0, bcmd_zero\<lparr>bcmd_cmd := Some cmd, bcmd_vmname := Some vmname\<rparr>, u'))"
proof -
  let ?c = "bcmd_zero\<lparr>bcmd_cmd := Some cmd, bcmd_vmname := Some vmname\<rparr>"
  obtain b w1 where b: "packed_command L ?c b" "bcs_sendcmd_raw L (Some ?c) (Some sender) w =
      map_option (\<lambda>(r, c', w'). (r, Some c', w')) (send b ?c w1)"
    using sendcmd_raw_packs [OF assms(2,4)] by blast
  from parse_packed [OF assms(1,2) b(1) assms(3)] obtain u' where
    "bcmd_parse_nvlistcmd L b bcmd_zero u = (0, copy_items bhyve_command_nv ?c bcmd_zero, u')" by blast
  moreover have "copy_items bhyve_command_nv ?c bcmd_zero = ?c"
    by (simp only: copy_command) (simp add: bcmd_zero_def)
  moreover have "bcs_sendcmd L (Some cmd) (Some vmname) (Some sender) w = map_option (\<lambda>(r, c, w'). (r, w')) (send b ?c w1)"
    using b(2) by (simp add: bcs_sendcmd_def option.map_comp comp_def split_def)
  ultimately show ?thesis by metis
qed

theorem bcs_sendcmd_roundtrip_witness:
  "\<exists>b w1. bcs_sendcmd demo_nv (Some ''startvm'') (Some ''one'')
        (Some \<lparr>bcs_send_dynamic = Some (\<lambda>b c w. Some (5, c, w)), bcs_send_fixed = \<lambda>b c w. Some (6, c, w)\<rparr>) (world0 calm_os) =
      map_option (\<lambda>(r, c, w'). (r, w'))
        (Some (5 :: int, bcmd_zero\<lparr>bcmd_cmd := Some ''startvm'', bcmd_vmname := Some ''one''\<rparr>, w1 :: world)) \<and>
    (\<exists>u'. bcmd_parse_nvlistcmd demo_nv b bcmd_zero (world0 calm_os) =
      (0, bcmd_zero\<lparr>bcmd_cmd := Some ''startvm'', bcmd_vmname := Some ''one''\<rparr>, u'))"
  using bcs_sendcmd_roundtrip [OF demo_nv_laws demo_nv_works,
    where u = "world0 calm_os" and w = "world0 calm_os" and cmd = "''startvm''" and vmname = "''one''"
      and sender = "\<lparr>bcs_send_dynamic = Some (\<lambda>b c w. Some (5, c, w)), bcs_send_fixed = \<lambda>b c w. Some (6, c, w)\<rparr>"
      and send = "\<lambda>b c w. Some (5, c, w)"]
  by (simp add: world0_def calm_os_def)

section \<open>Information about the vms\<close>

lemma state_pid_inverse:
  "ucast (state_pid_read s) = bvmi_vmstate s" "ucast (drop_bit 32 (state_pid_read s)) = bvmi_pid s"
  unfolding state_pid_read_def by (rule bit_word_eqI; auto simp: bit_simps dest: bit_imp_le_length)+

interpretation info_table: named_table vminfoitem2nvlist
  by unfold_locales (simp add: vminfoitem2nvlist_def)

interpretation manager_table: named_table vminfo2nvlist
  by unfold_locales (simp add: vminfo2nvlist_def)

lemma copy_info: "copy_items vminfoitem2nvlist i bvmi_zero = i"
  by (simp add: copy_items_def vminfoitem2nvlist_def state_pid_write_def state_pid_inverse bvmi_zero_def)

lemma ucast_count: "unat c < 2 ^ 32 \<Longrightarrow> ucast (ucast (c :: u64) :: u32) = c"
proof -
  assume "unat c < 2 ^ 32"
  then have "take_bit 32 c = c" by (metis take_bit_nat_eq_self unsigned_take_bit_eq word_unat_eq_iff)
  moreover have "ucast (ucast c :: u32) = take_bit 32 c" by (rule bit_word_eqI) (auto simp: bit_simps)
  ultimately show ?thesis by simp
qed

lemma copy_header:
  assumes "unat (bvmmi_vm_count s) < 2 ^ 32"
  shows "copy_items vminfo2nvlist s bvmmi_zero =
    \<lparr>bvmmi_vm_infos = [], bvmmi_vm_count = bvmmi_vm_count s, bvmmi_msgcount = bvmmi_msgcount s\<rparr>"
  using ucast_count [OF assms]
  by (simp add: copy_items_def vminfo2nvlist_def count_write_def bvmmi_zero_def)

definition packed_info :: "'n nvlib \<Rightarrow> bhyve_vm_info \<Rightarrow> bytes \<Rightarrow> bool" where
  "packed_info L i b \<longleftrightarrow>
     (\<exists>t n t'. nv_create L t = Some n \<and> nv_pack L t' (encode_items L vminfoitem2nvlist i n) = Some b)"

lemma packed_info_nonempty: "nv_laws L \<Longrightarrow> packed_info L i b \<Longrightarrow> b \<noteq> []"
  by (auto simp: packed_info_def dest: nv_pack_nonempty)

lemma encode_infos_ok:
  "nv_laws L \<Longrightarrow> nv_works L \<Longrightarrow> calm w \<Longrightarrow> \<not> stc_mtx s \<Longrightarrow>
   \<exists>bs w'. encode_infos L (map Some is) s w = (0, s\<lparr>stc_items := stc_items s @ bs\<rparr>, w') \<and> calm w' \<and>
     list_all2 (packed_info L) is bs"
proof (induction "is" arbitrary: s w)
  case Nil
  then show ?case by (intro exI [of _ "[]"]) simp
next
  case (Cons i "is")
  obtain n where n: "nv_create L (w_tick w) = Some n" using nv_works_create [OF Cons.prems(2)] by blast
  let ?n = "encode_items L vminfoitem2nvlist i n"
  obtain b where b: "nv_pack L (w_tick (tock w)) ?n = Some b"
    using nv_works_pack [OF Cons.prems(2)] by blast
  have pk: "packed_info L i b" using n b by (auto simp: packed_info_def)
  let ?w = "tock (tock (tock (tock (tock (tock w)))))"
  have c: "calm ?w" "calm (tock (tock w))" using Cons.prems(3) by simp_all
  note st = store_calm [OF c(2) Cons.prems(4) packed_info_nonempty [OF Cons.prems(1) pk]]
  from Cons.IH [OF Cons.prems(1,2) c(1), of "s\<lparr>stc_items := stc_items s @ [b]\<rparr>"] Cons.prems(4)
  obtain bs w' where r: "encode_infos L (map Some is) (s\<lparr>stc_items := stc_items s @ [b]\<rparr>) ?w =
      (0, s\<lparr>stc_items := stc_items s @ b # bs\<rparr>, w')" "calm w'" "list_all2 (packed_info L) is bs" by auto
  have "encode_infos L (map Some (i # is)) s w = encode_infos L (map Some is) (s\<lparr>stc_items := stc_items s @ [b]\<rparr>) ?w"
    using n b st by (simp add: nvlist_create_def nvlist_pack_def bvmi_encodenvlist_def bcmd_encodenvlist_def)
  with r pk show ?case by (intro exI [of _ "b # bs"]) simp
qed

lemma decode_infos_ok:
  "nv_laws L \<Longrightarrow> nv_works L \<Longrightarrow> list_all2 (packed_info L) is bs \<Longrightarrow> \<forall>n. os_malloc (w_os w) n \<Longrightarrow>
   length (pre @ concat bs) < 2 ^ 64 \<Longrightarrow>
   \<exists>w'. decode_infos L (map (\<lambda>b. of_nat (length b)) bs) (of_nat (length pre)) (pre @ concat bs) w =
     Some (0, map Some is, w')"
proof (induction "is" arbitrary: bs pre w)
  case (Cons i "is" cs)
  then obtain b bs where cs: "cs = b # bs" "packed_info L i b" "list_all2 (packed_info L) is bs"
    by (auto simp: list_all2_Cons1)
  from cs(2) obtain t n t' where n: "nv_create L t = Some n"
    and p: "nv_pack L t' (encode_items L vminfoitem2nvlist i n) = Some b" by (auto simp: packed_info_def)
  let ?w = "tock w"
  obtain m where m: "nv_unpack L (w_tick ?w) b = Some m" using nv_works_unpack [OF Cons.prems(2) p] by blast
  have e: "nv_get L n k = None" for k using nv_createE [OF Cons.prems(1) n] .
  have "\<forall>n. os_malloc (w_os (tock ?w)) n" using Cons.prems(4) by simp
  from info_table.decoded [OF Cons.prems(1) e nv_unpack_pack [OF Cons.prems(1) p m] this, of bvmi_zero]
  obtain w2 where d: "bcmd_decodenvlist L vminfoitem2nvlist bvmi_zero m (tock ?w) = (0, i, w2)" "w_os w2 = w_os w"
    by (auto simp: copy_info)
  have u: "unat (of_nat (length pre) :: u64) = length pre" "unat (of_nat (length b) :: u64) = length b"
    using Cons.prems(5) cs(1) by (simp_all add: unat_of_nat)
  from Cons.IH [OF Cons.prems(1,2) cs(3), of w2 "pre @ b"] d(2) Cons.prems(4,5) cs(1)
  obtain w' where "decode_infos L (map (\<lambda>b. of_nat (length b)) bs) (of_nat (length pre) + of_nat (length b))
      (pre @ b @ concat bs) w2 = Some (0, map Some is, w')" by auto
  moreover have "sys_malloc w = (True, ?w)"
    using Cons.prems(4) by (simp add: sys_malloc_def sys_try_def ask_def)
  ultimately show ?case
    using u m d(1) cs(1) by (simp add: nvlist_unpack_def bvmi_decodenvlist_def)
qed simp

text \<open>Packed vms are smaller than \<open>2 ^ 32\<close> bytes.\<close>

definition packed_small :: "'n nvlib \<Rightarrow> bhyve_vm_info list \<Rightarrow> bool" where
  "packed_small L is \<longleftrightarrow> (\<forall>i \<in> set is. \<forall>b. packed_info L i b \<longrightarrow> length b < 2 ^ 32)"

lemma packed_small_total:
  "packed_small L is \<Longrightarrow> list_all2 (packed_info L) is bs \<Longrightarrow> length (concat bs) \<le> length is * (2 ^ 32 - 1)"
proof (induction "is" arbitrary: bs)
  case (Cons i "is")
  then obtain b bs' where bs: "bs = b # bs'" "packed_info L i b" "list_all2 (packed_info L) is bs'"
    by (auto simp: list_all2_Cons1)
  have "length b \<le> 2 ^ 32 - 1" using Cons.prems(1) bs(2) by (force simp: packed_small_def)
  moreover have "length (concat bs') \<le> length is * (2 ^ 32 - 1)"
    using Cons.IH [OF _ bs(3)] Cons.prems(1) by (simp add: packed_small_def)
  ultimately show ?case using bs(1) by simp
qed simp

lemma free_calm: "calm w \<Longrightarrow> calm (stc_free s w)"
  by (cases s) (simp_all add: stc_free_def calm_def Let_def split_def)

lemma encode_blob_ok:
  assumes "calm w" and "bs \<noteq> []" and "[] \<notin> set bs"
  shows "\<exists>w'. encode_blob L r (length bs) \<lparr>stc_mtx = False, stc_items = bs\<rparr> nvl w =
    Some (r, nv_add L (nv_add L nvl ''vm_infos'' (NvBinary (concat bs))) ''vm_infos.lengths''
               (NvNumbers (map (\<lambda>b. of_nat (length b)) bs)), w') \<and> calm w'"
proof -
  let ?s = "\<lparr>stc_mtx = False, stc_items = bs\<rparr>"
  let ?buf = "fresh_bytes (length (concat bs))" and ?lens = "replicate (length bs) (0 :: nat)"
  let ?w = "tock (tock (tock w))"
  have "0 < length (concat bs)" using assms(2,3) by (cases bs) auto
  then have "0 < length ?buf" "0 < length ?lens" using assms(2) by (simp_all add: fresh_bytes_def)
  then obtain w' where "stc_collect ?s ?buf (length (concat bs)) ?lens (sizeof_size_t * length bs) ?w =
      Some (0, concat bs, map length bs, ?s, w')" "calm w'"
    using collect_calm [of ?w ?s ?buf ?lens] assms(1) by (auto simp: fresh_bytes_def)
  then show ?thesis
    using assms(1) by (simp add: encode_blob_def size_calm calm_malloc comp_def free_calm Let_def)
qed

definition manager_info :: "bhyve_vm_info list \<Rightarrow> u64 \<Rightarrow> bhyve_vm_manager_info" where
  "manager_info is msgcount =
     \<lparr>bvmmi_vm_infos = map Some is, bvmmi_vm_count = of_nat (length is), bvmmi_msgcount = msgcount\<rparr>"

lemma manager_fields [simp]:
  "bvmmi_vm_infos (manager_info is m) = map Some is" "bvmmi_vm_count (manager_info is m) = of_nat (length is)"
  "bvmmi_msgcount (manager_info is m) = m"
  by (simp_all add: manager_info_def)

text \<open>What the encoder produces.\<close>

lemma encodebinary_ok:
  fixes w :: "'m world_scheme"
  assumes laws: "nv_laws L" and works: "nv_works L" and calm: "calm w"
    and "is": "is \<noteq> []" "length is < 2 ^ 32"
  shows "\<exists>b w' bs t n t'. bvmmi_encodebinary L (Some (manager_info is m)) w = Some (0, Some b, w') \<and>
    calm w' \<and> list_all2 (packed_info L) is bs \<and> nv_create L t = Some n \<and>
    nv_pack L t' (nv_add L (nv_add L (encode_items L vminfo2nvlist (manager_info is m) n) ''vm_infos'' (NvBinary (concat bs)))
      ''vm_infos.lengths'' (NvNumbers (map (\<lambda>b. of_nat (length b)) bs))) = Some b"
proof -
  obtain n where n: "nv_create L (w_tick w) = Some n" using nv_works_create [OF works] by blast
  let ?n1 = "encode_items L vminfo2nvlist (manager_info is m) n" and ?s = "\<lparr>stc_mtx = False, stc_items = []\<rparr>"
  let ?w5 = "tock (tock (tock (tock (tock w))))"
  have cnt: "unat (of_nat (length is) :: u64) = length is" using "is"(2) by (simp add: unat_of_nat)
  obtain bs w6 where e: "encode_infos L (map Some is) ?s ?w5 = (0, \<lparr>stc_mtx = False, stc_items = bs\<rparr>, w6)"
      "calm w6" "list_all2 (packed_info L) is bs"
    using encode_infos_ok [OF laws works, of ?w5 ?s "is"] calm by auto
  have len: "length bs = length is" using e(3) by (simp add: list_all2_lengthD)
  have ne: "bs \<noteq> []" "[] \<notin> set bs"
    using len "is"(1) e(3) packed_info_nonempty [OF laws] by (auto simp: list_all2_conv_all_nth in_set_conv_nth)
  obtain w7 where bl: "encode_blob L 0 (length is) \<lparr>stc_mtx = False, stc_items = bs\<rparr> ?n1 w6 =
      Some (0, nv_add L (nv_add L ?n1 ''vm_infos'' (NvBinary (concat bs))) ''vm_infos.lengths''
               (NvNumbers (map (\<lambda>b. of_nat (length b)) bs)), w7)" "calm w7"
    using encode_blob_ok [OF e(2) ne, of L 0 ?n1] len by auto
  obtain b where b: "nv_pack L (w_tick w7) (nv_add L (nv_add L ?n1 ''vm_infos'' (NvBinary (concat bs))) ''vm_infos.lengths''
               (NvNumbers (map (\<lambda>b. of_nat (length b)) bs))) = Some b"
    using nv_works_pack [OF works] by blast
  have "bvmmi_encodebinary L (Some (manager_info is m)) w = Some (0, Some b, tock w7)"
    using n calm e(1) bl(1) b cnt
    by (simp add: bvmmi_encodebinary_def nvlist_create_def bvmmi_encodenvlist_def bcmd_encodenvlist_def
        calm_malloc new_calm nvlist_pack_def Let_def)
  with e(3) n b bl(2) calm_cong(1) [of w7] show ?thesis by blast
qed

lemma manager_roundtrip:
  fixes w :: "'m world_scheme" and u :: "'k world_scheme"
  assumes "nv_laws L" and "nv_works L" and "calm w" and "\<forall>n. os_malloc (w_os u) n"
    and "is \<noteq> []" and "length is < 2 ^ 32" and "packed_small L is"
  shows "\<exists>b w' u'. bvmmi_encodebinary L (Some (manager_info is m)) w = Some (0, Some b, w') \<and> calm w' \<and>
    bvmmi_decodebinary L b u = Some (0, Some (manager_info is m), u')"
proof -
  let ?info = "manager_info is m"
  from encodebinary_ok [OF assms(1-3,5,6), of m] obtain b w' bs t n t' where
    e: "bvmmi_encodebinary L (Some ?info) w = Some (0, Some b, w')" "list_all2 (packed_info L) is bs"
      "nv_create L t = Some n" "calm w'"
    and p: "nv_pack L t' (nv_add L (nv_add L (encode_items L vminfo2nvlist ?info n) ''vm_infos'' (NvBinary (concat bs)))
      ''vm_infos.lengths'' (NvNumbers (map (\<lambda>b. of_nat (length b)) bs))) = Some b" by blast
  let ?n1 = "encode_items L vminfo2nvlist ?info n"
  let ?n2 = "nv_add L ?n1 ''vm_infos'' (NvBinary (concat bs))"
  let ?n3 = "nv_add L ?n2 ''vm_infos.lengths'' (NvNumbers (map (\<lambda>b. of_nat (length b)) bs))"
  have empty: "nv_get L n k = None" for k using nv_createE [OF assms(1) e(3)] .
  note g1 = manager_table.encoded [where s = ?info, OF assms(1) empty]
  have names: "pm_varname ` set vminfo2nvlist = {''vm_count'', ''msgcount''}"
    by (simp add: vminfo2nvlist_def)
  have g1': "nv_get L ?n1 ''vm_infos'' = None" "nv_get L ?n1 ''vm_infos.lengths'' = None"
    by (rule g1(2), simp add: names)+
  have g2: "nv_get L ?n2 k = (if k = ''vm_infos'' then Some (NvBinary (concat bs)) else nv_get L ?n1 k)" for k
    by (rule nv_get_add [OF assms(1) g1'(1)])
  have "nv_get L ?n2 ''vm_infos.lengths'' = None" using g2 g1' by simp
  from nv_get_add [OF assms(1) this]
  have g3: "nv_get L ?n3 k = (if k = ''vm_infos.lengths'' then Some (NvNumbers (map (\<lambda>b. of_nat (length b)) bs))
      else nv_get L ?n2 k)" for k by simp
  obtain x where x: "nv_unpack L (w_tick u) b = Some x" using nv_works_unpack [OF assms(2) p] by blast
  have gx: "nv_get L x = nv_get L ?n3" by (rule nv_unpack_pack [OF assms(1) p x])
  have hdr: "\<forall>i \<in> set vminfo2nvlist. nv_get L x (pm_varname i) = Some (encode_value (pm_value_type i) ?info)"
  proof
    fix i :: "bhyve_vm_manager_info parser_mapping"
    assume i: "i \<in> set vminfo2nvlist"
    with names have "pm_varname i \<in> {''vm_count'', ''msgcount''}" by blast
    then have "nv_get L x (pm_varname i) = nv_get L ?n1 (pm_varname i)" unfolding gx g3 g2 by auto
    with g1(1) i show "nv_get L x (pm_varname i) = Some (encode_value (pm_value_type i) ?info)" by simp
  qed
  have len: "length bs = length is" using e(2) by (simp add: list_all2_lengthD)
  have cnt: "unat (of_nat (length is) :: u64) = length is" using assms(6) by (simp add: unat_of_nat)
  obtain u2 where d: "bcmd_decodenvlist L vminfo2nvlist bvmmi_zero x (tock (tock u)) =
      (0, ?info\<lparr>bvmmi_vm_infos := []\<rparr>, u2)" "w_os u2 = w_os u"
    using decode_copy [OF hdr, of "tock (tock u)" bvmmi_zero] assms(4,6) copy_header [of ?info] cnt
    by (auto simp: manager_info_def)
  have "length (concat bs) \<le> length is * (2 ^ 32 - 1)" by (rule packed_small_total [OF assms(7) e(2)])
  also have "\<dots> \<le> 2 ^ 32 * (2 ^ 32 - 1)" using assms(6) by (intro mult_right_mono) simp_all
  finally have total: "length ([] @ concat bs) < 2 ^ 64" by simp
  have sum: "sum_list (map (\<lambda>b. of_nat (length b)) bs) = (of_nat (length (concat bs)) :: u64)"
    by (induction bs) simp_all
  have "\<forall>n. os_malloc (w_os (tock u2)) n" using assms(4) d(2) by simp
  from decode_infos_ok [OF assms(1,2) e(2) this total] obtain u3 where
    di: "decode_infos L (map (\<lambda>b. of_nat (length b)) bs) 0 (concat bs) (tock u2) = Some (0, map Some is, u3)" by auto
  have mal: "sys_malloc v = (True, tock v)" if "w_os v = w_os u" for v :: "'k world_scheme"
    using assms(4) that by (simp add: sys_malloc_def sys_try_def ask_def)
  have "bvmmi_decodebinary L b u = Some (0, Some ?info, u3)"
    using x d di gx g2 g3 mal sum len cnt
    by (simp add: bvmmi_decodebinary_def nvlist_unpack_def bvmmi_decodenvlist_def manager_info_def)
  with e(1,4) show ?thesis by blast
qed

text \<open>C15: Information about one or more vms (less than \<open>2 ^ 32\<close>) survives the way through the packed
  list: what \<open>bvmmi_encodebinary\<close> packs, \<open>bvmmi_decodebinary\<close> turns into the same vms in the same order,
  with the same message count; and this although the entry of the pid is mapped at the offset of the
  state. Assumed: memory, locks and the library of name-value lists work, and a packed vm has less
  than \<open>2 ^ 32\<close> bytes.\<close>

theorem bvmmi_roundtrip:
  fixes w :: "'m world_scheme" and u :: "'k world_scheme"
  assumes "nv_laws L" and "nv_works L" and "calm w" and "\<forall>n. os_malloc (w_os u) n"
    and "is \<noteq> []" and "length is < 2 ^ 32" and "packed_small L is"
  shows "\<exists>b w' u'. bvmmi_encodebinary L (Some (manager_info is m)) w = Some (0, Some b, w') \<and>
    bvmmi_decodebinary L b u = Some (0, Some (manager_info is m), u')"
  using manager_roundtrip [OF assms, of m] by blast

lemma encodebinary_nonempty:
  "nv_laws L \<Longrightarrow> bvmmi_encodebinary L i w = Some (0, Some b, w') \<Longrightarrow> b \<noteq> []"
  by (auto simp: bvmmi_encodebinary_def nvlist_create_def nvlist_pack_def Let_def split: option.splits if_splits
      dest: nv_pack_nonempty)

definition demo_info :: bhyve_vm_info where
  "demo_info = bvmi_zero\<lparr>bvmi_vmname := Some ''one'', bvmi_vmstate := 100, bvmi_pid := 77\<rparr>"

lemma demo_packed_small: "packed_small demo_nv [demo_info]"
proof -
  have "length (enc_many enc_pair (encode_items demo_nv vminfoitem2nvlist demo_info [])) < 2 ^ 32"
    by (simp add: enc_many_size vminfoitem2nvlist_def demo_nv_def demo_info_def bvmi_zero_def enc_pair_def
        enc_string_def)
  then show ?thesis by (auto simp: packed_small_def packed_info_def demo_nv_def)
qed

theorem bvmmi_roundtrip_witness:
  "\<exists>b w' u'. bvmmi_encodebinary demo_nv (Some (manager_info [demo_info] 3)) (world0 calm_os) = Some (0, Some b, w') \<and>
    bvmmi_decodebinary demo_nv b (world0 calm_os) = Some (0, Some (manager_info [demo_info] 3), u')"
  by (rule bvmmi_roundtrip) (simp_all add: demo_packed_small, simp add: world0_def calm_os_def)

text \<open>Without any vm there is nothing to collect, the collector refuses, and the information cannot be
  encoded: a daemon that manages no vm cannot answer a status request.\<close>

theorem bvmmi_encode_no_vms:
  assumes "nv_works L" and "calm w"
  shows "\<exists>w'. bvmmi_encodebinary L (Some (manager_info [] m)) w = Some (-1, None, w')"
proof -
  obtain n where n: "nv_create L (w_tick w) = Some n" using nv_works_create [OF assms(1)] by blast
  have "bvmmi_encodenvlist L (Some (manager_info [] m)) (Some n) (tock w) =
      Some (-1, Some (encode_items L vminfo2nvlist (manager_info [] m) n),
        stc_free (Some \<lparr>stc_mtx = False, stc_items = []\<rparr>) (tock (tock (tock (tock (tock (tock (tock (tock w)))))))))"
    using assms(2)
    by (simp add: bvmmi_encodenvlist_def bcmd_encodenvlist_def encode_blob_def stc_collect_def calm_malloc new_calm
        size_calm fresh_bytes_def)
  with n show ?thesis by (simp add: bvmmi_encodebinary_def nvlist_create_def)
qed

theorem bvmmi_encode_no_vms_witness:
  "\<exists>w'. bvmmi_encodebinary demo_nv (Some (manager_info [] 3)) (world0 calm_os) = Some (-1, None, w')"
  by (rule bvmmi_encode_no_vms) simp_all

text \<open>The number that travels under the name \<open>pid\<close> is not the pid: it is the pid times \<open>2 ^ 32\<close> plus
  the state. (Decoding writes it back over both members, which is why the round trip holds.)\<close>

theorem bvmi_pid_entry:
  assumes "nv_laws L" and "nv_create L t = Some n"
  shows "\<exists>v. nv_number L (encode_items L vminfoitem2nvlist i n) ''pid'' = Some v \<and>
    unat v = unat (bvmi_pid i) * 2 ^ 32 + unat (bvmi_vmstate i)"
proof -
  have e: "nv_get L n k = None" for k using nv_createE [OF assms] .
  from info_table.encoded(1) [OF assms(1) e, of i]
  have g: "nv_get L (encode_items L vminfoitem2nvlist i n) ''pid'' = Some (NvNumber (state_pid_read i))"
    by (simp add: vminfoitem2nvlist_def)
  have disj: "ucast (bvmi_vmstate i) AND push_bit 32 (ucast (bvmi_pid i)) = (0 :: u64)"
    by (rule bit_word_eqI) (auto simp: bit_simps dest: bit_imp_le_length)
  have "state_pid_read i = push_bit 32 (ucast (bvmi_pid i)) + ucast (bvmi_vmstate i)"
    unfolding state_pid_read_def using disjunctive_add_eq_or [OF disj] by (simp add: add.commute)
  moreover have "unat (bvmi_pid i) < 2 ^ 32" "unat (bvmi_vmstate i) < 2 ^ 32"
    using unsigned_less [of "bvmi_pid i", where ?'a = nat] unsigned_less [of "bvmi_vmstate i", where ?'a = nat]
    by simp_all
  moreover have "unat (ucast x :: u64) = unat x" for x :: u32
    using unsigned_less [of x, where ?'a = nat] by (simp add: unsigned_ucast_eq take_bit_nat_eq_self)
  ultimately have "unat (state_pid_read i) = unat (bvmi_pid i) * 2 ^ 32 + unat (bvmi_vmstate i)"
    by (simp add: push_bit_eq_mult unat_word_ariths)
  with g show ?thesis by (simp add: nv_number_def)
qed

theorem bvmi_pid_entry_witness:
  "\<exists>v. nv_number demo_nv (encode_items demo_nv vminfoitem2nvlist demo_info []) ''pid'' = Some v \<and>
    unat v = 77 * 2 ^ 32 + 100"
proof -
  have "nv_create demo_nv 0 = Some []" by (simp add: demo_nv_def)
  from bvmi_pid_entry [OF demo_nv_laws this, of demo_info] show ?thesis by (simp add: demo_info_def)
qed

text \<open>The check of the lengths is a sum modulo \<open>2 ^ 64\<close>: a list whose first length is \<open>2 ^ 64 - 1\<close> and
  whose second is one more than the size of the binary value passes it, and the decoder then reads
  past the end of that value.\<close>

theorem bvmmi_decode_wraps:
  fixes u :: "'m world_scheme"
  assumes "nv_unpack L (w_tick u) b = Some x" and "\<forall>n. os_malloc (w_os u) n"
    and "nv_get L x ''vm_count'' = Some (NvNumber 2)" and "nv_get L x ''msgcount'' = Some (NvNumber m)"
    and "nv_get L x ''vm_infos.lengths'' = Some (NvNumbers [2 ^ 64 - 1, of_nat (length blob) + 1])"
    and "nv_get L x ''vm_infos'' = Some (NvBinary blob)" and "length blob < 2 ^ 64 - 1"
  shows "bvmmi_decodebinary L b u = None"
proof -
  have mal: "sys_malloc v = (True, tock v)" if "w_os v = w_os u" for v :: "'m world_scheme"
    using assms(2) that by (simp add: sys_malloc_def sys_try_def ask_def)
  have hdr: "bcmd_decodenvlist L vminfo2nvlist bvmmi_zero x v =
      (0, bvmmi_zero\<lparr>bvmmi_vm_count := 2, bvmmi_msgcount := m\<rparr>, v)" for v :: "'m world_scheme"
    using assms(3,4) by (simp add: vminfo2nvlist_def nv_number_def count_write_def bvmmi_zero_def)
  have "unat (2 ^ 64 - 1 :: u64) = 2 ^ 64 - 1" by simp
  then have "length blob < unat (0 :: u64) + unat (2 ^ 64 - 1 :: u64)" using assms(7) by simp
  then have "decode_infos L [2 ^ 64 - 1, of_nat (length blob) + 1] 0 blob (tock (tock (tock u))) = None"
    using mal [of "tock (tock (tock u))"] by simp
  with assms mal hdr show ?thesis
    by (simp add: bvmmi_decodebinary_def nvlist_unpack_def bvmmi_decodenvlist_def)
qed

theorem bvmmi_decode_wraps_witness:
  "bvmmi_decodebinary demo_nv
     (enc_many enc_pair [(''vm_count'', NvNumber 2), (''msgcount'', NvNumber 0),
        (''vm_infos.lengths'', NvNumbers [2 ^ 64 - 1, of_nat (length [7 :: u8]) + 1]), (''vm_infos'', NvBinary [7])])
     (world0 calm_os) = None"
proof -
  let ?ps = "[(''vm_count'', NvNumber 2), (''msgcount'', NvNumber 0),
        (''vm_infos.lengths'', NvNumbers [2 ^ 64 - 1, of_nat (length [7 :: u8]) + 1]), (''vm_infos'', NvBinary [7])]"
  have "nv_unpack demo_nv t (enc_many enc_pair ?ps) = Some ?ps" for t
    by (simp add: demo_nv_def dec_all_pairs del: enc_many.simps)
  moreover have "\<forall>n. os_malloc (w_os (world0 calm_os)) n" by (simp add: world0_def calm_os_def)
  ultimately show ?thesis
    by (rule bvmmi_decode_wraps [where blob = "[7]" and m = 0]) (simp_all add: demo_nv_def)
qed

end
