(* ===== verification/Director_Commands.thy ===== *)
theory Director_Commands
  imports Director_Rules Info_Contract
begin

text \<open>
  The message side of \<open>src/libprocwatch/bhyve_director.c\<close>: the callback that takes a command off a
  received message and runs it, and the answer to a status request. The reply manager
  (\<open>bhyve_messagesub_object.h\<close>) is an object of the caller: a context, here the value that its two
  functions map to its next value.

  The result \<open>None\<close> is a null pointer that the code dereferences, a read past the received data, or a
  crash below (\<open>Vm_Info\<close>).
\<close>

section \<open>Operations\<close>

record ('r, 'w) bhyve_messagesub_replymgr =
  bmr_ctx :: 'r
  bmr_short_reply :: "'r \<Rightarrow> string \<Rightarrow> 'w \<Rightarrow> int \<times> 'r \<times> 'w"
  bmr_reply :: "'r \<Rightarrow> bytes option \<Rightarrow> 'w \<Rightarrow> int \<times> 'r \<times> 'w"

text \<open>The loop of \<open>bd_getinfo\<close>. Reading the pid takes the lock of the vm's process state.\<close>

fun collect_vminfos ::
  "nat list \<Rightarrow> 'm bhyve_director \<Rightarrow> 'm dirworld_scheme
   \<Rightarrow> bhyve_vm_info option list \<times> 'm bhyve_director \<times> 'm dirworld_scheme" where
  "collect_vminfos [] bd w = ([], bd, w)"
| "collect_vminfos (a # as) bd w =
     (let v = vm_at bd a; c = bwv_config v;
          (pid, p, w1) = psv_getpid (bwv_state v) w;
          bd1 = put_state a p bd;
          (lastboot, w2) = bwv_get_lastboot (Some v) w1;
          (info, w3) = bvmi_new (Some (bc_get_name c)) (bc_get_os c) (bc_get_osversion c) (bc_get_owner c)
                         (bc_get_group c) (bc_get_description c) (ucast (psv_getstate (bwv_state v)))
                         (word_of_int pid) (word_of_int lastboot) w2;
          (infos, bd2, w4) = collect_vminfos as bd1 w3
      in (info # infos, bd2, w4))"

definition bd_getinfo ::
  "'m bhyve_director \<Rightarrow> 'm dirworld_scheme
   \<Rightarrow> bhyve_vm_manager_info option \<times> 'm bhyve_director \<times> 'm dirworld_scheme" where
  "bd_getinfo bd w =
     (let (vm_count, w1) = bd_countvms w
      in if vm_count = 0 \<and> w_errno w1 \<noteq> E0 then (None, bd, w1)
         else (let (ok, w2) = sys_malloc w1
               in if \<not> ok then (None, bd, w2)
                  else (let (err, w3) = bd_lock w2
                        in if err then (None, bd, w3)
                           else (let (infos, bd1, w4) = collect_vminfos (w_bd_statelist w3) bd w3;
                                     (err', w5) = bd_unlock w4
                                 in if err' then (None, bd1, w5)
                                    else (let (msgcount, w6) = bd_getmsgcount w5;
                                              (bvmmi, w7) = bvmmi_new infos (of_nat (length infos)) msgcount w6
                                          in (bvmmi, bd1, w7))))))"

definition bd_reply_info ::
  "'n nvlib \<Rightarrow> 'm bhyve_director \<Rightarrow> ('r, 'm dirworld_scheme) bhyve_messagesub_replymgr \<Rightarrow> 'm dirworld_scheme
   \<Rightarrow> (int \<times> 'm bhyve_director \<times> ('r, 'm dirworld_scheme) bhyve_messagesub_replymgr \<times> 'm dirworld_scheme) option"
  where
  "bd_reply_info L bd bmr w =
     (let (bvmmi, bd1, w1) = bd_getinfo bd w
      in if bvmmi = None then Some (-1, bd1, bmr, w1)
         else (case bvmmi_encodebinary L bvmmi w1 of
                 None \<Rightarrow> None
               | Some (r, buffer, w2) \<Rightarrow>
                   if r \<noteq> 0 then Some (-1, bd1, bmr, w2)
                   else (let (result, ctx, w3) = bmr_reply bmr (bmr_ctx bmr) buffer w2
                         in Some (result, bd1, bmr\<lparr>bmr_ctx := ctx\<rparr>, w3))))"

text \<open>The four tests for the command word, one after the other; a later one that matches overwrites the
  result, but the words differ.\<close>

definition bd_run_command ::
  "'n nvlib \<Rightarrow> 'm bhyve_director \<Rightarrow> string \<Rightarrow> string option
   \<Rightarrow> ('r, 'm dirworld_scheme) bhyve_messagesub_replymgr option \<Rightarrow> 'm dirworld_scheme
   \<Rightarrow> (int \<times> 'm bhyve_director \<times> ('r, 'm dirworld_scheme) bhyve_messagesub_replymgr option
       \<times> 'm dirworld_scheme) option" where
  "bd_run_command L bd cmd vmname bmr w =
     (if cmd = ''startvm'' then (let (r, bd', w') = bd_startvm bd vmname w in Some (r, bd', bmr, w'))
      else if cmd = ''stopvm'' then (let (r, bd', w') = bd_stopvm bd vmname w in Some (r, bd', bmr, w'))
      else if cmd = ''status'' \<and> bmr \<noteq> None
      then map_option (\<lambda>(r, bd', m, w'). (r, bd', Some m, w')) (bd_reply_info L bd (the bmr) w)
      else if cmd = ''resetfail''
      then (let (r, bd', w') = bd_resetfailvm bd vmname w in Some (r, bd', bmr, w'))
      else Some (0, bd, bmr, w))"

text \<open>The test after the command.\<close>

definition bd_answer ::
  "int \<times> 'm bhyve_director \<times> ('r, 'm dirworld_scheme) bhyve_messagesub_replymgr option \<times> 'm dirworld_scheme
   \<Rightarrow> (int \<times> 'm bhyve_director option \<times> ('r, 'm dirworld_scheme) bhyve_messagesub_replymgr option
       \<times> 'm dirworld_scheme) option" where
  "bd_answer x =
     (case x of
        (result, bd, bmr, w) \<Rightarrow>
          if result = BD_ERR_UNKNOWNVMNAME \<and> w_errno w = ENOENT
          then (case bmr of
                  None \<Rightarrow> None
                | Some m \<Rightarrow>
                    (let (_, c, w') = bmr_short_reply m (bmr_ctx m) ''unknown vm'' w
                     in Some (result, Some bd, Some (m\<lparr>bmr_ctx := c\<rparr>), w')))
          else Some (result, Some bd, bmr, w))"

definition bd_recv_ondata ::
  "'n nvlib \<Rightarrow> 'm bhyve_director option \<Rightarrow> u32 \<Rightarrow> int \<Rightarrow> string \<Rightarrow> bytes \<Rightarrow> u64
   \<Rightarrow> ('r, 'm dirworld_scheme) bhyve_messagesub_replymgr option \<Rightarrow> 'm dirworld_scheme
   \<Rightarrow> (int \<times> 'm bhyve_director option \<times> ('r, 'm dirworld_scheme) bhyve_messagesub_replymgr option
       \<times> 'm dirworld_scheme) option" where
  "bd_recv_ondata L ctx uid pid cmd data datalen bmr w =
     (case ctx of
        None \<Rightarrow> Some (-1, None, bmr, w)
      | Some bd \<Rightarrow>
          (let (err, w1) = bd_lock w
           in if err then Some (-1, Some bd, bmr, w1)
              else (let (err', w2) = bd_unlock (w1\<lparr>w_bd_msgcount := w_bd_msgcount w1 + 1\<rparr>)
                    in if err' then Some (-1, Some bd, bmr, w2)
                       else if cmd \<noteq> ''BHYV'' then Some (0, Some bd, bmr, w2)
                       else if length data < unat datalen then None
                       else (let (r, bcmd, w3) = bcmd_parse_nvlistcmd L (take (unat datalen) data) bcmd_zero w2
                             in Option.bind
                                  (if r \<noteq> 0 then Some (-1, bd, bmr, w3)
                                   else (case bcmd_cmd bcmd of
                                           None \<Rightarrow> None
                                         | Some c \<Rightarrow> bd_run_command L bd c (bcmd_vmname bcmd) bmr w3))
                                  bd_answer))))"

text \<open>A message provider: its object, and the function that subscribes a callback for a context.\<close>

record ('o, 'd, 'f, 'w) bhyve_messagesub_obj =
  bmo_obj :: "'o option"
  bmo_subscribe_ondata :: "'o option \<Rightarrow> 'd option \<Rightarrow> 'f \<Rightarrow> 'w \<Rightarrow> int \<times> 'o option \<times> 'w"

text \<open>The callback \<open>f\<close> is \<open>bd_recv_ondata\<close>.\<close>

definition bd_subscribe_commands ::
  "'f \<Rightarrow> 'd option \<Rightarrow> ('o, 'd, 'f, 'm world_scheme) bhyve_messagesub_obj option \<Rightarrow> 'm world_scheme
   \<Rightarrow> int \<times> ('o, 'd, 'f, 'm world_scheme) bhyve_messagesub_obj option \<times> 'm world_scheme" where
  "bd_subscribe_commands f bd bmo w =
     (case (bd, bmo) of
        (Some _, Some b) \<Rightarrow>
          (let (r, obj, w') = bmo_subscribe_ondata b (bmo_obj b) bd f w in (r, Some (b\<lparr>bmo_obj := obj\<rparr>), w'))
      | _ \<Rightarrow> (-1, bmo, set_errno EINVAL w))"

section \<open>The status of the vms\<close>

text \<open>What the director tells about a vm.\<close>

definition vm_info_of :: "'m bhyve_director \<Rightarrow> nat \<Rightarrow> bhyve_vm_info" where
  "vm_info_of bd a =
     (let v = vm_at bd a; c = bwv_config v
      in \<lparr>bvmi_vmname = Some (bc_get_name c), bvmi_os = bc_get_os c, bvmi_osversion = bc_get_osversion c,
          bvmi_vmstate = ucast (psv_getstate (bwv_state v)), bvmi_pid = word_of_int (psv_processid (bwv_state v)),
          bvmi_lastboot = word_of_int (if bwv_startups v = [] then 0 else last (bwv_startups v)),
          bvmi_owner = bc_get_owner c, bvmi_group = bc_get_group c, bvmi_description = bc_get_description c\<rparr>)"

lemma calm_quiet: "calm w \<Longrightarrow> quiet w w' \<Longrightarrow> calm w'"
  by (simp add: calm_def quiet_def)

lemma calm_locks: "calm w \<Longrightarrow> locks_ok (w_os w)"
  by (simp add: calm_def locks_ok_def)

lemma quiet_basic [simp]: "quiet w (tock w)" "quiet w (set_errno e w)" "quiet w (tock v) \<longleftrightarrow> quiet w v"
  by (simp_all add: quiet_def tock_def set_errno_def)

lemma strdup_all_calm: "calm w \<Longrightarrow> \<exists>w'. strdup_all ss w = (Some ss, w') \<and> quiet w w'"
proof (induction ss arbitrary: w)
  case (Cons s ss)
  show ?case
  proof (cases s)
    case None
    from Cons.IH [OF Cons.prems] obtain w' where "strdup_all ss w = (Some ss, w')" "quiet w w'" by blast
    with None show ?thesis by (simp add: strdup_opt_def)
  next
    case (Some t)
    have "calm (tock w)" using Cons.prems by simp
    from Cons.IH [OF this] obtain w' where "strdup_all ss (tock w) = (Some ss, w')" "quiet (tock w) w'" by blast
    moreover from this(2) have "quiet w w'" using quiet_trans [of w "tock w" w'] by simp
    ultimately show ?thesis using Some Cons.prems by (simp add: strdup_opt_def calm_malloc)
  qed
qed simp

lemma bvmi_new_calm:
  assumes "calm w"
  shows "\<exists>w'. bvmi_new (Some n) os ver owner grp desc st pid boot w =
    (Some \<lparr>bvmi_vmname = Some n, bvmi_os = os, bvmi_osversion = ver, bvmi_vmstate = st, bvmi_pid = pid,
       bvmi_lastboot = boot, bvmi_owner = owner, bvmi_group = grp, bvmi_description = desc\<rparr>, w') \<and> quiet w w'"
proof -
  have "calm (tock w)" using assms by simp
  from strdup_all_calm [OF this, of "[Some n, os, ver, owner, grp, desc]"] obtain w' where
    "strdup_all [Some n, os, ver, owner, grp, desc] (tock w) = (Some [Some n, os, ver, owner, grp, desc], w')"
    "quiet (tock w) w'" by blast
  moreover from this(2) have "quiet w w'" using quiet_trans [of w "tock w" w'] by simp
  ultimately show ?thesis using assms by (simp add: bvmi_new_def calm_malloc del: strdup_all.simps)
qed

lemma put_state_same: "bd_vms bd a = Some v \<Longrightarrow> put_state a (bwv_state v) bd = bd"
  by (simp add: put_state_def put_vm_def vm_at_def fun_upd_idem)

lemma collect_vminfos_ok:
  fixes w :: "'m dirworld_scheme"
  shows "calm w \<Longrightarrow> \<forall>a \<in> set as. \<exists>v. bd_vms bd a = Some v \<and> vm_wf a v \<Longrightarrow>
    \<exists>w'. collect_vminfos as bd w = (map (\<lambda>a. Some (vm_info_of bd a)) as, bd, w') \<and> quiet w w'"
proof (induction as arbitrary: w)
  case (Cons a as)
  then obtain v where v: "bd_vms bd a = Some v" "vm_wf a v" by auto
  have at: "vm_at bd a = v" using v(1) by (simp add: vm_at_def)
  let ?c = "bwv_config v" and ?p = "bwv_state v"
  obtain pid p w1 where g: "psv_getpid ?p w = (pid, p, w1)" by (metis prod_cases3)
  have g': "p = ?p" "pid = psv_processid ?p" "quiet w w1"
    using getpid_quiet [OF _ calm_locks g] v(2) Cons.prems(1) by (simp_all add: vm_wf_def)
  obtain boot w2 where b: "bwv_get_lastboot (Some v) w1 = (boot, w2)" by (cases "bwv_get_lastboot (Some v) w1")
  have b': "boot = (if bwv_startups v = [] then 0 else last (bwv_startups v))" "quiet w1 w2"
    using b by (auto simp: bwv_get_lastboot_def split: if_splits)
  have q: "quiet w w2" using g'(3) b'(2) by (rule quiet_trans)
  obtain w3 where n: "bvmi_new (Some (bc_get_name ?c)) (bc_get_os ?c) (bc_get_osversion ?c) (bc_get_owner ?c)
      (bc_get_group ?c) (bc_get_description ?c) (ucast (psv_getstate ?p)) (word_of_int pid) (word_of_int boot) w2 =
      (Some (vm_info_of bd a), w3)" "quiet w2 w3"
    using bvmi_new_calm [OF calm_quiet [OF Cons.prems(1) q], of "bc_get_name ?c" "bc_get_os ?c" "bc_get_osversion ?c"
        "bc_get_owner ?c" "bc_get_group ?c" "bc_get_description ?c" "ucast (psv_getstate ?p)" "word_of_int pid"
        "word_of_int boot"] g'(2) b'(1) at
    by (auto simp: vm_info_of_def Let_def)
  have q3: "quiet w w3" using q n(2) by (rule quiet_trans)
  from Cons.IH [OF calm_quiet [OF Cons.prems(1) q3]] Cons.prems(2) obtain w4 where
    "collect_vminfos as bd w3 = (map (\<lambda>a. Some (vm_info_of bd a)) as, bd, w4)" "quiet w3 w4" by auto
  with g g' b n(1) at v(1) quiet_trans [OF q3] show ?case by (simp add: put_state_same)
qed simp

lemma calm_fields [simp]:
  fixes w :: "'m dirworld_scheme"
  shows "calm (w\<lparr>w_bd_mtx := m\<rparr>) = calm w" "calm (w\<lparr>w_bd_msgcount := c\<rparr>) = calm w"
  by (simp_all add: calm_def)

text \<open>With one or more vms and everything available, the director gathers the information of exactly the
  vms on its list, in that order.\<close>

lemma getinfo_ok:
  fixes w :: "'m dirworld_scheme"
  assumes "bd_wf bd w" and "calm w" and "w_bd_statelist w \<noteq> []" and "length (w_bd_statelist w) < 2 ^ 32"
  shows "\<exists>w'. bd_getinfo bd w =
      (Some (manager_info (map (vm_info_of bd) (w_bd_statelist w)) (w_bd_msgcount w)), bd, w') \<and> calm w'"
proof -
  let ?as = "w_bd_statelist w"
  have free: "\<not> w_bd_mtx w" and vms: "\<forall>a \<in> set ?as. \<exists>v. bd_vms bd a = Some v \<and> vm_wf a v"
    using assms(1) by (simp_all add: bd_wf_def)
  have count: "count_list_u64 as c = c + of_nat (length as)" for as c
    by (induction as arbitrary: c) simp_all
  let ?w1 = "(tock ((tock w)\<lparr>w_bd_mtx := True\<rparr>))\<lparr>w_bd_mtx := False\<rparr>"
  have "unat (of_nat (length ?as) :: u64) = length ?as" using assms(4) by (simp add: unat_of_nat)
  then have n0: "(of_nat (length ?as) :: u64) \<noteq> 0" using assms(3) by (metis length_0_conv unat_0)
  have c1: "bd_countvms w = (of_nat (length ?as), ?w1)"
    using free calm_locks [OF assms(2)] by (simp add: bd_countvms_def bd_lock_ok bd_unlock_ok count)
  let ?w3 = "(tock (tock ?w1))\<lparr>w_bd_mtx := True\<rparr>"
  have l: "bd_lock (tock ?w1) = (False, ?w3)" using calm_locks [OF assms(2)] by (simp add: bd_lock_ok)
  have "calm ?w3" using assms(2) by simp
  from collect_vminfos_ok [OF this vms] obtain w4 where
    k: "collect_vminfos ?as bd ?w3 = (map (\<lambda>a. Some (vm_info_of bd a)) ?as, bd, w4)" "quiet ?w3 w4" by blast
  have d4: "calm w4" "w_bd_mtx w4" "w_bd_msgcount w4 = w_bd_msgcount w"
    using calm_quiet [OF \<open>calm ?w3\<close> k(2)] quiet_dir [OF k(2)] by (simp_all add: tock_def)
  let ?w5 = "(tock w4)\<lparr>w_bd_mtx := False\<rparr>"
  have u: "bd_unlock w4 = (False, ?w5)" using calm_locks [OF d4(1)] d4(2) by (simp add: bd_unlock_ok)
  let ?w6 = "(tock ((tock ?w5)\<lparr>w_bd_mtx := True\<rparr>))\<lparr>w_bd_mtx := False\<rparr>"
  have m: "bd_getmsgcount ?w5 = (w_bd_msgcount w, ?w6)"
    using calm_locks [OF d4(1)] d4(3) by (simp add: bd_getmsgcount_def bd_lock_ok bd_unlock_ok tock_def)
  have cnt: "unat (of_nat (length ?as) :: u64) = length ?as" using assms(4) by (simp add: unat_of_nat)
  have "bd_getinfo bd w = (Some (manager_info (map (vm_info_of bd) ?as) (w_bd_msgcount w)), bd, tock (tock ?w6))"
    using c1 n0 l k(1) u m assms(2) d4(1) cnt
    by (simp add: bd_getinfo_def calm_malloc bvmmi_new_def manager_info_def comp_def)
  with d4(1) show ?thesis by simp
qed

section \<open>Commands\<close>

lemma decode_value_quiet: "quiet w (snd (snd (decode_value L nvl k t s w)))"
  by (cases t) (auto simp: sys_malloc_def sys_try_def ask_def quiet_def Let_def split: option.split)

lemma decode_quiet: "quiet w (snd (snd (bcmd_decodenvlist L ms s nvl w)))"
proof (induction ms arbitrary: s w)
  case (Cons m ms)
  obtain o1 s1 w1 where d: "decode_value L nvl (pm_varname m) (pm_value_type m) s w = (o1, s1, w1)"
    by (metis prod_cases3)
  have "quiet w w1" using decode_value_quiet [of w L nvl "pm_varname m" "pm_value_type m" s] d by simp
  moreover have "quiet w1 (snd (snd (bcmd_decodenvlist L ms s2 nvl w1)))" for s2 by (rule Cons.IH)
  ultimately have "quiet w (snd (snd (bcmd_decodenvlist L ms s2 nvl w1)))" for s2 by (rule quiet_trans)
  then show ?case using d \<open>quiet w w1\<close> by (simp split: option.split)
qed simp

lemma parse_quiet:
  fixes w :: "'m dirworld_scheme"
  assumes "nv_laws L" and "nv_works L" and "packed_command L c b" and "\<forall>n. os_malloc (w_os w) n"
  shows "\<exists>u. bcmd_parse_nvlistcmd L b bcmd_zero w = (0, copy_items bhyve_command_nv c bcmd_zero, u) \<and> quiet w u"
proof -
  obtain u where u: "bcmd_parse_nvlistcmd L b bcmd_zero w = (0, copy_items bhyve_command_nv c bcmd_zero, u)"
    using parse_packed [OF assms] by blast
  have "quiet w (snd (snd (bcmd_parse_nvlistcmd L b bcmd_zero w)))"
    by (simp add: bcmd_parse_nvlistcmd_def nvlist_unpack_def quiet_trans [OF quiet_basic(1) decode_quiet]
        split: option.split)
  with u show ?thesis by auto
qed

text \<open>The callback up to the command: the message is counted, the packed command parsed.\<close>

lemma recv_parsed:
  fixes w :: "'m dirworld_scheme"
  assumes "nv_laws L" and "nv_works L" and "packed_command L c b" and "\<forall>n. os_malloc (w_os w) n"
    and "locks_ok (w_os w)" and "\<not> w_bd_mtx w" and "length b < 2 ^ 64"
  shows "\<exists>u. w_os u = w_os w \<and> w_bd_mtx u = w_bd_mtx w \<and> w_bd_statelist u = w_bd_statelist w \<and>
    w_bd_rebootlist u = w_bd_rebootlist w \<and> w_bd_msgcount u = w_bd_msgcount w + 1 \<and>
    bd_recv_ondata L (Some bd) uid pid ''BHYV'' (b @ rest) (of_nat (length b)) bmr w =
      Option.bind (case bcmd_cmd c of None \<Rightarrow> None | Some cmd \<Rightarrow> bd_run_command L bd cmd (bcmd_vmname c) bmr u)
        bd_answer"
proof -
  let ?w1 = "(tock w)\<lparr>w_bd_mtx := True\<rparr>"
  let ?w2 = "(tock (?w1\<lparr>w_bd_msgcount := w_bd_msgcount w + 1\<rparr>))\<lparr>w_bd_mtx := False\<rparr>"
  have l: "bd_lock w = (False, ?w1)" using assms(5,6) by (rule bd_lock_ok)
  have u: "bd_unlock (?w1\<lparr>w_bd_msgcount := w_bd_msgcount w + 1\<rparr>) = (False, ?w2)"
    using assms(5) by (simp add: bd_unlock_ok)
  have mc: "w_bd_msgcount ?w1 = w_bd_msgcount w" by (simp add: tock_def)
  have "\<forall>n. os_malloc (w_os ?w2) n" using assms(4) by simp
  from parse_quiet [OF assms(1-3) this] obtain u where
    p: "bcmd_parse_nvlistcmd L b bcmd_zero ?w2 = (0, copy_items bhyve_command_nv c bcmd_zero, u)" "quiet ?w2 u"
    by blast
  have cmd: "bcmd_cmd (copy_items bhyve_command_nv c bcmd_zero) = bcmd_cmd c"
    "bcmd_vmname (copy_items bhyve_command_nv c bcmd_zero) = bcmd_vmname c" by (simp_all only: copy_command) simp_all
  have len: "unat (of_nat (length b) :: u64) = length b" using assms(7) by (simp add: unat_of_nat)
  have dir: "w_os u = w_os w" "w_bd_mtx u = w_bd_mtx w" "w_bd_statelist u = w_bd_statelist w"
    "w_bd_rebootlist u = w_bd_rebootlist w" "w_bd_msgcount u = w_bd_msgcount w + 1"
    using quiet_dir [OF p(2)] assms(6) by (simp_all add: tock_def)
  show ?thesis
    by (rule exI [of _ u], intro conjI dir)
       (cases "bcmd_cmd c"; simp add: bd_recv_ondata_def l u mc p(1) cmd len Let_def)
qed

end
