(* ===== verification/Subscriber.thy ===== *)
theory Subscriber
  imports Socket_Handle Director_Commands
begin

text \<open>
  \<open>src/vmstated/subscriber.c\<close>: the object between the socket and the director. To the socket it is a
  listener, to the director a message provider; it hands the connection's reply collector to the
  director as reply manager. It is the context of its own listener.
\<close>

type_synonym 'w src_replymgr = "(socket_reply_collector option, 'w) bhyve_messagesub_replymgr"

type_synonym ('d, 'w) vmsms_callback =
  "'d option \<Rightarrow> u32 \<Rightarrow> int \<Rightarrow> string \<Rightarrow> bytes \<Rightarrow> u64 \<Rightarrow> 'w src_replymgr option \<Rightarrow> 'w
   \<Rightarrow> (int \<times> 'd option \<times> 'w src_replymgr option \<times> 'w) option"

record ('d, 'w) vmstated_message_subscriber =
  vmsms_bd :: "'d option"
  vmsms_on_data :: "('d, 'w) vmsms_callback option"

definition vmsms_replymgr :: "socket_reply_collector option \<Rightarrow> ('m world_scheme) src_replymgr" where
  "vmsms_replymgr src = \<lparr>bmr_ctx = src, bmr_short_reply = src_short_reply, bmr_reply = src_reply\<rparr>"

text \<open>Without a subscribed director the code calls a null pointer.\<close>

definition vmsms_onrecv_data :: "(('d, 'm world_scheme) vmstated_message_subscriber, 'm world_scheme) on_data" where
  "vmsms_onrecv_data uid pid cmd buffer bufferlen src vmsms w =
     (case vmsms_on_data vmsms of
        None \<Rightarrow> None
      | Some f \<Rightarrow>
          map_option (\<lambda>(r, bd, bmr, w'). (r, bmr_ctx (the bmr), vmsms\<lparr>vmsms_bd := bd\<rparr>, w'))
            (f (vmsms_bd vmsms) uid pid cmd buffer bufferlen (Some (vmsms_replymgr src)) w))"

definition vmsms_subscribe_ondata ::
  "('d, 'w) vmstated_message_subscriber option \<Rightarrow> 'd option \<Rightarrow> ('d, 'w) vmsms_callback \<Rightarrow> 'm world_scheme
   \<Rightarrow> int \<times> ('d, 'w) vmstated_message_subscriber option \<times> 'm world_scheme" where
  "vmsms_subscribe_ondata vms ctx on_data w =
     (case vms of
        None \<Rightarrow> (-1, None, set_errno EINVAL w)
      | Some v \<Rightarrow> (0, Some (v\<lparr>vmsms_bd := ctx, vmsms_on_data := Some on_data\<rparr>), w))"

definition vmsms_getmessagesub_obj ::
  "('d, 'm world_scheme) vmstated_message_subscriber option \<Rightarrow> 'm world_scheme
   \<Rightarrow> (('d, 'm world_scheme) vmstated_message_subscriber, 'd, ('d, 'm world_scheme) vmsms_callback, 'm world_scheme)
        bhyve_messagesub_obj option \<times> 'm world_scheme" where
  "vmsms_getmessagesub_obj vmsms w =
     (case vmsms of
        None \<Rightarrow> (None, set_errno EINVAL w)
      | Some v \<Rightarrow> (Some \<lparr>bmo_obj = Some v, bmo_subscribe_ondata = vmsms_subscribe_ondata\<rparr>, w))"

definition vmsms_new ::
  "(('d, 'm world_scheme) vmstated_message_subscriber, 'm world_scheme) socket_handle option \<Rightarrow> 'm world_scheme
   \<Rightarrow> ('d, 'm world_scheme) vmstated_message_subscriber option
      \<times> (('d, 'm world_scheme) vmstated_message_subscriber, 'm world_scheme) socket_handle option
      \<times> 'm world_scheme" where
  "vmsms_new sh w =
     (let (ok, w1) = sys_malloc w
      in if \<not> ok then (None, sh, w1)
         else (let (r, sh1, w2) = sh_subscribe_ondata sh (Some vmsms_onrecv_data) w1
               in (if r \<noteq> 0 then None else Some \<lparr>vmsms_bd = None, vmsms_on_data = None\<rparr>, sh1, w2)))"

end
