(* ===== verification/Socket_Contract.thy ===== *)
theory Socket_Contract
  imports Socket_Handle
begin

text \<open>
  Properties of the socket: the receive buffer of a connection as the sequence of the bytes received and
  not yet used, replies, and the life of the accept thread.
\<close>

section \<open>The receive buffer\<close>

definition shc_wf :: "socket_connection \<Rightarrow> bool" where
  "shc_wf c \<longleftrightarrow> length (shc_buffer c) = SHC_MAXTRANSPORTDATA \<and> unat (shc_bytes_read c) \<le> SHC_MAXTRANSPORTDATA"

definition shc_content :: "socket_connection \<Rightarrow> bytes" where
  "shc_content c = take (unat (shc_bytes_read c)) (shc_buffer c)"

lemma content_length: "shc_wf c \<Longrightarrow> length (shc_content c) = unat (shc_bytes_read c)"
  by (simp add: shc_wf_def shc_content_def)

lemma dropbytes_ok:
  assumes "shc_wf c" and "0 < count" and "count \<le> SHC_MAXTRANSPORTDATA" and "\<forall>n. os_malloc (w_os w) n"
  shows "\<exists>c' w'. shc_dropbytes c count w = (0, c', w') \<and> shc_wf c' \<and> shc_content c' = drop count (shc_content c) \<and>
    c' = c\<lparr>shc_buffer := shc_buffer c', shc_bytes_read := shc_bytes_read c'\<rparr> \<and> w_os w' = w_os w \<and> w_trace w' = w_trace w"
proof (cases "count = SHC_MAXTRANSPORTDATA \<or> unat (shc_bytes_read c) \<le> count")
  case True
  then have "length (shc_content c) \<le> count" using assms(1) content_length [OF assms(1)] by (auto simp: shc_wf_def)
  with True assms(2) show ?thesis by (simp add: shc_dropbytes_def shc_wf_def shc_content_def)
next
  case False
  then have lt: "count < unat (shc_bytes_read c)" "count < SHC_MAXTRANSPORTDATA" using assms(3) by auto
  have c: "unat (of_nat count :: u64) = count"
    using lt(2) by (simp add: unat_of_nat SHC_MAXTRANSPORTDATA_def)
  then have "of_nat count \<le> shc_bytes_read c" using lt(1) by (simp add: word_le_nat_alt)
  then have s: "unat (shc_bytes_read c - of_nat count) = unat (shc_bytes_read c) - count"
    using c by (simp add: unat_sub)
  let ?n = "SHC_MAXTRANSPORTDATA - count"
  let ?b = "drop count (shc_buffer c) @ drop ?n (take count (shc_buffer c) @ replicate ?n 0)"
  have len: "length (shc_buffer c) = SHC_MAXTRANSPORTDATA" "unat (shc_bytes_read c) \<le> SHC_MAXTRANSPORTDATA"
    using assms(1) by (simp_all add: shc_wf_def)
  have r: "shc_dropbytes c count w =
      (0, c\<lparr>shc_buffer := ?b, shc_bytes_read := shc_bytes_read c - of_nat count\<rparr>, tock w)"
    using False assms(2,4) len(1) by (simp add: shc_dropbytes_def sys_malloc_def sys_try_def ask_def)
  have "take (unat (shc_bytes_read c) - count) ?b = take (unat (shc_bytes_read c) - count) (drop count (shc_buffer c))"
    using len by simp
  also have "\<dots> = drop count (take (unat (shc_bytes_read c)) (shc_buffer c))" by (simp add: drop_take)
  finally show ?thesis using r s len lt by (simp add: shc_wf_def shc_content_def) arith
qed

text \<open>C30: Dropping bytes from the front is what it says: for a well-formed connection and memory for the copy,
  \<open>shc_dropbytes\<close> succeeds, and the bytes left are those after the first \<open>count\<close>; dropping as many as
  there are or more empties the buffer.\<close>

theorem shc_dropbytes_content:
  assumes "shc_wf c" and "0 < count" and "count \<le> SHC_MAXTRANSPORTDATA" and "\<forall>n. os_malloc (w_os w) n"
  shows "\<exists>c' w'. shc_dropbytes c count w = (0, c', w') \<and> shc_wf c' \<and> shc_content c' = drop count (shc_content c)"
  using dropbytes_ok [OF assms] by blast

definition demo_connection :: socket_connection where
  "demo_connection = \<lparr>shc_clientfd = 5, shc_uid = 0, shc_pid = 1, shc_bytes_read = 6, shc_zero_recv = 0,
     shc_buffer = [66, 72, 89, 86, 0, 7] @ replicate 1018 0, shc_src = None\<rparr>"

lemma demo_connection_wf [simp]: "shc_wf demo_connection"
  by (simp add: shc_wf_def demo_connection_def SHC_MAXTRANSPORTDATA_def)

theorem shc_dropbytes_content_witness:
  "\<exists>c' w'. shc_dropbytes demo_connection 4 (world0 calm_os) = (0, c', w') \<and> shc_wf c' \<and> shc_content c' = [0, 7]"
proof -
  have "shc_content demo_connection = [66, 72, 89, 86, 0, 7]" by (simp add: shc_content_def demo_connection_def)
  with shc_dropbytes_content [OF demo_connection_wf, of 4 "world0 calm_os"] show ?thesis
    by (simp add: SHC_MAXTRANSPORTDATA_def world0_def calm_os_def)
qed

section \<open>Reading\<close>

lemma read_loop_ok:
  fixes w :: "'m world_scheme"
  shows "shc_wf c \<Longrightarrow> remaining = of_nat SHC_MAXTRANSPORTDATA - shc_bytes_read c \<Longrightarrow> to_read \<le> remaining \<Longrightarrow>
    \<forall>n fd. os_recv (w_os w) n fd \<noteq> None \<Longrightarrow>
    \<exists>c' w' x. read_loop c remaining to_read ready w = Some (c', w') \<and> shc_wf c' \<and>
      shc_content c' = shc_content c @ x \<and>
      c' = c\<lparr>shc_buffer := shc_buffer c', shc_bytes_read := shc_bytes_read c'\<rparr> \<and>
      w_os w' = w_os w \<and> w_trace w' = w_trace w"
proof (induction "unat remaining" arbitrary: c remaining to_read ready w rule: less_induct)
  case less
  show ?case
  proof (cases "remaining = 0 \<or> ready = 0")
    case True
    with less.prems(1) show ?thesis by (simp add: read_loop.simps)
  next
    case False
    obtain bs0 where r: "os_recv (w_os w) (w_tick w) (shc_clientfd c) = Some bs0" using less.prems(4) by blast
    let ?bs = "take (unat to_read) bs0"
    have rv: "sys_recv (shc_clientfd c) to_read w = (Some ?bs, tock w)" using r by (simp add: sys_recv_def ask_def)
    show ?thesis
    proof (cases "?bs = []")
      case True
      with less.prems(1) False rv show ?thesis by (simp add: read_loop.simps)
    next
      case ne: False
      have M: "unat (of_nat SHC_MAXTRANSPORTDATA :: u64) = SHC_MAXTRANSPORTDATA"
        by (simp add: SHC_MAXTRANSPORTDATA_def)
      have buf: "length (shc_buffer c) = SHC_MAXTRANSPORTDATA" "unat (shc_bytes_read c) \<le> SHC_MAXTRANSPORTDATA"
        using less.prems(1) by (simp_all add: shc_wf_def)
      then have "shc_bytes_read c \<le> of_nat SHC_MAXTRANSPORTDATA" using M by (simp add: word_le_nat_alt)
      then have rem: "unat remaining = SHC_MAXTRANSPORTDATA - unat (shc_bytes_read c)"
        using less.prems(2) M by (simp add: unat_sub)
      have "length ?bs \<le> unat to_read" by simp
      also have "\<dots> \<le> unat remaining" using less.prems(3) by (simp add: word_le_nat_alt)
      finally have bs: "length ?bs \<le> unat remaining" "0 < length ?bs" using ne by blast+
      have small: "length ?bs \<le> SHC_MAXTRANSPORTDATA" using bs(1) rem by simp
      then have u: "unat (of_nat (length ?bs) :: u64) = length ?bs"
        by (simp only: unat_of_nat) (simp add: SHC_MAXTRANSPORTDATA_def)
      have sum: "unat (shc_bytes_read c + of_nat (length ?bs)) = unat (shc_bytes_read c) + length ?bs"
      proof -
        have "unat (shc_bytes_read c) + length ?bs < 2 ^ 64"
          using bs(1) rem buf(2) by (simp add: SHC_MAXTRANSPORTDATA_def del: length_take)
        with u show ?thesis by (simp add: unat_word_ariths del: length_take)
      qed
      define c1 where "c1 = c\<lparr>shc_buffer := take (unat (shc_bytes_read c)) (shc_buffer c) @ ?bs @
            drop (unat (shc_bytes_read c) + length ?bs) (shc_buffer c),
          shc_bytes_read := shc_bytes_read c + of_nat (length ?bs)\<rparr>"
      define rem1 where "rem1 = remaining - of_nat (length ?bs)"
      have "of_nat (length ?bs) \<le> remaining" using bs(1) u by (simp add: word_le_nat_alt)
      then have r1: "unat rem1 = unat remaining - length ?bs" using u by (simp add: rem1_def unat_sub)
      have "unat (shc_bytes_read c) + length ?bs \<le> length (shc_buffer c)" using bs(1) rem buf by linarith
      then have cp: "bcopy_to ?bs (unat (shc_bytes_read c)) (shc_buffer c) =
          Some (take (unat (shc_bytes_read c)) (shc_buffer c) @ ?bs @
            drop (unat (shc_bytes_read c) + length ?bs) (shc_buffer c))"
        by (simp add: bcopy_to_def del: length_take)
      have lt: "unat rem1 < unat remaining" using r1 bs by linarith
      have step: "read_loop c remaining to_read ready w =
          read_loop c1 rem1 (min ready rem1) (ready - of_nat (length ?bs)) (tock w)"
        using False rv ne cp
        by (subst read_loop.simps) (simp add: c1_def rem1_def del: length_take take_eq_Nil)
      have wf1: "shc_wf c1" using buf bs rem sum by (simp add: c1_def shc_wf_def)
      have "rem1 = of_nat SHC_MAXTRANSPORTDATA - shc_bytes_read c1"
        using less.prems(2) by (simp add: rem1_def c1_def algebra_simps)
      note IH0 = less.hyps [OF lt wf1 this, of "min ready rem1" "tock w" "ready - of_nat (length ?bs)"]
      obtain c' w' x where IH: "read_loop c1 rem1 (min ready rem1) (ready - of_nat (length ?bs)) (tock w) = Some (c', w')"
        "shc_wf c'" "shc_content c' = shc_content c1 @ x"
        "c' = c1\<lparr>shc_buffer := shc_buffer c', shc_bytes_read := shc_bytes_read c'\<rparr>"
        "w_os w' = w_os w" "w_trace w' = w_trace w"
        using IH0 less.prems(4) by (auto simp del: length_take)
      have "shc_content c1 = shc_content c @ ?bs" using buf sum by (simp add: c1_def shc_content_def) (simp add: min_def)
      then have "shc_content c' = shc_content c @ (?bs @ x)" using IH(3) by simp
      moreover have "c' = c\<lparr>shc_buffer := shc_buffer c', shc_bytes_read := shc_bytes_read c'\<rparr>"
        using IH(4) unfolding c1_def by simp
      ultimately show ?thesis using step IH by auto
    qed
  qed
qed



section \<open>Replies\<close>

text \<open>Sockets that take everything.\<close>

definition sends_all :: "os \<Rightarrow> bool" where
  "sends_all s \<longleftrightarrow> (\<forall>n k. os_write s n k = k)"

lemma send_all_ok:
  "sends_all (w_os w) \<Longrightarrow> bs \<noteq> [] \<Longrightarrow> send_all fd bs w = ([], emit (Sent fd bs) (tock w))"
  by (subst send_all.simps, simp add: sys_send_def ask_def sends_all_def, subst send_all.simps, simp)

lemma reply_msg_ok:
  "sends_all (w_os w) \<Longrightarrow>
   sh_reply_msg shc msg w = (0, emit (Sent (shc_clientfd shc) (bytes_of_string msg @ [0])) (tock w))"
  by (simp add: sh_reply_msg_def send_all_ok)

text \<open>C36: The reply collector of a connection is never emptied. Once a reply with data was stored (the
  answer to a status command), every later command of the same connection, whatever its result, is
  answered with all that data again, and the collector holds on to it.\<close>

theorem sh_answer_repeats_data:
  fixes w :: "'m world_scheme"
  assumes "calm w" and "sends_all (w_os w)" and "shc_src shc = Some src" and "\<not> stc_mtx (src_stc src)"
    and "stc_items (src_stc src) = bs" and "bs \<noteq> []" and "[] \<notin> set bs"
    and "length (show_nat (length (concat bs))) < 120"
  shows "\<exists>src' w'. sh_send_answer result shc w = Some (shc\<lparr>shc_src := Some src'\<rparr>, w') \<and>
    src_stc src' = src_stc src \<and>
    w_trace w' = w_trace w @
      [Sent (shc_clientfd shc) (bytes_of_string (''DATA '' @ show_nat (length (concat bs))) @ [0]),
       Sent (shc_clientfd shc) (concat bs)]"
proof -
  have size: "stc_getbuffersize (src_stc src) w = (length (concat bs), src_stc src, tock (tock w))"
    using size_calm [OF assms(1,4)] assms(5) by simp
  have ne: "concat bs \<noteq> []" using assms(6,7) by (cases bs) auto
  have has: "src_has_reply (Some src) w = (True, Some src, tock (tock w))"
    using size ne by (simp add: src_has_reply_def del: concat_eq_Nil_conv)
  have c: "calm (tock (tock w))" using assms(1) by simp
  from get_reply_calm [OF c assms(4-7)] obtain w' where
    g: "src_get_reply src (tock (tock w)) =
        Some (Some (concat bs, length (concat bs)), src\<lparr>src_collected_buffer := Some (concat bs)\<rparr>, w')"
      "w_os w' = w_os w" "w_trace w' = w_trace w" by auto
  let ?d = "''DATA '' @ show_nat (length (concat bs))"
  let ?w2 = "emit (Sent (shc_clientfd shc) (bytes_of_string ?d @ [0])) (tock w')"
  let ?w3 = "emit (Sent (shc_clientfd shc) (concat bs)) (tock ?w2)"
  have d: "snprintf_buf 128 ?d = ?d" using assms(8) by (intro snprintf_buf_short) simp
  have s1: "send_all (shc_clientfd shc) (bytes_of_string ?d @ [0]) w' = ([], ?w2)"
    using assms(2) g(2) by (intro send_all_ok) simp_all
  have s2: "send_all (shc_clientfd shc) (concat bs) ?w2 = ([], ?w3)"
    using assms(2) g(2) ne by (intro send_all_ok) (simp_all del: concat_eq_Nil_conv)
  have "sh_send_answer result shc w = Some (shc\<lparr>shc_src := Some (src\<lparr>src_collected_buffer := Some (concat bs)\<rparr>)\<rparr>, ?w3)"
    using has g(1) d s1 s2 assms(3) by (simp add: sh_send_answer_def sh_reply_data_def Let_def)
  then show ?thesis
    using g(3) by (intro exI [of _ "src\<lparr>src_collected_buffer := Some (concat bs)\<rparr>"] exI [of _ ?w3]) simp
qed

theorem sh_answer_repeats_data_witness:
  "\<exists>src' w'. sh_send_answer 162
       (demo_connection\<lparr>shc_src := Some \<lparr>src_stc = \<lparr>stc_mtx = False, stc_items = [[1], [2]]\<rparr>,
          src_short_replies = Some ''unknown vm'', src_collected_buffer = None\<rparr>\<rparr>) (world0 calm_os) =
     Some (demo_connection\<lparr>shc_src := Some src'\<rparr>, w') \<and>
     src_stc src' = \<lparr>stc_mtx = False, stc_items = [[1], [2]]\<rparr> \<and>
     w_trace w' = [Sent 5 (bytes_of_string ''DATA 2'' @ [0]), Sent 5 [1, 2]]"
proof -
  let ?src = "\<lparr>src_stc = \<lparr>stc_mtx = False, stc_items = [[1], [2]]\<rparr>,
          src_short_replies = Some ''unknown vm'', src_collected_buffer = None\<rparr>"
  have "show_nat 2 = ''2''" by code_simp
  moreover have "sends_all (w_os (world0 calm_os))" by (simp add: sends_all_def world0_def calm_os_def)
  ultimately show ?thesis
    using sh_answer_repeats_data [OF calm_world0, of "demo_connection\<lparr>shc_src := Some ?src\<rparr>" ?src "[[1], [2]]" 162]
    by (simp add: world0_def demo_connection_def numeral_2_eq_2 [symmetric])
qed

text \<open>The same holds for a short reply (without stored data): it answers every later command.\<close>

lemma sh_answer_short:
  fixes w :: "'m world_scheme"
  assumes "calm w" and "sends_all (w_os w)" and "shc_src shc = Some src" and "\<not> stc_mtx (src_stc src)"
    and "stc_items (src_stc src) = []" and "src_short_replies src = Some m"
    and "length (fmt04 (sint (word_of_int result :: u64)) @ '': '' @ m) < SHC_MAXTRANSPORTDATA"
  shows "sh_send_answer result shc w = Some (shc, emit (Sent (shc_clientfd shc)
      (bytes_of_string (fmt04 (sint (word_of_int result :: u64)) @ '': '' @ m) @ [0])) (tock (tock (tock w))))"
proof -
  have has: "src_has_reply (Some src) w = (False, Some src, tock (tock w))"
    using size_calm [OF assms(1,4)] assms(5) by (simp add: src_has_reply_def)
  have same: "shc\<lparr>shc_src := Some src\<rparr> = shc" using assms(3) by simp
  note s = snprintf_buf_short [OF assms(7)]
  have "sends_all (w_os (tock (tock w)))" using assms(2) by simp
  note r = reply_msg_ok [OF this]
  show ?thesis
    using has same s r assms(3,6)
    by (simp add: sh_send_answer_def src_has_short_reply_def src_get_short_reply_def sh_reply_shortmsg_def Let_def)
qed

lemma sh_answer_generic:
  fixes w :: "'m world_scheme"
  assumes "calm w" and "sends_all (w_os w)" and "shc_src shc = Some src" and "\<not> stc_mtx (src_stc src)"
    and "stc_items (src_stc src) = []" and "src_short_replies src = None"
  shows "sh_send_answer 0 shc w = Some (shc, emit (Sent (shc_clientfd shc)
      (bytes_of_string ''0000: OK'' @ [0])) (tock (tock (tock w))))"
proof -
  have has: "src_has_reply (Some src) w = (False, Some src, tock (tock w))"
    using size_calm [OF assms(1,4)] assms(5) by (simp add: src_has_reply_def)
  have same: "shc\<lparr>shc_src := Some src\<rparr> = shc" using assms(3) by simp
  have f: "fmt04 0 = ''0000''" by code_simp
  have "sends_all (w_os (tock (tock w)))" using assms(2) by simp
  note r = reply_msg_ok [OF this]
  show ?thesis
    using has same r assms(3,6)
    by (simp add: sh_send_answer_def src_has_short_reply_def sh_reply_genericmsg_def f SHC_MAXTRANSPORTDATA_def Let_def)
qed

section \<open>The life of the socket\<close>

lemma sh_lock_calm: "calm w \<Longrightarrow> \<not> sh_mtx sh \<Longrightarrow> sh_lock sh w = (False, sh\<lparr>sh_mtx := True\<rparr>, tock w)"
  by (simp add: sh_lock_def calm_lock)

lemma sh_unlock_calm: "calm w \<Longrightarrow> sh_mtx sh \<Longrightarrow> sh_unlock sh w = (False, sh\<lparr>sh_mtx := False\<rparr>, tock w)"
  by (simp add: sh_unlock_def calm_unlock)

text \<open>The system gives sockets and queues.\<close>

definition sockets_ok :: "'m world_scheme \<Rightarrow> bool" where
  "sockets_ok w \<longleftrightarrow> calm w \<and> (\<forall>n. os_kevent (w_os w) n \<and> os_sockop (w_os w) n \<and> 0 \<le> os_socket (w_os w) n)"

lemma sockets_cong [simp]:
  "sockets_ok (tock w) = sockets_ok w" "sockets_ok (emit e w) = sockets_ok w" "sockets_ok (set_errno er w) = sockets_ok w"
  by (simp_all add: sockets_ok_def)

lemma sockets_calm: "sockets_ok w \<Longrightarrow> calm w"
  by (simp add: sockets_ok_def)

lemma sockets_sys:
  "sockets_ok w \<Longrightarrow> sys_try e os_kevent w = (True, tock w)" "sockets_ok w \<Longrightarrow> sys_try e os_sockop w = (True, tock w)"
  by (simp_all add: sockets_ok_def sys_try_def ask_def)

definition sh_fresh :: "int \<Rightarrow> int \<Rightarrow> string \<Rightarrow> sh_state \<Rightarrow> ('c, 'w) socket_handle" where
  "sh_fresh fd kfd path s = \<lparr>sh_socketfd = fd, sh_keventfd = kfd, sh_sockpath = Some path, sh_state = s,
     sh_mtx = False, sh_thread_counter = 0, sh_listeners = [], sh_connections = []\<rparr>"

lemma sh_fresh_fields [simp]:
  "sh_state (sh_fresh fd kfd p s) = s" "\<not> sh_mtx (sh_fresh fd kfd p s)" "sh_thread_counter (sh_fresh fd kfd p s) = 0"
  by (simp_all add: sh_fresh_def)

lemma sh_new_ok:
  fixes w :: "'m world_scheme"
  assumes "sockets_ok w"
  shows "\<exists>fd kfd w'. sh_new (Some path) mode w =
    Some (Some (sh_fresh fd kfd path Ready :: ('c, 'w) socket_handle), w') \<and> sockets_ok w' \<and> still w w'"
proof -
  have c: "calm w" using assms by (rule sockets_calm)
  let ?w3 = "tock (tock (tock (set_errno E0 w)))"
  let ?fd = "os_socket (w_os w) (Suc (Suc (w_tick w)))" and ?kfd = "os_kqueue (w_os w) (Suc (w_tick w))"
  let ?sh = "\<lparr>sh_socketfd = ?fd, sh_keventfd = ?kfd, sh_sockpath = Some path, sh_state = Initializing,
     sh_mtx = False, sh_thread_counter = 0, sh_listeners = [], sh_connections = []\<rparr> :: ('c, 'w) socket_handle"
  have ev: "\<exists>w'. sh_new_events ?sh u = Some (Some (sh_fresh ?fd ?kfd path Ready), w') \<and> sockets_ok w' \<and> still w w'"
    if "sockets_ok u" "still w u" for u :: "'m world_scheme"
    using that sockets_calm [OF that(1)]
    by (simp add: sh_new_events_def calm_init sh_lock_calm sh_unlock_calm sockets_sys sh_fresh_def)
  have "0 \<le> ?fd" using assms by (simp add: sockets_ok_def)
  with assms c ev show ?thesis
    by - (rule exI [of _ ?fd], rule exI [of _ ?kfd], simp add: sh_new_def calm_malloc ask_def sockets_sys)
qed

lemma sh_start_ready:
  assumes "calm w" and "sh_state sh = Ready" and "\<not> sh_mtx sh"
  shows "\<exists>w'. sh_start (Some sh) w = Some (0, Some (sh\<lparr>sh_state := Running\<rparr>), w') \<and> still w w'"
  using assms
  by (cases sh) (simp add: sh_start_def sh_accept_begin_def sh_lock_calm sh_unlock_calm calm_init calm_cond Let_def)

lemma still_sockets: "still w v \<Longrightarrow> sockets_ok w \<Longrightarrow> sockets_ok v"
  by (simp add: still_def sockets_ok_def calm_def)

lemma sh_start_ok:
  assumes "sockets_ok w"
  shows "\<exists>w'. sh_start (Some (sh_fresh fd kfd path Ready)) w = Some (0, Some (sh_fresh fd kfd path Running), w') \<and>
    sockets_ok w'"
  using sh_start_ready [OF sockets_calm [OF assms], of "sh_fresh fd kfd path Ready"] still_sockets [OF _ assms]
  by (auto simp: sh_fresh_def)

lemma sh_start_again:
  assumes "sockets_ok w" and "sh_state_code Started \<le> sh_state_code s"
  shows "sh_start (Some (sh_fresh fd kfd path s)) w = Some (SH_ERR_ALREADYRUNNIN, Some (sh_fresh fd kfd path s), tock (tock w))"
  using assms(2) sockets_calm [OF assms(1)]
  by (simp add: sh_start_def sh_lock_calm sh_unlock_calm sh_fresh_def Let_def)

lemma sh_stop_idle:
  assumes "sockets_ok w" and "s \<noteq> Running"
  shows "sh_stop handled (Some (sh_fresh fd kfd path s)) w =
    Some (SH_ERR_TISNOTRUNNING, Some (sh_fresh fd kfd path s), tock (tock w))"
  using assms(2) sockets_calm [OF assms(1)]
  by (simp add: sh_stop_def sh_lock_calm sh_unlock_calm sh_fresh_def Let_def)

lemma sh_stop_running:
  assumes "sockets_ok w" and "sh_state sh = Running" and "\<not> sh_mtx sh" and "sh_thread_counter sh = 0"
  shows "\<exists>w'. sh_stop True (Some sh) w = Some (0, Some (sh\<lparr>sh_state := Stopped\<rparr>), w') \<and> still w w'"
  using assms sockets_calm [OF assms(1)]
  by (cases sh) (simp add: sh_stop_def sh_accept_end_def sh_lock_calm sh_unlock_calm sockets_sys calm_init Let_def)

lemma sh_stop_ok:
  assumes "sockets_ok w"
  shows "\<exists>w'. sh_stop True (Some (sh_fresh fd kfd path Running)) w = Some (0, Some (sh_fresh fd kfd path Stopped), w') \<and>
    sockets_ok w'"
  using sh_stop_running [OF assms, of "sh_fresh fd kfd path Running"] still_sockets [OF _ assms]
  by (auto simp: sh_fresh_def)

text \<open>The life of a socket with a working system: made, it is ready and cannot be stopped; started once,
  its thread runs and it cannot be started again; stopped after it served an event, it is stopped,
  and it can be neither stopped nor started again.\<close>

theorem sh_lifecycle:
  fixes w :: "'m world_scheme"
  assumes "sockets_ok w"
  shows "\<exists>(h :: ('c, 'w) socket_handle) w1. sh_new (Some path) mode w = Some (Some h, w1) \<and> sh_state h = Ready \<and>
    (\<exists>u. sh_stop handled (Some h) w1 = Some (SH_ERR_TISNOTRUNNING, Some h, u)) \<and>
    (\<exists>h2 w2. sh_start (Some h) w1 = Some (0, Some h2, w2) \<and> sh_state h2 = Running \<and>
      (\<exists>u. sh_start (Some h2) w2 = Some (SH_ERR_ALREADYRUNNIN, Some h2, u)) \<and>
      (\<exists>h3 w3. sh_stop True (Some h2) w2 = Some (0, Some h3, w3) \<and> sh_state h3 = Stopped \<and>
        (\<exists>u. sh_stop True (Some h3) w3 = Some (SH_ERR_TISNOTRUNNING, Some h3, u)) \<and>
        (\<exists>u. sh_start (Some h3) w3 = Some (SH_ERR_ALREADYRUNNIN, Some h3, u))))"
proof -
  obtain fd kfd w1 where n: "sh_new (Some path) mode w =
      Some (Some (sh_fresh fd kfd path Ready :: ('c, 'w) socket_handle), w1)" "sockets_ok w1"
    using sh_new_ok [OF assms] by blast
  obtain w2 where s: "sh_start (Some (sh_fresh fd kfd path Ready :: ('c, 'w) socket_handle)) w1 =
      Some (0, Some (sh_fresh fd kfd path Running), w2)" "sockets_ok w2"
    using sh_start_ok [OF n(2)] by blast
  obtain w3 where t: "sh_stop True (Some (sh_fresh fd kfd path Running :: ('c, 'w) socket_handle)) w2 =
      Some (0, Some (sh_fresh fd kfd path Stopped), w3)" "sockets_ok w3"
    using sh_stop_ok [OF s(2)] by blast
  have "\<exists>u. sh_stop handled (Some (sh_fresh fd kfd path Ready :: ('c, 'w) socket_handle)) w1 =
      Some (SH_ERR_TISNOTRUNNING, Some (sh_fresh fd kfd path Ready), u)"
    by (rule exI, rule sh_stop_idle [OF n(2)]) simp
  moreover have "\<exists>u. sh_stop True (Some (sh_fresh fd kfd path Stopped :: ('c, 'w) socket_handle)) w3 =
      Some (SH_ERR_TISNOTRUNNING, Some (sh_fresh fd kfd path Stopped), u)"
    by (rule exI, rule sh_stop_idle [OF t(2)]) simp
  moreover have "\<exists>u. sh_start (Some (sh_fresh fd kfd path Running :: ('c, 'w) socket_handle)) w2 =
      Some (SH_ERR_ALREADYRUNNIN, Some (sh_fresh fd kfd path Running), u)"
    by (rule exI, rule sh_start_again [OF s(2)]) simp
  moreover have "\<exists>u. sh_start (Some (sh_fresh fd kfd path Stopped :: ('c, 'w) socket_handle)) w3 =
      Some (SH_ERR_ALREADYRUNNIN, Some (sh_fresh fd kfd path Stopped), u)"
    by (rule exI, rule sh_start_again [OF t(2)]) simp
  ultimately show ?thesis
    by (intro exI [of _ "sh_fresh fd kfd path Ready"] exI [of _ w1]) (simp add: n(1) s(1) t(1))
qed

theorem sh_lifecycle_witness:
  "\<exists>(h :: (nat, world) socket_handle) w1. sh_new (Some ''/var/run/vmstated.sock'') 432 (world0 calm_os) = Some (Some h, w1) \<and>
    sh_state h = Ready \<and>
    (\<exists>h2 w2. sh_start (Some h) w1 = Some (0, Some h2, w2) \<and> sh_state h2 = Running)"
proof -
  have "sockets_ok (world0 calm_os)" by (simp add: sockets_ok_def) (simp add: world0_def calm_os_def)
  from sh_lifecycle [OF this, where 'c = nat and 'w = world, of "''/var/run/vmstated.sock''" 432 True] show ?thesis by blast
qed

text \<open>The accept thread looks at the argument of its last handler when it ends. A socket that is stopped
  before its thread served any event brings the daemon down: that argument is a null pointer.\<close>

theorem sh_stop_unused_crashes:
  fixes w :: "'m world_scheme"
  assumes "calm w" and "\<not> sh_mtx h" and "sh_state h = Running"
  shows "sh_stop False (Some h) w = None"
  using assms
  by (simp add: sh_stop_def sh_accept_end_def sh_lock_calm sh_unlock_calm Let_def split_def sys_try_def ask_def)

theorem sh_stop_unused_crashes_witness:
  "sh_stop False (Some (sh_fresh 5 6 ''/s'' Running :: (nat, world) socket_handle)) (world0 calm_os) = None"
  by (rule sh_stop_unused_crashes) simp_all

end
