(* ===== verification/Message_Contract.thy ===== *)
theory Message_Contract
  imports Subscriber Socket_Contract Director_Cycle
begin

text \<open>
  Properties of a message on its way from the socket over the subscriber to the director and of the
  answer.
\<close>

section \<open>The director's callback\<close>

text \<open>Any client can end the daemon: a message whose packed list has no command word makes the director
  compare a null pointer.\<close>

theorem bd_recv_without_command:
  fixes w :: "'m dirworld_scheme"
  assumes "nv_laws L" and "nv_works L" and "packed_command L c b" and "bcmd_cmd c = None"
    and "\<forall>n. os_malloc (w_os w) n" and "locks_ok (w_os w)" and "\<not> w_bd_mtx w" and "length b < 2 ^ 64"
  shows "bd_recv_ondata L (Some bd) uid pid ''BHYV'' (b @ rest) (of_nat (length b)) bmr w = None"
  using recv_parsed [OF assms(1-3,5-8), of bd uid pid rest bmr] assms(4) by auto

lemma demo_packed: "packed_command demo_nv c (enc_many enc_pair (encode_items demo_nv bhyve_command_nv c []))"
  by (simp add: packed_command_def demo_nv_def)

lemma demo_command_small:
  assumes "bcmd_cmd c = None \<or> bcmd_cmd c = Some ''startvm'' \<or> bcmd_cmd c = Some ''status''"
    and "bcmd_vmname c = None \<or> bcmd_vmname c = Some ''one''" and "bcmd_result c = 0" and "bcmd_reply c = None"
  shows "length (enc_many enc_pair (encode_items demo_nv bhyve_command_nv c [])) < 2 ^ 64"
  using assms
  by (auto simp: enc_many_size bhyve_command_nv_def demo_nv_def enc_pair_def enc_string_def)

theorem bd_recv_without_command_witness:
  "bd_recv_ondata demo_nv (Some (demo_bd RUNNING [])) 0 1 ''BHYV''
     (enc_many enc_pair (encode_items demo_nv bhyve_command_nv bcmd_zero []) @ [0])
     (of_nat (length (enc_many enc_pair (encode_items demo_nv bhyve_command_nv bcmd_zero []))))
     (None :: (dirworld src_replymgr) option) (dirworld0 calm_os [1, 2]) = None"
  by (rule bd_recv_without_command [OF demo_nv_laws demo_nv_works demo_packed])
     (use demo_command_small [of bcmd_zero] in \<open>simp_all add: bcmd_zero_def locks_ok_def calm_os_def\<close>)

text \<open>C16: The answer to a status message tells the truth: with everything available, the message is counted,
  the director stays as it is, and the reply collector of the connection holds one more block, which a
  client decodes to the count of messages and the information about exactly the vms on the
  director's list, in that order: name, state, pid, last start and the texts of their configuration.\<close>

theorem bd_recv_status:
  fixes w :: "'m dirworld_scheme" and u :: "'k world_scheme"
  assumes "nv_laws L" and "nv_works L" and "packed_command L c b" and "bcmd_cmd c = Some ''status''"
    and "calm w" and "\<forall>n. os_malloc (w_os u) n" and "bd_wf bd w" and "length b < 2 ^ 64"
    and "w_bd_statelist w \<noteq> []" and "length (w_bd_statelist w) < 2 ^ 32"
    and "packed_small L (map (vm_info_of bd) (w_bd_statelist w))" and "\<not> stc_mtx (src_stc src)"
  shows "\<exists>w' reply u'.
    bd_recv_ondata L (Some bd) uid pid ''BHYV'' (b @ rest) (of_nat (length b)) (Some (vmsms_replymgr (Some src))) w =
      Some (0, Some bd, Some (vmsms_replymgr (Some
        (src\<lparr>src_stc := (src_stc src)\<lparr>stc_items := stc_items (src_stc src) @ [reply]\<rparr>\<rparr>))), w') \<and>
    bvmmi_decodebinary L reply u =
      Some (0, Some (manager_info (map (vm_info_of bd) (w_bd_statelist w)) (w_bd_msgcount w + 1)), u')"
proof -
  let ?mgr = "vmsms_replymgr (Some src) :: ('m dirworld_scheme) src_replymgr"
  have mem: "\<forall>n. os_malloc (w_os w) n" using assms(5) by (simp add: calm_def)
  have free: "\<not> w_bd_mtx w" using assms(7) by (simp add: bd_wf_def)
  obtain v where v: "w_os v = w_os w" "w_bd_mtx v = w_bd_mtx w" "w_bd_statelist v = w_bd_statelist w"
      "w_bd_rebootlist v = w_bd_rebootlist w" "w_bd_msgcount v = w_bd_msgcount w + 1"
    and r: "bd_recv_ondata L (Some bd) uid pid ''BHYV'' (b @ rest) (of_nat (length b)) (Some ?mgr) w =
      Option.bind (bd_run_command L bd ''status'' (bcmd_vmname c) (Some ?mgr) v) bd_answer"
    using recv_parsed [OF assms(1-3) mem calm_locks [OF assms(5)] free assms(8), of bd uid pid rest "Some ?mgr"]
      assms(4) by auto
  have "calm v" "bd_wf bd v" using assms(5,7) v by (simp_all add: calm_def bd_wf_def)
  from getinfo_ok [OF this(2,1)] v(3,5) assms(9,10) obtain w1 where
    g: "bd_getinfo bd v = (Some (manager_info (map (vm_info_of bd) (w_bd_statelist w)) (w_bd_msgcount w + 1)), bd, w1)"
      "calm w1" by auto
  let ?is = "map (vm_info_of bd) (w_bd_statelist w)"
  have "?is \<noteq> []" "length ?is < 2 ^ 32" using assms(9,10) by simp_all
  from manager_roundtrip [OF assms(1,2) g(2) assms(6) this assms(11), of "w_bd_msgcount w + 1"] obtain reply w2 u' where
    e: "bvmmi_encodebinary L (Some (manager_info ?is (w_bd_msgcount w + 1))) w1 = Some (0, Some reply, w2)" "calm w2"
      "bvmmi_decodebinary L reply u = Some (0, Some (manager_info ?is (w_bd_msgcount w + 1)), u')" by blast
  have ne: "reply \<noteq> []" using encodebinary_nonempty [OF assms(1) e(1)] .
  from store_calm [OF e(2) assms(12) ne]
  have "bd_run_command L bd ''status'' (bcmd_vmname c) (Some ?mgr) v =
      Some (0, bd, Some (vmsms_replymgr (Some
        (src\<lparr>src_stc := (src_stc src)\<lparr>stc_items := stc_items (src_stc src) @ [reply]\<rparr>\<rparr>))), tock (tock (tock (tock w2))))"
    using g(1) e(1) by (simp add: bd_run_command_def bd_reply_info_def vmsms_replymgr_def src_reply_def)
  with r e(3) show ?thesis by (auto simp: bd_answer_def BD_ERR_UNKNOWNVMNAME_def)
qed

lemma demo_infos_small: "packed_small demo_nv (map (vm_info_of (demo_bd RUNNING [])) [1, 2])"
proof -
  have "length (enc_many enc_pair (encode_items demo_nv vminfoitem2nvlist (vm_info_of (demo_bd RUNNING []) a) [])) < 2 ^ 32"
    if "a = 1 \<or> a = 2" for a
    using that
    by (auto simp: enc_many_size vminfoitem2nvlist_def demo_nv_def enc_pair_def enc_string_def vm_info_of_def
        demo_vm_def bc_zero_def bc_get_name_def bc_get_os_def bc_get_osversion_def bc_get_owner_def bc_get_group_def
        bc_get_description_def)
  then show ?thesis by (auto simp: packed_small_def packed_info_def demo_nv_def)
qed

definition demo_src :: socket_reply_collector where
  "demo_src = \<lparr>src_stc = \<lparr>stc_mtx = False, stc_items = []\<rparr>, src_short_replies = None, src_collected_buffer = None\<rparr>"

theorem bd_recv_status_witness:
  "\<exists>w' reply u'.
    bd_recv_ondata demo_nv (Some (demo_bd RUNNING [])) 0 1 ''BHYV''
      (enc_many enc_pair (encode_items demo_nv bhyve_command_nv (bcmd_zero\<lparr>bcmd_cmd := Some ''status''\<rparr>) []) @ [0])
      (of_nat (length (enc_many enc_pair (encode_items demo_nv bhyve_command_nv (bcmd_zero\<lparr>bcmd_cmd := Some ''status''\<rparr>) []))))
      (Some (vmsms_replymgr (Some demo_src))) (dirworld0 calm_os [1, 2]) =
      Some (0, Some (demo_bd RUNNING []), Some (vmsms_replymgr (Some
        (demo_src\<lparr>src_stc := (src_stc demo_src)\<lparr>stc_items := stc_items (src_stc demo_src) @ [reply]\<rparr>\<rparr>))), w') \<and>
    bvmmi_decodebinary demo_nv reply (world0 calm_os) =
      Some (0, Some (manager_info (map (vm_info_of (demo_bd RUNNING [])) (w_bd_statelist (dirworld0 calm_os [1, 2])))
        (w_bd_msgcount (dirworld0 calm_os [1, 2]) + 1)), u')"
proof (rule bd_recv_status [OF demo_nv_laws demo_nv_works demo_packed])
  show "calm (dirworld0 calm_os [1, 2])" by (simp add: calm_def calm_os_def)
  show "packed_small demo_nv (map (vm_info_of (demo_bd RUNNING [])) (w_bd_statelist (dirworld0 calm_os [1, 2])))"
    using demo_infos_small by simp
  show "bd_wf (demo_bd RUNNING []) (dirworld0 calm_os [1, 2])" using demo_bd_wf by simp
qed (use demo_command_small [of "bcmd_zero\<lparr>bcmd_cmd := Some ''status''\<rparr>"] in
      \<open>simp_all add: world0_def calm_os_def demo_src_def bcmd_zero_def\<close>)

section \<open>A connection that receives a message\<close>

text \<open>A connection to which nothing was sent yet, and the same after some bytes came in.\<close>

definition shc_fresh :: "socket_connection \<Rightarrow> bool" where
  "shc_fresh c \<longleftrightarrow> shc_bytes_read c = 0 \<and> shc_buffer c = replicate SHC_MAXTRANSPORTDATA 0"

definition shc_with :: "bytes \<Rightarrow> socket_connection \<Rightarrow> socket_connection" where
  "shc_with x c = c\<lparr>shc_buffer := x @ replicate (SHC_MAXTRANSPORTDATA - length x) 0, shc_bytes_read := of_nat (length x)\<rparr>"

lemma unat_length [simp]: "length x < SHC_MAXTRANSPORTDATA \<Longrightarrow> unat (of_nat (length x) :: u64) = length x"
  by (simp add: unat_of_nat SHC_MAXTRANSPORTDATA_def)

lemma shc_with_fields [simp]:
  "shc_clientfd (shc_with x c) = shc_clientfd c" "shc_src (shc_with x c) = shc_src c"
  "shc_uid (shc_with x c) = shc_uid c" "shc_pid (shc_with x c) = shc_pid c"
  "shc_bytes_read (shc_with x c) = of_nat (length x)"
  by (simp_all add: shc_with_def)

lemma shc_with_wf: "length x < SHC_MAXTRANSPORTDATA \<Longrightarrow> shc_wf (shc_with x c) \<and> shc_content (shc_with x c) = x"
  by (simp add: shc_wf_def shc_content_def) (simp add: shc_with_def)

lemma read_fresh:
  assumes "shc_fresh c" and "os_recv (w_os w) (w_tick w) (shc_clientfd c) = Some x" and "x \<noteq> []"
    and "length x < SHC_MAXTRANSPORTDATA"
  shows "sh_read_data (Some c) (of_nat (length x)) w = Some (0, Some (shc_with x c), tock w)"
proof -
  let ?n = "of_nat (length x) :: u64"
  have n: "?n \<noteq> 0" "?n \<le> of_nat SHC_MAXTRANSPORTDATA" "(of_nat SHC_MAXTRANSPORTDATA :: u64) \<noteq> 0"
    using assms(3,4) unat_length [OF assms(4)]
    by (auto simp: SHC_MAXTRANSPORTDATA_def word_le_nat_alt dest: arg_cong [of _ _ unat])
  have r: "sys_recv (shc_clientfd c) ?n w = (Some x, tock w)" using assms(2,4) by (simp add: sys_recv_def ask_def)
  have cp: "bcopy_to x (unat (shc_bytes_read c)) (shc_buffer c) = Some (x @ replicate (SHC_MAXTRANSPORTDATA - length x) 0)"
    using assms(1,4) by (simp add: bcopy_to_def shc_fresh_def)
  have "read_loop c (of_nat SHC_MAXTRANSPORTDATA) ?n ?n w = Some (shc_with x c, tock w)"
    using n r cp assms(1,3)
    by (subst read_loop.simps) (simp add: read_loop.simps [where ready = 0] shc_with_def shc_fresh_def)
  moreover have "min ?n (of_nat SHC_MAXTRANSPORTDATA) = ?n" using n(2) by (simp add: min_def)
  ultimately show ?thesis using assms(1) by (simp add: sh_read_data_def shc_fresh_def)
qed

lemma memchr0_append: "memchr0 (x @ y) = (case memchr0 x of Some i \<Rightarrow> Some i | None \<Rightarrow> map_option ((+) (length x)) (memchr0 y))"
  by (induction x; cases "memchr0 y") (auto split: option.split)

lemma memchr0_None: "memchr0 x = None \<longleftrightarrow> 0 \<notin> set x"
  by (induction x) auto

lemma memchr0_length: "memchr0 x = Some i \<Longrightarrow> i < length x"
  by (induction x arbitrary: i) (auto split: if_splits)

lemma c_string_word: "c_string (bytes_of_string ''BHYV'' @ 0 # r) = ''BHYV''"
  by (simp add: c_string_def bytes_of_string_def string_of_bytes_def) code_simp

lemma c_string_open: "0 \<notin> set x \<Longrightarrow> c_string (x @ replicate n 0) = string_of_bytes x"
  by (induction x) (auto simp: c_string_def string_of_bytes_def)

lemma keep_reading [simp]: "(0 :: u64) \<noteq> word_of_int SH_WRN_KEEPREADNMORE"
  by code_simp

text \<open>The frame of a message with the director's command word.\<close>

definition bhyv_frame :: "bytes \<Rightarrow> bytes" where
  "bhyv_frame b = bytes_of_string ''BHYV'' @ [0] @ b"

lemma parse_frame:
  assumes "length (bhyv_frame b) < SHC_MAXTRANSPORTDATA" and "memchr0 (b @ [0]) = Some i"
  shows "sh_try_cmdparsing (shc_with (bhyv_frame b) c) pd_zero w =
    Some (0, shc_with (bhyv_frame b) c,
      pd_zero\<lparr>pd_zerocmd := Some 4, pd_cmdlen := 4, pd_zerodata := Some (5 + i), pd_datalen := i\<rparr>, w)"
proof -
  let ?x = "bhyv_frame b" and ?c = "shc_with (bhyv_frame b) c"
  have word: "bytes_of_string ''BHYV'' = [66, 72, 89, 86]" by code_simp
  have buf: "shc_buffer ?c = ?x @ replicate (SHC_MAXTRANSPORTDATA - length ?x) 0" by (simp add: shc_with_def)
  have z: "memchr0 ?x = Some 4" by (simp add: bhyv_frame_def word)
  have nz: "(of_nat (length ?x) :: u64) \<noteq> 0" using unat_length [OF assms(1)] by (auto simp: bhyv_frame_def)
  obtain k where k: "SHC_MAXTRANSPORTDATA - length ?x = Suc k" using assms(1) by (cases "SHC_MAXTRANSPORTDATA - length ?x") auto
  have len: "length ?x = 5 + length b" by (simp add: bhyv_frame_def word)
  have "drop 5 (shc_buffer ?c) = b @ [0] @ replicate k 0"
    unfolding buf k by (simp add: bhyv_frame_def word)
  then have "memchr0 (take (SHC_MAXTRANSPORTDATA - 5) (drop 5 (shc_buffer ?c))) = Some i"
    using assms(2) k len memchr0_append [of "b @ [0]" "replicate k 0"] by simp
  then show ?thesis
    using z nz assms(1) buf
    by (simp add: sh_try_cmdparsing_def parse_data_def SH_CMDLEN_def)
qed

text \<open>The way of such a message through the socket to the director and back: the director's callback is
  called with the data, its result is answered, and the message is dropped.\<close>

definition bd_listener :: "(('d, 'm world_scheme) vmstated_message_subscriber, 'm world_scheme) socket_listener" where
  "bd_listener = \<lparr>shl_on_data = Some vmsms_onrecv_data\<rparr>"

definition bd_subscribed ::
  "'n nvlib \<Rightarrow> 'm bhyve_director \<Rightarrow> ('m bhyve_director, 'm dirworld_scheme) vmstated_message_subscriber" where
  "bd_subscribed L bd = \<lparr>vmsms_bd = Some bd, vmsms_on_data = Some (bd_recv_ondata L)\<rparr>"

lemma listeners_called:
  fixes w :: "'m dirworld_scheme"
  assumes "calm w" and "\<not> sh_mtx sh" and "sh_listeners sh = [bd_listener]"
    and "c_string (shc_buffer c) = cmd"
    and "bd_recv_ondata L (Some bd) (shc_uid c) (shc_pid c) cmd (drop (length cmd + 1) (shc_buffer c))
           (shc_bytes_read c - of_nat (length cmd) - 1) (Some (vmsms_replymgr (shc_src c))) (tock (tock w)) =
         Some (r, Some bd', Some (vmsms_replymgr src), w')"
    and "calm w'"
  shows "sh_call_listeners sh c (bd_subscribed L bd) w =
    Some (r, sh, c\<lparr>shc_src := src\<rparr>, bd_subscribed L bd', tock (tock w'))"
proof -
  have m: "(sh :: (('m bhyve_director, 'm dirworld_scheme) vmstated_message_subscriber, 'm dirworld_scheme) socket_handle)
      \<lparr>sh_mtx := False\<rparr> = sh" using assms(2) by simp
  have b: "bmr_ctx (vmsms_replymgr src :: ('m dirworld_scheme) src_replymgr) = src" by (simp add: vmsms_replymgr_def)
  show ?thesis
    using assms m b
    by (simp add: Let_def sh_call_listeners_def sh_lock_calm sh_unlock_calm bd_listener_def vmsms_onrecv_data_def bd_subscribed_def)
qed

lemma frame_called:
  fixes w :: "'m dirworld_scheme"
  assumes "length (bhyv_frame b) < SHC_MAXTRANSPORTDATA"
  shows "c_string (shc_buffer (shc_with (bhyv_frame b) c)) = ''BHYV''"
    and "drop (length ''BHYV'' + 1) (shc_buffer (shc_with (bhyv_frame b) c)) =
      b @ replicate (SHC_MAXTRANSPORTDATA - length (bhyv_frame b)) 0"
    and "shc_bytes_read (shc_with (bhyv_frame b) c) - of_nat (length ''BHYV'') - 1 = of_nat (length b)"
proof -
  have word: "bytes_of_string ''BHYV'' = [66, 72, 89, 86]" by code_simp
  show "c_string (shc_buffer (shc_with (bhyv_frame b) c)) = ''BHYV''"
    using c_string_word by (simp add: shc_with_def bhyv_frame_def)
  show "drop (length ''BHYV'' + 1) (shc_buffer (shc_with (bhyv_frame b) c)) =
      b @ replicate (SHC_MAXTRANSPORTDATA - length (bhyv_frame b)) 0"
    by (simp add: shc_with_def bhyv_frame_def word)
  show "shc_bytes_read (shc_with (bhyv_frame b) c) - of_nat (length ''BHYV'') - 1 = of_nat (length b)"
    by (simp add: bhyv_frame_def word)
qed

text \<open>A packed start command in the hands of the director.\<close>

lemma start_received:
  fixes w :: "'m dirworld_scheme"
  assumes "nv_laws L" and "nv_works L" and "packed_command L c b"
    and "bcmd_cmd c = Some ''startvm''" and "bcmd_vmname c = Some n" and "calm w" and "length b < 2 ^ 64"
    and "bd_wf bd w" and "find_vm bd n (w_bd_statelist w) = Some a" and "bd_vms bd a = Some v"
    and "psv_at (bwv_state v) s" and "s \<in> {INIT, STOPPED, RESTART_STOPPED}"
    and "start_works (w_os w) (bwv_state v)" and "bd_cgo bd = None"
    and "bwv_ldr v = None" and "psv_ldr (bwv_state v) = None"
    and "length (bwv_startups v) \<le> unat (bc_get_maxrestart (bwv_config v))"
  shows "\<exists>bd' w'. bd_recv_ondata L (Some bd) uid pid ''BHYV'' (b @ rest) (of_nat (length b)) (Some (mgr :: ('m dirworld_scheme) src_replymgr)) w =
      Some (0, Some bd', Some mgr, w') \<and> runs_again bd a bd' w' \<and> w_os w' = w_os w"
proof -
  have mem: "\<forall>n. os_malloc (w_os w) n" using assms(6) by (simp add: calm_def)
  have free: "\<not> w_bd_mtx w" using assms(8) by (simp add: bd_wf_def)
  obtain u where u: "w_os u = w_os w" "w_bd_mtx u = w_bd_mtx w" "w_bd_statelist u = w_bd_statelist w"
      "w_bd_rebootlist u = w_bd_rebootlist w"
    and rc: "bd_recv_ondata L (Some bd) uid pid ''BHYV'' (b @ rest) (of_nat (length b)) (Some mgr) w =
      Option.bind (bd_run_command L bd ''startvm'' (Some n) (Some mgr) u) bd_answer"
    using recv_parsed [OF assms(1-3) mem calm_locks [OF assms(6)] free assms(7), of bd uid pid rest "Some mgr"]
      assms(4,5) by auto
  have "bd_wf bd u" "find_vm bd n (w_bd_statelist u) = Some a" "start_works (w_os u) (bwv_state v)"
    using assms(8,9,13) u by (simp_all add: bd_wf_def)
  from startvm_runs [OF this(1,2) assms(10-12) this(3) assms(14-17)] obtain bd' w' where
    st: "bd_startvm bd (Some n) u = (0, bd', w')" "runs_again bd a bd' w'" "w_os w' = w_os u" by blast
  have "bd_recv_ondata L (Some bd) uid pid ''BHYV'' (b @ rest) (of_nat (length b)) (Some mgr) w =
      Some (0, Some bd', Some mgr, w')"
    using rc st(1) by (simp add: bd_run_command_def bd_answer_def BD_ERR_UNKNOWNVMNAME_def)
  with st(2,3) u(1) show ?thesis by (intro exI [of _ bd'] exI [of _ w']) simp
qed

text \<open>Dropping the message leaves what follows the first zero byte of the packed list.\<close>

lemma frame_dropped:
  assumes "length (bhyv_frame b) < SHC_MAXTRANSPORTDATA" and "memchr0 (b @ [0]) = Some i" and "\<forall>n. os_malloc (w_os w) n"
  shows "\<exists>c' w'. shc_dropbytes (shc_with (bhyv_frame b) shc) (i + 6) w = (0, c', w') \<and> shc_content c' = drop (i + 1) b \<and>
    shc_clientfd c' = shc_clientfd shc \<and> w_trace w' = w_trace w"
proof -
  let ?c = "shc_with (bhyv_frame b) shc"
  have "bytes_of_string ''BHYV'' = [66, 72, 89, 86]" by code_simp
  then have fx: "bhyv_frame b = [66, 72, 89, 86, 0] @ b" by (simp add: bhyv_frame_def)
  have "i \<le> length b" using memchr0_length [OF assms(2)] by simp
  with dropbytes_ok [OF shc_with_wf [OF assms(1), THEN conjunct1], of "i + 6" w shc] fx assms(1,3)
  obtain c' w' where d: "shc_dropbytes ?c (i + 6) w = (0, c', w')" "shc_content c' = drop (i + 6) (shc_content ?c)"
      "c' = ?c\<lparr>shc_buffer := shc_buffer c', shc_bytes_read := shc_bytes_read c'\<rparr>" "w_trace w' = w_trace w"
    by (auto simp: SHC_MAXTRANSPORTDATA_def)
  have "drop (i + 6) (bhyv_frame b) = drop (i + 1) b" unfolding fx drop_append by simp
  then have "shc_content c' = drop (i + 1) b" using d(2) shc_with_wf [OF assms(1), of shc] by simp
  moreover have "shc_clientfd c' = shc_clientfd shc" using d(3)
    by (metis shc_with_fields(1) socket_connection.surjective socket_connection.update_convs(4,6) socket_connection.select_convs(1))
  ultimately show ?thesis using d(1,4) by blast
qed


definition demo_packet :: bytes where
  "demo_packet = enc_many enc_pair (encode_items demo_nv bhyve_command_nv
     (bcmd_zero\<lparr>bcmd_cmd := Some ''startvm'', bcmd_vmname := Some ''one''\<rparr>) [])"

lemma demo_packet_facts:
  "length (bhyv_frame demo_packet) < SHC_MAXTRANSPORTDATA" "memchr0 (demo_packet @ [0]) = Some 1"
  "packed_command demo_nv (bcmd_zero\<lparr>bcmd_cmd := Some ''startvm'', bcmd_vmname := Some ''one''\<rparr>) demo_packet"
proof -
  have word: "bytes_of_string ''BHYV'' = [66, 72, 89, 86]" by code_simp
  show "length (bhyv_frame demo_packet) < SHC_MAXTRANSPORTDATA"
    by (simp add: bhyv_frame_def word demo_packet_def enc_many_size bhyve_command_nv_def demo_nv_def enc_pair_def
        enc_string_def bcmd_zero_def SHC_MAXTRANSPORTDATA_def)
  show "memchr0 (demo_packet @ [0]) = Some 1"
    by (simp add: demo_packet_def bhyve_command_nv_def demo_nv_def bcmd_zero_def)
  show "packed_command demo_nv (bcmd_zero\<lparr>bcmd_cmd := Some ''startvm'', bcmd_vmname := Some ''one''\<rparr>) demo_packet"
    unfolding demo_packet_def by (rule demo_packed)
qed

definition demo_os :: "bytes \<Rightarrow> os" where
  "demo_os x = calm_os\<lparr>os_recv := \<lambda>_ _. Some x\<rparr>"

lemma demo_os_works: "start_works (demo_os x) (bwv_state (demo_vm a n s t))"
proof -
  have "psv_ldr (bwv_state (demo_vm a n s t)) = None" by (simp add: demo_vm_def)
  from scripts_ok_exit0 [OF this, of "demo_os x"] have "scripts_ok (demo_os x) (bwv_state (demo_vm a n s t))"
    by (simp add: demo_os_def calm_os_def)
  then show ?thesis by (simp add: start_works_def locks_ok_def demo_os_def calm_os_def)
qed

lemma demo_os_fields [simp]:
  "calm (dirworld0 (demo_os x) as)" "sends_all (demo_os x)" "os_recv (demo_os x) n fd = Some x"
  by (simp_all add: calm_def sends_all_def demo_os_def calm_os_def)

definition demo_client :: socket_connection where
  "demo_client = \<lparr>shc_clientfd = 5, shc_uid = 0, shc_pid = 1, shc_bytes_read = 0, shc_zero_recv = 0,
     shc_buffer = replicate SHC_MAXTRANSPORTDATA 0, shc_src = Some demo_src\<rparr>"

lemma demo_client_fields [simp]:
  "shc_fresh demo_client" "shc_src demo_client = Some demo_src" "shc_clientfd demo_client = 5"
  "\<not> stc_mtx (src_stc demo_src)" "stc_items (src_stc demo_src) = []" "src_short_replies demo_src = None"
  by (simp_all add: demo_client_def shc_fresh_def demo_src_def)

definition demo_handle ::
  "((unit bhyve_director, dirworld) vmstated_message_subscriber, dirworld) socket_handle" where
  "demo_handle = (sh_fresh 8 9 ''/var/run/vmstated.sock'' Running)
     \<lparr>sh_listeners := [bd_listener], sh_connections := [demo_client]\<rparr>"

lemma demo_handle_fields [simp]: "\<not> sh_mtx demo_handle" "sh_listeners demo_handle = [bd_listener]"
  by (simp_all add: demo_handle_def)


text \<open>C35: A message that arrives in pieces is lost. When the first piece has no zero byte yet (a part of the
  command word and nothing else), the parser reports neither an error nor that more is to be read:
  the subscribers are called, the client gets the answer \<open>0000: OK\<close> to a command it has not sent, and
  the first two bytes are dropped from the buffer.\<close>

theorem sh_client_piece:
  fixes w :: "'m dirworld_scheme"
  assumes "calm w" and "sends_all (w_os w)" and "os_recv (w_os w) (w_tick w) (shc_clientfd shc) = Some x"
    and "0 \<notin> set x" and "2 < length x" and "length x < SHC_MAXTRANSPORTDATA" and "string_of_bytes x \<noteq> ''BHYV''"
    and "shc_fresh shc" and "shc_src shc = Some src" and "\<not> stc_mtx (src_stc src)"
    and "stc_items (src_stc src) = []" and "src_short_replies src = None"
    and "\<not> sh_mtx sh" and "sh_listeners sh = [bd_listener]" and "\<not> w_bd_mtx w"
  shows "\<exists>shc' w'. sh_client_data sh shc (of_nat (length x)) (bd_subscribed L bd) w =
      Some (put_shc shc' sh, bd_subscribed L bd, w') \<and>
    seen (Sent (shc_clientfd shc) (bytes_of_string ''0000: OK'' @ [0])) w' \<and>
    shc_content shc' = drop 2 x"
proof -
  let ?c = "shc_with x shc" and ?w1 = "tock w"
  have ne: "x \<noteq> []" using assms(5) by auto
  have rd: "sh_read_data (Some shc) (of_nat (length x)) w = Some (0, Some ?c, ?w1)"
    by (rule read_fresh [OF assms(8,3) ne assms(6)])
  have buf: "shc_buffer ?c = x @ replicate (SHC_MAXTRANSPORTDATA - length x) 0" by (simp add: shc_with_def)
  have nz: "(of_nat (length x) :: u64) \<noteq> 0" using unat_length [OF assms(6)] ne by auto
  have ps: "sh_try_cmdparsing ?c pd_zero ?w1 = Some (0, ?c, pd_zero, ?w1)"
    using assms(4,6) nz memchr0_None [of x] buf by (simp add: sh_try_cmdparsing_def) (simp add: pd_zero_def)
  have cs: "c_string (shc_buffer ?c) = string_of_bytes x" using c_string_open [OF assms(4)] buf by simp
  let ?w3 = "tock (tock ?w1)"
  let ?w5 = "(tock (tock ?w3))\<lparr>w_bd_mtx := False, w_bd_msgcount := w_bd_msgcount w + 1\<rparr>"
  have locks: "locks_ok (w_os ?w3)" using calm_locks [OF assms(1)] by simp
  have "\<exists>w5. bd_recv_ondata L (Some bd) uid pid (string_of_bytes x) data len (Some (vmsms_replymgr (Some src))) ?w3 =
      Some (0, Some bd, Some (vmsms_replymgr (Some src)), w5) \<and> calm w5 \<and> w_os w5 = w_os w" for uid pid data len
    using assms(1,7,15) locks
    by (simp add: bd_recv_ondata_def bd_lock_ok bd_unlock_ok tock_def) (simp add: calm_def)
  then obtain w5 where rc: "bd_recv_ondata L (Some bd) (shc_uid ?c) (shc_pid ?c) (string_of_bytes x)
        (drop (length (string_of_bytes x) + 1) (shc_buffer ?c))
        (shc_bytes_read ?c - of_nat (length (string_of_bytes x)) - 1) (Some (vmsms_replymgr (Some src))) ?w3 =
      Some (0, Some bd, Some (vmsms_replymgr (Some src)), w5)" "calm w5" "w_os w5 = w_os w" by blast
  have "calm ?w1" using assms(1) by simp
  have cl: "sh_call_listeners sh ?c (bd_subscribed L bd) ?w1 = Some (0, sh, ?c, bd_subscribed L bd, tock (tock w5))"
    using listeners_called [OF \<open>calm ?w1\<close> assms(13,14) cs, of L bd 0 bd "Some src" w5] rc assms(9) by simp
  let ?w6 = "emit (Sent (shc_clientfd ?c) (bytes_of_string ''0000: OK'' @ [0])) (tock (tock (tock (tock (tock w5)))))"
  have sa: "sh_send_answer 0 ?c (tock (tock w5)) = Some (?c, ?w6)"
    by (rule sh_answer_generic) (use rc(2,3) assms(2,9-12) in simp_all)
  have "\<forall>n. os_malloc (w_os ?w6) n" using rc(2) by (simp add: calm_def)
  with dropbytes_ok [OF shc_with_wf [OF assms(6), THEN conjunct1], of 2 ?w6 shc]
  obtain c' w7 where d: "shc_dropbytes ?c 2 ?w6 = (0, c', w7)" "shc_content c' = drop 2 (shc_content ?c)"
      "w_trace w7 = w_trace ?w6"
    by (auto simp: SHC_MAXTRANSPORTDATA_def)
  have z: "pd_errcode pd_zero = 0" "pd_cmdlen pd_zero = 0" "pd_datalen pd_zero = 0" by (simp_all add: pd_zero_def)
  have "sh_client_data sh shc (of_nat (length x)) (bd_subscribed L bd) w = Some (put_shc c' sh, bd_subscribed L bd, w7)"
    using rd ps cl sa d(1) [unfolded numeral_2_eq_2] z
    by (simp add: sh_client_data_def sh_process_def shc_dropmessage_def)
  moreover have "seen (Sent (shc_clientfd shc) (bytes_of_string ''0000: OK'' @ [0])) w7"
    using d(3) by (simp add: seen_def)
  moreover have "shc_content c' = drop 2 x" using d(2) shc_with_wf [OF assms(6), of shc] by simp
  ultimately show ?thesis by blast
qed

theorem sh_client_piece_witness:
  "\<exists>shc' w'. sh_client_data demo_handle demo_client 3 (bd_subscribed demo_nv (demo_bd STOPPED []))
       (dirworld0 (demo_os (bytes_of_string ''BHY'')) [1, 2]) =
      Some (put_shc shc' demo_handle, bd_subscribed demo_nv (demo_bd STOPPED []), w') \<and>
    seen (Sent (shc_clientfd demo_client) (bytes_of_string ''0000: OK'' @ [0])) w' \<and>
    shc_content shc' = drop 2 (bytes_of_string ''BHY'')"
proof -
  let ?x = "bytes_of_string ''BHY''"
  have word: "?x = [66, 72, 89]" by code_simp
  have "string_of_bytes ?x \<noteq> ''BHYV''" by (simp add: string_of_bytes_def word)
  with sh_client_piece [of "dirworld0 (demo_os ?x) [1, 2]" demo_client ?x demo_src demo_handle demo_nv "demo_bd STOPPED []"]
  show ?thesis by (simp add: word SHC_MAXTRANSPORTDATA_def)
qed

end
