(* ===== verification/Client_Contract.thy ===== *)
theory Client_Contract
  imports Control_Program Message_Contract
begin

text \<open>
  What the client sends and receives: the message that the daemon parses, the block of bytes that the
  daemon announces, the fault in the loop that writes the message, and the control program's run of a
  start command.
\<close>

section \<open>Sending\<close>

lemma send_size_all:
  assumes "sends_all (w_os w)" and "bs \<noteq> []" and "length bs < 2 ^ 64"
  shows "sys_send_size fd bs w = (of_nat (length bs), emit (Sent fd bs) (tock w))"
  using assms by (simp add: sys_send_size_def ask_def sends_all_def)

lemma unat_small: "n \<le> SHC_MAXTRANSPORTDATA \<Longrightarrow> unat (of_nat n :: u64) = n"
  by (simp add: unsigned_of_nat take_bit_nat_eq_self SHC_MAXTRANSPORTDATA_def)

lemma send_length_nat:
  "length command + length d + 1 \<le> SHC_MAXTRANSPORTDATA \<Longrightarrow>
   send_length command (Some d) (of_nat (length d)) = of_nat (length command + length d + 1)"
  by (simp add: send_length_def)

lemma bytes_of_string_append [simp]: "bytes_of_string (s @ t) = bytes_of_string s @ bytes_of_string t"
  and bytes_of_string_length [simp]: "length (bytes_of_string s) = length s"
  by (simp_all add: bytes_of_string_def)

lemma send_buffer_message:
  assumes "length command + length d + 1 \<le> SHC_MAXTRANSPORTDATA"
  shows "\<exists>rest. send_buffer command (Some d) (of_nat (length d)) = Some ((bytes_of_string command @ [0] @ d) @ rest) \<and>
    length ((bytes_of_string command @ [0] @ d) @ rest) = SHC_MAXTRANSPORTDATA"
proof -
  have u: "unat (of_nat (length d) :: u64) = length d" using assms by (intro unat_small) simp
  have z: "bytes_of_string (snprintf_buf SHC_MAXTRANSPORTDATA (command @ [CHR 0x00])) @
      replicate (SHC_MAXTRANSPORTDATA - length (bytes_of_string (snprintf_buf SHC_MAXTRANSPORTDATA (command @ [CHR 0x00])))) 0
    = bytes_of_string command @ replicate (SHC_MAXTRANSPORTDATA - length command) 0"
  proof (cases "length command + 1 < SHC_MAXTRANSPORTDATA")
    case True
    then have "SHC_MAXTRANSPORTDATA - length command = Suc (SHC_MAXTRANSPORTDATA - Suc (length command))" by simp
    with True show ?thesis by (simp add: bytes_of_string_def)
  next
    case False
    with assms have "length command = SHC_MAXTRANSPORTDATA - 1" "SHC_MAXTRANSPORTDATA - length command = 1"
      by (auto simp: SHC_MAXTRANSPORTDATA_def)
    then show ?thesis by (simp add: snprintf_buf_def)
  qed
  have r: "replicate (SHC_MAXTRANSPORTDATA - length command) (0 :: u8) =
      0 # replicate (length d) 0 @ replicate (SHC_MAXTRANSPORTDATA - length command - 1 - length d) 0"
    using assms by (simp flip: replicate_Suc replicate_add)
  show ?thesis
    using assms unfolding send_buffer_def Let_def z
    by (intro exI [of _ "replicate (SHC_MAXTRANSPORTDATA - length command - 1 - length d) 0"])
       (simp add: u bcopy_to_def r)
qed

lemma send_pieces_whole:
  assumes "sends_all (w_os w)" and "unat n = length m" and "m \<noteq> []" and "length m < 2 ^ 64"
  shows "send_pieces fd (m @ rest) n 0 0 w = Some (emit (Sent fd m) (tock w))"
proof -
  have n: "of_nat (length m) = n" using assms(2) [symmetric] by simp
  have "n \<noteq> 0" using assms(2,3) by auto
  with n send_size_all [OF assms(1,3,4), of fd] assms(2) show ?thesis
    by (subst send_pieces.simps) (simp add: send_pieces.simps [where bytes_total = n])
qed

lemma transmit_whole:
  assumes "sends_all (w_os w)" and "\<forall>n. os_sockop (w_os w) n"
    and "length command + length d + 1 \<le> SHC_MAXTRANSPORTDATA"
  shows "sc_transmit sc command (Some d) (of_nat (length d)) w =
    Some (True, tock (emit (Sent (sc_clientfd sc) (bytes_of_string command @ [0] @ d)) (tock (tock w))))"
proof -
  let ?m = "bytes_of_string command @ [0] @ d" and ?n = "of_nat (length command + length d + 1) :: u64"
  obtain rest where b: "send_buffer command (Some d) (of_nat (length d)) = Some (?m @ rest)"
    "length (?m @ rest) = SHC_MAXTRANSPORTDATA" using send_buffer_message [OF assms(3)] by blast
  have u: "unat ?n = length command + length d + 1" using assms(3) by (rule unat_small)
  have le: "\<not> of_nat SHC_MAXTRANSPORTDATA < ?n"
    using assms(3) u unat_small [of SHC_MAXTRANSPORTDATA] by (simp add: word_less_nat_alt)
  have "send_pieces (sc_clientfd sc) (?m @ rest) ?n 0 0 (tock w) = Some (emit (Sent (sc_clientfd sc) ?m) (tock (tock w)))"
    by (rule send_pieces_whole) (use assms(1,3) u in \<open>simp_all add: SHC_MAXTRANSPORTDATA_def\<close>)
  then show ?thesis
    unfolding sc_transmit_def send_length_nat [OF assms(3)] Let_def
    using le assms(2) b(1) by (simp add: ask_def)
qed

section \<open>Receiving\<close>

text \<open>The answers to the reads from step \<open>t\<close> on.\<close>

definition replies_from :: "os \<Rightarrow> int \<Rightarrow> nat \<Rightarrow> bytes list \<Rightarrow> bool" where
  "replies_from s fd t cs \<longleftrightarrow> (\<forall>i < length cs. os_recv s (t + i) fd = Some (cs ! i))"

lemma replies_from_simps [simp]:
  "replies_from s fd t []"
  "replies_from s fd t (c # cs) \<longleftrightarrow> os_recv s t fd = Some c \<and> replies_from s fd (Suc t) cs"
  by (auto simp: replies_from_def nth_Cons' split: nat.splits)
     (metis Suc_pred add_Suc_right add_Suc_shift not_gr_zero Suc_less_eq)+

lemma replies_from_append [simp]:
  "replies_from s fd t (cs @ ds) \<longleftrightarrow> replies_from s fd t cs \<and> replies_from s fd (t + length cs) ds"
  by (induction cs arbitrary: t) auto

lemma tocks [simp]:
  "w_os ((tock ^^ n) w) = w_os w" "w_tick ((tock ^^ n) w) = w_tick w + n" "w_trace ((tock ^^ n) w) = w_trace w"
  "w_errno ((tock ^^ n) w) = w_errno w" "calm ((tock ^^ n) w) = calm w"
  by (induction n) (simp_all add: tock_def calm_def)

lemma recv_chunk:
  "os_recv (w_os w) (w_tick w) fd = Some c \<Longrightarrow> length c \<le> unat n \<Longrightarrow> sys_recv fd n w = (Some c, tock w)"
  by (simp add: sys_recv_def ask_def)

lemma recv_four_chunks:
  assumes "replies_from (w_os w) fd (w_tick w) (cs @ [[]])" and "[] \<notin> set cs" and "length pre + length (concat cs) = 4"
  shows "recv_four fd (pre @ replicate (5 - length pre) 0) (of_nat (length pre)) w =
    Some (pre @ concat cs @ [0], (tock ^^ (length cs + 1)) w)"
  using assms
proof (induction cs arbitrary: pre w)
  case Nil
  then have "sys_recv fd (4 - of_nat (length pre)) w = (Some [], tock w)" by (intro recv_chunk) simp_all
  with Nil(3) show ?case by (subst recv_four.simps) simp
next
  case (Cons c cs)
  have "0 < length c" and c: "c \<noteq> []" using Cons.prems(2) by auto
  then have small: "length pre < 4" "length c \<le> 4 - length pre" using Cons.prems(3) by (simp_all del: length_greater_0_conv)
  then have u: "unat (4 - of_nat (length pre) :: u64) = 4 - length pre"
    using unat_sub [of "of_nat (length pre) :: u64" 4] by (simp add: word_le_nat_alt unsigned_of_nat take_bit_nat_eq_self)
  have r: "sys_recv fd (4 - of_nat (length pre)) w = (Some c, tock w)"
    using Cons.prems(1) small u by (intro recv_chunk) simp_all
  have p: "unat (of_nat (length pre) :: u64) = length pre" using small by (intro unat_small) (simp add: SHC_MAXTRANSPORTDATA_def)
  have b: "bcopy_to c (length pre) (pre @ replicate (5 - length pre) 0) =
      Some ((pre @ c) @ replicate (5 - length (pre @ c)) 0)"
    using small by (simp add: bcopy_to_def)
  have "recv_four fd ((pre @ c) @ replicate (5 - length (pre @ c)) 0) (of_nat (length (pre @ c))) (tock w) =
      Some ((pre @ c) @ concat cs @ [0], (tock ^^ (length cs + 1)) (tock w))"
    using Cons.prems by (intro Cons.IH) (simp_all add: tock_def)
  with r p b c show ?case by (subst recv_four.simps) (simp add: funpow_swap1)
qed

lemma recv_four_word:
  assumes "replies_from (w_os w) fd (w_tick w) (cs @ [[]])" and "[] \<notin> set cs" and "concat cs = x" and "length x = 4"
  shows "recv_four fd (replicate 5 0) 0 w = Some (x @ [0], (tock ^^ (length cs + 1)) w)"
  using recv_four_chunks [OF assms(1,2), of "[]"] assms(3,4) by simp

lemma recv_number_bytes:
  assumes "replies_from (w_os w) fd (w_tick w) (map (\<lambda>b. [b]) (ds @ [0]))" and "0 \<notin> set ds"
    and "length pre + length ds < length (pre @ old)" and "length (pre @ old) \<le> SHC_MAXTRANSPORTDATA"
  shows "recv_number fd (of_nat (length (pre @ old))) (of_nat (length pre)) (pre @ old) w =
    Some (True, pre @ ds @ 0 # drop (length ds + 1) old, (tock ^^ (length ds + 1)) w)"
  using assms
proof (induction ds arbitrary: pre old w)
  case Nil
  then obtain o1 os1 where old: "old = o1 # os1" by (cases old) auto
  have p: "unat (of_nat (length pre) :: u64) = length pre" using Nil(4) by (intro unat_small) simp
  have r: "sys_recv fd 1 w = (Some [0], tock w)" using Nil(1) by (intro recv_chunk) simp_all
  show ?case using r p old by (subst recv_number.simps) (simp add: bcopy_to_def)
next
  case (Cons d ds)
  then obtain o1 os1 where old: "old = o1 # os1" by (cases old) auto
  have p: "unat (of_nat (length pre) :: u64) = length pre" using Cons.prems(4) by (intro unat_small) simp
  have r: "sys_recv fd 1 w = (Some [d], tock w)" using Cons.prems(1) by (intro recv_chunk) simp_all
  have lt: "\<not> of_nat (length (pre @ old)) \<le> (of_nat (length pre) + 1 :: u64)"
  proof -
    have "unat (of_nat (length (pre @ old)) :: u64) = length (pre @ old)" using Cons.prems(4) by (rule unat_small)
    moreover have "unat (of_nat (length pre + 1) :: u64) = length pre + 1"
      using Cons.prems(3,4) by (intro unat_small) simp
    ultimately show ?thesis using Cons.prems(3) by (simp add: word_le_nat_alt add.commute)
  qed
  have e: "(pre @ [d]) @ os1 = pre @ d # os1" by simp
  have "recv_number fd (of_nat (length ((pre @ [d]) @ os1))) (of_nat (length (pre @ [d]))) ((pre @ [d]) @ os1) (tock w) =
      Some (True, (pre @ [d]) @ ds @ 0 # drop (length ds + 1) os1, (tock ^^ (length ds + 1)) (tock w))"
    using Cons.prems old by (intro Cons.IH) (simp_all add: tock_def)
  with r p old lt Cons.prems(2) show ?case
    by (subst recv_number.simps) (simp add: bcopy_to_def nth_append funpow_swap1 add.commute)
qed

lemma recv_blob_chunks:
  assumes "replies_from (w_os w) fd (w_tick w) cs" and "[] \<notin> set cs" and "length pre + length (concat cs) < 2 ^ 64"
  shows "recv_blob fd (of_nat (length (concat cs))) (of_nat (length pre)) (pre @ replicate (length (concat cs)) 0) w =
    Some (pre @ concat cs, of_nat (length pre + length (concat cs)), (tock ^^ length cs) w)"
  using assms
proof (induction cs arbitrary: pre w)
  case Nil
  then show ?case by (subst recv_blob.simps) simp
next
  case (Cons c cs)
  let ?n = "length (concat (c # cs))"
  have u: "unat (of_nat ?n :: u64) = ?n" "unat (of_nat (length pre) :: u64) = length pre"
    using Cons.prems(3) by (simp_all only: unsigned_of_nat) (simp_all add: take_bit_nat_eq_self)
  have c: "c \<noteq> []" using Cons.prems(2) by auto
  then have n0: "(of_nat ?n :: u64) \<noteq> 0" using u(1) by (metis add_is_0 concat.simps(2) length_0_conv length_append unat_0)
  have r: "sys_recv fd (of_nat ?n) w = (Some c, tock w)" using Cons.prems(1) u(1) by (intro recv_chunk) simp_all
  have b: "bcopy_to c (length pre) (pre @ replicate ?n 0) = Some ((pre @ c) @ replicate (length (concat cs)) 0)"
    by (simp add: bcopy_to_def)
  have "recv_blob fd (of_nat (length (concat cs))) (of_nat (length (pre @ c))) ((pre @ c) @ replicate (length (concat cs)) 0) (tock w) =
      Some ((pre @ c) @ concat cs, of_nat (length (pre @ c) + length (concat cs)), (tock ^^ length cs) (tock w))"
    using Cons.prems by (intro Cons.IH) (simp_all add: tock_def)
  with r u(2) b n0 c show ?case by (subst recv_blob.simps) (simp add: funpow_swap1 algebra_simps)
qed

lemma recv_blob_whole:
  assumes "replies_from (w_os w) fd (w_tick w) cs" and "[] \<notin> set cs" and "concat cs = x" and "length x < 2 ^ 64"
  shows "recv_blob fd (of_nat (length x)) 0 (replicate (length x) 0) w = Some (x, of_nat (length x), (tock ^^ length cs) w)"
  using recv_blob_chunks [OF assms(1,2), of "[]"] assms(3,4) by simp

lemma unat_of_char: "unat (of_char c :: u8) = of_char c"
proof -
  have "(of_char c :: nat) < 2 ^ 8" by simp
  then show ?thesis
    by (subst of_nat_of_char [symmetric]) (simp only: unsigned_of_nat, simp add: take_bit_nat_eq_self)
qed

lemma digit_byte_char: "c \<in> set (show_nat n) \<Longrightarrow> digit_byte (of_char c)"
  using show_nat_digits [of c n] by (simp add: digit_byte_def word_le_nat_alt unat_of_char)

lemma digits_value_append: "digits_value (ds @ [d]) = 10 * digits_value ds + (uint d - 48)"
  by (simp add: digits_value_def)

lemma uint_digit: "d < 10 \<Longrightarrow> uint (of_char (digit_char d) :: u8) - 48 = int d"
  by (simp add: uint_nat unat_of_char of_char_digit)

lemma digits_value_show: "digits_value (bytes_of_string (show_nat n)) = int n"
proof (induction n rule: show_nat.induct)
  case (1 n)
  show ?case
  proof (cases "n < 10")
    case True
    then show ?thesis
      using digits_value_append [of "[]"] uint_digit [of n]
      by (simp add: show_nat.simps [of n] bytes_of_string_def) (simp add: digits_value_def)
  next
    case False
    have "int n = 10 * int (n div 10) + int (n mod 10)" by presburger
    with 1 False show ?thesis
      by (simp add: show_nat.simps [of n]) (simp add: bytes_of_string_def digits_value_append uint_digit)
  qed
qed

lemma atoll_prefix:
  assumes "int n < 2 ^ 63" and "\<not> digit_byte c"
  shows "atoll (bytes_of_string (show_nat n) @ c # rest) w = Some (int n, w)"
proof -
  let ?ds = "bytes_of_string (show_nat n)"
  have all: "\<forall>b \<in> set ?ds. digit_byte b" by (auto simp: bytes_of_string_def digit_byte_char)
  have ne: "?ds \<noteq> []" by (simp add: bytes_of_string_def)
  then obtain d ds where d: "?ds = d # ds" by (cases ?ds) auto
  then have "digit_byte d" using all by simp
  then have "d \<noteq> 32" "\<not> (9 \<le> d \<and> d \<le> 13)" "9 \<le> d \<Longrightarrow> \<not> d \<le> 13" "d \<noteq> 45" "d \<noteq> 43"
    by (auto simp: digit_byte_def word_le_nat_alt)
  then have ws: "dropWhile (\<lambda>b. b = 32 \<or> 9 \<le> b \<and> b \<le> 13) (?ds @ c # rest) = ?ds @ c # rest"
    and hd: "hd (?ds @ c # rest) \<noteq> 45" "hd (?ds @ c # rest) \<noteq> 43"
    using d by auto
  have tw: "takeWhile digit_byte (?ds @ c # rest) = ?ds" using all assms(2) by simp
  show ?thesis
    using assms hd ne by (simp add: atoll_def ws tw digits_value_show Let_def)
qed

lemma atoll_number: "int n < 2 ^ 63 \<Longrightarrow> atoll (bytes_of_string (show_nat n) @ 0 # rest) w = Some (int n, w)"
  by (rule atoll_prefix) (simp_all add: digit_byte_def)

section \<open>Properties\<close>

text \<open>C11: The client gets the data that the daemon announces. When the socket takes the message and delivers,
  in pieces of any size, the word \<open>DATA\<close>, the length as the daemon prints it and as many bytes, the call
  returns 0 with exactly these bytes as its block; on the socket went the command, a zero byte and the
  data. The caller's buffer must have room for the length.\<close>

theorem sc_sendrecv_dynamic_data:
  fixes w :: "'m world_scheme"
  assumes "calm w" and "sends_all (w_os w)" and "\<forall>n. os_sockop (w_os w) n"
    and "length command + length d + 1 \<le> SHC_MAXTRANSPORTDATA"
    and "length retbuffer \<le> SHC_MAXTRANSPORTDATA" and "length (show_nat (length blob)) + 6 \<le> length retbuffer"
    and "int (length blob) < 2 ^ 63"
    and "[] \<notin> set cs" and "concat cs = bytes_of_string ''DATA''" and "[] \<notin> set ds" and "concat ds = blob"
    and "announce = cs @ [[]] @ map (\<lambda>b. [b]) (bytes_of_string ('' '' @ show_nat (length blob)) @ [0])"
    and "replies_from (w_os w) (sc_clientfd sc) (w_tick w + 3) announce"
    and "replies_from (w_os w) (sc_clientfd sc) (w_tick w + 4 + length announce) ds"
  shows "\<exists>b w'. sc_sendrecv_dynamic (Some sc) (Some command) (Some d) (of_nat (length d)) retbuffer
      (of_nat (length retbuffer)) blob0 len0 w = Some (0, b, Some blob, of_nat (length blob), w') \<and>
    w_trace w' = w_trace w @ [Sent (sc_clientfd sc) (bytes_of_string command @ [0] @ d)]"
proof -
  let ?fd = "sc_clientfd sc" and ?n = "length blob"
  let ?num = "bytes_of_string ('' '' @ show_nat ?n)"
  let ?w1 = "tock (emit (Sent ?fd (bytes_of_string command @ [0] @ d)) (tock (tock w)))"
  let ?w2 = "(tock ^^ (length cs + 1)) ?w1" and ?pre = "take 4 retbuffer" and ?old = "drop 4 retbuffer"
  let ?w3 = "(tock ^^ (length ?num + 1)) ?w2"
  have t1: "w_os ?w1 = w_os w" "w_tick ?w1 = w_tick w + 3" by (simp_all add: tock_def emit_def)
  note send = transmit_whole [OF assms(2-4), of sc]
  have all: "replies_from (w_os ?w1) ?fd (w_tick ?w1) (cs @ [[]] @ map (\<lambda>b. [b]) (?num @ [0]))"
    using assms(13) unfolding t1 assms(12) .
  then have first: "replies_from (w_os ?w1) ?fd (w_tick ?w1) (cs @ [[]])" by simp
  have four: "recv_four ?fd (replicate 5 0) 0 ?w1 = Some (bytes_of_string ''DATA'' @ [0], ?w2)"
    by (rule recv_four_word [OF first assms(8,9)]) simp
  have str: "c_string (bytes_of_string ''DATA'' @ [0]) = ''DATA''" by code_simp
  have "\<not> digit_byte 0" by (simp add: digit_byte_def)
  then have z: "0 \<notin> set ?num" using digit_byte_char [of _ ?n] by (fastforce simp: bytes_of_string_def)
  have len: "length ?pre = 4" "length ?pre + length ?num < length (?pre @ ?old)" using assms(6) by simp_all
  have "replies_from (w_os ?w2) ?fd (w_tick ?w2) (map (\<lambda>b. [b]) (?num @ [0]))"
    using all by (simp add: add.commute add.left_commute)
  note number = recv_number_bytes [OF this z len(2)]
  let ?b = "?pre @ ?num @ 0 # drop (length ?num + 1) ?old"
  have num: "recv_number ?fd (of_nat (length retbuffer)) 4 retbuffer ?w2 = Some (True, ?b, ?w3)"
    using number assms(5) len(1) by simp
  have drop: "drop 5 ?b = bytes_of_string (show_nat ?n) @ 0 # drop (length ?num + 1) ?old"
    using len(1) by (simp add: bytes_of_string_def)
  note int = atoll_number [OF assms(7), of "drop (length ?num + 1) ?old" "set_errno E0 ?w3"]
  let ?w4 = "tock (set_errno E0 ?w3)"
  have "calm (set_errno E0 ?w3)" using assms(1) by simp
  note mem = calm_malloc [OF this]
  have t4: "w_tick ?w4 = w_tick w + 4 + length announce" "w_os ?w4 = w_os w"
    using assms(12) t1 by (simp_all add: tock_def set_errno_def)
  have "recv_blob ?fd (of_nat ?n) 0 (replicate ?n 0) ?w4 = Some (blob, of_nat ?n, (tock ^^ length ds) ?w4)"
    by (rule recv_blob_whole [OF _ assms(10,11)]) (use assms(7,14) in \<open>simp_all only: t4, simp_all\<close>)
  moreover have "unat (of_nat ?n :: u64) = ?n" using assms(7) by (simp add: unsigned_of_nat take_bit_nat_eq_self)
  ultimately have "recv_data ?fd retbuffer (of_nat (length retbuffer)) blob0 len0 ?w2 =
      Some (0, ?b, Some blob, of_nat ?n, (tock ^^ length ds) ?w4)"
    using num drop int mem by (simp add: recv_data_def set_errno_def del: drop_append)
  then show ?thesis
    using send four str by (simp add: sc_sendrecv_dynamic_def)
qed

definition demo_stream :: os where
  "demo_stream = calm_os\<lparr>os_recv := \<lambda>t _. Some (if t = 3 then [68, 65, 84, 65] else if t = 4 then [] else if t = 5 then [32]
     else if t = 6 then [50] else if t = 7 then [0] else [1, 2])\<rparr>"

theorem sc_sendrecv_dynamic_data_witness:
  "\<exists>b w'. sc_sendrecv_dynamic (Some \<lparr>sc_clientfd = 5, sc_sockpath = ''/tmp/s''\<rparr>) (Some ''BHYV'') (Some [7, 8]) (of_nat (length [7 :: u8, 8]))
      (replicate 16 0) (of_nat (length (replicate 16 (0 :: u8)))) None 0 (world0 demo_stream) = Some (0, b, Some [1, 2], of_nat (length [1 :: u8, 2]), w') \<and>
    w_trace w' = w_trace (world0 demo_stream) @ [Sent 5 (bytes_of_string ''BHYV'' @ [0] @ [7, 8])]"
proof -
  let ?a = "[[68, 65, 84, 65]] @ [[]] @ map (\<lambda>b. [b]) (bytes_of_string ('' '' @ show_nat (length [1 :: u8, 2])) @ [0])"
  let ?w = "world0 demo_stream" and ?sc = "\<lparr>sc_clientfd = 5, sc_sockpath = ''/tmp/s''\<rparr>"
  have s2: "show_nat (Suc (Suc 0)) = ''2''" by code_simp
  have a: "?a = [[68, 65, 84, 65], [], [32], [50], [0]]" by (simp add: s2) (simp add: bytes_of_string_def)
  have c: "calm ?w" "sends_all (w_os ?w)" "\<forall>n. os_sockop (w_os ?w) n"
    by (simp_all add: calm_def sends_all_def world0_def demo_stream_def calm_os_def)
  have d: "concat [[68, 65, 84, 65]] = bytes_of_string ''DATA''" by code_simp
  show ?thesis
    using sc_sendrecv_dynamic_data [OF c, of "''BHYV''" "[7, 8]" "replicate 16 0" "[1, 2]" "[[68, 65, 84, 65]]" "[[1, 2]]" ?a ?sc None 0] d
    by (simp only: a) (simp add: s2 world0_def demo_stream_def SHC_MAXTRANSPORTDATA_def)
qed

text \<open>One round of the loop that writes the message, and the round that leaves the buffer.\<close>

lemma send_pieces_round:
  assumes "length buf \<le> SHC_MAXTRANSPORTDATA" and "n \<le> SHC_MAXTRANSPORTDATA" and "pos \<le> length buf" and "pos \<noteq> n" and "s < n"
  shows "length buf < pos + (n - s) \<Longrightarrow> send_pieces fd buf (of_nat n) (of_nat s) (of_nat pos) w = None"
    and "pos + (n - s) \<le> length buf \<Longrightarrow> 0 < k \<Longrightarrow> k \<le> n - s \<Longrightarrow> os_write (w_os w) (w_tick w) (int (n - s)) = int k \<Longrightarrow>
      send_pieces fd buf (of_nat n) (of_nat s) (of_nat pos) w =
      send_pieces fd buf (of_nat n) (of_nat k) (of_nat (pos + k)) (emit (Sent fd (take k (drop pos buf))) (tock w))"
proof -
  have un: "unat (of_nat n :: u64) = n" "unat (of_nat pos :: u64) = pos" "unat (of_nat (n - s) :: u64) = n - s"
    by (rule unat_small, use assms in simp)+
  have diff: "of_nat n - of_nat s = (of_nat (n - s) :: u64)" using assms(5) by (simp add: of_nat_diff)
  have go: "of_nat n - of_nat pos \<noteq> (0 :: u64)" using un assms(4) by auto
  show "length buf < pos + (n - s) \<Longrightarrow> send_pieces fd buf (of_nat n) (of_nat s) (of_nat pos) w = None"
    using go un by (subst send_pieces.simps) (simp add: diff)
  show "send_pieces fd buf (of_nat n) (of_nat s) (of_nat pos) w =
      send_pieces fd buf (of_nat n) (of_nat k) (of_nat (pos + k)) (emit (Sent fd (take k (drop pos buf))) (tock w))"
    if k: "pos + (n - s) \<le> length buf" "0 < k" "k \<le> n - s" "os_write (w_os w) (w_tick w) (int (n - s)) = int k"
  proof -
    have l: "length (take (n - s) (drop pos buf)) = n - s" using k(1) by simp
    have "sys_send_size fd (take (n - s) (drop pos buf)) w = (of_nat k, emit (Sent fd (take k (drop pos buf))) (tock w))"
      using k(2-4) l by (simp add: sys_send_size_def ask_def min_absorb2 min_absorb1 del: length_take length_drop)
    moreover have "unat (of_nat k :: u64) = k" by (rule unat_small) (use k(3) assms(2) in simp)
    then have "(of_nat k :: u64) \<noteq> 0" using k(2) by auto
    ultimately show ?thesis
      using go un k(1) by (subst send_pieces.simps) (simp add: diff Let_def)
  qed
qed

text \<open>A loop that went past the end of the message does not stop inside of the buffer.\<close>

lemma send_pieces_past:
  assumes "length buf \<le> SHC_MAXTRANSPORTDATA" and "n < pos" and "pos \<le> length buf" and "0 < s" and "s < n"
    and "\<forall>t \<ge> w_tick w. \<forall>m. os_write (w_os w) t m = m"
  shows "send_pieces fd buf (of_nat n) (of_nat s) (of_nat pos) w = None"
  using assms(2-)
proof (induction "SHC_MAXTRANSPORTDATA - pos" arbitrary: pos s w rule: less_induct)
  case less
  have n: "n \<le> SHC_MAXTRANSPORTDATA" "pos \<noteq> n" using less.prems assms(1) by auto
  show ?case
  proof (cases "length buf < pos + (n - s)")
    case True
    then show ?thesis using send_pieces_round(1) [OF assms(1) n(1) less.prems(2) n(2) less.prems(4)] by simp
  next
    case False
    let ?w = "emit (Sent fd (take (n - s) (drop pos buf))) (tock w)"
    have "send_pieces fd buf (of_nat n) (of_nat (n - s)) (of_nat (pos + (n - s))) ?w = None"
    proof (rule less.hyps)
      show "SHC_MAXTRANSPORTDATA - (pos + (n - s)) < SHC_MAXTRANSPORTDATA - pos"
        using False less.prems(2,4) assms(1) by simp
      show "\<forall>t \<ge> w_tick ?w. \<forall>m. os_write (w_os ?w) t m = m" using less.prems(5) by (simp add: tock_def emit_def)
    qed (use False less.prems in simp_all)
    then show ?thesis
      using send_pieces_round(2) [OF assms(1) n(1) less.prems(2) n(2) less.prems(4), of "n - s" w fd] False less.prems(4,5) by simp
  qed
qed

lemma send_pieces_third:
  assumes "length buf = SHC_MAXTRANSPORTDATA" and "n \<le> SHC_MAXTRANSPORTDATA" and "0 < k1" and "0 < k2" and "k1 + k2 < n"
    and "\<forall>m. os_write (w_os w) (w_tick w) m = int k1" and "\<forall>m. os_write (w_os w) (w_tick w + 1) m = int k2"
    and "\<forall>t \<ge> w_tick w + 2. \<forall>m. os_write (w_os w) t m = m"
  shows "send_pieces fd buf (of_nat n) 0 0 w = None"
proof -
  let ?w1 = "emit (Sent fd (take k1 (drop 0 buf))) (tock w)"
  let ?w2 = "emit (Sent fd (take k2 (drop k1 buf))) (tock ?w1)"
  let ?w3 = "emit (Sent fd (take (n - k2) (drop (k1 + k2) buf))) (tock ?w2)"
  have le: "length buf \<le> SHC_MAXTRANSPORTDATA" using assms(1) by simp
  have t: "w_os ?w1 = w_os w" "w_tick ?w1 = w_tick w + 1" "w_os ?w2 = w_os w" "w_tick ?w2 = w_tick w + 2"
    "w_os ?w3 = w_os w" "w_tick ?w3 = w_tick w + 3" by (simp_all add: tock_def emit_def)
  have one: "send_pieces fd buf (of_nat n) (of_nat 0) (of_nat 0) w = send_pieces fd buf (of_nat n) (of_nat k1) (of_nat (0 + k1)) ?w1"
    by (rule send_pieces_round(2) [OF le assms(2)]) (use assms in simp_all)
  have two: "send_pieces fd buf (of_nat n) (of_nat k1) (of_nat k1) ?w1 = send_pieces fd buf (of_nat n) (of_nat k2) (of_nat (k1 + k2)) ?w2"
    by (rule send_pieces_round(2) [OF le assms(2)]) (use assms t in simp_all)
  have "send_pieces fd buf (of_nat n) (of_nat k2) (of_nat (k1 + k2)) ?w2 = None"
  proof (cases "length buf < k1 + k2 + (n - k2)")
    case True
    then show ?thesis by (intro send_pieces_round(1) [OF le assms(2)]) (use assms in simp_all)
  next
    case False
    have "send_pieces fd buf (of_nat n) (of_nat k2) (of_nat (k1 + k2)) ?w2 =
        send_pieces fd buf (of_nat n) (of_nat (n - k2)) (of_nat (k1 + k2 + (n - k2))) ?w3"
      by (rule send_pieces_round(2) [OF le assms(2)]) (use False assms t in simp_all)
    moreover have "send_pieces fd buf (of_nat n) (of_nat (n - k2)) (of_nat (k1 + k2 + (n - k2))) ?w3 = None"
      by (rule send_pieces_past [OF le]) (use False assms t in simp_all)
    ultimately show ?thesis by simp
  qed
  with one two show ?thesis by simp
qed

text \<open>C34: A message that the socket takes in more than two pieces makes the client read past its buffer: the
  third piece is as long as the message less the second piece, instead of what is left, so that the
  number of bytes sent passes the end of the message and the loop goes on up to the end of the buffer.\<close>

theorem sc_transmit_third_piece:
  fixes w :: "'m world_scheme"
  assumes "os_sockop (w_os w) (w_tick w)" and "length command + length d + 1 \<le> SHC_MAXTRANSPORTDATA"
    and "0 < k1" and "0 < k2" and "k1 + k2 < length command + length d + 1"
    and "\<forall>m. os_write (w_os w) (w_tick w + 1) m = int k1" and "\<forall>m. os_write (w_os w) (w_tick w + 2) m = int k2"
    and "\<forall>t \<ge> w_tick w + 3. \<forall>m. os_write (w_os w) t m = m"
  shows "sc_transmit sc command (Some d) (of_nat (length d)) w = None"
proof -
  let ?n = "length command + length d + 1"
  obtain rest where b: "send_buffer command (Some d) (of_nat (length d)) = Some ((bytes_of_string command @ [0] @ d) @ rest)"
    "length ((bytes_of_string command @ [0] @ d) @ rest) = SHC_MAXTRANSPORTDATA" using send_buffer_message [OF assms(2)] by blast
  have "send_pieces (sc_clientfd sc) ((bytes_of_string command @ [0] @ d) @ rest) (of_nat ?n) 0 0 (tock w) = None"
    by (rule send_pieces_third [OF b(2) assms(2-5)]) (use assms(6-8) in \<open>simp_all add: tock_def\<close>)
  moreover have "\<not> of_nat SHC_MAXTRANSPORTDATA < (of_nat ?n :: u64)"
    using unat_small [OF assms(2)] unat_small [of SHC_MAXTRANSPORTDATA] assms(2) by (simp add: word_less_nat_alt)
  ultimately show ?thesis
    unfolding sc_transmit_def send_length_nat [OF assms(2)] Let_def
    using assms(1) b(1) by (simp add: ask_def)
qed

theorem sc_transmit_third_piece_witness:
  "sc_transmit \<lparr>sc_clientfd = 5, sc_sockpath = ''/tmp/s''\<rparr> ''BHYV'' (Some [7, 8, 9]) (of_nat (length [7 :: u8, 8, 9]))
     (world0 (calm_os\<lparr>os_write := \<lambda>t m. if t = 1 then 2 else if t = 2 then 3 else m\<rparr>)) = None"
  by (rule sc_transmit_third_piece [where ?k1.0 = 2 and ?k2.0 = 3])
     (simp_all add: world0_def calm_os_def SHC_MAXTRANSPORTDATA_def)

section \<open>The control program\<close>

lemma memchr0_zero: "memchr0 (x @ 0 # y) \<noteq> None"
  by (induction x) auto

lemma c_string_zero: "0 \<notin> set x \<Longrightarrow> c_string (x @ 0 # y) = string_of_bytes x"
  by (induction x) (auto simp: c_string_def string_of_bytes_def)

text \<open>A reply without data, in the caller's buffer.\<close>

lemma sendrecv_short:
  fixes w :: "'m world_scheme"
  assumes "sends_all (w_os w)" and "\<forall>n. os_sockop (w_os w) n"
    and "length command + length d + 1 \<le> SHC_MAXTRANSPORTDATA"
    and "length retbuffer \<le> SHC_MAXTRANSPORTDATA" and "5 + length y \<le> length retbuffer"
    and "[] \<notin> set cs" and "concat cs = x" and "length x = 4" and "0 \<notin> set (x @ y)" and "string_of_bytes x \<noteq> ''DATA''"
    and "replies_from (w_os w) (sc_clientfd sc) (w_tick w + 3) (cs @ [[], y @ [0]])"
  shows "\<exists>b w'. sc_sendrecv_dynamic (Some sc) (Some command) (Some d) (of_nat (length d)) retbuffer
      (of_nat (length retbuffer)) blob0 len0 w = Some (0, b, blob0, len0, w') \<and>
    0 \<in> set b \<and> c_string b = string_of_bytes (x @ y) \<and> w_os w' = w_os w \<and>
    w_trace w' = w_trace w @ [Sent (sc_clientfd sc) (bytes_of_string command @ [0] @ d)]"
proof -
  let ?fd = "sc_clientfd sc" and ?b = "(x @ y) @ 0 # drop (5 + length y) retbuffer"
  let ?w1 = "tock (emit (Sent ?fd (bytes_of_string command @ [0] @ d)) (tock (tock w)))"
  let ?w2 = "(tock ^^ (length cs + 1)) ?w1"
  have t1: "w_os ?w1 = w_os w" "w_tick ?w1 = w_tick w + 3" by (simp_all add: tock_def emit_def)
  have all: "replies_from (w_os ?w1) ?fd (w_tick ?w1) ((cs @ [[]]) @ [y @ [0]])"
    unfolding t1 using assms(11) by simp
  then have four: "recv_four ?fd (replicate 5 0) 0 ?w1 = Some (x @ [0], ?w2)"
    by (intro recv_four_word assms) simp
  have str: "c_string (x @ [0]) \<noteq> ''DATA''" using assms(9,10) by (simp add: c_string_zero)
  have cp: "bcopy_to (take 4 (x @ [0])) 0 retbuffer = Some (x @ drop 4 retbuffer)"
    using assms(5,8) by (simp add: bcopy_to_def)
  have n: "of_nat (length retbuffer) - 4 = (of_nat (length retbuffer - 4) :: u64)"
    using assms(5) by (simp add: of_nat_diff)
  have un: "unat (of_nat (length retbuffer - 4) :: u64) = length retbuffer - 4" "unat (of_nat (length retbuffer) :: u64) = length retbuffer"
    by (rule unat_small, use assms(4) in simp)+
  have "w_os ?w2 = w_os w" "os_recv (w_os w) (w_tick ?w2) ?fd = Some (y @ [0])" using all by simp_all
  then have rd: "sys_recv ?fd (of_nat (length retbuffer - 4)) ?w2 = (Some (y @ [0]), tock ?w2)"
    by (intro recv_chunk) (use assms(5) un in simp_all)
  have cp2: "bcopy_to (y @ [0]) 4 (x @ drop 4 retbuffer) = Some ?b"
    using assms(5,8) by (simp add: bcopy_to_def add.commute)
  have "length ?b = length retbuffer" using assms(5,8) by simp
  then have m: "memchr0 (take (unat (of_nat (length retbuffer) :: u64)) ?b) \<noteq> None" unfolding un using memchr0_zero [of "x @ y"] by simp
  have "recv_string ?fd 4 (of_nat (length retbuffer)) (x @ drop 4 retbuffer) ?w2 = Some (?b, tock ?w2)"
    using rd cp2 m n by (subst recv_string.simps) (simp add: Let_def del: append_assoc)
  then show ?thesis
    using transmit_whole [OF assms(1-3), of sc] four str cp c_string_zero [OF assms(9)]
    by (simp add: sc_sendrecv_dynamic_def del: append_assoc)
qed

lemma send_start:
  fixes w :: "'m world_scheme"
  assumes "nv_works N" and "sends_all (w_os w)" and "\<forall>n. os_sockop (w_os w) n"
    and "length heap = DEFAULT_BUFFERSIZE" and "bcmd_reply c \<noteq> None" and "bcmd_replylen c = DEFAULT_BUFFERSIZE"
    and "\<forall>b. packed_command N c b \<longrightarrow> length (bhyv_frame b) \<le> SHC_MAXTRANSPORTDATA"
    and "[] \<notin> set cs" and "concat cs = bytes_of_string ''0000''"
    and "replies_from (w_os w) (sc_clientfd sc) (w_tick w + 5) (cs @ [[], bytes_of_string '': OK'' @ [0]])"
    and "bcmd_bloblen c = 0"
  shows "\<exists>b w'. send_bhyvecmd N sc heap c w = Some (0, Some (c\<lparr>bcmd_reply := Some ''0000: OK''\<rparr>), w') \<and>
    packed_command N c b \<and> w_os w' = w_os w \<and> w_trace w' = w_trace w @ [Sent (sc_clientfd sc) (bhyv_frame b)]"
proof -
  let ?sender = "\<lparr>bcs_send_dynamic = Some (send_bhyvecmd_dynamic sc heap), bcs_send_fixed = send_bhyvecmd_raw sc heap\<rparr>
    :: ('m world_scheme) bhyve_command_sender"
  obtain b w1 where b: "packed_command N c b" "w_os w1 = w_os w" "w_trace w1 = w_trace w" "w_tick w1 = w_tick w + 2"
    "bcs_sendcmd_raw N (Some c) (Some ?sender) w = map_option (\<lambda>(r, c', w'). (r, Some c', w')) (send_bhyvecmd_dynamic sc heap b c w1)"
    using sendcmd_raw_packs [OF assms(1), of ?sender "send_bhyvecmd_dynamic sc heap" c w] by auto
  have word: "bytes_of_string ''BHYV'' = [66, 72, 89, 86]" "bytes_of_string '': OK'' = [58, 32, 79, 75]"
    "bytes_of_string ''0000'' = [48, 48, 48, 48]" "string_of_bytes [48, 48, 48, 48, 58, 32, 79, 75] = ''0000: OK''"
    "string_of_bytes [48, 48, 48, 48] = ''0000''" by code_simp+
  have len: "length ''BHYV'' + length b + 1 \<le> SHC_MAXTRANSPORTDATA" using assms(7) b(1) by (auto simp: bhyv_frame_def)
  have t5: "w_tick w1 + 3 = w_tick w + 5" using b(4) by simp
  have r: "replies_from (w_os w1) (sc_clientfd sc) (w_tick w1 + 3) (cs @ [[], [58, 32, 79, 75] @ [0]])"
    using assms(10) unfolding t5 b(2) word(2) by simp
  have "sends_all (w_os w1)" "\<forall>n. os_sockop (w_os w1) n" using assms(2,3) b(2) by simp_all
  from sendrecv_short [OF this len, of heap "[58, 32, 79, 75]" cs "[48, 48, 48, 48]" sc,
      where ?blob0.0 = "bcmd_blob c" and ?len0.0 = "of_nat (bcmd_bloblen c)"] r assms(4,8,9) obtain rb w2 where
    "sc_sendrecv_dynamic (Some sc) (Some ''BHYV'') (Some b) (of_nat (length b)) heap (of_nat (length heap)) (bcmd_blob c)
       (of_nat (bcmd_bloblen c)) w1 = Some (0, rb, bcmd_blob c, of_nat (bcmd_bloblen c), w2)"
    "0 \<in> set rb" "c_string rb = ''0000: OK''" and w2: "w_os w2 = w_os w1" "w_trace w2 = w_trace w1 @ [Sent (sc_clientfd sc) (bhyv_frame b)]"
    by (auto simp: word SHC_MAXTRANSPORTDATA_def DEFAULT_BUFFERSIZE_def bhyv_frame_def)
  moreover have "c\<lparr>bcmd_reply := y, bcmd_blob := bcmd_blob c, bcmd_bloblen := 0\<rparr> = c\<lparr>bcmd_reply := y\<rparr>" for y
    using assms(11) by (cases c) simp
  ultimately have "send_bhyvecmd_dynamic sc heap b c w1 = Some (0, c\<lparr>bcmd_reply := Some ''0000: OK''\<rparr>, w2)"
    using assms(4-6,11) by (auto simp: send_bhyvecmd_dynamic_def reply_buffer_def with_reply_def)
  with b w2 show ?thesis by (intro exI [of _ b] exI [of _ w2]) (simp add: send_bhyvecmd_def)
qed

lemma sc_free_seen: "seen e w \<Longrightarrow> seen e (sc_free sc w)"
  by (simp add: sc_free_def split: option.split)

text \<open>C10: \<open>vmstatedctl start\<close> sends the command that starts the vm and prints the daemon's answer: with a socket
  that takes what is written and answers \<open>0000: OK\<close>, the program ends with exit code 0, has written one
  message, the word \<open>BHYV\<close> and the packed command \<open>startvm\<close> for the named vm (the message that C3 hands to
  the daemon), and shows the answer.\<close>

theorem vmstatedctl_start:
  fixes w :: "'m world_scheme"
  assumes "nv_works N" and "calm w" and "sends_all (w_os w)" and "\<forall>t. os_sockop (w_os w) t"
    and "fd = os_socket (w_os w) (w_tick w + 5)" and "0 \<le> fd"
    and "length heap = DEFAULT_BUFFERSIZE" and "0 \<in> set heap"
    and "c = bcmd_zero\<lparr>bcmd_cmd := Some ''startvm'', bcmd_vmname := Some n, bcmd_reply := Some (c_string heap),
           bcmd_replylen := DEFAULT_BUFFERSIZE\<rparr>"
    and "\<forall>b. packed_command N c b \<longrightarrow> length (bhyv_frame b) \<le> SHC_MAXTRANSPORTDATA"
    and "[] \<notin> set cs" and "concat cs = bytes_of_string ''0000''"
    and "replies_from (w_os w) fd (w_tick w + 12) (cs @ [[], bytes_of_string '': OK'' @ [0]])"
  shows "\<exists>b w'. vmstatedctl_main N [prog, ''start'', n] heap w = Some (Exit 0, w') \<and> packed_command N c b \<and>
    seen (Sent fd (bhyv_frame b)) w' \<and> seen (Wrote 1 (''0000: OK'' @ [CHR 0x0A])) w'"
proof -
  let ?sc = "\<lparr>sc_clientfd = fd, sc_sockpath = ''/var/run/vmstated.sock''\<rparr>"
  let ?w = "(tock ^^ 7) w"
  obtain nvl where nvl: "nv_create N (w_tick (tock w)) = Some nvl" using nv_works_create [OF assms(1)] by blast
  have r: "replies_from (w_os ?w) (sc_clientfd ?sc) (w_tick ?w + 5) (cs @ [[], bytes_of_string '': OK'' @ [0]])"
    using assms(13) by (simp add: add.assoc)
  have c: "bcmd_reply c \<noteq> None" "bcmd_replylen c = DEFAULT_BUFFERSIZE" "bcmd_bloblen c = 0"
    by (simp_all add: assms(9) bcmd_zero_def)
  have w: "sends_all (w_os ?w)" "\<forall>n. os_sockop (w_os ?w) n" using assms(3,4) by simp_all
  obtain b w1 where s: "send_bhyvecmd N ?sc heap c ?w = Some (0, Some (c\<lparr>bcmd_reply := Some ''0000: OK''\<rparr>), w1)"
    "packed_command N c b" "w_trace w1 = w_trace ?w @ [Sent fd (bhyv_frame b)]"
    using send_start [OF assms(1) w assms(7) c(1,2) assms(10-12) r c(3)] by auto
  have seven: "?w = tock (tock (tock (tock (tock (tock (tock w))))))" by (simp add: eval_nat_numeral)
  have find: "find_command ctl_commands ''start'' (Suc (Suc (Suc 0))) [prog, ''start'', n] 3 False 0
      (bcmd_zero\<lparr>bcmd_reply := Some (c_string heap), bcmd_replylen := DEFAULT_BUFFERSIZE\<rparr>) (tock (tock w)) =
    Some (None, True, 0, c, tock (tock (tock (tock w))))"
    using assms(2) by (simp add: ctl_commands_def cmd_start_def cmd_with_name_def sys_strdup_def calm_malloc assms(9))
  have fd: "os_socket (w_os w) (Suc (Suc (Suc (Suc (Suc (w_tick w)))))) = fd"
    using assms(5) by (simp add: eval_nat_numeral)
  have new: "sc_new (Some ''/var/run/vmstated.sock'') (tock (tock (tock (tock w)))) = Some (Some ?sc, tock (tock (tock (tock (tock (tock w))))))"
    using assms(2,6) fd by (simp add: sc_new_def calm_malloc ask_def PATH_MAX_def)
  have conn: "sc_connect (Some ?sc) (tock (tock (tock (tock (tock (tock w)))))) = (0, ?w)"
    using assms(4) unfolding seven by (simp add: sc_connect_def ask_def)
  let ?w2 = "printf_out 1 (''0000: OK'' @ [CHR 0x0A]) w1"
  have "call_replies N ctl_replies ''start'' (c\<lparr>bcmd_reply := Some ''0000: OK''\<rparr>) w1 = Some ?w2"
    by (simp add: ctl_replies_def cmd_default_reply_def show_null_def)
  then have ex: "ctl_exchange N heap ''start'' c (tock (tock (tock (tock w)))) = Some (Exit 0, sc_free (Some ?sc) ?w2)"
    using new conn s(1) assms(8) by (simp add: ctl_exchange_def)
  have "vmstatedctl_main N [prog, ''start'', n] heap w = Some (Exit 0, sc_free (Some ?sc) ?w2)"
    using nvl find ex assms(2) by (simp add: vmstatedctl_main_def calm_malloc nvlist_create_def)
  moreover have "seen (Sent fd (bhyv_frame b)) ?w2" "seen (Wrote 1 (''0000: OK'' @ [CHR 0x0A])) ?w2"
    using s(3) by (simp_all add: seen_def printf_out_def emit_def)
  then have "seen (Sent fd (bhyv_frame b)) (sc_free (Some ?sc) ?w2)" "seen (Wrote 1 (''0000: OK'' @ [CHR 0x0A])) (sc_free (Some ?sc) ?w2)"
    by (simp_all only: sc_free_seen)
  ultimately show ?thesis using s(2) by blast
qed

definition demo_answer :: os where
  "demo_answer = calm_os\<lparr>os_recv := \<lambda>t _. Some (if t = 12 then [48, 48, 48, 48] else if t = 13 then [] else [58, 32, 79, 75, 0])\<rparr>"

theorem vmstatedctl_start_witness:
  "\<exists>b w'. vmstatedctl_main demo_nv [''vmstatedctl'', ''start'', ''one''] (replicate 512 0) (world0 demo_answer) = Some (Exit 0, w') \<and>
     packed_command demo_nv (bcmd_zero\<lparr>bcmd_cmd := Some ''startvm'', bcmd_vmname := Some ''one'', bcmd_reply := Some (c_string (replicate 512 0)),
           bcmd_replylen := DEFAULT_BUFFERSIZE\<rparr>) b \<and>
     seen (Sent 3005 (bhyv_frame b)) w' \<and> seen (Wrote 1 (''0000: OK'' @ [CHR 0x0A])) w'"
proof -
  let ?w = "world0 demo_answer"
  have w: "calm ?w" "sends_all (w_os ?w)" "\<forall>t. os_sockop (w_os ?w) t" "3005 = os_socket (w_os ?w) (w_tick ?w + 5)"
    by (simp_all add: calm_def sends_all_def world0_def demo_answer_def calm_os_def)
  have empty: "c_string (replicate 512 0) = []" by (simp add: c_string_def string_of_bytes_def)
  have word: "bytes_of_string ''0000'' = [48, 48, 48, 48]" "bytes_of_string '': OK'' = [58, 32, 79, 75]" by code_simp+
  have size: "\<forall>b. packed_command demo_nv (bcmd_zero\<lparr>bcmd_cmd := Some ''startvm'', bcmd_vmname := Some ''one'',
      bcmd_reply := Some (c_string (replicate 512 0)), bcmd_replylen := DEFAULT_BUFFERSIZE\<rparr>) b \<longrightarrow> length (bhyv_frame b) \<le> SHC_MAXTRANSPORTDATA"
    by (simp add: packed_command_def bhyv_frame_def empty enc_many_size bhyve_command_nv_def demo_nv_def enc_pair_def
        enc_string_def enc_word_def bcmd_zero_def SHC_MAXTRANSPORTDATA_def)
  show ?thesis
    by (rule vmstatedctl_start [OF demo_nv_works w _ _ _ refl size, of "[[48, 48, 48, 48]]"])
       (simp_all add: DEFAULT_BUFFERSIZE_def word, simp_all add: world0_def demo_answer_def)
qed

end
