(* ===== verification/Log_Contract.thy ===== *)
theory Log_Contract
  imports Log_Director
begin

text \<open>
  What the log director does with the bytes that a pipe has ready: when its loops end, and what goes to
  the log file.
\<close>

section \<open>The loops\<close>

text \<open>A call that fails or moves some of the bytes asked for, and one that always moves some.\<close>

definition no_standstill :: "(os \<Rightarrow> nat \<Rightarrow> int \<Rightarrow> int) \<Rightarrow> os \<Rightarrow> bool" where
  "no_standstill f s \<longleftrightarrow> (\<forall>n k. 0 < k \<longrightarrow> f s n k \<noteq> 0 \<and> f s n k \<le> k)"

definition moves_on :: "(os \<Rightarrow> nat \<Rightarrow> int \<Rightarrow> int) \<Rightarrow> os \<Rightarrow> bool" where
  "moves_on f s \<longleftrightarrow> (\<forall>n k. 0 < k \<longrightarrow> 0 < f s n k \<and> f s n k \<le> k)"

lemma moves_no_standstill: "moves_on f s \<Longrightarrow> no_standstill f s"
  unfolding moves_on_def no_standstill_def by (metis less_irrefl)

lemma move_bytes_ends:
  fixes w :: "'m world_scheme"
  assumes "0 \<le> todo" and "no_standstill f (w_os w)"
  shows "\<exists>left w'. move_bytes f todo w = Some (left, w') \<and> still w w' \<and> w_trace w' = w_trace w \<and>
    (moves_on f (w_os w) \<longrightarrow> left = 0)"
  using assms
proof (induction "nat todo" arbitrary: todo w rule: less_induct)
  case less
  show ?case
  proof (cases "todo = 0")
    case True
    then show ?thesis by (simp add: move_bytes.simps)
  next
    case False
    let ?n = "f (w_os w) (w_tick w) todo"
    have t: "0 < todo" using False less.prems(1) by simp
    then have n: "?n \<noteq> 0" "?n \<le> todo" using less.prems(2) by (auto simp: no_standstill_def)
    show ?thesis
    proof (cases "?n < 0")
      case True
      then have "\<not> moves_on f (w_os w)" using t unfolding moves_on_def by (metis not_less_iff_gr_or_eq)
      with True False show ?thesis by (subst move_bytes.simps) (simp add: ask_def)
    next
      case False
      have step: "move_bytes f todo w = move_bytes f (todo - ?n) (tock w)"
        using t False by (subst move_bytes.simps) (simp add: ask_def)
      have "nat (todo - ?n) < nat todo" "0 \<le> todo - ?n" "no_standstill f (w_os (tock w))"
        using t n False less.prems(2) by auto
      from less.hyps [OF this] show ?thesis unfolding step by simp
    qed
  qed
qed

section \<open>Moving what is ready\<close>

lemma ldr_lock_free:
  fixes w :: "'m logworld_scheme"
  assumes "calm w"
  shows "\<not> ldr_mtx (ldr_at l w) \<Longrightarrow> ldr_lock l w = (False, put_ldr l ((ldr_at l w)\<lparr>ldr_mtx := True\<rparr>) (tock w))"
    and "ldr_mtx (ldr_at l w) \<Longrightarrow> ldr_unlock l w = (False, put_ldr l ((ldr_at l w)\<lparr>ldr_mtx := False\<rparr>) (tock w))"
  using assms by (simp_all add: ldr_lock_def ldr_unlock_def calm_lock calm_unlock ldr_at_def tock_def)

lemma put_ldr_fields [simp]:
  "w_trace (put_ldr l x w) = w_trace w" "ldr_at l (put_ldr l x w) = x" "w_clients (put_ldr l x w) = w_clients w"
  by (simp_all add: put_ldr_def ldr_at_def)

lemma still_ldr:
  fixes w v :: "'m logworld_scheme"
  shows "still w v \<Longrightarrow> ldr_at l v = ldr_at l w"
  by (cases w; cases v) (simp add: still_def ldr_at_def)

text \<open>C38: The data of a pipe is moved to the log file and nothing hangs as long as no call returns zero: the
  mutex is free again, and one record of the log tells of exactly as many bytes as the queue said were
  ready. That holds also when reading fails: then the log file gets that many bytes of fresh memory,
  since nobody looks at what was read.\<close>

theorem ldr_recv_ondata_logs:
  fixes w :: "'m logworld_scheme"
  assumes "calm w" and "ldrd_ldr (ldrd_at c w) = Some l" and "\<not> ldr_mtx (ldr_at l w)" and "0 \<le> ready"
    and "no_standstill os_read (w_os w)" and "moves_on os_write (w_os w)"
  shows "\<exists>w'. ldr_recv_ondata c ready w = Some (0, w') \<and> \<not> ldr_mtx (ldr_at l w') \<and>
    w_trace w' = w_trace w @ [Logged (ldr_logfilefd (ldr_at l w)) ready]"
proof -
  let ?x = "(ldr_at l w)\<lparr>ldr_mtx := True\<rparr>"
  let ?w1 = "put_ldr l ?x (tock w)"
  have c1: "calm ?w1" using assms(1) by (simp add: calm_def)
  have "no_standstill os_read (w_os (tock ?w1))" using assms(5) by simp
  from move_bytes_ends [OF assms(4) this] obtain left1 w2 where
    r: "move_bytes os_read ready (tock ?w1) = Some (left1, w2)" "still (tock ?w1) w2" "w_trace w2 = w_trace w"
    by auto
  have o2: "w_os w2 = w_os w" using r(2) by (simp add: still_def)
  have "moves_on os_write (w_os w2)" using assms(6) o2 by simp
  moreover from this have "no_standstill os_write (w_os w2)" by (rule moves_no_standstill)
  ultimately obtain w3 where s: "move_bytes os_write ready w2 = Some (0, w3)" "still w2 w3" "w_trace w3 = w_trace w"
    using move_bytes_ends [OF assms(4), of os_write w2] r(3) by auto
  have e3: "still ?w1 w3" using still_trans [OF r(2) s(2)] by simp
  then have x: "ldr_at l w3 = ?x" and o3: "w_os w3 = w_os w" using still_ldr [OF e3, of l] by (simp_all add: still_def)
  let ?w4 = "emit (Logged (ldr_logfilefd (ldr_at l w)) ready) w3"
  have x4: "ldr_at l ?w4 = ?x" using x still_ldr [of w3 ?w4 l] by simp
  have "calm ?w4" using assms(1) o3 by (simp add: calm_def)
  from ldr_lock_free(2) [OF this, of l] x4
  have u: "ldr_unlock l ?w4 = (False, put_ldr l (?x\<lparr>ldr_mtx := False\<rparr>) (tock ?w4))" by simp
  have "ldr_recv_ondata c ready w = Some (0, put_ldr l (?x\<lparr>ldr_mtx := False\<rparr>) (tock ?w4))"
    using assms(2) ldr_lock_free(1) [OF assms(1,3)] calm_malloc [OF c1] r(1) s(1) x u
    by (simp add: ldr_recv_ondata_def)
  then show ?thesis using s(3) by simp
qed

section \<open>The property at a concrete input\<close>

definition log_demo :: "os \<Rightarrow> logworld" where
  "log_demo s = \<lparr>w_os = s, w_tick = 0, w_errno = E0, w_trace = [],
     w_ldrs = [2 \<mapsto> \<lparr>ldr_logname = ''one'', ldr_logfilefd = 7, ldr_mtx = False, ldr_clients = [1]\<rparr>],
     w_clients = [1 \<mapsto> \<lparr>ldrd_readfd = 5, ldrd_writefd = 6, ldrd_other_end_closed = False, ldrd_this_accepted = False,
        ldrd_closed = False, ldrd_ldr = Some 2\<rparr>], w_fresh = 3\<rparr>"

text \<open>Nothing can be read, and 100 bytes go to the log.\<close>

theorem ldr_recv_ondata_logs_witness:
  "\<exists>w'. ldr_recv_ondata 1 100 (log_demo (calm_os\<lparr>os_read := \<lambda>_ _. -1\<rparr>)) = Some (0, w') \<and> w_trace w' = [Logged 7 100]"
proof -
  let ?w = "log_demo (calm_os\<lparr>os_read := \<lambda>_ _. -1\<rparr>)"
  have "calm ?w" by (simp add: log_demo_def calm_def calm_os_def)
  moreover have "ldrd_ldr (ldrd_at 1 ?w) = Some 2" "\<not> ldr_mtx (ldr_at 2 ?w)" "ldr_logfilefd (ldr_at 2 ?w) = 7" "w_trace ?w = []"
    by (simp_all add: log_demo_def ldrd_at_def ldr_at_def)
  moreover have "no_standstill os_read (w_os ?w)" "moves_on os_write (w_os ?w)"
    by (simp_all add: log_demo_def no_standstill_def moves_on_def calm_os_def)
  ultimately show ?thesis using ldr_recv_ondata_logs [of ?w 1 2 100] by auto
qed

end
