(* ===== verification/Config_Reader.thy ===== *)
theory Config_Reader
  imports Config_Output Client_Contract
begin

text \<open>
  The parts of \<open>libconfig\<close> and \<open>libprocwatch\<close> that nothing calls yet: the file parser of
  \<open>src/libconfig/parser_reader.c\<close> (its line parser is in \<open>Config_Output\<close>), the value filters of
  \<open>src/libconfig/parser_offsets.c\<close> and the commands of \<open>src/libprocwatch/bhyve_command.c\<close>; with what the
  first two of them really do.

  A result \<open>None\<close> is undefined behaviour or a loop that never ends.
\<close>

section \<open>The file parser\<close>

text \<open>The memory of a file that could not be mapped is the pointer \<open>MAP_FAILED\<close>, which the code takes for
  memory: \<open>pr_memory\<close> is \<open>None\<close> then. \<open>os_stat\<close> also answers for \<open>lseek\<close>.\<close>

record parser_reader =
  pr_filename :: string
  pr_filefd :: int
  pr_memory :: "string option"

text \<open>The error paths release the first member and the structure itself, which is the same memory.\<close>

definition pr_new :: "string option \<Rightarrow> 'm world_scheme \<Rightarrow> (parser_reader option \<times> 'm world_scheme) option" where
  "pr_new filename w =
     (case filename of
        None \<Rightarrow> Some (None, set_errno EINVAL w)
      | Some f \<Rightarrow>
          (let (ok, w1) = sys_malloc w
           in if \<not> ok then Some (None, w1)
              else (let (fd, w2) = ask (\<lambda>s n. os_open s n f) w1
                    in if fd < 0 then None
                       else (let (found, w3) = sys_stat f (emit (Opened f fd) w2)
                             in if \<not> found then None
                                else (let (text, w4) = ask (\<lambda>s n. os_mmap s n fd) w3
                                      in Some (Some \<lparr>pr_filename = strncpy_buf PATH_MAX f, pr_filefd = fd, pr_memory = text\<rparr>, w4))))))"

definition pr_free :: "parser_reader option \<Rightarrow> 'm world_scheme \<Rightarrow> 'm world_scheme option" where
  "pr_free pr w = (case pr of None \<Rightarrow> Some (set_errno EINVAL w) | Some p \<Rightarrow> None)"

definition pr_parsekeyval :: "string \<Rightarrow> string \<Rightarrow> int" where
  "pr_parsekeyval key val = 0"

text \<open>\<open>strchr\<close> for the end of a line in a mapped file: how many characters come before it. The outer \<open>None\<close>
  is a search that runs past the file.\<close>

definition line_end :: "string \<Rightarrow> nat option option" where
  "line_end t =
     (let n = length (takeWhile (\<lambda>c. c \<noteq> CHR 0x0A \<and> c \<noteq> CHR 0x00) t)
      in if n < length t then Some (if t ! n = CHR 0x0A then Some n else None)
         else if length t mod PAGE_SIZE = 0 then None else Some None)"

text \<open>The loop: \<open>start\<close> never moves. The line that is parsed is what the buffer holds before the line is
  copied to it, that is what fresh memory reads as, \<open>junk\<close>. With no buffer yet, copying an empty line
  writes through a null pointer.\<close>

partial_function (option) pr_lines ::
  "(nat \<Rightarrow> string) \<Rightarrow> string \<Rightarrow> bool \<Rightarrow> nat \<Rightarrow> 'm world_scheme \<Rightarrow> (int \<times> 'm world_scheme) option" where
  "pr_lines junk start linebuf linebuf_len w =
     (case line_end start of
        None \<Rightarrow> None
      | Some None \<Rightarrow> Some (0, w)
      | Some (Some n) \<Rightarrow>
          if linebuf_len < n
          then (let m = sys_malloc w; r = pr_parseline (Some (junk (w_tick w))) (snd m)
                in if \<not> fst m then Some (-1, snd m)
                   else if fst r \<noteq> 0 then Some (-1, snd (snd r))
                   else pr_lines junk start True (2 * n) (snd (snd r)))
          else if \<not> linebuf then None
          else pr_lines junk start linebuf linebuf_len w)"

definition pr_parsefile ::
  "(nat \<Rightarrow> string) \<Rightarrow> parser_reader option \<Rightarrow> 'm world_scheme \<Rightarrow> (int \<times> 'm world_scheme) option" where
  "pr_parsefile junk pr w =
     (case pr of
        None \<Rightarrow> Some (-1, set_errno EINVAL w)
      | Some p \<Rightarrow> (case pr_memory p of None \<Rightarrow> None | Some start \<Rightarrow> pr_lines junk start False 0 w))"

section \<open>Value filters\<close>

definition toupper :: "char \<Rightarrow> char" where
  "toupper c = (let n = of_char c :: nat in if 97 \<le> n \<and> n \<le> 122 then char_of (n - 32) else c)"

text \<open>The result of a filter is whether it returns its register, and the register. An empty string makes
  the filter look before its copy; the case \<open>M\<close> falls through to the error.\<close>

definition po_filter_memory ::
  "string option \<Rightarrow> u64 \<Rightarrow> 'm world_scheme \<Rightarrow> (bool \<times> u64 \<times> 'm world_scheme) option" where
  "po_filter_memory data parser_uint64_reg w =
     (case data of
        None \<Rightarrow> Some (False, parser_uint64_reg, set_errno EINVAL w)
      | Some val \<Rightarrow>
          (let (ok, w1) = sys_malloc w
           in if \<not> ok \<or> val = [] then None
              else if toupper (last val) \<noteq> CHR ''G'' then Some (False, parser_uint64_reg, set_errno EDOM w1)
              else map_option (\<lambda>(n, w2). (w_errno w2 = E0, word_of_int n, w2))
                     (atoll (bytes_of_string (butlast val) @ [0, 0]) (set_errno E0 w1))))"

definition po_filter_bool :: "string option \<Rightarrow> bool \<Rightarrow> 'm world_scheme \<Rightarrow> bool \<times> bool \<times> 'm world_scheme" where
  "po_filter_bool data parser_bool_reg w =
     (case data of
        None \<Rightarrow> (False, parser_bool_reg, set_errno EINVAL w)
      | Some val \<Rightarrow>
          if val = [] then (True, False, w)
          else if val = ''true'' then (True, True, w)
          else if val = ''false'' then (True, False, w)
          else (False, False, set_errno EDOM w))"

section \<open>Commands of the director\<close>

record 'm director_command =
  dcmd_command :: string
  dcmd_func_numeric ::
    "('m bhyve_director \<Rightarrow> string option \<Rightarrow> 'm dirworld_scheme \<Rightarrow> int \<times> 'm bhyve_director \<times> 'm dirworld_scheme) option"

definition bhyve_director_commands :: "'m director_command list" where
  "bhyve_director_commands =
     [\<lparr>dcmd_command = ''startvm'', dcmd_func_numeric = Some bd_startvm\<rparr>,
      \<lparr>dcmd_command = ''stopvm'', dcmd_func_numeric = Some bd_stopvm\<rparr>]"

definition bc_lookupcmd :: "string option \<Rightarrow> 'm director_command option" where
  "bc_lookupcmd command =
     (case command of None \<Rightarrow> None | Some c \<Rightarrow> List.find (\<lambda>e. dcmd_command e = c) bhyve_director_commands)"

definition bc_call_numeric ::
  "'m director_command option \<Rightarrow> 'm bhyve_director option \<Rightarrow> string option \<Rightarrow> 'm dirworld_scheme
   \<Rightarrow> int \<times> 'm bhyve_director option \<times> 'm dirworld_scheme" where
  "bc_call_numeric bc bd vmname w =
     (case (bc, bd, vmname) of
        (Some c, Some d, Some n) \<Rightarrow>
          (case dcmd_func_numeric c of
             None \<Rightarrow> (-1, bd, w)
           | Some f \<Rightarrow> (let (r, d', w') = f d (Some n) w in (r, Some d', w')))
      | _ \<Rightarrow> (-1, bd, w))"

section \<open>Properties\<close>

text \<open>With a buffer that is long enough the loop goes round for ever, since its start stays where it is.\<close>

definition lines_result :: "string \<Rightarrow> bool \<Rightarrow> nat \<Rightarrow> 'm world_scheme \<Rightarrow> int \<times> 'm world_scheme \<Rightarrow> bool" where
  "lines_result t linebuf len w y \<longleftrightarrow>
     (if line_end t = Some None then y = (0, w)
      else fst y = -1 \<and> (\<exists>n. line_end t = Some (Some n) \<and> (linebuf \<longrightarrow> len < n)))"

lemma pr_lines_returns:
  assumes "pr_lines junk t linebuf len w = Some y"
  shows "lines_result t linebuf len w y"
  by (rule pr_lines.raw_induct [where P = "\<lambda>_. lines_result", OF _ assms])
     (fastforce simp: lines_result_def Let_def split: option.splits if_splits)

text \<open>The file parser gives an answer of success exactly for a file without a line end, which it does not
  look at any further. For a file with a line end it fails, crashes or never comes back.\<close>

theorem pr_parsefile_succeeds:
  "pr_parsefile junk (Some p) w = Some (0, w') \<longleftrightarrow> (\<exists>t. pr_memory p = Some t \<and> line_end t = Some None \<and> w' = w)"
proof (cases "pr_memory p")
  case (Some t)
  have "line_end t = Some None \<and> w' = w" if "pr_lines junk t False 0 w = Some (0, w')"
    using pr_lines_returns [OF that] by (simp add: lines_result_def split: if_splits)
  moreover have "pr_lines junk t False 0 w = Some (0, w)" if "line_end t = Some None"
    using that by (simp add: pr_lines.simps)
  ultimately show ?thesis using Some by (auto simp: pr_parsefile_def)
qed (simp add: pr_parsefile_def)

text \<open>With memory at hand, a first line that is not empty, and fresh memory in which an equals sign is found, the
  parser goes round for ever.\<close>

theorem pr_parsefile_loops:
  assumes "calm w" and "pr_memory p = Some t" and "line_end t = Some (Some n)" and "0 < n"
    and "CHR ''='' \<in> set (junk (w_tick w))"
  shows "pr_parsefile junk (Some p) w = None"
proof -
  have "pr_lines junk t True (2 * n) u = None" for u :: "'a world_scheme"
    using pr_lines_returns [of junk t True "2 * n" u] assms(3,4)
    by (cases "pr_lines junk t True (2 * n) u") (auto simp: lines_result_def)
  moreover have "takeWhile (\<lambda>c. c \<noteq> CHR ''='') (junk (w_tick w)) \<noteq> junk (w_tick w)"
    using assms(5) by (metis (mono_tags, lifting) takeWhile_eq_all_conv)
  then have "fst (pr_parseline (Some (junk (w_tick w))) (tock w)) = 0"
    using assms(1,5) by (auto simp: pr_parseline_def calm_malloc Let_def)
  ultimately show ?thesis
    using assms by (simp add: pr_parsefile_def pr_lines.simps [of junk t False 0 w] calm_malloc Let_def)
qed

theorem pr_parsefile_loops_witness:
  "pr_parsefile (\<lambda>_. ''='') (Some \<lparr>pr_filename = ''/vm/one'', pr_filefd = 3, pr_memory = Some (''cpus=1'' @ [CHR 0x0A])\<rparr>)
     (world0 calm_os) = None"
proof -
  have "line_end (''cpus=1'' @ [CHR 0x0A]) = Some (Some 6)" by code_simp
  then show ?thesis by (intro pr_parsefile_loops [OF calm_world0, where n = 6]) simp_all
qed

text \<open>The filter for amounts of memory takes a number of gigabytes for one of megabytes, and refuses megabytes.\<close>

theorem po_filter_memory_values:
  fixes w :: "'m world_scheme"
  assumes "calm w" and "int n < 2 ^ 63"
  shows "po_filter_memory (Some (show_nat n @ ''G'')) reg w = Some (True, of_nat n, set_errno E0 (tock w)) \<and>
    po_filter_memory (Some (show_nat n @ ''M'')) reg w = Some (False, reg, set_errno EDOM (tock w))"
  using assms atoll_number [OF assms(2), of "[0]" "set_errno E0 (tock w)"]
  by (simp add: po_filter_memory_def calm_malloc toupper_def bytes_of_string_def)

theorem po_filter_memory_values_witness:
  "po_filter_memory (Some ''2G'') 7 (world0 calm_os) = Some (True, 2, set_errno E0 (tock (world0 calm_os)))"
proof -
  have "show_nat 2 = ''2''" by code_simp
  with po_filter_memory_values [OF calm_world0, of 2 7] show ?thesis by simp
qed

end
