(* ===== verification/Daemon_Program.thy ===== *)
theory Daemon_Program
  imports Control_Program Config_Parse Subscriber Director_Generate
begin

text \<open>
  \<open>src/vmstated/vmstated_main.c\<close>: the daemon. It reads the options, makes sure that it runs alone, loads
  the store, and puts the parts together: log director, director, socket and message subscriber. Then it
  sleeps until a signal wakes it and takes the parts down again.

  While it sleeps the threads of the parts run. What they do is the list of \<open>daemon_event\<close>s, in the
  order in which it happens; each event is served before the next one. A result \<open>None\<close> is undefined
  behaviour, or a thread that ends the process with \<open>err\<close>. The log director's thread only moves bytes
  from pipes to files and is not among the events. Reading uses the system's \<open>os_recv\<close>.
\<close>

section \<open>Options\<close>

record vmstated_opts =
  vo_foreground :: bool
  vo_verbose :: int
  vo_configdir_path :: string
  vo_pidfile_path :: string
  vo_socket_path :: string
  vo_log_path :: string

definition EX_USAGE :: int where "EX_USAGE = 64"
definition EX_IOERR :: int where "EX_IOERR = 74"
definition EX_NOPERM :: int where "EX_NOPERM = 77"
definition EX_CONFIG :: int where "EX_CONFIG = 78"

definition DEFAULTPATH_SOCKET :: string where "DEFAULTPATH_SOCKET = ''/var/run/vmstated.sock''"
definition DEFAULTPATH_PIDFILE :: string where "DEFAULTPATH_PIDFILE = ''/var/run/vmstated.pid''"
definition DEFAULTPATH_LOGDIR :: string where "DEFAULTPATH_LOGDIR = ''/var/log/vmstated''"

definition vmstated_print_usage :: "'m world_scheme \<Rightarrow> 'm world_scheme" where
  "vmstated_print_usage w =
     (let nl = [CHR 0x0A]; t = [CHR 0x09]
      in printf_out 1 (t @ ''-v'' @ t @ t @ ''Be more verbose'' @ nl)
        (printf_out 1 (t @ ''-p'' @ t @ t @ ''Write pidfile to different path'' @ nl)
          (printf_out 1 (t @ ''-f'' @ t @ t @ ''Stay in foreground, do not daemonize'' @ nl)
            (printf_out 1 (t @ ''-c configdir'' @ t @ ''Load different configuration directory'' @ nl)
              (printf_out 1 (t @ ''-h'' @ t @ t @ ''Print this help screen'' @ nl)
                (printf_out 1 (''Usage: vmstated [-h] [-c configdir] [-f] [-p pidfile] [-v]'' @ nl @ nl) w))))))"

text \<open>\<open>getopt\<close> with the option letters \<open>fhc:p:s:v\<close>: the results of its calls, each with \<open>optarg\<close>. The first
  argument is what is left of a word of options.\<close>

definition option_kind :: "char \<Rightarrow> bool option" where
  "option_kind c =
     (if c \<in> set ''fhv'' then Some False else if c \<in> set ''cps'' then Some True else None)"

function getopts :: "string \<Rightarrow> string list \<Rightarrow> (char \<times> string) list" where
  "getopts [] [] = []"
| "getopts [] (a # as) =
     (if a = ''--'' \<or> length a < 2 \<or> hd a \<noteq> CHR ''-'' then [] else getopts (tl a) as)"
| "getopts (c # cs) as =
     (case option_kind c of
        None \<Rightarrow> (CHR ''?'', []) # getopts cs as
      | Some False \<Rightarrow> (c, []) # getopts cs as
      | Some True \<Rightarrow>
          if cs \<noteq> [] then (c, cs) # getopts [] as
          else (case as of [] \<Rightarrow> [(CHR ''?'', [])] | b # bs \<Rightarrow> (c, b) # getopts [] bs))"
  by pat_completeness auto
termination
  by (relation "measure (\<lambda>(cs, as). length cs + (\<Sum>a \<leftarrow> as. Suc (length a)))") auto

text \<open>The loop over the options; \<open>Inl\<close> is the end of the program.\<close>

fun handle_opt_list ::
  "(char \<times> string) list \<Rightarrow> vmstated_opts \<Rightarrow> int \<Rightarrow> 'm world_scheme \<Rightarrow> (program_end + int) \<times> vmstated_opts \<times> 'm world_scheme"
  where
  "handle_opt_list [] opts result w = (Inr result, opts, w)"
| "handle_opt_list ((c, optarg) # cs) opts result w =
     (if c = CHR ''f'' then handle_opt_list cs (opts\<lparr>vo_foreground := True\<rparr>) result w
      else if c = CHR ''p'' then handle_opt_list cs (opts\<lparr>vo_pidfile_path := strncpy_buf PATH_MAX optarg\<rparr>) result w
      else if c = CHR ''s'' then handle_opt_list cs (opts\<lparr>vo_socket_path := strncpy_buf PATH_MAX optarg\<rparr>) result w
      else if c = CHR ''v'' then handle_opt_list cs (opts\<lparr>vo_verbose := vo_verbose opts + 1\<rparr>) result w
      else if c = CHR ''h'' then (Inl (Exit 0), opts, vmstated_print_usage w)
      else if c = CHR ''?'' then handle_opt_list cs opts EX_USAGE (vmstated_print_usage w)
      else handle_opt_list cs opts result w)"

text \<open>The arguments include the program's name.\<close>

definition handle_opts ::
  "string list \<Rightarrow> vmstated_opts \<Rightarrow> 'm world_scheme \<Rightarrow> (program_end + int) \<times> vmstated_opts \<times> 'm world_scheme" where
  "handle_opts argv opts w = handle_opt_list (getopts [] (tl argv)) opts 0 w"

section \<open>Running alone, the log directory, the pid file\<close>

text \<open>\<open>pid_t\<close> has 32 bits.\<close>

definition pid_of :: "int \<Rightarrow> int" where
  "pid_of n = sint (word_of_int n :: u32)"

definition check_already_running ::
  "vmstated_opts \<Rightarrow> 'm world_scheme \<Rightarrow> (program_end option \<times> 'm world_scheme) option" where
  "check_already_running opts w =
     (let (fd, w1) = ask (\<lambda>s n. os_open s n (vo_pidfile_path opts)) w
      in if fd < 0 then Some (None, set_errno ESYS w1)
         else (let (r, w2) = sys_recv fd 10 w1
               in case r of
                    None \<Rightarrow> Some (None, snd (sys_close fd w2))
                  | Some bs \<Rightarrow>
                      (case atoll (bs @ replicate (10 - length bs) 0) w2 of
                         None \<Rightarrow> None
                       | Some (n, w3) \<Rightarrow>
                           if w_errno w3 \<noteq> E0 then Some (None, snd (sys_close fd w3))
                           else (let (alive, w4) = sys_kill (pid_of n) False w3
                                 in if alive
                                    then Some (Some (Exit 1), printf_out 2
                                           (''vmstated already running (pid='' @ show_int (pid_of n) @ '').'' @ [CHR 0x0A]) w4)
                                    else Some (None, snd (sys_close fd w4))))))"

definition check_logdir :: "vmstated_opts \<Rightarrow> 'm world_scheme \<Rightarrow> (program_end + int) \<times> 'm world_scheme" where
  "check_logdir opts w =
     (let (st, w1) = ask (\<lambda>s n. os_dirmode s n (vo_log_path opts)) w
      in case st of
           Inl e \<Rightarrow>
             if e = ENOENT then (let (ok, w2) = sys_do (Mkdir (vo_log_path opts)) os_mkdir (set_errno e w1) in (Inr (if ok then 0 else -1), w2))
             else (Inr (-1), set_errno e w1)
         | Inr isdir \<Rightarrow>
             if \<not> isdir then (Inl (Exit EX_CONFIG),
               printf_out 1 (''vmstated error: Log path does not point to a directory'' @ [CHR 0x0A]) w1)
             else (Inr 0, w1))"

definition write_pidfile :: "string \<Rightarrow> 'm world_scheme \<Rightarrow> int \<times> 'm world_scheme" where
  "write_pidfile pidfile w =
     (let (fd, w1) = ask (\<lambda>s n. os_open s n pidfile) w
      in if fd < 0 then (-1, set_errno ESYS w1)
         else (let (modeok, w2) = sys_try ESYS os_fchmod (emit (Opened pidfile fd) w1);
                   (n, w3) = sys_write fd (snprintf_buf 128 (show_int (os_getpid (w_os w2)) @ [CHR 0x0A])) w2;
                   (_, w4) = sys_close fd w3
               in (if \<not> modeok \<or> n < 0 then -1 else 0, w4)))"

section \<open>Telling the parent\<close>

text \<open>An \<open>int\<close> as the bytes it has in memory.\<close>

definition int_bytes :: "int \<Rightarrow> bytes" where
  "int_bytes r = map (\<lambda>i. ucast (drop_bit (8 * i) (word_of_int r :: u32))) [0..<4]"

definition int_of_bytes :: "bytes \<Rightarrow> int" where
  "int_of_bytes bs = sint (foldr (\<lambda>b n. push_bit 8 n OR ucast b) bs 0 :: u32)"

text \<open>The end of the program with a message; the pipe's ends are -1 when there is none.\<close>

definition vmstated_err :: "int \<times> int \<Rightarrow> errno \<Rightarrow> 'm world_scheme \<Rightarrow> program_end \<times> 'm world_scheme" where
  "vmstated_err pipefd errcode w =
     (Err errcode, if 0 \<le> snd pipefd then snd (sys_send_size (snd pipefd) (int_bytes (-1)) w) else w)"

text \<open>Never subscribed to anything.\<close>

definition vmstated_recv_data :: "u32 \<Rightarrow> int \<Rightarrow> string \<Rightarrow> bytes \<Rightarrow> u64 \<Rightarrow> int" where
  "vmstated_recv_data uid pid cmd data datalen = 0"

section \<open>Signals\<close>

definition SIGINT :: int where "SIGINT = 2"
definition SIGTERM :: int where "SIGTERM = 15"

text \<open>\<open>vmstated_sigmtx\<close>, and whether the main thread waits for \<open>vmstated_termcond\<close>.\<close>

record sig_state =
  sig_mtx :: bool
  sig_waiting :: bool

definition setup_sighandler :: "'m world_scheme \<Rightarrow> (program_end + sig_state) \<times> 'm world_scheme" where
  "setup_sighandler w =
     (let (m, w1) = sys_init w
      in if \<not> m then (Inl (Err (w_errno w1)), w1)
         else (let (c, w2) = sys_init w1
               in if \<not> c then (let (_, w3) = sys_init w2 in (Inl (Err (w_errno w3)), w3))
                  else (Inr \<lparr>sig_mtx = False, sig_waiting = False\<rparr>, w2)))"

definition teardown_sighandler :: "'m world_scheme \<Rightarrow> program_end option \<times> 'm world_scheme" where
  "teardown_sighandler w =
     (let (c, w1) = sys_init w
      in if \<not> c then (Some (Err (w_errno w1)), w1)
         else (let (m, w2) = sys_init w1 in (if m then None else Some (Err (w_errno w2)), w2)))"

text \<open>Signalling a condition nobody waits for does nothing.\<close>

definition vmstated_sigrecv ::
  "int \<Rightarrow> sig_state \<Rightarrow> 'm world_scheme \<Rightarrow> program_end option \<times> sig_state \<times> 'm world_scheme" where
  "vmstated_sigrecv sig s w =
     (if sig \<notin> {SIGTERM, SIGINT} then (None, s, w)
      else (let (err, m, w1) = mutex_lock (sig_mtx s) w
            in if err then (Some (Err (w_errno w1)), s, w1)
               else (let (ok, w2) = sys_cond w1
                     in if \<not> ok then (Some (Err (w_errno w2)), s\<lparr>sig_mtx := m\<rparr>, w2)
                        else (let (err', m', w3) = mutex_unlock m w2; s' = \<lparr>sig_mtx = m', sig_waiting = False\<rparr>
                              in if err' then (Some (Err (w_errno w3)), s', w3) else (None, s', w3)))))"

fun signals ::
  "int list \<Rightarrow> sig_state \<Rightarrow> 'm world_scheme \<Rightarrow> program_end option \<times> sig_state \<times> 'm world_scheme" where
  "signals [] s w = (None, s, w)"
| "signals (sig # sigs) s w =
     (let (e, s', w') = vmstated_sigrecv sig s w in if e \<noteq> None then (e, s', w') else signals sigs s' w')"

section \<open>The running daemon\<close>

type_synonym 'm vmsms = "('m bhyve_director, 'm dirworld_scheme) vmstated_message_subscriber"

text \<open>The socket, the subscriber with the director, whether an event of the socket was served, whether the
  restart thread still runs, and the signal state.\<close>

record 'm daemon =
  dm_sh :: "('m vmsms, 'm dirworld_scheme) socket_handle"
  dm_vmsms :: "'m vmsms"
  dm_handled :: bool
  dm_restarts :: bool
  dm_sig :: sig_state

definition dm_bd :: "'m daemon \<Rightarrow> 'm bhyve_director" where
  "dm_bd d = the (vmsms_bd (dm_vmsms d))"

definition put_bd :: "'m bhyve_director \<Rightarrow> 'm daemon \<Rightarrow> 'm daemon" where
  "put_bd bd d = d\<lparr>dm_vmsms := (dm_vmsms d)\<lparr>vmsms_bd := Some bd\<rparr>\<rparr>"

datatype daemon_event =
  SocketEvent sock_kevent | ProcessEvent proc_event | RestartWakeup | SignalEvent int

text \<open>The shutdown event of the socket's queue comes from \<open>sh_stop\<close> only. Waking up, the restart thread has
  the director's mutex.\<close>

fun daemon_step ::
  "daemon_event \<Rightarrow> 'm daemon \<Rightarrow> 'm dirworld_scheme \<Rightarrow> (program_end option \<times> 'm daemon \<times> 'm dirworld_scheme) option"
  where
  "daemon_step (SocketEvent ev) d w =
     (if ev_ident ev = SH_EVT_CMD_SHUTDOWN then Some (None, d, w)
      else map_option (\<lambda>(_, sh, v, w'). (None, d\<lparr>dm_sh := sh, dm_vmsms := v, dm_handled := True\<rparr>, w'))
             (sh_accept_round ev (dm_sh d) (dm_vmsms d) w))"
| "daemon_step (ProcessEvent ev) d w =
     (let (_, bd, w') = bd_kqueue_event ev (dm_bd d) w in Some (None, put_bd bd d, w'))"
| "daemon_step RestartWakeup d w =
     (if \<not> dm_restarts d then Some (None, d, w)
      else (let (err, w1) = bd_lock w
            in if err then Some (None, d\<lparr>dm_restarts := False\<rparr>, w1)
               else map_option (\<lambda>(go, bd, w'). (None, (put_bd bd d)\<lparr>dm_restarts := go\<rparr>, w')) (restart_round (dm_bd d) w1)))"
| "daemon_step (SignalEvent sig) d w =
     (let (e, s, w') = vmstated_sigrecv sig (dm_sig d) w in Some (e, d\<lparr>dm_sig := s\<rparr>, w'))"

text \<open>The main thread waits until a signal comes; the events after that are not looked at.\<close>

fun daemon_run ::
  "daemon_event list \<Rightarrow> 'm daemon \<Rightarrow> 'm dirworld_scheme \<Rightarrow> (program_end option \<times> 'm daemon \<times> 'm dirworld_scheme) option"
  where
  "daemon_run [] d w = Some (None, d, w)"
| "daemon_run (ev # evs) d w =
     (if \<not> sig_waiting (dm_sig d) then Some (None, d, w)
      else (case daemon_step ev d w of
              None \<Rightarrow> None
            | Some (Some e, d', w') \<Rightarrow> Some (Some e, d', w')
            | Some (None, d', w') \<Rightarrow> daemon_run evs d' w'))"

section \<open>Putting the parts together\<close>

text \<open>How a launch goes: the program ends, the function returns, the daemon goes on waiting for its end, or it
  waits in \<open>bd_free\<close> for a thread that does not end.\<close>

datatype 'm launch_result = LaunchEnd program_end | LaunchReturn int | LaunchWaits "'m daemon" | LaunchHangs

definition launch_err ::
  "int \<times> int \<Rightarrow> 'm dirworld_scheme \<Rightarrow> ('m launch_result \<times> 'm dirworld_scheme) option" where
  "launch_err pipefd w = (let (e, w') = vmstated_err pipefd (w_errno w) w in Some (LaunchEnd e, w'))"

text \<open>The end with a message after the director is released.\<close>

definition launch_drop ::
  "int \<times> int \<Rightarrow> 'm bhyve_director \<Rightarrow> ('m dirworld_scheme \<Rightarrow> 'm dirworld_scheme) \<Rightarrow> 'm dirworld_scheme
   \<Rightarrow> ('m launch_result \<times> 'm dirworld_scheme) option" where
  "launch_drop pipefd bd after w =
     (case bd_free True bd w of None \<Rightarrow> Some (LaunchHangs, w) | Some (_, w1) \<Rightarrow> launch_err pipefd (after w1))"

text \<open>The socket's file; what \<open>unlink\<close> does not find is no error.\<close>

definition unlink_socket :: "string \<Rightarrow> 'm world_scheme \<Rightarrow> bool \<times> 'm world_scheme" where
  "unlink_socket path w =
     (let e = os_unlinkerr (w_os w) (w_tick w); (ok, w1) = sys_unlink path w
      in if ok then (True, w1) else (e = ENOENT, set_errno e w1))"

text \<open>The end of the function: what it releases, and the message for the parent about a failure.\<close>

definition launch_release ::
  "int \<Rightarrow> int \<times> int \<Rightarrow> bool \<Rightarrow> ('m vmsms, 'm dirworld_scheme) socket_handle \<Rightarrow> 'm bhyve_director \<Rightarrow> 'm dirworld_scheme
   \<Rightarrow> ('m launch_result \<times> 'm dirworld_scheme) option" where
  "launch_release result pipefd restarts sh bd w =
     (case sh_free (Some sh) w of
        None \<Rightarrow> None
      | Some w1 \<Rightarrow>
          (case bd_free restarts bd w1 of
             None \<Rightarrow> Some (LaunchHangs, w1)
           | Some (_, w2) \<Rightarrow>
               (let w3 = ld_free (bd_ld bd) w2
                in Some (LaunchReturn result,
                     if result < 0 \<and> 0 \<le> snd pipefd then snd (sys_send_size (snd pipefd) (int_bytes result) w3) else w3))))"

text \<open>After the wake-up. A socket whose thread could not be stopped is released under its feet.\<close>

definition launch_shutdown ::
  "int \<times> int \<Rightarrow> 'm daemon \<Rightarrow> 'm dirworld_scheme \<Rightarrow> ('m launch_result \<times> 'm dirworld_scheme) option" where
  "launch_shutdown pipefd d w =
     (let (e, _, w1) = mutex_lock (sig_mtx (dm_sig d)) w; (err, _, w2) = mutex_unlock (\<not> e) w1
      in if err then Some (LaunchEnd (Err (w_errno w2)), w2)
         else (case sh_stop (dm_handled d) (Some (dm_sh d)) w2 of
                 None \<Rightarrow> None
               | Some (r, sh, w3) \<Rightarrow> if r \<noteq> 0 then None else launch_release 0 pipefd (dm_restarts d) (the sh) (dm_bd d) w3))"

text \<open>Asleep until a signal wakes the main thread.\<close>

definition launch_sleep ::
  "int \<times> int \<Rightarrow> daemon_event list \<Rightarrow> 'm daemon \<Rightarrow> 'm dirworld_scheme \<Rightarrow> ('m launch_result \<times> 'm dirworld_scheme) option" where
  "launch_sleep pipefd evs d w =
     (case daemon_run evs d w of
        None \<Rightarrow> None
      | Some (Some e, d', w') \<Rightarrow> Some (LaunchEnd e, w')
      | Some (None, d', w') \<Rightarrow>
          if sig_waiting (dm_sig d') then Some (LaunchWaits d', w') else launch_shutdown pipefd d' w')"

text \<open>From the first message to the parent on; \<open>early\<close> are the signals that come before the main thread
  waits.\<close>

definition launch_wait ::
  "int \<times> int \<Rightarrow> int list \<Rightarrow> daemon_event list \<Rightarrow> 'm daemon \<Rightarrow> 'm dirworld_scheme
   \<Rightarrow> ('m launch_result \<times> 'm dirworld_scheme) option" where
  "launch_wait pipefd early evs d w =
     (let (n, w1) = (if 0 \<le> snd pipefd then sys_send_size (snd pipefd) (int_bytes 0) w else (0, w))
      in if n = -1 then Some (LaunchEnd (Err (w_errno w1)), w1)
         else (let (e, s, w2) = signals early (dm_sig d) w1
               in if e \<noteq> None then Some (LaunchEnd (the e), w2)
                  else (let (err, _, w3) = mutex_lock (sig_mtx s) w2
                        in if err then Some (LaunchEnd (Err (w_errno w3)), w3)
                           else launch_sleep pipefd evs (d\<lparr>dm_sig := \<lparr>sig_mtx = False, sig_waiting = True\<rparr>\<rparr>) w3)))"

text \<open>The part with the socket. A failing autostart releases the socket while its thread runs.\<close>

definition launch_start ::
  "int \<times> int \<Rightarrow> sig_state \<Rightarrow> int list \<Rightarrow> daemon_event list \<Rightarrow> ('m vmsms, 'm dirworld_scheme) socket_handle \<Rightarrow> 'm vmsms
   \<Rightarrow> 'm dirworld_scheme \<Rightarrow> ('m launch_result \<times> 'm dirworld_scheme) option" where
  "launch_start pipefd s early evs sh vmsms w =
     (case sh_start (Some sh) w of
        None \<Rightarrow> None
      | Some (r, sh1, w1) \<Rightarrow>
          if r \<noteq> 0 then launch_release (-1) pipefd True (the sh1) (the (vmsms_bd vmsms)) w1
          else (let (r', bd, w2) = bd_runautostart (the (vmsms_bd vmsms)) w1
                in if r' \<noteq> 0 then None
                   else launch_wait pipefd early evs
                          \<lparr>dm_sh = the sh1, dm_vmsms = vmsms\<lparr>vmsms_bd := Some bd\<rparr>, dm_handled = False, dm_restarts = True,
                           dm_sig = s\<rparr> w2))"

definition launch_socket ::
  "'n nvlib \<Rightarrow> vmstated_opts \<Rightarrow> int \<times> int \<Rightarrow> sig_state \<Rightarrow> int list \<Rightarrow> daemon_event list \<Rightarrow> 'm bhyve_director
   \<Rightarrow> 'm dirworld_scheme \<Rightarrow> ('m launch_result \<times> 'm dirworld_scheme) option" where
  "launch_socket N opts pipefd s early evs bd w =
     (let (gone, w1) = unlink_socket (vo_socket_path opts) w
      in if \<not> gone then launch_err pipefd w1
         else (case sh_new (Some (vo_socket_path opts)) 0 w1 of
                 None \<Rightarrow> None
               | Some (None, w2) \<Rightarrow> launch_drop pipefd bd (\<lambda>w. w) (ld_free (bd_ld bd) w2)
               | Some (Some sh, w2) \<Rightarrow>
                   (let (vmsms, sh1, w3) = vmsms_new (Some sh) w2
                    in if vmsms = None
                       then (case sh_free sh1 (ld_free (bd_ld bd) w3) of
                               None \<Rightarrow> None | Some w4 \<Rightarrow> launch_drop pipefd bd (\<lambda>w. w) w4)
                       else (let (bmo, w4) = vmsms_getmessagesub_obj vmsms w3;
                                 (r, bmo1, w5) = bd_subscribe_commands (bd_recv_ondata N) (Some bd) bmo w4
                             in if r \<noteq> 0
                                then (case sh_free sh1 w5 of
                                        None \<Rightarrow> None | Some w6 \<Rightarrow> launch_err pipefd (ld_free (bd_ld bd) w6))
                                else launch_start pipefd s early evs (the sh1) (the (bmo_obj (the bmo1))) w5))))"

text \<open>A log director that cannot be made is a null pointer, which \<open>bd_new\<close> takes.\<close>

definition vmstated_launch ::
  "'n nvlib \<Rightarrow> vmstated_opts \<Rightarrow> bhyve_configuration_store \<Rightarrow> int \<times> int \<Rightarrow> sig_state \<Rightarrow> int list \<Rightarrow> daemon_event list
   \<Rightarrow> 'm dirworld_scheme \<Rightarrow> ('m launch_result \<times> 'm dirworld_scheme) option" where
  "vmstated_launch N opts bcs pipefd s early evs w =
     (let (ld, w1) = ld_new (vo_verbose opts) (Some (vo_log_path opts)) w;
          (bcso, w2) = bcsobj_frombcs (Some bcs) w1
      in if bcso = None then launch_err pipefd (ld_free ld w2)
         else (case bd_new (bcso_ctx (the bcso)) ld w2 of
                 None \<Rightarrow> None
               | Some (None, ld1, w3) \<Rightarrow> launch_err pipefd (ld_free ld1 w3)
               | Some (Some bd, _, w3) \<Rightarrow>
                   (let (r, bd1, w4) = bd_set_cgo (Some bd) (Some vmstated_cgo) w3
                    in if r \<noteq> 0 then launch_drop pipefd bd (ld_free (bd_ld bd)) w4
                       else launch_socket N opts pipefd s early evs (the bd1) w4)))"

section \<open>The program\<close>

definition run_program ::
  "'n nvlib \<Rightarrow> 'u ucllib \<Rightarrow> vmstated_opts \<Rightarrow> int \<times> int \<Rightarrow> int list \<Rightarrow> daemon_event list \<Rightarrow> 'm dirworld_scheme
   \<Rightarrow> ('m launch_result \<times> 'm dirworld_scheme) option" where
  "run_program N L opts pipefd early evs w =
     (let (bcs, w1) = bcs_new (Some (vo_configdir_path opts)) w
      in if bcs = None then (let (e, w2) = vmstated_err pipefd ENOMEM w1 in Some (LaunchEnd e, w2))
         else (case bcs_walkdir L bcs w1 of
                 None \<Rightarrow> None
               | Some (r, bcs1, w2) \<Rightarrow>
                   if r \<noteq> 0 then launch_err pipefd w2
                   else (case setup_sighandler w2 of
                           (Inl e, w3) \<Rightarrow> Some (LaunchEnd e, w3)
                         | (Inr s, w3) \<Rightarrow>
                             (let (r', w4) = write_pidfile (vo_pidfile_path opts) w3
                              in if r' \<noteq> 0 then launch_err pipefd w4
                                 else (case vmstated_launch N opts (the bcs1) pipefd s early evs w4 of
                                         Some (LaunchReturn result, w5) \<Rightarrow>
                                           (let (e, w6) = teardown_sighandler w5
                                            in case e of
                                                 Some e' \<Rightarrow> Some (LaunchEnd e', w6)
                                               | None \<Rightarrow> Some (LaunchReturn result, snd (sys_unlink (vo_pidfile_path opts) w6)))
                                       | x \<Rightarrow> x)))))"

text \<open>What went through the pipe, and how the parent ends: it reads one number, and waits for ever when
  none comes, since it keeps the other end of the pipe open itself.\<close>

definition sent_to :: "int \<Rightarrow> event list \<Rightarrow> bytes" where
  "sent_to fd evs = concat (map (\<lambda>ev. case ev of Sent f bs \<Rightarrow> if f = fd then bs else [] | _ \<Rightarrow> []) evs)"

datatype 'm main_result =
  MainEnd program_end                      \<comment> \<open>without a daemon\<close>
| Foreground "'m launch_result"
| Background "program_end option" "'m launch_result option"
    \<comment> \<open>the parent, which may wait for ever, and the daemon, which may never have started\<close>

definition parent_end ::
  "int \<times> int \<Rightarrow> bytes \<Rightarrow> 'm world_scheme \<Rightarrow> program_end option \<times> 'm world_scheme" where
  "parent_end pipefd sent w =
     (let (n, w1) = ask (\<lambda>s t. os_read s t 4) w
      in if n < 0 then (Some (Exit EX_IOERR), set_errno ESYS w1)
         else if sent = [] then (None, w1)
         else (Some (Exit (int_of_bytes (take 4 sent))), snd (sys_close (snd pipefd) (snd (sys_close (fst pipefd) w1)))))"

definition default_opts :: vmstated_opts where
  "default_opts = \<lparr>vo_foreground = False, vo_verbose = 0, vo_configdir_path = ''/usr/local/etc/vmstated'',
     vo_pidfile_path = DEFAULTPATH_PIDFILE, vo_socket_path = DEFAULTPATH_SOCKET, vo_log_path = DEFAULTPATH_LOGDIR\<rparr>"

text \<open>The background: the parent forks a child, which forks the daemon and ends.\<close>

definition daemonize ::
  "'n nvlib \<Rightarrow> 'u ucllib \<Rightarrow> vmstated_opts \<Rightarrow> int list \<Rightarrow> daemon_event list \<Rightarrow> 'm dirworld_scheme
   \<Rightarrow> ('m main_result \<times> 'm dirworld_scheme) option" where
  "daemonize N L opts early evs w =
     (let (p, w1) = ask os_pipe w
      in case p of
           None \<Rightarrow> Some (MainEnd (Err ESYS), set_errno ESYS w1)
         | Some pipefd \<Rightarrow>
             (let (pid, w2) = ask os_fork w1
              in if pid < 0 then (let (e, w3) = parent_end pipefd [] w2 in Some (Background e None, w3))
                 else (let (_, w3) = sys_close (fst pipefd) w2; (pid', w4) = ask os_fork w3
                       in if pid' < 0 then (let (e, w5) = parent_end pipefd [] w4 in Some (Background e None, w5))
                          else (case run_program N L opts pipefd early evs w4 of
                                  None \<Rightarrow> None
                                | Some (r, w5) \<Rightarrow>
                                    (let (e, w6) = parent_end pipefd
                                           (sent_to (snd pipefd) (drop (length (w_trace w4)) (w_trace w5))) w5
                                     in Some (Background e (Some r), w6))))))"

definition vmstated_main ::
  "'n nvlib \<Rightarrow> 'u ucllib \<Rightarrow> string list \<Rightarrow> int list \<Rightarrow> daemon_event list \<Rightarrow> 'm dirworld_scheme
   \<Rightarrow> ('m main_result \<times> 'm dirworld_scheme) option" where
  "vmstated_main N L argv early evs w =
     (if os_getuid (w_os w) \<noteq> 0 then Some (MainEnd (Exit EX_NOPERM), set_errno EPERM w)
      else (case handle_opts argv default_opts w of
              (Inl e, _, w1) \<Rightarrow> Some (MainEnd e, w1)
            | (Inr r, opts, w1) \<Rightarrow>
                if r \<noteq> 0 then Some (MainEnd (Exit r), w1)
                else (case check_logdir opts w1 of
                        (Inl e, w2) \<Rightarrow> Some (MainEnd e, w2)
                      | (Inr r', w2) \<Rightarrow>
                          if r' \<noteq> 0 then Some (MainEnd (Err (w_errno w2)), w2)
                          else (case check_already_running opts w2 of
                                  None \<Rightarrow> None
                                | Some (Some e, w3) \<Rightarrow> Some (MainEnd e, w3)
                                | Some (None, w3) \<Rightarrow>
                                    if vo_foreground opts
                                    then map_option (\<lambda>(r'', w'). (Foreground r'', w')) (run_program N L opts (-1, -1) early evs w3)
                                    else daemonize N L opts early evs w3))))"

end
