(* ===== verification/Daemon_Contract.thy ===== *)
theory Daemon_Contract
  imports Daemon_Program Director_Boot Client_Contract Store_Contract
begin

text \<open>
  Properties of the daemon as a whole: what a launch puts together, what signals do before and while it
  waits, how it ends, and what the command line and the pid file decide.
\<close>

section \<open>The parts, one by one\<close>

text \<open>A system in order for a launch.\<close>

definition launch_ok :: "'m world_scheme \<Rightarrow> bool" where
  "launch_ok w \<longleftrightarrow> sockets_ok w \<and> sends_all (w_os w) \<and> (\<forall>n. 0 \<le> os_kqueue (w_os w) n) \<and>
     (\<forall>n. os_unlink (w_os w) n \<or> os_unlinkerr (w_os w) n = ENOENT)"

lemma launch_calm: "launch_ok w \<Longrightarrow> calm w"
  by (simp add: launch_ok_def sockets_ok_def)

lemma launch_sockets: "launch_ok w \<Longrightarrow> sockets_ok w"
  by (simp add: launch_ok_def)

lemma launch_os: "w_os v = w_os w \<Longrightarrow> launch_ok v = launch_ok w"
  by (simp add: launch_ok_def sockets_ok_def calm_def)

lemma launch_locks: "launch_ok w \<Longrightarrow> locks_ok (w_os w)"
  using launch_calm [of w] by (simp add: calm_def locks_ok_def)

lemma still_quiet:
  fixes w v :: "'m logworld_scheme"
  shows "still w v \<Longrightarrow> quiet w v"
  by (cases w; cases v) (simp add: still_def quiet_def)

lemma quiet_bd_wf: "quiet w v \<Longrightarrow> bd_wf bd w \<Longrightarrow> bd_wf bd v"
  by (simp add: bd_wf_def quiet_dir)

lemma quiet_watched: "quiet w v \<Longrightarrow> watched_configs bd v = watched_configs bd w"
  by (simp add: watched_configs_def quiet_dir)

lemma ld_new_ready:
  fixes w :: "'m logworld_scheme"
  assumes "calm w" and "\<forall>n. 0 \<le> os_kqueue (w_os w) n"
  shows "\<exists>d w'. ld_new v (Some dir) w = (Some d, w') \<and> ld_ready (Some d) \<and> still w w'"
proof -
  have "\<not> os_kqueue (w_os w) n < 0" for n using assms(2) by (simp add: not_less)
  then show ?thesis
    using assms(1) by (simp add: ld_new_def calm_malloc calm_init ld_thread_start_def ask_def ld_ready_def Let_def)
qed

lemma unlink_socket_ok:
  assumes "launch_ok w"
  shows "\<exists>w'. unlink_socket path w = (True, w') \<and> still w w'"
proof -
  have "os_unlink (w_os w) (w_tick w) \<or> os_unlinkerr (w_os w) (w_tick w) = ENOENT"
    using assms by (simp add: launch_ok_def)
  then show ?thesis
    by (auto simp: unlink_socket_def sys_unlink_def sys_do_def sys_try_def ask_def Let_def)
qed

lemma vmsms_new_ok:
  assumes "calm w" and "\<not> sh_mtx sh"
  shows "\<exists>w'. vmsms_new (Some sh) w = (Some \<lparr>vmsms_bd = None, vmsms_on_data = None\<rparr>,
      Some (sh\<lparr>sh_listeners := \<lparr>shl_on_data = Some vmsms_onrecv_data\<rparr> # sh_listeners sh\<rparr>), w') \<and> still w w'"
  using assms by (cases sh) (simp add: vmsms_new_def sh_subscribe_ondata_def shl_new_def calm_malloc sh_lock_calm sh_unlock_calm)

lemma subscribe_ok:
  "bd_subscribe_commands f (Some bd) (fst (vmsms_getmessagesub_obj (Some v) w)) w' =
    (0, Some \<lparr>bmo_obj = Some (v\<lparr>vmsms_bd := Some bd, vmsms_on_data := Some f\<rparr>), bmo_subscribe_ondata = vmsms_subscribe_ondata\<rparr>, w')"
  by (simp add: bd_subscribe_commands_def vmsms_getmessagesub_obj_def vmsms_subscribe_ondata_def)

lemma autostart_idle:
  "\<forall>a \<in> set as. \<not> autostarts bd a \<Longrightarrow> autostart_loop as bd w = (0, bd, snd (bd_unlock w))"
  by (induction as) (simp_all add: autostarts_def bc_get_autostart_def)

lemma runautostart_idle:
  fixes w :: "'m dirworld_scheme"
  assumes "bd_wf bd w" and "locks_ok (w_os w)" and "\<forall>a \<in> set (w_bd_statelist w). \<not> autostarts bd a"
  shows "\<exists>w'. bd_runautostart bd w = (0, bd, w') \<and> quiet w w'"
proof -
  let ?w = "(tock w)\<lparr>w_bd_mtx := True\<rparr>"
  have free: "\<not> w_bd_mtx w" using assms(1) by (simp add: bd_wf_def)
  have "bd_lock w = (False, ?w)" using free assms(2) by (simp add: bd_lock_ok)
  moreover have "bd_unlock ?w = (False, (tock ?w)\<lparr>w_bd_mtx := False\<rparr>)" using assms(2) by (simp add: bd_unlock_ok)
  moreover have "quiet w ((tock ?w)\<lparr>w_bd_mtx := False\<rparr>)"
    using free by (cases w) (simp add: quiet_def tock_def)
  ultimately show ?thesis using assms(3) by (simp add: bd_runautostart_def autostart_idle)
qed

text \<open>Signals before anyone waits.\<close>

lemma sigrecv_calm:
  assumes "calm w" and "\<not> sig_mtx s"
  shows "\<exists>w'. vmstated_sigrecv sig s w = (None, if sig \<in> {SIGTERM, SIGINT} then s\<lparr>sig_waiting := False\<rparr> else s, w') \<and> still w w'"
  using assms by (cases s) (auto simp: vmstated_sigrecv_def calm_lock calm_unlock calm_cond)

lemma signals_calm:
  assumes "calm w" and "\<not> sig_mtx s"
  shows "\<exists>s' w'. signals sigs s w = (None, s', w') \<and> \<not> sig_mtx s' \<and> still w w'"
  using assms
proof (induction sigs arbitrary: s w)
  case (Cons sig sigs)
  obtain w1 where r: "vmstated_sigrecv sig s w = (None, if sig \<in> {SIGTERM, SIGINT} then s\<lparr>sig_waiting := False\<rparr> else s, w1)" "still w w1"
    using sigrecv_calm [OF Cons.prems] by blast
  let ?s = "if sig \<in> {SIGTERM, SIGINT} then s\<lparr>sig_waiting := False\<rparr> else s"
  have "calm w1" "\<not> sig_mtx ?s" using Cons.prems r(2) by (simp_all add: still_def calm_def)
  from Cons.IH [OF this] obtain s' w' where "signals sigs ?s w1 = (None, s', w')" "\<not> sig_mtx s'" "still w1 w'" by blast
  with r show ?case by (auto intro: still_trans)
qed simp

lemma seen_signals: "signals sigs s w = (e, s', w') \<Longrightarrow> seen ev w \<Longrightarrow> seen ev w'"
proof (induction sigs arbitrary: s w)
  case (Cons sig sigs)
  have one: "seen ev (snd (snd (vmstated_sigrecv sig s w)))"
    using Cons.prems(2) by (auto simp: vmstated_sigrecv_def Let_def split_def sys_cond_def)
  obtain e1 s1 w1 where "vmstated_sigrecv sig s w = (e1, s1, w1)" by (metis prod_cases3)
  with one Cons show ?case by (auto split: if_splits)
qed simp

lemma int_bytes_length [simp]: "length (int_bytes r) = 4"
  by (simp add: int_bytes_def)

section \<open>The launch\<close>

text \<open>The daemon that waits for its end.\<close>

definition serving ::
  "'n nvlib \<Rightarrow> bhyve_configuration_store \<Rightarrow> string \<Rightarrow> 'm daemon \<Rightarrow> 'm dirworld_scheme \<Rightarrow> bool" where
  "serving N bcs path d w \<longleftrightarrow>
     (\<exists>fd kfd. dm_sh d = (sh_fresh fd kfd path Running)\<lparr>sh_listeners := [\<lparr>shl_on_data = Some vmsms_onrecv_data\<rparr>]\<rparr>) \<and>
     vmsms_on_data (dm_vmsms d) = Some (bd_recv_ondata N) \<and> vmsms_bd (dm_vmsms d) \<noteq> None \<and>
     bd_wf (dm_bd d) w \<and> watched_configs (dm_bd d) w = rev (bcs_configs bcs) \<and>
     (\<forall>a \<in> set (w_bd_statelist w). new_vm False (vm_at (dm_bd d) a)) \<and> w_bd_rebootlist w = [] \<and>
     bd_cgo (dm_bd d) = Some vmstated_cgo \<and>
     \<not> dm_handled d \<and> dm_restarts d \<and> dm_sig d = \<lparr>sig_mtx = False, sig_waiting = True\<rparr>"

lemma launch_wait_ok:
  fixes w :: "'m dirworld_scheme"
  assumes "launch_ok w" and "\<not> sig_mtx (dm_sig d)"
  shows "\<exists>w'. (\<forall>evs. launch_wait pipefd early evs d w =
      launch_sleep pipefd evs (d\<lparr>dm_sig := \<lparr>sig_mtx = False, sig_waiting = True\<rparr>\<rparr>) w') \<and> still w w' \<and>
    (0 \<le> snd pipefd \<longrightarrow> seen (Sent (snd pipefd) (int_bytes 0)) w')"
proof -
  let ?m = "if 0 \<le> snd pipefd then sys_send_size (snd pipefd) (int_bytes 0) w else (0, w)"
  have "int_bytes 0 \<noteq> []" using int_bytes_length [of 0] by (metis list.size(3) zero_neq_numeral)
  then have "sys_send_size (snd pipefd) (int_bytes 0) w = (4, emit (Sent (snd pipefd) (int_bytes 0)) (tock w))"
    using send_size_all [of w "int_bytes 0"] assms(1) by (simp add: launch_ok_def)
  then obtain n w1 where m: "?m = (n, w1)" "n \<noteq> -1" "still w w1" "0 \<le> snd pipefd \<longrightarrow> seen (Sent (snd pipefd) (int_bytes 0)) w1"
    by (cases "0 \<le> snd pipefd") auto
  have "calm w1" using launch_calm [OF assms(1)] m(3) by (simp add: still_def calm_def)
  from signals_calm [OF this assms(2), of early] obtain s w2 where
    s: "signals early (dm_sig d) w1 = (None, s, w2)" "\<not> sig_mtx s" "still w1 w2" by blast
  have c: "calm w2" using \<open>calm w1\<close> s(3) by (simp add: still_def calm_def)
  have "seen e w2" if "seen e w1" for e using seen_signals [OF s(1) that] .
  with m(4) have "0 \<le> snd pipefd \<longrightarrow> seen (Sent (snd pipefd) (int_bytes 0)) (tock w2)" by simp
  moreover have "still w (tock w2)" using still_trans [OF m(3) s(3)] by simp
  moreover have "launch_wait pipefd early evs d w =
      launch_sleep pipefd evs (d\<lparr>dm_sig := \<lparr>sig_mtx = False, sig_waiting = True\<rparr>\<rparr>) (tock w2)" for evs
    using m(1,2) s(1,2) c by (simp add: launch_wait_def calm_lock)
  ultimately show ?thesis by blast
qed

text \<open>A launch without a vm for the autostart.\<close>

lemma launch_reaches:
  fixes w :: "'m dirworld_scheme"
  assumes "launch_ok w" and "\<forall>c \<in> set (bcs_configs bcs). \<not> bc_autostart c" and "\<not> sig_mtx s"
  shows "\<exists>d w'. (\<forall>evs. vmstated_launch N opts bcs pipefd s early evs w = launch_sleep pipefd evs d w') \<and>
    serving N bcs (vo_socket_path opts) (d :: 'm daemon) w' \<and> w_os w' = w_os w \<and>
    (0 \<le> snd pipefd \<longrightarrow> seen (Sent (snd pipefd) (int_bytes 0)) w')"
proof -
  have k: "\<forall>n. 0 \<le> os_kqueue (w_os w) n" using assms(1) by (simp add: launch_ok_def)
  obtain ld w1 where ld: "ld_new (vo_verbose opts) (Some (vo_log_path opts)) w = (Some ld, w1)" "ld_ready (Some ld)" "still w w1"
    using ld_new_ready [OF launch_calm [OF assms(1)] k] by blast
  have ok1: "launch_ok (tock w1)" using assms(1) ld(3) launch_os [of "tock w1" w] by (simp add: still_def)
  have c1: "calm w1" using launch_calm [OF ok1] by simp
  have k1: "\<forall>n. 0 \<le> os_kqueue (w_os (tock w1)) n" using ok1 by (simp add: launch_ok_def)
  obtain bd w2 where b: "bd_new (Some bcs) (Some ld) (tock w1) = Some (Some (bd :: 'm bhyve_director), bd_ld bd, w2)" "bd_wf bd w2"
    "w_os w2 = w_os (tock w1)" "watched_configs bd w2 = rev (bcs_configs bcs)"
    "\<forall>a \<in> set (w_bd_statelist w2). new_vm False (vm_at bd a)" "w_bd_rebootlist w2 = []"
    using bd_new_boots [OF launch_calm [OF ok1] k1 ld(2), of bcs] by auto
  let ?bd = "bd\<lparr>bd_cgo := Some vmstated_cgo\<rparr>"
  have ok2: "launch_ok w2" using ok1 b(3) launch_os [of w2 "tock w1"] by simp
  have bcso: "bcsobj_frombcs (Some bcs) w1 = (Some \<lparr>bcso_ctx = Some bcs, bcso_funcs = bcs_funcs\<rparr>, tock w1)"
    using c1 by (simp add: bcsobj_frombcs_def calm_malloc)
  have L: "vmstated_launch N opts bcs pipefd s early evs w = launch_socket N opts pipefd s early evs ?bd w2" for evs
    using ld(1) bcso b(1) by (simp add: vmstated_launch_def bd_set_cgo_def)
  let ?path = "vo_socket_path opts"
  obtain w3 where u: "unlink_socket ?path w2 = (True, w3)" "still w2 w3" using unlink_socket_ok [OF ok2] by blast
  have ok3: "launch_ok w3" using ok2 u(2) launch_os [of w3 w2] by (simp add: still_def)
  obtain fd kfd w4 where n: "sh_new (Some ?path) 0 w3 =
      Some (Some (sh_fresh fd kfd ?path Ready :: ('m vmsms, 'm dirworld_scheme) socket_handle), w4)" "still w3 w4"
    using sh_new_ok [OF launch_sockets [OF ok3]] by blast
  have ok4: "launch_ok w4" using ok3 n(2) launch_os [of w4 w3] by (simp add: still_def)
  let ?sh = "(sh_fresh fd kfd ?path Ready)\<lparr>sh_listeners := [\<lparr>shl_on_data = Some vmsms_onrecv_data\<rparr>]\<rparr> :: ('m vmsms, 'm dirworld_scheme) socket_handle"
  let ?v = "\<lparr>vmsms_bd = None, vmsms_on_data = None\<rparr> :: 'm vmsms"
  obtain w5 where v: "vmsms_new (Some (sh_fresh fd kfd ?path Ready)) w4 = (Some ?v, Some ?sh, w5)" "still w4 w5"
    using vmsms_new_ok [OF launch_calm [OF ok4], of "sh_fresh fd kfd ?path Ready"] by (auto simp: sh_fresh_def)
  have ok5: "launch_ok w5" using ok4 v(2) launch_os [of w5 w4] by (simp add: still_def)
  let ?v' = "?v\<lparr>vmsms_bd := Some ?bd, vmsms_on_data := Some (bd_recv_ondata N)\<rparr>"
  have S: "launch_socket N opts pipefd s early evs ?bd w2 = launch_start pipefd s early evs ?sh ?v' w5" for evs
    using u(1) n(1) v(1) subscribe_ok [of "bd_recv_ondata N" ?bd ?v w5 w5]
    by (simp add: launch_socket_def vmsms_getmessagesub_obj_def)
  let ?run = "?sh\<lparr>sh_state := Running\<rparr>"
  obtain w6 where r: "sh_start (Some ?sh) w5 = Some (0, Some ?run, w6)" "still w5 w6"
    using sh_start_ready [OF launch_calm [OF ok5], of ?sh] by (auto simp: sh_fresh_def)
  have ok6: "launch_ok w6" using ok5 r(2) launch_os [of w6 w5] by (simp add: still_def)
  have q6: "quiet w2 w6" using still_quiet [OF still_trans [OF still_trans [OF still_trans [OF u(2) n(2)] v(2)] r(2)]] .
  have wf: "bd_wf ?bd w6" using quiet_bd_wf [OF q6 b(2)] by (simp add: bd_wf_def)
  have wc: "watched_configs ?bd w6 = rev (bcs_configs bcs)"
    using b(4) quiet_watched [OF q6] by (simp add: watched_configs_def vm_at_def)
  have idle: "\<forall>a \<in> set (w_bd_statelist w6). \<not> autostarts ?bd a"
  proof
    fix a assume "a \<in> set (w_bd_statelist w6)"
    then have "bwv_config (vm_at ?bd a) \<in> set (watched_configs ?bd w6)" by (simp add: watched_configs_def)
    then show "\<not> autostarts ?bd a" using wc assms(2) by (simp add: autostarts_def)
  qed
  obtain w7 where a: "bd_runautostart ?bd w6 = (0, ?bd, w7)" "quiet w6 w7"
    using runautostart_idle [OF wf launch_locks [OF ok6] idle] by blast
  have ok7: "launch_ok w7" using ok6 a(2) launch_os [of w7 w6] by (simp add: quiet_dir)
  let ?d = "\<lparr>dm_sh = ?run, dm_vmsms = ?v', dm_handled = False, dm_restarts = True, dm_sig = s\<rparr>"
  have T: "launch_start pipefd s early evs ?sh ?v' w5 = launch_wait pipefd early evs ?d w7" for evs
    using r(1) a(1) by (simp add: launch_start_def)
  let ?d' = "?d\<lparr>dm_sig := \<lparr>sig_mtx = False, sig_waiting = True\<rparr>\<rparr>"
  obtain w8 where W: "\<forall>evs. launch_wait pipefd early evs ?d w7 = launch_sleep pipefd evs ?d' w8" "still w7 w8"
    "0 \<le> snd pipefd \<longrightarrow> seen (Sent (snd pipefd) (int_bytes 0)) w8"
    using launch_wait_ok [OF ok7, of ?d pipefd early] assms(3) by auto
  have q8: "quiet w2 w8" using quiet_trans [OF quiet_trans [OF q6 a(2)] still_quiet [OF W(2)]] .
  have bd: "dm_bd ?d' = ?bd" by (simp add: dm_bd_def)
  have wf8: "bd_wf ?bd w8" using quiet_bd_wf [OF q8 b(2)] by (simp add: bd_wf_def)
  have wc8: "watched_configs ?bd w8 = rev (bcs_configs bcs)"
    using b(4) quiet_watched [OF q8] by (simp add: watched_configs_def vm_at_def)
  have nv8: "\<forall>a \<in> set (w_bd_statelist w8). new_vm False (vm_at ?bd a)"
    using b(5) q8 by (simp add: quiet_dir vm_at_def)
  have "serving N bcs ?path ?d' w8"
    unfolding serving_def bd using wf8 wc8 nv8 b(6) q8 by (simp add: quiet_dir sh_fresh_def)
  moreover have "vmstated_launch N opts bcs pipefd s early evs w = launch_sleep pipefd evs ?d' w8" for evs
    using L S T W(1) by simp
  moreover have "w_os w8 = w_os w" using q8 b(3) ld(3) by (simp add: quiet_dir still_def)
  ultimately show ?thesis using W(3) by blast
qed

section \<open>Serving and stopping\<close>

text \<open>A system that accepts clients.\<close>

definition accepts :: "os \<Rightarrow> bool" where
  "accepts s \<longleftrightarrow> (\<forall>n. 0 \<le> os_accept s n \<and> os_peercred s n \<noteq> None \<and> os_close s n)"

text \<open>An event that is not about a connection: a new client, or a descriptor nobody knows.\<close>

lemma accept_client_ok:
  fixes w :: "'m world_scheme"
  assumes "sockets_ok w" and "accepts (w_os w)" and "\<not> sh_mtx sh"
  shows "\<exists>cs w'. sh_accept_client sh w = Some (sh\<lparr>sh_connections := cs\<rparr>, w') \<and> still w w'"
proof -
  obtain uid pid where p: "os_peercred (w_os w) (Suc (w_tick w)) = Some (uid, pid)"
    using assms(2) unfolding accepts_def by (metis not_None_eq surj_pair)
  have a: "\<not> os_accept (w_os w) (w_tick w) < 0" using assms(2) by (simp add: accepts_def not_less)
  let ?fd = "os_accept (w_os w) (w_tick w)"
  obtain c w3 where c: "shc_new ?fd uid pid (tock (tock w)) = (Some c, w3)" "still w w3"
    using sockets_calm [OF assms(1)] by (auto simp: shc_new_def src_new_def stc_new_def calm_malloc calm_init)
  have s3: "sockets_ok w3" using still_sockets [OF c(2) assms(1)] .
  show ?thesis
    using assms(3) sockets_calm [OF s3] s3 a p c
    by (cases sh) (auto simp: sh_accept_client_def ask_def sh_lock_calm sh_unlock_calm sockets_sys)
qed

lemma handler_ok:
  fixes w :: "'m world_scheme"
  assumes "sockets_ok w" and "accepts (w_os w)" and "\<not> sh_mtx sh" and "ev_udata ev = None"
  shows "\<exists>cs w'. sh_accept_handler_thread ev sh c w =
      Some (sh\<lparr>sh_connections := cs, sh_thread_counter := sh_thread_counter sh - 1\<rparr>, c, w') \<and> still w w'"
proof -
  obtain cs w1 where s: "sh_serve ev sh c w = Some (sh\<lparr>sh_connections := cs\<rparr>, c, w1)" "still w w1"
  proof (cases "sh_socketfd sh = ev_ident ev")
    case True
    then show ?thesis using accept_client_ok [OF assms(1-3)] by (auto simp: sh_serve_def intro: that)
  next
    case False
    let ?w = "if \<not> ev_eof ev \<and> ev_filter ev \<noteq> 0 then snd (sys_close (ev_ident ev) w) else w"
    have "sh_serve ev sh c w = Some (sh\<lparr>sh_connections := sh_connections sh\<rparr>, c, ?w)"
      using False assms(4) by (simp add: sh_serve_def)
    moreover have "still w ?w" using assms(2) by (simp add: accepts_def)
    ultimately show ?thesis by (rule that)
  qed
  have k: "sockets_ok w1" using still_sockets [OF s(2) assms(1)] .
  show ?thesis
    using s assms(3) k sockets_calm [OF k]
    by (cases sh) (auto simp: sh_accept_handler_thread_def sockets_sys sh_lock_calm sh_unlock_calm calm_cond)
qed

lemma accept_round_ok:
  fixes w :: "'m world_scheme"
  assumes "sockets_ok w" and "accepts (w_os w)" and "\<not> sh_mtx sh" and "ev_udata ev = None"
    and "ev_ident ev \<noteq> SH_EVT_CMD_SHUTDOWN"
  shows "\<exists>cs w'. sh_accept_round ev sh c w = Some (True, sh\<lparr>sh_connections := cs\<rparr>, c, w') \<and> still w w'"
proof -
  let ?w = "tock (tock (tock (tock (tock w))))" and ?sh = "sh\<lparr>sh_thread_counter := sh_thread_counter sh + 1\<rparr>"
  have "sockets_ok ?w" "accepts (w_os ?w)" "\<not> sh_mtx ?sh" using assms(1-3) by simp_all
  from handler_ok [OF this assms(4)] obtain cs w' where
    h: "sh_accept_handler_thread ev ?sh c ?w =
      Some (?sh\<lparr>sh_connections := cs, sh_thread_counter := sh_thread_counter ?sh - 1\<rparr>, c, w')" "still ?w w'" by blast
  have "still w w'" using h(2) by simp
  moreover from this have "calm w'" using sockets_calm [OF assms(1)] by (simp add: still_def calm_def)
  ultimately show ?thesis
    using assms(1,3,5) sockets_calm [OF assms(1)] h(1)
    by (cases sh) (auto simp: sh_accept_round_def sockets_sys sh_lock_calm sh_unlock_calm calm_malloc calm_init)
qed

lemma collector_free:
  assumes "calm w"
  shows "still w (src_free src w)"
proof (cases src)
  case (Some r)
  with assms show ?thesis by (cases "stc_mtx (src_stc r)") (simp_all add: src_free_def stc_free_def calm_lock calm_unlock)
qed (simp add: src_free_def)

lemma connections_free:
  fixes w :: "'m world_scheme"
  assumes "calm w" and "accepts (w_os w)"
  shows "still w (free_connections cs w)"
  using assms
proof (induction cs arbitrary: w)
  case (Cons c cs)
  have "still w (shc_free (Some c) w)"
    using Cons.prems collector_free [of w "shc_src c"] by (auto simp: shc_free_def accepts_def still_def Let_def)
  moreover from this have "still (shc_free (Some c) w) (free_connections cs (shc_free (Some c) w))"
    using Cons.prems by (intro Cons.IH) (simp_all add: still_def calm_def)
  ultimately show ?case by (simp add: still_trans)
qed simp

lemma sh_free_ok:
  fixes w :: "'m world_scheme"
  assumes "calm w" and "accepts (w_os w)" and "\<not> sh_mtx sh"
  shows "\<exists>w'. sh_free (Some sh) w = Some w' \<and> still w w'"
proof -
  let ?w = "free_connections (sh_connections sh) (tock w)"
  have f: "still w ?w" using connections_free [of "tock w" "sh_connections sh"] assms(1,2) by simp
  then have "calm ?w" "\<forall>n. os_close (w_os ?w) n" using assms(1,2) by (simp_all add: still_def calm_def accepts_def)
  then show ?thesis
    using assms(1,3) f
    by (auto simp: sh_free_def sh_lock_calm sh_unlock_calm calm_init sys_unlink_def sys_do_def sys_try_def ask_def Let_def
        split: option.splits)
qed

text \<open>The director cannot be released while nothing waits for a restart.\<close>

lemma bd_free_hangs:
  fixes w :: "'m dirworld_scheme"
  assumes "sockets_ok w" and "bd_wf bd w" and "w_bd_rebootlist w = []"
  shows "bd_free True bd w = None"
proof -
  have c: "calm w" using sockets_calm [OF assms(1)] .
  have l: "locks_ok (w_os w)" using c by (simp add: calm_def locks_ok_def)
  have k: "\<forall>n. os_kevent (w_os w) n" using assms(1) by (simp add: sockets_ok_def)
  have i: "\<forall>n. os_init (w_os w) n" "\<forall>n. os_cond (w_os w) n" using c by (simp_all add: calm_def)
  have m: "\<not> w_bd_mtx w" using assms(2) by (simp add: bd_wf_def)
  have r: "restart_round bd u = Some (True, bd, (tock u)\<lparr>w_bd_mtx := False\<rparr>)"
    if "w_bd_rebootlist u = []" "w_bd_mtx u" "w_os u = w_os w" for u :: "'m dirworld_scheme"
    using restart_round_misses_shutdown [of u bd] that l by simp
  let ?w = "emit (ThreadJoined ''bd kqueue'') (tock (tock w))"
  let ?w1 = "((tock ?w)\<lparr>w_bd_mtx := True\<rparr>)\<lparr>w_bd_reboot_state := 1\<rparr>"
  let ?w2 = "(tock (tock ?w1))\<lparr>w_bd_mtx := False\<rparr>"
  have more: "w_bd_mtx ?w = w_bd_mtx w" "w_bd_rebootlist ?w = w_bd_rebootlist w"
    by (simp_all add: emit_def tock_def)
  have lock: "bd_lock u = (False, (tock u)\<lparr>w_bd_mtx := True\<rparr>)" if "\<not> w_bd_mtx u" "w_os u = w_os w" for u :: "'m dirworld_scheme"
    using bd_lock_ok [of u] that l by simp
  have unlock: "bd_unlock u = (False, (tock u)\<lparr>w_bd_mtx := False\<rparr>)" if "w_bd_mtx u" "w_os u = w_os w" for u :: "'m dirworld_scheme"
    using bd_unlock_ok [of u] that l by simp
  have s: "bd_thread_stop bd w = (0, ?w)"
    using k i by (simp add: bd_thread_stop_def sys_try_def sys_init_def ask_def)
  have l1: "bd_lock ?w = (False, (tock ?w)\<lparr>w_bd_mtx := True\<rparr>)" using m more by (intro lock) simp_all
  have "sys_cond ?w1 = (True, tock ?w1)" using i by (simp add: sys_cond_def ask_def)
  moreover have "bd_unlock (tock ?w1) = (False, ?w2)" by (intro unlock) simp_all
  moreover have "fst (restart_ends True bd ?w2) = False"
  proof -
    have "bd_lock ?w2 = (False, (tock ?w2)\<lparr>w_bd_mtx := True\<rparr>)" by (intro lock) simp_all
    moreover have "restart_round bd ((tock ?w2)\<lparr>w_bd_mtx := True\<rparr>) =
        Some (True, bd, (tock ((tock ?w2)\<lparr>w_bd_mtx := True\<rparr>))\<lparr>w_bd_mtx := False\<rparr>)"
      using assms(3) more by (intro r) simp_all
    ultimately show ?thesis by (simp add: restart_ends_def)
  qed
  ultimately show ?thesis using s l1 by (simp add: bd_free_def split_def)
qed

lemma sleep_idle_shutdown:
  assumes "serving N bcs path d w" and "launch_ok w" and "sig \<in> {SIGTERM, SIGINT}"
  shows "launch_sleep pipefd (SignalEvent sig # evs) d w = None"
proof -
  let ?d = "d\<lparr>dm_sig := \<lparr>sig_mtx = False, sig_waiting = False\<rparr>\<rparr>"
  have d: "dm_sig d = \<lparr>sig_mtx = False, sig_waiting = True\<rparr>" "\<not> dm_handled d" "sh_state (dm_sh d) = Running" "\<not> sh_mtx (dm_sh d)"
    using assms(1) by (auto simp: serving_def sh_fresh_def)
  obtain w1 where s: "vmstated_sigrecv sig (dm_sig d) w = (None, \<lparr>sig_mtx = False, sig_waiting = False\<rparr>, w1)" "still w w1"
    using sigrecv_calm [OF launch_calm [OF assms(2)], of "dm_sig d" sig] assms(3) d(1) by auto
  have run: "daemon_run (SignalEvent sig # evs) d w = Some (None, ?d, w1)"
    using s(1) d(1) by (cases evs) simp_all
  have c: "calm w1" using still_sockets [OF s(2) launch_sockets [OF assms(2)]] by (rule sockets_calm)
  then have "sh_stop False (Some (dm_sh d)) (tock (tock w1)) = None"
    using d by (simp add: sh_stop_def sh_accept_end_def sh_lock_calm sh_unlock_calm Let_def split_def sys_try_def ask_def)
  with run c d(2) show ?thesis by (simp add: launch_sleep_def launch_shutdown_def calm_lock calm_unlock)
qed

lemma sleep_served_shutdown:
  assumes "serving N bcs path d w" and "launch_ok w" and "accepts (w_os w)" and "sig \<in> {SIGTERM, SIGINT}"
    and "ev_udata ev = None" and "ev_ident ev \<noteq> SH_EVT_CMD_SHUTDOWN"
  shows "\<exists>w'. launch_sleep pipefd (SocketEvent ev # SignalEvent sig # evs) d w = Some (LaunchHangs, w') \<and> still w w'"
proof -
  have d: "dm_sig d = \<lparr>sig_mtx = False, sig_waiting = True\<rparr>" "sh_state (dm_sh d) = Running" "\<not> sh_mtx (dm_sh d)"
    "sh_thread_counter (dm_sh d) = 0" "dm_restarts d" "bd_wf (dm_bd d) w" "w_bd_rebootlist w = []"
    using assms(1) by (auto simp: serving_def sh_fresh_def)
  obtain cs w1 where a: "sh_accept_round ev (dm_sh d) (dm_vmsms d) w =
      Some (True, (dm_sh d)\<lparr>sh_connections := cs\<rparr>, dm_vmsms d, w1)" "still w w1"
    using accept_round_ok [OF launch_sockets [OF assms(2)] assms(3) d(3) assms(5,6), of "dm_vmsms d"] by blast
  have ok1: "launch_ok w1" using assms(2) a(2) launch_os [of w1 w] by (simp add: still_def)
  let ?sh = "(dm_sh d)\<lparr>sh_connections := cs\<rparr>"
  let ?d = "d\<lparr>dm_sh := ?sh, dm_handled := True, dm_sig := \<lparr>sig_mtx = False, sig_waiting = False\<rparr>\<rparr>"
  obtain w2 where s: "vmstated_sigrecv sig (dm_sig d) w1 = (None, \<lparr>sig_mtx = False, sig_waiting = False\<rparr>, w2)" "still w1 w2"
    using sigrecv_calm [OF launch_calm [OF ok1], of "dm_sig d" sig] assms(4) d(1) by auto
  have run: "daemon_run (SocketEvent ev # SignalEvent sig # evs) d w = Some (None, ?d, w2)"
    using a(1) s(1) d(1) assms(6) by (cases evs) simp_all
  have ok2: "launch_ok (tock (tock w2))" using ok1 s(2) launch_os [of "tock (tock w2)" w1] by (simp add: still_def)
  have c2: "calm w2" using launch_calm [OF ok2] by simp
  obtain w3 where t: "sh_stop True (Some ?sh) (tock (tock w2)) = Some (0, Some (?sh\<lparr>sh_state := Stopped\<rparr>), w3)" "still (tock (tock w2)) w3"
    using sh_stop_running [OF launch_sockets [OF ok2], of ?sh] d(2-4) by auto
  have e3: "still w w3" using still_trans [OF still_trans [OF a(2) s(2)]] t(2) by simp
  then have ok3: "launch_ok w3" "accepts (w_os w3)" using assms(2,3) launch_os [of w3 w] by (simp_all add: still_def)
  obtain w4 where f: "sh_free (Some (?sh\<lparr>sh_state := Stopped\<rparr>)) w3 = Some w4" "still w3 w4"
    using sh_free_ok [OF launch_calm [OF ok3(1)] ok3(2), of "?sh\<lparr>sh_state := Stopped\<rparr>"] d(3) by auto
  have e4: "still w w4" using still_trans [OF e3 f(2)] .
  then have q: "quiet w w4" by (rule still_quiet)
  have "bd_free True (dm_bd ?d) w4 = None"
  proof (rule bd_free_hangs)
    show "sockets_ok w4" using still_sockets [OF e4 launch_sockets [OF assms(2)]] .
    show "bd_wf (dm_bd ?d) w4" using quiet_bd_wf [OF q d(6)] by (simp add: dm_bd_def)
    show "w_bd_rebootlist w4 = []" using d(7) q by (simp add: quiet_dir)
  qed
  then have "launch_shutdown pipefd ?d w2 = Some (LaunchHangs, w4)"
    using c2 t(1) f(1) d(5) by (simp add: launch_shutdown_def launch_release_def calm_lock calm_unlock)
  with run e4 show ?thesis by (simp add: launch_sleep_def)
qed

section \<open>The pid file\<close>

text \<open>A system that delivers a text from every file and on which a process lives.\<close>

definition reads_pid :: "string \<Rightarrow> int \<Rightarrow> os \<Rightarrow> bool" where
  "reads_pid text pid s \<longleftrightarrow> (\<forall>n fd p. 0 \<le> os_open s n p \<and> os_recv s n fd = Some (bytes_of_string text) \<and> os_kill s n pid \<and> os_close s n)"

lemma sint_small: "- (2 ^ 31) \<le> n \<Longrightarrow> n < 2 ^ 31 \<Longrightarrow> sint (word_of_int n :: u32) = n"
  by transfer (simp add: signed_take_bit_int_eq_self)

lemma pid_of_small: "0 \<le> n \<Longrightarrow> n < 2 ^ 31 \<Longrightarrow> pid_of n = n"
  unfolding pid_of_def by (rule sint_small) simp_all

lemma check_reads_pid:
  fixes w :: "'m world_scheme"
  assumes "reads_pid (show_nat n @ [CHR 0x0A]) (int n) (w_os w)" and "n < 100000"
  shows "\<exists>w'. check_already_running opts w =
    Some (if w_errno w = E0 then Some (Exit 1) else None, w')"
proof -
  let ?bs = "bytes_of_string (show_nat n) @ [10]"
  have o: "\<not> os_open (w_os w) (w_tick w) (vo_pidfile_path opts) < 0"
    using assms(1) by (simp add: reads_pid_def not_less)
  have "length (show_nat n) \<le> 5" using show_nat_length_less [of n 4] assms(2) by simp
  then have "length ?bs \<le> 10" by (simp add: bytes_of_string_def)
  moreover have "bytes_of_string (show_nat n @ [CHR 0x0A]) = ?bs" by (simp add: bytes_of_string_def)
  ultimately have r: "sys_recv fd 10 v = (Some ?bs, tock v)" if "w_os v = w_os w" for fd and v :: "'m world_scheme"
    using assms(1) that by (simp add: reads_pid_def sys_recv_def ask_def)
  have a: "atoll (?bs @ rest) v = Some (int n, v)" for rest and v :: "'m world_scheme"
    using atoll_prefix [of n 10 rest v] assms(2) by (simp add: digit_byte_def)
  have p: "pid_of (int n) = int n" using assms(2) by (intro pid_of_small) simp_all
  show ?thesis
    using o r [of "tock w"] a p assms(1)
    by (simp add: check_already_running_def ask_def sys_kill_def sys_try_def reads_pid_def del: append_assoc)
qed

section \<open>The properties\<close>

text \<open>What a launch puts together. In a working system and with a store none of whose vms wants the
  autostart, the daemon ends up waiting for its end with all its parts: the socket at the path of the
  options runs with the subscriber as its listener, the subscriber hands messages to the director, the
  director is well-formed, has the generator of configurations and watches one vm in state INIT for each
  configuration of the store. The parent, if there is one, was told 0. Signals that come before the main
  thread waits change nothing of that: a \<open>SIGTERM\<close> during the start is lost.\<close>

theorem vmstated_launch_waits:
  fixes w :: "'m dirworld_scheme"
  assumes "launch_ok w" and "\<forall>c \<in> set (bcs_configs bcs). \<not> bc_autostart c" and "\<not> sig_mtx s"
  shows "\<exists>d w'. vmstated_launch N opts bcs pipefd s early [] w = Some (LaunchWaits d, w') \<and>
    serving N bcs (vo_socket_path opts) d w' \<and>
    (0 \<le> snd pipefd \<longrightarrow> seen (Sent (snd pipefd) (int_bytes 0)) w')"
proof -
  obtain d w' where l: "vmstated_launch N opts bcs pipefd s early [] w = launch_sleep pipefd [] d w'"
    "serving N bcs (vo_socket_path opts) (d :: 'm daemon) w'" "0 \<le> snd pipefd \<longrightarrow> seen (Sent (snd pipefd) (int_bytes 0)) w'"
    using launch_reaches [OF assms, of N opts pipefd early] by blast
  have "sig_waiting (dm_sig d)" using l(2) by (simp add: serving_def)
  with l show ?thesis by (intro exI [of _ d] exI [of _ w']) (simp add: launch_sleep_def)
qed

text \<open>C37: A daemon that is told to end before any client or other event reached its socket does not end in
  order: after the signal the accept thread looks through the argument of a handler that never was, a null
  pointer.\<close>

theorem vmstated_idle_shutdown:
  fixes w :: "'m dirworld_scheme"
  assumes "launch_ok w" and "\<forall>c \<in> set (bcs_configs bcs). \<not> bc_autostart c" and "\<not> sig_mtx s"
    and "sig \<in> {SIGTERM, SIGINT}"
  shows "vmstated_launch N opts bcs pipefd s early (SignalEvent sig # evs) w = None"
proof -
  obtain d w' where l: "vmstated_launch N opts bcs pipefd s early (SignalEvent sig # evs) w =
      launch_sleep pipefd (SignalEvent sig # evs) d w'"
    "serving N bcs (vo_socket_path opts) (d :: 'm daemon) w'" "w_os w' = w_os w"
    using launch_reaches [OF assms(1-3), of N opts pipefd early] by blast
  have "launch_ok w'" using assms(1) l(3) launch_os [of w' w] by simp
  with sleep_idle_shutdown [OF l(2) this assms(4)] l(1) show ?thesis by simp
qed


lemma opt_list_configdir:
  "vo_configdir_path (fst (snd (handle_opt_list cs opts r w))) = vo_configdir_path opts"
  by (induction cs opts r w rule: handle_opt_list.induct) simp_all

text \<open>C40: The manual's option \<open>-c\<close> is accepted and has no effect. More than that, no command line at all moves
  the daemon away from the configuration directory it was given by default.\<close>

theorem handle_opts_ignores_configdir:
  "handle_opts [prog, ''-c'', dir] opts w = (Inr 0, opts, w) \<and>
   vo_configdir_path (fst (snd (handle_opts argv opts w))) = vo_configdir_path opts"
  by (simp add: handle_opts_def option_kind_def opt_list_configdir)

section \<open>The properties at a concrete input\<close>

definition no_signal :: sig_state where "no_signal = \<lparr>sig_mtx = False, sig_waiting = False\<rparr>"

definition start_world :: dirworld where "start_world = dirworld0 calm_os []"

lemma start_launches: "launch_ok start_world"
  by (simp add: launch_ok_def sockets_ok_def calm_def start_world_def sends_all_def) (simp add: calm_os_def)

lemma start_accepts: "accepts (w_os start_world)"
  by (simp add: accepts_def start_world_def calm_os_def)

lemma start_idle: "\<forall>c \<in> set (bcs_configs two_configs). \<not> bc_autostart c"
  by (simp add: two_configs_def bc_zero_def)

lemma start_free: "\<not> sig_mtx no_signal"
  by (simp add: no_signal_def)

theorem vmstated_launch_waits_witness:
  "\<exists>d w'. vmstated_launch demo_nv default_opts two_configs (3, 4) no_signal [SIGTERM] [] start_world = Some (LaunchWaits d, w') \<and>
     serving demo_nv two_configs ''/var/run/vmstated.sock'' d w' \<and> seen (Sent 4 (int_bytes 0)) w'"
  using vmstated_launch_waits [OF start_launches start_idle start_free, of demo_nv default_opts "(3, 4)" "[SIGTERM]"]
  by (simp add: default_opts_def DEFAULTPATH_SOCKET_def)

theorem vmstated_idle_shutdown_witness:
  "vmstated_launch demo_nv default_opts two_configs (-1, -1) no_signal [] [SignalEvent SIGTERM] start_world = None"
  by (rule vmstated_idle_shutdown [OF start_launches start_idle start_free]) simp


text \<open>C39: One daemon at a time. The pid file that a daemon writes stops a later start with exit code 1 as long as
  the process lives, provided that \<open>errno\<close> is clear when the file is read. With an \<open>errno\<close> left over from
  an earlier call the number is not looked at, and the second daemon starts.\<close>

theorem pidfile_stops_second:
  fixes w :: "'m world_scheme" and v :: "'k world_scheme"
  assumes "os_getpid (w_os w) = int n" and "n < 100000"
    and "\<forall>t. 0 \<le> os_open (w_os w) t path \<and> os_fchmod (w_os w) t" and "sends_all (w_os w)"
    and "reads_pid (show_nat n @ [CHR 0x0A]) (int n) (w_os v)"
  shows "\<exists>fd w' v'. write_pidfile path w = (0, w') \<and> seen (Opened path fd) w' \<and> seen (Wrote fd (show_nat n @ [CHR 0x0A])) w' \<and>
    check_already_running opts v = Some (if w_errno v = E0 then Some (Exit 1) else None, v')"
proof -
  let ?fd = "os_open (w_os w) (w_tick w) path" and ?text = "show_nat n @ [CHR 0x0A]"
  have "length (show_nat n) \<le> 5" using show_nat_length_less [of n 4] assms(2) by simp
  then have t: "snprintf_buf 128 ?text = ?text" by (intro snprintf_buf_short) simp
  have o: "\<not> ?fd < 0" using assms(3) by (simp add: not_less)
  let ?w2 = "tock (emit (Opened path ?fd) (tock w))"
  let ?w3 = "emit (Wrote ?fd ?text) (tock ?w2)"
  have "write_pidfile path w = (0, snd (sys_close ?fd ?w3))"
    using o t assms(1,3,4) by (simp add: write_pidfile_def ask_def sys_try_def sys_write_def sends_all_def show_int_def split_def)
  then show ?thesis
    using check_reads_pid [OF assms(5,2), of opts]
    by (intro exI [of _ ?fd] exI [of _ "snd (sys_close ?fd ?w3)"]) simp
qed

text \<open>A system whose files hold the pid 500.\<close>

definition pid_os :: os where
  "pid_os = calm_os\<lparr>os_recv := \<lambda>_ _. Some (bytes_of_string (''500'' @ [CHR 0x0A]))\<rparr>"

theorem pidfile_stops_second_witness:
  "\<exists>fd w' v'. write_pidfile ''/var/run/vmstated.pid'' (world0 calm_os) = (0, w') \<and>
     seen (Wrote fd (show_nat 500 @ [CHR 0x0A])) w' \<and>
     check_already_running default_opts (world0 pid_os) = Some (Some (Exit 1), v')"
proof -
  have n: "show_nat 500 = ''500''" by code_simp
  have "os_getpid (w_os (world0 calm_os)) = int 500"
    "\<forall>t. 0 \<le> os_open (w_os (world0 calm_os)) t ''/var/run/vmstated.pid'' \<and> os_fchmod (w_os (world0 calm_os)) t"
    "sends_all (w_os (world0 calm_os))"
    by (simp_all add: world0_def calm_os_def sends_all_def)
  moreover have "reads_pid (show_nat 500 @ [CHR 0x0A]) (int 500) (w_os (world0 pid_os))"
    unfolding n by (simp add: reads_pid_def world0_def pid_os_def) (simp add: calm_os_def)
  ultimately show ?thesis
    using pidfile_stops_second [of "world0 calm_os" 500 "''/var/run/vmstated.pid''" "world0 pid_os" default_opts]
    by (simp add: world0_def) blast
qed

section \<open>From the files to the running daemon\<close>

text \<open>A directory whose files can be read, at least one of them with content, and the sections of all of
  them; no section asks for the autostart.\<close>

definition directory_sections :: "'u ucllib \<Rightarrow> (string \<Rightarrow> 'u ucl_file) \<Rightarrow> string \<Rightarrow> (string \<times> u8) list \<Rightarrow> (string \<times> 'u) list" where
  "directory_sections L load path es =
     concat (map (\<lambda>e. file_sections L (vm_file path e) (load (vm_file path e))) (filter vm_dir es))"

definition directory_ok :: "'u ucllib \<Rightarrow> (string \<Rightarrow> 'u ucl_file) \<Rightarrow> string \<Rightarrow> (string \<times> u8) list \<Rightarrow> bool" where
  "directory_ok L load path es \<longleftrightarrow> (\<forall>t p. ucl_load L t p = load p) \<and>
     (\<forall>e \<in> set es. vm_dir e \<longrightarrow> file_good L (load (vm_file path e))) \<and>
     (\<exists>e \<in> set es. vm_dir e \<and> file_loads (load (vm_file path e))) \<and>
     (\<forall>(f, obj) \<in> set (directory_sections L load path es). \<forall>cur \<in> set (ucl_children L obj). ucl_key L cur \<noteq> Some ''autostart'')"

lemma sections_idle:
  assumes "list_all2 (section_holds L) secs new"
    and "\<forall>(f, obj) \<in> set secs. \<forall>cur \<in> set (ucl_children L obj). ucl_key L cur \<noteq> Some ''autostart''"
  shows "\<forall>c \<in> set new. \<not> bc_autostart c"
  using assms by (induction rule: list_all2_induct) (auto intro: section_autostart dest: section_autostart)

lemma write_pidfile_ok:
  assumes "\<forall>t. 0 \<le> os_open (w_os w) t path \<and> os_fchmod (w_os w) t" and "sends_all (w_os w)"
  shows "\<exists>w'. write_pidfile path w = (0, w') \<and> w_os w' = w_os w"
proof -
  have "\<not> os_open (w_os w) n path < 0" for n using assms(1) by (simp add: not_less)
  then show ?thesis
    using assms by (simp add: write_pidfile_def ask_def sys_try_def sys_write_def sends_all_def split_def)
qed

text \<open>C8: From the configuration directory to the daemon that waits. In a working system, with a directory of
  readable files at least one of which loads and none of which asks for the autostart, the program reads
  every section of every file, in order, and ends up waiting with a director that watches exactly one vm
  in state INIT per section, in that order, each with the values its section gives, and with the socket,
  the subscriber and the generator in place. The parent was told 0.\<close>

theorem run_program_serves:
  fixes w :: "'m dirworld_scheme"
  assumes "launch_ok w" and "\<forall>n. os_close (w_os w) n"
    and "\<forall>n. os_readdir (w_os w) n (strncpy_buf PATH_MAX (vo_configdir_path opts)) = Some es"
    and "directory_ok L load (strncpy_buf PATH_MAX (vo_configdir_path opts)) es"
    and "\<forall>n. 0 \<le> os_open (w_os w) n (vo_pidfile_path opts) \<and> os_fchmod (w_os w) n"
  shows "\<exists>bcs d w'. run_program N L opts pipefd early [] w = Some (LaunchWaits d, w') \<and>
    serving N bcs (vo_socket_path opts) d w' \<and>
    list_all2 (section_holds L) (directory_sections L load (strncpy_buf PATH_MAX (vo_configdir_path opts)) es)
      (watched_configs (dm_bd d) w') \<and>
    (0 \<le> snd pipefd \<longrightarrow> seen (Sent (snd pipefd) (int_bytes 0)) w')"
proof -
  let ?path = "strncpy_buf PATH_MAX (vo_configdir_path opts)"
  let ?b = "\<lparr>bcs_searchpath = ?path, bcs_configs = []\<rparr>"
  have c: "calm w" using launch_calm [OF assms(1)] .
  obtain new w1 where d: "bcs_walkdir L (Some ?b) (tock w) = Some (0, Some (?b\<lparr>bcs_configs := rev new\<rparr>), w1)" "w_os w1 = w_os w"
    "list_all2 (section_holds L) (directory_sections L load ?path es) new"
    using walkdir_store [of "tock w" L load ?b es] c assms(2-4) by (auto simp: directory_ok_def directory_sections_def)
  let ?bcs = "?b\<lparr>bcs_configs := rev new\<rparr>"
  have idle: "\<forall>c \<in> set (bcs_configs ?bcs). \<not> bc_autostart c"
    using sections_idle [OF d(3)] assms(4) by (simp add: directory_ok_def)
  let ?s = "\<lparr>sig_mtx = False, sig_waiting = False\<rparr>"
  have "calm w1" using c d(2) by (simp add: calm_def)
  then have s: "setup_sighandler w1 = (Inr ?s, tock (tock w1))" by (simp add: setup_sighandler_def calm_init)
  have "sends_all (w_os (tock (tock w1)))" using assms(1) d(2) by (simp add: launch_ok_def)
  from write_pidfile_ok [OF _ this, of "vo_pidfile_path opts"] assms(5) d(2)
  obtain w2 where p: "write_pidfile (vo_pidfile_path opts) (tock (tock w1)) = (0, w2)" "w_os w2 = w_os w" by auto
  have ok: "launch_ok w2" using assms(1) p(2) launch_os [of w2 w] by simp
  have f: "\<not> sig_mtx ?s" by simp
  obtain d' w3 where l: "vmstated_launch N opts ?bcs pipefd ?s early [] w2 = launch_sleep pipefd [] d' w3"
    "serving N ?bcs (vo_socket_path opts) (d' :: 'm daemon) w3" "0 \<le> snd pipefd \<longrightarrow> seen (Sent (snd pipefd) (int_bytes 0)) w3"
    using launch_reaches [OF ok idle f, of N opts pipefd early] by blast
  have wait: "sig_waiting (dm_sig d')" and wc: "watched_configs (dm_bd d') w3 = new"
    using l(2) by (simp_all add: serving_def)
  have "run_program N L opts pipefd early [] w = Some (LaunchWaits d', w3)"
    using c d(1) s p(1) l(1) wait
    by (simp add: run_program_def bcs_new_def calm_malloc launch_sleep_def)
  with l(2,3) d(3) wc show ?thesis by auto
qed

text \<open>A system whose configuration directory holds one vm directory.\<close>

definition dir_world :: dirworld where "dir_world = dirworld0 demo_dir []"

theorem run_program_serves_witness:
  "\<exists>bcs d w'. run_program demo_nv (demo_ucl (UclRoot demo_root)) default_opts (3, 4) [] [] dir_world = Some (LaunchWaits d, w') \<and>
     serving demo_nv bcs ''/var/run/vmstated.sock'' d w' \<and>
     list_all2 (section_holds (demo_ucl (UclRoot demo_root)))
       [(''/usr/local/etc/vmstated/one/config'', demo_section),
        (''/usr/local/etc/vmstated/one/config'', USection ''two'' [UStr ''configfile'' ''/vm/two''])]
       (watched_configs (dm_bd d) w') \<and> seen (Sent 4 (int_bytes 0)) w'"
proof -
  let ?L = "demo_ucl (UclRoot demo_root)" and ?load = "\<lambda>p. UclRoot demo_root"
  let ?path = "''/usr/local/etc/vmstated''" and ?es = "[(''.'', 4), (''one'', 4), (''note'', 8 :: u8)]"
  have path: "strncpy_buf PATH_MAX (vo_configdir_path default_opts) = ?path"
    by (simp add: strncpy_buf_def PATH_MAX_def default_opts_def)
  have ch: "ucl_children ?L demo_root = [demo_section, USection ''two'' [UStr ''configfile'' ''/vm/two'']]"
    by (simp add: demo_ucl_def demo_root_def)
  have g: "file_good ?L (UclRoot demo_root)"
    by (simp add: file_good_def ch demo_sections_ok) (simp add: demo_ucl_def)
  have v: "\<not> vm_dir (''.'', 4)" "vm_dir (''one'', 4)" "\<not> vm_dir (''note'', 8)" by (simp_all add: vm_dir_def DT_DIR_def)
  have secs: "directory_sections ?L ?load ?path ?es =
      [(''/usr/local/etc/vmstated/one/config'', demo_section),
       (''/usr/local/etc/vmstated/one/config'', USection ''two'' [UStr ''configfile'' ''/vm/two''])]"
    by (simp add: directory_sections_def v file_sections_def ch vm_file_def)
  have ok: "launch_ok dir_world"
    by (simp add: launch_ok_def sockets_ok_def calm_def dir_world_def sends_all_def) (simp add: demo_dir_def calm_os_def)
  have "ucl_load ?L t p = UclRoot demo_root" for t p by (simp add: demo_ucl_def)
  moreover have "\<forall>cur \<in> set (ucl_children ?L demo_section). ucl_key ?L cur \<noteq> Some ''autostart''"
    "\<forall>cur \<in> set (ucl_children ?L (USection ''two'' [UStr ''configfile'' ''/vm/two''])). ucl_key ?L cur \<noteq> Some ''autostart''"
    by (simp_all add: demo_ucl_def demo_section_def)
  ultimately have "directory_ok ?L ?load ?path ?es"
    unfolding directory_ok_def secs using g v by (auto simp: file_loads_def)
  moreover have "\<forall>n. os_close (w_os dir_world) n" "\<forall>n. os_readdir (w_os dir_world) n ?path = Some ?es"
    "\<forall>n. 0 \<le> os_open (w_os dir_world) n (vo_pidfile_path default_opts) \<and> os_fchmod (w_os dir_world) n"
    by (simp_all add: dir_world_def demo_dir_def) (simp_all add: calm_os_def)
  ultimately show ?thesis
    using run_program_serves [OF ok, of default_opts ?es ?L ?load demo_nv "(3, 4)" "[]"] unfolding path secs
    by (simp add: default_opts_def DEFAULTPATH_SOCKET_def)
qed

end
