(* ===== verification/Spec2Isabelle.thy ===== *)
theory Spec2Isabelle
  imports Ident_Keeper Director_Generate Director_Boot Store_Contract Client_Contract Log_Contract Config_Reader Daemon_Contract
begin

text \<open>
  vmstated is a daemon that starts, watches and restarts bhyve virtual machines on FreeBSD; vmstatedctl is
  the program that talks to it. This is a model of both, with the theorems that say what their parts do,
  alone and together. All C files named are under \<open>src/src\<close>.

  \<^bold>\<open>The parts and how they work together.\<close> The daemon (\<open>vmstated/vmstated_main.c\<close>) walks its configuration
  directory and puts one configuration per section of the files found into the store. The director
  (\<open>libprocwatch/bhyve_director.c\<close>) makes a watched vm for each of them. A watched vm has a process state
  (\<open>process_state.c\<close>), which is a state machine (\<open>libstate\<close>) whose hooks run scripts, and a process
  definition (\<open>process_def.c\<close>), which forks and executes the script or bhyve; output goes over the log
  director (\<open>liblogging\<close>). Before a start the director asks the generator of configurations
  (\<open>vmstated/config_generator.c\<close>) for a file, which translates the configuration of the vm to parameters
  (\<open>libtranslate\<close>, \<open>libconfig\<close>), checks them against a table of rules and writes them as lines. Processes
  that exit come back as events of a kernel queue; an exit with code 0 puts the vm on the list of the
  restart thread. Commands arrive on a socket (\<open>libsocket\<close>) whose accept thread collects the bytes of a
  connection, parses messages and calls the subscriber (\<open>vmstated/subscriber.c\<close>), which calls the
  director. Commands and answers are structures packed as name-value lists along tables of their members
  (\<open>libcommand\<close>). The control program packs a command, sends it and shows the answer.

  \<^bold>\<open>How the code is modelled.\<close> A C function is a HOL function of the same name. It takes the \<open>world\<close>
  (\<open>Os_World\<close>) and returns its results, the structures it changed and the world: \<open>errno\<close>, the number of
  system calls made, and the trace of the effects outside the process (forks, signals, files, sockets).
  What the system answers is the parameter \<open>w_os\<close>, a record of functions of the number of the call, so a
  theorem without a hypothesis on a field holds for every behaviour of that call. The components that hold
  global state extend \<open>world\<close> (\<open>logworld\<close>, \<open>dirworld\<close>). A structure is a record, an enumeration a
  datatype, a machine integer a word of its width; a \<open>char *\<close> is an optional string. A mutex is a flag of
  its structure, with the error-checking kind of FreeBSD. The result \<open>None\<close> of a function that returns an
  option is undefined behaviour (a null pointer, an access past a block), the end of the process by \<open>err\<close>
  in a thread, or a wait that never ends; the comment at each definition says which.
  A thread is the sequence of its rounds: each round is a function, and a run of the program is a sequence
  of rounds and calls, so the order of events is an argument of a theorem.

  \<^bold>\<open>The theories.\<close>
  \<^item> \<open>Vm_Prelude\<close>, \<open>Os_World\<close>: integers, bounded buffers, decimal printing, wait status; the world, system
    calls and mutexes, with the frame rules the other theories rely on.
  \<^item> \<open>State_Handler\<close>: \<open>libstate\<close>. \<open>Ident_Keeper\<close>: \<open>libconfig/ident_keeper.c\<close>, with the locale
    \<open>ident_pool\<close> for what its callers may rely on. \<open>Log_Director\<close>, \<open>Log_Contract\<close>: \<open>liblogging/log_director.c\<close>.
  \<^item> \<open>Bhyve_Config\<close>, \<open>Config_Parse\<close>: \<open>bhyve_config.c\<close>, \<open>bhyve_config_console.c\<close>, \<open>bhyve_config_object.c\<close>,
    \<open>bhyve_uclparser.c\<close>, \<open>bhyve_uclparser_funcs.c\<close>, \<open>daemon_config.c\<close>. \<open>Parse_Contract\<close> and
    \<open>Store_Contract\<close> say what reading leaves in a structure and in the store.
  \<^item> \<open>Process_Def\<close>, \<open>Process_State\<close>, \<open>Vm_Lifecycle\<close>, \<open>Vm_Contract\<close>: \<open>process_def.c\<close>, \<open>state_change.c\<close>,
    \<open>process_state.c\<close>. \<open>Vm_Lifecycle\<close> holds the abstract state diagram \<open>vm_step\<close>, an inductive relation
    written from the state diagram of \<open>process_state.h\<close>, which every operation refines.
  \<^item> \<open>Bhyve_Director\<close>, \<open>Director_Frame\<close>, \<open>Director_Contract\<close>, \<open>Director_Rules\<close>, \<open>Director_Restart\<close>,
    \<open>Director_Cycle\<close>, \<open>Director_Boot\<close>: the director; its invariant \<open>bd_wf\<close>, the isolation of the vms, the
    bound on starts, start, exit and restart, construction and autostart. \<open>Director_Commands\<close>: its
    callback for messages. \<open>Director_Generate\<close>: the director with the daemon's generator.
  \<^item> \<open>Config_Core\<close>, \<open>Config_Check\<close>, \<open>Check_Contract\<close>, \<open>Config_Translate\<close>, \<open>Config_Output\<close>,
    \<open>Config_Generator\<close>, \<open>Generator_Contract\<close>: \<open>config_core.c\<close> and the devices, \<open>check*.c\<close> and
    \<open>string_list.c\<close>, \<open>param_translate_core.c\<close>, \<open>file_memory.c\<close>, \<open>output_bhyve_core.c\<close> and
    \<open>parser_reader.c\<close>, \<open>config_generator.c\<close>.
  \<^item> \<open>Transmit_Collect\<close>, \<open>Bhyve_Command\<close>, \<open>Vm_Info\<close>, \<open>Nv_Demo\<close>, \<open>Info_Contract\<close>: \<open>transmit_collect.c\<close>,
    \<open>reply_collector.c\<close>, \<open>bhyve_command.c\<close>, \<open>command_sender.c\<close>, \<open>vm_info.c\<close>, with the round trips.
  \<^item> \<open>Socket_Connection\<close>, \<open>Socket_Handle\<close>, \<open>Socket_Contract\<close>, \<open>Subscriber\<close>, \<open>Message_Contract\<close>:
    \<open>socket_handle.c\<close>, \<open>subscriber.c\<close>; a message from the socket to the director and back.
  \<^item> \<open>Socket_Client\<close>, \<open>Control_Program\<close>, \<open>Client_Contract\<close>: \<open>socket_connect.c\<close>,
    \<open>vmstatedctl/vmstatedctl_main.c\<close>.
  \<^item> \<open>Config_Reader\<close>: what nothing calls yet, the file parser of \<open>parser_reader.c\<close>, the value filters of
    \<open>parser_offsets.c\<close> and the table of \<open>libprocwatch/bhyve_command.c\<close>.
  \<^item> \<open>Daemon_Program\<close>, \<open>Daemon_Contract\<close>: \<open>vmstated/vmstated_main.c\<close>; from the files to the waiting daemon,
    and how it ends.

  \<^bold>\<open>Interfaces.\<close> \<open>named_table\<close> is the contract of a table of members for the functions that encode and
  decode along it, interpreted on the tables of the commands and of the two structures of vm information;
  \<open>lawful_table\<close> extends it with the laws that reading files needs (a member reads back, no member disturbs
  another) and is interpreted on the tables of consoles, configurations and the daemon's own file;
  \<open>ident_pool\<close> is interpreted on the identifier keeper; \<open>process_launcher\<close>, what the process state relies on
  for a launch, is interpreted on the function table of the process definition.

  \<^bold>\<open>Parameters.\<close> Code that is not part of the repository is an argument: libnv (\<open>nvlib\<close>, with the laws
  \<open>nv_laws\<close>: what was added is found, what was packed unpacks), libucl (\<open>ucllib\<close>), the system (\<open>os\<close>), what
  fresh memory contains where the control program sends it, and in \<open>Daemon_Program\<close> the events that
  happen while the daemon waits and the signals that come before. \<open>Nv_Demo\<close> and \<open>Parse_Contract\<close> hold the
  concrete libraries of the witnesses.

  \<^bold>\<open>Loops.\<close> Loops over a list are structural recursion. \<open>send_all\<close>, \<open>while_slots\<close>, \<open>getopts\<close> and
  \<open>show_nat\<close> have a measure. Loops that depend on what the system delivers, or that start vms which may put
  themselves back on the list, are partial functions with the option monad (\<open>move_bytes\<close>,
  \<open>restart_drain\<close>, \<open>read_loop\<close>, \<open>send_pieces\<close>, \<open>recv_string\<close>, \<open>recv_four\<close>, \<open>recv_number\<close>, \<open>recv_blob\<close>, \<open>pr_lines\<close>);
  the theorems about them prove that they return, under what they
  assume of the system, or, for \<open>pr_lines\<close>, when they do not. The only fuel is that of \<open>bci_collect\<close>, the length of the
  list it walks, which \<open>bci_collect_all\<close> shows to be enough.

  \<^bold>\<open>What the theorems show.\<close> Refinement of the state diagram by every sequence of calls on a vm; the
  director's invariant under every sequence of commands and events; the restart cycle; round trips of
  commands, vm information, configurations and written lines; which vms pass the rules and which rule is
  reported; that reading never overruns a buffer; that a start message goes from the control program's
  command line to a running vm; that the daemon comes from a directory of files to a director that watches
  one vm per section. Where the code does not do what it means to, a theorem says what it does: an
  idle daemon dereferences a null pointer when it is told to end, one that served a client waits
  for ever, the option for the configuration directory has no effect.

  \<^bold>\<open>Not modelled.\<close> Files that hold no code (\<open>config_vnc.c\<close>, \<open>config_hostbridge.c\<close>, \<open>config_isabridge.c\<close>,
  \<open>config_generator_object.c\<close>, \<open>vm_info_map.c\<close>, \<open>state_node.c\<close>), and the tests. Log data
  are counted, not stored. \<open>syslog\<close> is left out. After \<open>fork\<close> parent and child of the daemon share one
  world: the pipe between them is what the trace says was sent. A thread that serves an event is not
  interrupted by another one, so races inside a round, such as the use of the director's lists before
  they are initialised, are not in the model.
\<close>

end
